(* ===== verification/Prelude.thy ===== *)
theory Prelude
  imports Main "HOL-Library.Word"
begin

text \<open>
  Prelude: what every component of the ride-sharing services shares. Go's \<open>error\<close> values
  with the sentinel errors of the repository and \<open>errors.Is\<close>, results as sums, outcomes that
  may panic or exit the process, \<open>time.Duration\<close> as a 64-bit word, the few functions of
  package \<open>strings\<close> the sources call, Go maps used as sets, and the collections of simp rules
  the component theories fill.
\<close>

named_theorems model_defs \<open>definitions unfolded to evaluate the model\<close>
named_theorems key_simps \<open>facts about the keys and channel names the services build\<close>

section \<open>Errors and outcomes\<close>

datatype grpc_code = InvalidArgument | AlreadyExists | Unauthenticated | Internal | Unavailable

fun code_string :: "grpc_code \<Rightarrow> string" where
  "code_string InvalidArgument = ''InvalidArgument''"
| "code_string AlreadyExists = ''AlreadyExists''"
| "code_string Unauthenticated = ''Unauthenticated''"
| "code_string Internal = ''Internal''"
| "code_string Unavailable = ''Unavailable''"

text \<open>
  An error of Go: a text made by \<open>fmt.Errorf\<close> with \<open>%v\<close> or returned by a library
  (\<open>ErrMsg\<close>), a wrapped error made with \<open>%w\<close>, an error of \<open>encoding/json\<close>, the
  end of a context, a gRPC status, or one of the sentinel values the code compares with.
\<close>

datatype goerror =
    ErrMsg string
  | ErrWrap string goerror
  | ErrJson
  | ErrContext
  | GrpcStatus grpc_code string
  | RedisNil
  | SqlNoRows
  | ErrConnectionNotFound
  | ErrTripChatPairNotFound
  | ErrTripChatUnauthorized
  | ErrEmailAlreadyExists
  | ErrInvalidCredentials
  | ErrInvalidToken

type_synonym 'a res = "goerror + 'a"

fun err_string :: "goerror \<Rightarrow> string" where
  "err_string (ErrMsg s) = s"
| "err_string (ErrWrap s e) = s @ '': '' @ err_string e"
| "err_string ErrJson = ''json: invalid input''"
| "err_string ErrContext = ''context canceled''"
| "err_string (GrpcStatus c s) = ''rpc error: code = '' @ code_string c @ '' desc = '' @ s"
| "err_string RedisNil = ''redis: nil''"
| "err_string SqlNoRows = ''sql: no rows in result set''"
| "err_string ErrConnectionNotFound = ''connection not found''"
| "err_string ErrTripChatPairNotFound = ''trip chat pair not found''"
| "err_string ErrTripChatUnauthorized = ''sender is not part of trip chat pair''"
| "err_string ErrEmailAlreadyExists = ''email already exists''"
| "err_string ErrInvalidCredentials = ''invalid email or password''"
| "err_string ErrInvalidToken = ''invalid or expired token''"

text \<open>\<open>errors.Is\<close>: the error itself or one it wraps.\<close>

fun errors_is :: "goerror \<Rightarrow> goerror \<Rightarrow> bool" where
  "errors_is (ErrWrap s e) t = (ErrWrap s e = t \<or> errors_is e t)"
| "errors_is e t = (e = t)"

lemma errors_is_refl [simp]: "errors_is e e"
  by (cases e) auto

text \<open>\<open>fmt.Errorf("text: %v", err)\<close> and \<open>fmt.Errorf("text: %w", err)\<close>.\<close>

definition errorf_v :: "string \<Rightarrow> goerror \<Rightarrow> goerror" where
  "errorf_v s e = ErrMsg (s @ '': '' @ err_string e)"

abbreviation errorf_w :: "string \<Rightarrow> goerror \<Rightarrow> goerror" where
  "errorf_w \<equiv> ErrWrap"

text \<open>
  What a call can do besides returning: a run-time panic (nil dereference, index out of
  range), or the end of the process through \<open>log.Fatal\<close> or \<open>os.Exit\<close>.
\<close>

datatype 'a outcome = Returns 'a | Panics | Exits

text \<open>The next statement, after a call that may not return.\<close>

fun bindo :: "'a outcome \<times> 'w \<Rightarrow> ('a \<Rightarrow> 'w \<Rightarrow> 'b outcome \<times> 'w) \<Rightarrow> 'b outcome \<times> 'w" where
  "bindo (Returns x, w) f = f x w"
| "bindo (Panics, w) f = (Panics, w)"
| "bindo (Exits, w) f = (Exits, w)"

lemma bindo_Returns_iff:
  "bindo m f = (Returns y, w') \<longleftrightarrow> (\<exists>x w. m = (Returns x, w) \<and> f x w = (Returns y, w'))"
  by (cases "(m, f)" rule: bindo.cases) auto

lemma bindo_keeps:
  assumes "f (snd m) = a" "\<And>x w. m = (Returns x, w) \<Longrightarrow> f (snd (k x w)) = f w"
  shows "f (snd (bindo m k)) = a"
  using assms by (cases "(m, k)" rule: bindo.cases) auto

lemma bindo_split:
  "P (bindo m f) \<longleftrightarrow>
     (\<forall>x w. m = (Returns x, w) \<longrightarrow> P (f x w)) \<and> (\<forall>w. m = (Panics, w) \<longrightarrow> P (Panics, w))
   \<and> (\<forall>w. m = (Exits, w) \<longrightarrow> P (Exits, w))"
  by (cases "(m, f)" rule: bindo.cases) auto

section \<open>Durations\<close>

text \<open>\<open>time.Duration\<close> is a signed 64-bit count of nanoseconds; arithmetic wraps.\<close>

type_synonym duration = "64 word"

definition seconds :: "int \<Rightarrow> duration" where
  "seconds n = word_of_int (n * 1000000000)"

definition minutes :: "int \<Rightarrow> duration" where
  "minutes n = seconds (60 * n)"

definition hours :: "int \<Rightarrow> duration" where
  "hours n = minutes (60 * n)"

lemma sint_seconds:
  assumes "\<bar>n\<bar> \<le> 9000000000"
  shows "sint (seconds n) = n * 1000000000"
proof -
  have "- (2 ^ 63) \<le> n * 1000000000" and "n * 1000000000 < 2 ^ 63"
    using assms by (auto simp: abs_le_iff)
  then have "signed_take_bit 63 (n * 1000000000) = n * 1000000000"
    by (intro signed_take_bit_int_eq_self) simp_all
  then show ?thesis
    unfolding seconds_def sint_sbintrunc' by simp
qed

section \<open>Package strings\<close>

fun has_prefix :: "string \<Rightarrow> string \<Rightarrow> bool" where
  "has_prefix s [] = True"
| "has_prefix [] (p # ps) = False"
| "has_prefix (c # cs) (p # ps) = (c = p \<and> has_prefix cs ps)"

lemma has_prefix_append [simp]: "has_prefix (p @ s) p"
  by (induction p) auto

lemma has_prefix_iff: "has_prefix s p \<longleftrightarrow> (\<exists>t. s = p @ t)"
  by (induction s p rule: has_prefix.induct) auto

definition trim_prefix :: "string \<Rightarrow> string \<Rightarrow> string" where
  "trim_prefix s p = (if has_prefix s p then drop (length p) s else s)"

lemma trim_prefix_append [simp]: "trim_prefix (p @ s) p = s"
  by (simp add: trim_prefix_def)

fun contains :: "string \<Rightarrow> string \<Rightarrow> bool" where
  "contains [] p = (p = [])"
| "contains (c # cs) p = (has_prefix (c # cs) p \<or> contains cs p)"

text \<open>
  \<open>strings.TrimSpace\<close> on ASCII white space, \<open>strings.ToLower\<close> on ASCII letters and
  \<open>strings.Split\<close> with a one-byte separator.
\<close>

definition is_space :: "char \<Rightarrow> bool" where
  "is_space c \<longleftrightarrow> c \<in> {CHR 0x20, CHR 0x09, CHR 0x0A, CHR 0x0B, CHR 0x0C, CHR 0x0D}"

definition trim_space :: "string \<Rightarrow> string" where
  "trim_space s = rev (dropWhile is_space (rev (dropWhile is_space s)))"

text \<open>The letters A to Z are the bytes 0x41 to 0x5A; a set bit 5 makes them lower case.\<close>

fun lower_char :: "char \<Rightarrow> char" where
  "lower_char (Char b0 b1 b2 b3 b4 b5 b6 b7) =
     (if \<not> b7 \<and> b6 \<and> \<not> b5 \<and> (b0 \<or> b1 \<or> b2 \<or> b3 \<or> b4) \<and> \<not> (b4 \<and> b3 \<and> (b2 \<or> b1 \<and> b0))
      then Char b0 b1 b2 b3 b4 True b6 b7 else Char b0 b1 b2 b3 b4 b5 b6 b7)"

lemma lower_char_table:
  "map lower_char ''ABCDEFGHIJKLMNOPQRSTUVWXYZ'' = ''abcdefghijklmnopqrstuvwxyz''"
  and "map lower_char ''abcdefghijklmnopqrstuvwxyz0189@[`{ '' = ''abcdefghijklmnopqrstuvwxyz0189@[`{ ''"
  by simp_all

lemma lower_char_idem [simp]: "lower_char (lower_char c) = lower_char c"
  by (cases c) auto

definition to_lower :: "string \<Rightarrow> string" where
  "to_lower s = map lower_char s"

lemma to_lower_idem [simp]: "to_lower (to_lower s) = to_lower s"
  by (simp add: to_lower_def)

fun split_char :: "char \<Rightarrow> string \<Rightarrow> string list" where
  "split_char sep [] = [[]]"
| "split_char sep (c # cs) =
     (if c = sep then [] # split_char sep cs
      else (case split_char sep cs of [] \<Rightarrow> [[c]] | w # ws \<Rightarrow> (c # w) # ws))"

lemma split_char_nonempty [simp]: "split_char sep s \<noteq> []"
  by (induction s) (auto split: list.splits)

lemma hd_split_char: "hd (split_char sep s) = takeWhile (\<lambda>c. c \<noteq> sep) s"
proof (induction s)
  case (Cons c cs)
  then show ?case by (cases "split_char sep cs") auto
qed simp

lemma drop_while_trim: "dropWhile P s = [] \<or> \<not> P (hd (dropWhile P s))"
  by (induction s) auto

lemma trim_space_hd: "trim_space s = [] \<or> \<not> is_space (hd (trim_space s))"
proof -
  define t where "t = dropWhile is_space s"
  have t: "t = [] \<or> \<not> is_space (hd t)" unfolding t_def by (rule drop_while_trim)
  obtain pre where pre: "rev t = pre @ dropWhile is_space (rev t)" and "\<forall>c\<in>set pre. is_space c"
    by (metis set_takeWhileD takeWhile_dropWhile_id)
  have split: "t = rev (dropWhile is_space (rev t)) @ rev pre"
    by (metis pre rev_append rev_rev_ident)
  show ?thesis
  proof (cases "rev (dropWhile is_space (rev t)) = []")
    case True
    then show ?thesis by (simp add: trim_space_def t_def)
  next
    case False
    with split have "hd (rev (dropWhile is_space (rev t))) = hd t" by (metis hd_append2)
    moreover have "t \<noteq> []" using False by auto
    moreover have "trim_space s = rev (dropWhile is_space (rev t))"
      by (simp only: trim_space_def t_def)
    ultimately show ?thesis using t by metis
  qed
qed

lemma drop_while_none: "\<forall>c\<in>set s. \<not> P c \<Longrightarrow> dropWhile P s = s"
  by (cases s) auto

lemma trim_space_idem [simp]: "trim_space (trim_space s) = trim_space s"
proof -
  let ?t = "trim_space s"
  have l: "dropWhile is_space ?t = ?t" using trim_space_hd [of s] by (cases ?t) auto
  have "rev ?t = dropWhile is_space (rev (dropWhile is_space s))" by (simp add: trim_space_def)
  then have r: "dropWhile is_space (rev ?t) = rev ?t" by (metis dropWhile_idem)
  show ?thesis by (simp add: trim_space_def [of ?t] l r)
qed

lemma trim_space_no_space: "\<forall>c\<in>set s. \<not> is_space c \<Longrightarrow> trim_space s = s"
  by (simp add: trim_space_def drop_while_none)

section \<open>Numbers as text\<close>

definition digit_char :: "nat \<Rightarrow> char" where
  "digit_char n = ''0123456789'' ! (n mod 10)"

fun show_nat :: "nat \<Rightarrow> string" where
  "show_nat n = (if n < 10 then [digit_char n] else show_nat (n div 10) @ [digit_char n])"

declare show_nat.simps [simp del]

definition show_int :: "int \<Rightarrow> string" where
  "show_int n = (if n < 0 then ''-'' @ show_nat (nat (- n)) else show_nat (nat n))"

text \<open>The last \<open>k\<close> digits, with leading zeros.\<close>

fun show_digits :: "nat \<Rightarrow> nat \<Rightarrow> string" where
  "show_digits 0 n = ''''"
| "show_digits (Suc k) n = show_digits k (n div 10) @ [digit_char n]"

lemma show_examples:
  "show_nat 10452 = ''10452''" "show_int (- 7) = ''-7''" "show_digits (Suc (Suc (Suc (Suc 0)))) 250 = ''0250''"
  by (simp_all add: show_int_def show_nat.simps digit_char_def)

section \<open>Go maps used as sets\<close>

text \<open>
  \<open>map[string]struct{}\<close> is a list without duplicates: insertion, deletion, and iteration in
  list order. Go leaves the order of iteration open; the theorems hold for every list, so for
  every order.
\<close>

definition set_insert :: "'a \<Rightarrow> 'a list \<Rightarrow> 'a list" where
  "set_insert x xs = (if x \<in> set xs then xs else xs @ [x])"

lemma set_set_insert [simp]: "set (set_insert x xs) = insert x (set xs)"
  by (auto simp: set_insert_def)

lemma distinct_set_insert [simp]: "distinct xs \<Longrightarrow> distinct (set_insert x xs)"
  by (auto simp: set_insert_def)

lemma set_insert_nonempty [simp]: "set_insert x xs \<noteq> []"
  by (auto simp: set_insert_def)

definition set_delete :: "'a \<Rightarrow> 'a list \<Rightarrow> 'a list" where
  "set_delete x xs = filter (\<lambda>y. y \<noteq> x) xs"

lemma set_set_delete [simp]: "set (set_delete x xs) = set xs - {x}"
  by (auto simp: set_delete_def)

lemma distinct_set_delete [simp]: "distinct xs \<Longrightarrow> distinct (set_delete x xs)"
  by (simp add: set_delete_def)

text \<open>A read of a map of sets: a missing key is the empty (nil) set.\<close>

definition map_set :: "('k \<rightharpoonup> 'a list) \<Rightarrow> 'k \<Rightarrow> 'a list" where
  "map_set m k = (case m k of None \<Rightarrow> [] | Some xs \<Rightarrow> xs)"

lemma map_set_upd [simp]: "map_set (m(k \<mapsto> xs)) j = (if j = k then xs else map_set m j)"
  by (simp add: map_set_def)

lemma map_set_del [simp]: "map_set (m(k := None)) j = (if j = k then [] else map_set m j)"
  by (simp add: map_set_def)

lemma map_set_empty [simp]: "map_set Map.empty k = []"
  by (simp add: map_set_def)

section \<open>Lists and maps\<close>

lemma append_eq_suffix_inj: "x @ s = y @ s \<longleftrightarrow> x = y"
  by simp

lemma last_append_ne: "s \<noteq> [] \<Longrightarrow> t \<noteq> [] \<Longrightarrow> last s \<noteq> last t \<Longrightarrow> x @ s \<noteq> y @ t"
  by (metis last_appendR)

end
