(* ===== verification/Float64.thy ===== *)
theory Float64
  imports Complex_Main Prelude
begin

text \<open>
  Go's \<open>float64\<close>: IEEE-754 binary64 values as rationals with round to nearest, ties to
  even, subnormals and overflow to infinity, executable. The sign of a zero is not kept: no
  code modelled here divides by a computed zero or reads the sign. The lemmas show that
  rounding is monotone and exact on small integers, which the fare bounds rest on.
\<close>

section \<open>Values and rounding\<close>

datatype float64 = F64 rat | PosInf | NegInf | NotANumber

fun ilog2 :: "nat \<Rightarrow> nat" where
  "ilog2 n = (if n < 2 then 0 else Suc (ilog2 (n div 2)))"

declare ilog2.simps [simp del]

text \<open>The exponent of a positive rational: \<open>2 ^ flog2 x \<le> x < 2 ^ (flog2 x + 1)\<close>.\<close>

definition flog2 :: "rat \<Rightarrow> int" where
  "flog2 x = (let (n, d) = quotient_of x;
                  k = int (ilog2 (nat n)) - int (ilog2 (nat d))
              in if 2 powi k \<le> x then k else k - 1)"

text \<open>Round to the nearest integer, ties to even.\<close>

definition rne :: "rat \<Rightarrow> int" where
  "rne x = (let f = \<lfloor>x\<rfloor>; r = x - of_int f
            in if r < 1 / 2 then f else if r > 1 / 2 then f + 1
               else if even f then f else f + 1)"

definition f64_exp :: "rat \<Rightarrow> int" where
  "f64_exp x = max (flog2 \<bar>x\<bar> - 52) (- 1074)"

definition f64_val :: "rat \<Rightarrow> rat" where
  "f64_val x = (if x = 0 then 0
     else of_int (rne (x / 2 powi f64_exp x)) * 2 powi f64_exp x)"

definition f64_round :: "rat \<Rightarrow> float64" where
  "f64_round x = (let v = f64_val x
     in if v \<ge> 2 ^ 1024 then PosInf else if v \<le> - (2 ^ 1024) then NegInf else F64 v)"

section \<open>Arithmetic\<close>

fun f64_add :: "float64 \<Rightarrow> float64 \<Rightarrow> float64" where
  "f64_add NotANumber y = NotANumber"
| "f64_add x NotANumber = NotANumber"
| "f64_add (F64 a) (F64 b) = f64_round (a + b)"
| "f64_add PosInf NegInf = NotANumber"
| "f64_add NegInf PosInf = NotANumber"
| "f64_add PosInf y = PosInf"
| "f64_add NegInf y = NegInf"
| "f64_add x y = y"

fun f64_sgn :: "float64 \<Rightarrow> int" where
  "f64_sgn (F64 a) = (if a > 0 then 1 else if a < 0 then - 1 else 0)"
| "f64_sgn PosInf = 1"
| "f64_sgn NegInf = - 1"
| "f64_sgn NotANumber = 0"

definition f64_inf :: "int \<Rightarrow> float64" where
  "f64_inf s = (if s > 0 then PosInf else if s < 0 then NegInf else NotANumber)"

fun f64_mul :: "float64 \<Rightarrow> float64 \<Rightarrow> float64" where
  "f64_mul NotANumber y = NotANumber"
| "f64_mul x NotANumber = NotANumber"
| "f64_mul (F64 a) (F64 b) = f64_round (a * b)"
| "f64_mul x y = f64_inf (f64_sgn x * f64_sgn y)"

fun f64_div :: "float64 \<Rightarrow> float64 \<Rightarrow> float64" where
  "f64_div NotANumber y = NotANumber"
| "f64_div x NotANumber = NotANumber"
| "f64_div (F64 a) (F64 b) = (if b = 0 then f64_inf (f64_sgn (F64 a)) else f64_round (a / b))"
| "f64_div (F64 a) y = F64 0"
| "f64_div x (F64 b) = f64_inf (f64_sgn x * (if b < 0 then - 1 else 1))"
| "f64_div x y = NotANumber"

definition f64_of_int :: "int \<Rightarrow> float64" where
  "f64_of_int n = f64_round (of_int n)"

text \<open>
  The conversion \<open>int64(x)\<close> drops the fraction; outside the range of \<open>int64\<close> the
  result is up to the implementation, here \<open>None\<close>.
\<close>

definition truncate_rat :: "rat \<Rightarrow> int" where
  "truncate_rat x = (if x < 0 then - \<lfloor>- x\<rfloor> else \<lfloor>x\<rfloor>)"

fun f64_to_int64 :: "float64 \<Rightarrow> int option" where
  "f64_to_int64 (F64 a) =
     (let n = truncate_rat a in if - (2 ^ 63) \<le> n \<and> n < 2 ^ 63 then Some n else None)"
| "f64_to_int64 x = None"

text \<open>\<open>fmt\<close>'s \<open>%f\<close>: six decimals, correctly rounded.\<close>

fun f64_format :: "float64 \<Rightarrow> string" where
  "f64_format (F64 a) =
     (let n = nat (rne (\<bar>a\<bar> * 10 ^ 6))
      in (if a < 0 then ''-'' else '''') @ show_nat (n div 10 ^ 6) @ ''.'' @ show_digits 6 n)"
| "f64_format PosInf = ''+Inf''"
| "f64_format NegInf = ''-Inf''"
| "f64_format NotANumber = ''NaN''"

section \<open>The exponent\<close>

lemma ilog2_bounds: "0 < n \<Longrightarrow> 2 ^ ilog2 n \<le> n \<and> n < 2 ^ Suc (ilog2 n)"
proof (induction n rule: ilog2.induct)
  case (1 n)
  show ?case
  proof (cases "n < 2")
    case True
    with 1 show ?thesis by (simp add: ilog2.simps [of n])
  next
    case False
    with 1 have "2 ^ ilog2 (n div 2) \<le> n div 2 \<and> n div 2 < 2 ^ Suc (ilog2 (n div 2))"
      by simp
    then have "2 * 2 ^ ilog2 (n div 2) \<le> n" and "n < 2 * 2 ^ Suc (ilog2 (n div 2))"
      by arith+
    with False show ?thesis by (simp add: ilog2.simps [of n])
  qed
qed

lemma ilog2_real_bounds:
  assumes "0 < n"
  shows "2 powi int (ilog2 n) \<le> (of_nat n :: rat)"
    and "(of_nat n :: rat) < 2 powi (int (ilog2 n) + 1)"
proof -
  from ilog2_bounds [OF assms] have b: "2 ^ ilog2 n \<le> n" "n < 2 ^ Suc (ilog2 n)" by auto
  from b(1) have "(of_nat (2 ^ ilog2 n) :: rat) \<le> of_nat n" by (simp only: of_nat_le_iff)
  then show "2 powi int (ilog2 n) \<le> (of_nat n :: rat)" by simp
  from b(2) have "(of_nat n :: rat) < of_nat (2 ^ Suc (ilog2 n))" by (simp only: of_nat_less_iff)
  then show "(of_nat n :: rat) < 2 powi (int (ilog2 n) + 1)"
    by (simp add: power_int_add)
qed

lemma powi2_less_imp: "(2 :: rat) powi a < 2 powi b \<Longrightarrow> a < b"
  by (metis not_less one_le_numeral power_int_increasing)

lemma flog2_bounds:
  assumes "0 < x"
  shows "2 powi flog2 x \<le> x" and "x < 2 powi (flog2 x + 1)"
proof -
  obtain n d where q: "quotient_of x = (n, d)" by (cases "quotient_of x")
  have d: "0 < d" and x: "x = of_int n / of_int d"
    using q by (auto intro: quotient_of_denom_pos quotient_of_div)
  have n: "0 < n" using assms x d by (simp add: zero_less_divide_iff)
  define a where "a = nat n"
  define b where "b = nat d"
  define k where "k = int (ilog2 a) - int (ilog2 b)"
  have ab: "0 < a" "0 < b" "x = of_nat a / of_nat b"
    using n d x by (simp_all add: a_def b_def)
  have "x < 2 powi (int (ilog2 a) + 1) / 2 powi int (ilog2 b)"
    unfolding ab(3) using ilog2_real_bounds [OF ab(1)] ilog2_real_bounds [OF ab(2)] ab
    by (intro frac_less) auto
  then have up: "x < 2 powi (k + 1)"
    by (simp add: k_def power_int_add power_int_diff)
  have "2 powi int (ilog2 a) / 2 powi (int (ilog2 b) + 1) \<le> x"
    unfolding ab(3) using ilog2_real_bounds [OF ab(1)] ilog2_real_bounds [OF ab(2)] ab
    by (intro frac_le) auto
  then have low: "2 powi (k - 1) \<le> x"
    by (simp add: k_def power_int_add power_int_diff field_simps)
  have f: "flog2 x = (if 2 powi k \<le> x then k else k - 1)"
    by (simp add: flog2_def q k_def a_def b_def)
  show "2 powi flog2 x \<le> x" using low by (simp add: f)
  show "x < 2 powi (flog2 x + 1)" using up by (simp add: f)
qed

section \<open>Rounding is monotone and exact on representable values\<close>

lemma rne_of_int [simp]: "rne (of_int n) = n"
  by (simp add: rne_def)

lemma rne_bounds: "\<lfloor>x\<rfloor> \<le> rne x" "rne x \<le> \<lfloor>x\<rfloor> + 1"
  by (auto simp: rne_def Let_def)

lemma rne_mono: "x \<le> y \<Longrightarrow> rne x \<le> rne y"
proof (cases "\<lfloor>x\<rfloor> = \<lfloor>y\<rfloor>")
  case True
  moreover assume "x \<le> y"
  ultimately show ?thesis by (auto simp: rne_def Let_def)
next
  case False
  assume "x \<le> y"
  then have "\<lfloor>x\<rfloor> \<le> \<lfloor>y\<rfloor>" by (rule floor_mono)
  with False have "\<lfloor>x\<rfloor> + 1 \<le> \<lfloor>y\<rfloor>" by simp
  with rne_bounds(2) [of x] rne_bounds(1) [of y] show ?thesis by linarith
qed

lemma rne_le_int: "x \<le> of_int n \<Longrightarrow> rne x \<le> n"
  using rne_mono [of x "of_int n"] by simp

lemma rne_ge_int: "of_int n \<le> x \<Longrightarrow> n \<le> rne x"
  using rne_mono [of "of_int n" x] by simp

lemma f64_val_zero [simp]: "f64_val 0 = 0"
  by (simp add: f64_val_def)

lemma scaled_lt:
  assumes "0 < x"
  shows "x / 2 powi f64_exp x < 2 ^ 53"
proof -
  have "x < 2 powi (flog2 x + 1)" using assms by (rule flog2_bounds)
  also have "\<dots> \<le> 2 powi (53 + f64_exp x)"
    using assms by (intro power_int_increasing) (auto simp: f64_exp_def)
  also have "\<dots> = 2 ^ 53 * 2 powi f64_exp x" by (simp add: power_int_add)
  finally show ?thesis by (simp add: divide_less_eq)
qed

lemma f64_val_mono_pos:
  assumes "0 < x" "x \<le> y"
  shows "f64_val x \<le> f64_val y"
proof (cases "f64_exp x = f64_exp y")
  case True
  have "rne (x / 2 powi f64_exp x) \<le> rne (y / 2 powi f64_exp x)"
    using assms by (intro rne_mono divide_right_mono) auto
  then show ?thesis using assms True by (simp add: f64_val_def)
next
  case False
  have y: "0 < y" using assms by simp
  have "2 powi flog2 x \<le> x" using assms(1) by (rule flog2_bounds)
  then have "(2 :: rat) powi flog2 x < 2 powi (flog2 y + 1)"
    using assms flog2_bounds(2) [OF y] by linarith
  then have "flog2 x < flog2 y + 1"
    by (rule powi2_less_imp)
  with False assms y have e: "f64_exp x + 1 \<le> f64_exp y" and ey: "f64_exp y = flog2 y - 52"
    by (auto simp: f64_exp_def)
  have "rne (x / 2 powi f64_exp x) \<le> 2 ^ 53"
    using scaled_lt [OF assms(1)] by (intro rne_le_int) simp
  then have "of_int (rne (x / 2 powi f64_exp x)) \<le> (2 ^ 53 :: rat)"
    by (metis of_int_le_iff of_int_numeral of_int_power)
  then have "f64_val x \<le> 2 ^ 53 * 2 powi f64_exp x"
    using assms(1) by (simp add: f64_val_def)
  also have "\<dots> = 2 powi (53 + f64_exp x)" by (simp add: power_int_add)
  also have "\<dots> \<le> 2 powi (52 + f64_exp y)" using e by (intro power_int_increasing) auto
  also have "\<dots> = 2 ^ 52 * 2 powi f64_exp y" by (simp add: power_int_add)
  also have "\<dots> \<le> f64_val y"
  proof -
    have "2 powi (flog2 y - f64_exp y) \<le> y / 2 powi f64_exp y"
      using flog2_bounds(1) [OF y] by (simp add: power_int_diff divide_right_mono)
    then have "of_int (2 ^ 52) \<le> y / 2 powi f64_exp y" by (simp add: ey)
    then have "2 ^ 52 \<le> rne (y / 2 powi f64_exp y)" by (rule rne_ge_int)
    then have "(2 ^ 52 :: rat) \<le> of_int (rne (y / 2 powi f64_exp y))"
      by (metis of_int_le_iff of_int_numeral of_int_power)
    then show ?thesis using y by (simp add: f64_val_def)
  qed
  finally show ?thesis .
qed

lemma f64_val_nonneg: "0 \<le> x \<Longrightarrow> 0 \<le> f64_val x"
  by (auto simp: f64_val_def intro!: mult_nonneg_nonneg rne_ge_int [of 0, simplified])

lemma f64_val_mono: "0 \<le> x \<Longrightarrow> x \<le> y \<Longrightarrow> f64_val x \<le> f64_val y"
  using f64_val_mono_pos [of x y] f64_val_nonneg [of y] by (cases "x = 0") auto

text \<open>A natural number below \<open>2 ^ 53\<close> is a float.\<close>

lemma f64_val_nat:
  assumes "n < 2 ^ 53"
  shows "f64_val (of_nat n) = of_nat n"
proof (cases "n = 0")
  case False
  define e where "e = f64_exp (of_nat n)"
  have "2 powi flog2 (of_nat n) \<le> (of_nat n :: rat)" using False by (intro flog2_bounds) simp
  also have "\<dots> < (2 ^ 53 :: rat)" using assms
    by (metis of_nat_less_iff of_nat_numeral of_nat_power)
  finally have "(2 :: rat) powi flog2 (of_nat n) < 2 powi 53" by simp
  then have "flog2 (of_nat n) < 53" by (rule powi2_less_imp)
  then have "e \<le> 0" by (simp add: e_def f64_exp_def)
  then obtain k where k: "e = - int k" by (metis nonpos_int_cases)
  have scale: "of_nat n / 2 powi e = (of_int (int n * 2 ^ k) :: rat)"
    by (simp add: k power_int_minus field_simps)
  then have "rne (of_nat n / 2 powi e) = int n * 2 ^ k" by (metis rne_of_int)
  with scale have "of_int (rne (of_nat n / 2 powi e)) = (of_nat n / 2 powi e :: rat)" by simp
  then show ?thesis using False by (simp add: f64_val_def e_def)
qed simp

text \<open>The order on non-negative values, infinity on top.\<close>

fun f64_at_least :: "rat \<Rightarrow> float64 \<Rightarrow> bool" where
  "f64_at_least a (F64 b) = (a \<le> b)"
| "f64_at_least a PosInf = True"
| "f64_at_least a x = False"

lemma f64_round_at_least:
  assumes "0 \<le> a" "a \<le> x" "f64_val a = a"
  shows "f64_at_least a (f64_round x)"
proof -
  have v: "a \<le> f64_val x" using f64_val_mono [OF assms(1,2)] assms(3) by simp
  then have "\<not> f64_val x \<le> - (2 ^ 1024)" using assms(1) by simp
  with v show ?thesis by (simp add: f64_round_def Let_def)
qed

lemma f64_add_at_least:
  assumes "f64_at_least a x" "f64_at_least 0 y" "0 \<le> a" "f64_val a = a"
  shows "f64_at_least a (f64_add x y)"
  using assms by (cases x; cases y) (auto intro: f64_round_at_least)

lemma f64_mul_nonneg:
  assumes "f64_at_least 0 (F64 a)" "0 < b"
  shows "f64_at_least 0 (f64_mul (F64 a) (F64 b))"
  using assms by (auto intro: f64_round_at_least)

lemma f64_round_nat: "n < 2 ^ 53 \<Longrightarrow> f64_round (of_nat n) = F64 (of_nat n)"
proof -
  assume n: "n < 2 ^ 53"
  then have "(of_nat n :: rat) < of_nat (2 ^ 53)" by (simp only: of_nat_less_iff)
  then have lt: "(of_nat n :: rat) < 2 ^ 1024" by simp
  have pos: "\<not> (of_nat n :: rat) \<le> - (2 ^ 1024)"
    using order_less_le_trans [of "- (2 ^ 1024)" 0 "of_nat n :: rat"] by simp
  show ?thesis using n lt pos by (simp add: f64_round_def f64_val_nat)
qed

end
