(* ===== verification/Json.thy ===== *)
theory Json
  imports Float64
begin

text \<open>
  What the sources use of \<open>encoding/json\<close>. A byte slice is represented by what the JSON
  scanner makes of it (\<open>raw\<close>): nil, a text that is not JSON, or a JSON value. Decoding a
  value into a Go struct follows \<open>json.Unmarshal\<close>: keys in the order of the text, an exact
  or case-insensitive match with the field's tag, unknown keys ignored, null leaves a field as it
  is (and sets a pointer or slice to nil), a later key overwrites an earlier one, a value of the
  wrong type is an error. Case folding is ASCII (Go also folds the Kelvin sign and the long s).
  Strings are valid UTF-8, on which escaping and unescaping cancel. A number literal without
  fraction and exponent is a \<open>JInt\<close>; Go writes an integral float below \<open>10 ^ 21\<close> so.
\<close>

section \<open>Values and byte slices\<close>

datatype json =
    JNull
  | JBool bool
  | JInt int
  | JNum float64
  | JStr string
  | JArr "json list"
  | JObj "(string \<times> json) list"

datatype raw = RawNil | RawBad | RawJson json

text \<open>Marshalling a \<open>json.RawMessage\<close>: nil is null, an invalid text is an error.\<close>

fun marshal_raw :: "raw \<Rightarrow> json option" where
  "marshal_raw RawNil = Some JNull"
| "marshal_raw RawBad = None"
| "marshal_raw (RawJson j) = Some j"

section \<open>Decoding\<close>

type_synonym 'a dec = "'a \<Rightarrow> json \<Rightarrow> 'a option"

fun dec_str :: "string dec" where
  "dec_str cur JNull = Some cur"
| "dec_str cur (JStr s) = Some s"
| "dec_str cur j = None"

fun dec_bool :: "bool dec" where
  "dec_bool cur JNull = Some cur"
| "dec_bool cur (JBool b) = Some b"
| "dec_bool cur j = None"

text \<open>A literal outside the range of the target type is an error for integers and floats.\<close>

fun dec_f64 :: "float64 dec" where
  "dec_f64 cur JNull = Some cur"
| "dec_f64 cur (JInt n) = (case f64_of_int n of F64 a \<Rightarrow> Some (F64 a) | _ \<Rightarrow> None)"
| "dec_f64 cur (JNum (F64 a)) = Some (F64 a)"
| "dec_f64 cur j = None"

fun dec_i64 :: "int dec" where
  "dec_i64 cur JNull = Some cur"
| "dec_i64 cur (JInt n) = (if - (2 ^ 63) \<le> n \<and> n < 2 ^ 63 then Some n else None)"
| "dec_i64 cur j = None"

text \<open>\<open>json.RawMessage\<close> takes any value, null included.\<close>

definition dec_raw :: "raw dec" where
  "dec_raw cur j = Some (RawJson j)"

text \<open>A pointer: null makes it nil, any other value is decoded into the pointee.\<close>

definition dec_ptr :: "'a \<Rightarrow> 'a dec \<Rightarrow> 'a option dec" where
  "dec_ptr zero d cur j =
     (if j = JNull then Some None
      else map_option Some (d (case cur of None \<Rightarrow> zero | Some x \<Rightarrow> x) j))"

fun dec_elems :: "'a \<Rightarrow> 'a dec \<Rightarrow> json list \<Rightarrow> 'a list option" where
  "dec_elems zero d [] = Some []"
| "dec_elems zero d (j # js) =
     (case d zero j of None \<Rightarrow> None
      | Some x \<Rightarrow> map_option ((#) x) (dec_elems zero d js))"

fun dec_list :: "'a \<Rightarrow> 'a dec \<Rightarrow> 'a list dec" where
  "dec_list zero d cur JNull = Some []"
| "dec_list zero d cur (JArr js) = dec_elems zero d js"
| "dec_list zero d cur j = None"

text \<open>
  A struct: a table of its tags, each with the decoder of its field. \<open>fld\<close> builds an entry
  from the field's selector, its update function and the decoder of its type.
\<close>

type_synonym 'r fields = "(string \<times> 'r dec) list"

definition fld :: "string \<Rightarrow> ('r \<Rightarrow> 'a) \<Rightarrow> (('a \<Rightarrow> 'a) \<Rightarrow> 'r \<Rightarrow> 'r) \<Rightarrow> 'a dec \<Rightarrow> string \<times> 'r dec" where
  "fld tag sel upd d = (tag, \<lambda>r j. map_option (\<lambda>v. upd (\<lambda>_. v) r) (d (sel r) j))"

definition find_field :: "'r fields \<Rightarrow> string \<Rightarrow> 'r dec option" where
  "find_field fs k =
     (case map_of fs k of Some d \<Rightarrow> Some d
      | None \<Rightarrow> map_of (map (\<lambda>(tag, d). (to_lower tag, d)) fs) (to_lower k))"

fun dec_keys :: "'r fields \<Rightarrow> 'r \<Rightarrow> (string \<times> json) list \<Rightarrow> 'r option" where
  "dec_keys fs r [] = Some r"
| "dec_keys fs r ((k, v) # kvs) =
     (case find_field fs k of None \<Rightarrow> dec_keys fs r kvs
      | Some d \<Rightarrow> (case d r v of None \<Rightarrow> None | Some r' \<Rightarrow> dec_keys fs r' kvs))"

fun dec_struct :: "'r fields \<Rightarrow> 'r dec" where
  "dec_struct fs r JNull = Some r"
| "dec_struct fs r (JObj kvs) = dec_keys fs r kvs"
| "dec_struct fs r j = None"

text \<open>\<open>json.Unmarshal(data, &v)\<close> on a zero value \<open>v\<close>.\<close>

fun unmarshal :: "'a dec \<Rightarrow> 'a \<Rightarrow> raw \<Rightarrow> 'a res" where
  "unmarshal d zero (RawJson j) = (case d zero j of None \<Rightarrow> Inl ErrJson | Some x \<Rightarrow> Inr x)"
| "unmarshal d zero r = Inl ErrJson"

section \<open>Encoding\<close>

text \<open>Infinities and NaN cannot be encoded.\<close>

fun enc_f64 :: "float64 \<Rightarrow> json option" where
  "enc_f64 (F64 a) =
     Some (if a = of_int \<lfloor>a\<rfloor> \<and> \<bar>a\<bar> < 10 ^ 21 then JInt \<lfloor>a\<rfloor> else JNum (F64 a))"
| "enc_f64 x = None"

fun enc_list :: "('a \<Rightarrow> json option) \<Rightarrow> 'a list \<Rightarrow> json list option" where
  "enc_list e [] = Some []"
| "enc_list e (x # xs) =
     (case e x of None \<Rightarrow> None | Some j \<Rightarrow> map_option ((#) j) (enc_list e xs))"

fun enc_ptr :: "('a \<Rightarrow> json option) \<Rightarrow> 'a option \<Rightarrow> json option" where
  "enc_ptr e None = Some JNull"
| "enc_ptr e (Some x) = e x"

text \<open>
  An object from its members in order; a member is left out (\<open>omitempty\<close> on an empty
  value), encoded, or fails.
\<close>

datatype member = Omit | Member string "json option"

fun enc_obj :: "member list \<Rightarrow> json option" where
  "enc_obj [] = Some (JObj [])"
| "enc_obj (Omit # ms) = enc_obj ms"
| "enc_obj (Member k None # ms) = None"
| "enc_obj (Member k (Some j) # ms) =
     (case enc_obj ms of Some (JObj kvs) \<Rightarrow> Some (JObj ((k, j) # kvs)) | _ \<Rightarrow> None)"

definition mem_str :: "string \<Rightarrow> string \<Rightarrow> member" where
  "mem_str k s = Member k (Some (JStr s))"

definition omit_str :: "string \<Rightarrow> string \<Rightarrow> member" where
  "omit_str k s = (if s = '''' then Omit else mem_str k s)"

definition mem_f64 :: "string \<Rightarrow> float64 \<Rightarrow> member" where
  "mem_f64 k x = Member k (enc_f64 x)"

definition omit_f64 :: "string \<Rightarrow> float64 \<Rightarrow> member" where
  "omit_f64 k x = (if x = F64 0 then Omit else mem_f64 k x)"

definition omit_ptr :: "string \<Rightarrow> ('a \<Rightarrow> json option) \<Rightarrow> 'a option \<Rightarrow> member" where
  "omit_ptr k e p = (case p of None \<Rightarrow> Omit | Some x \<Rightarrow> Member k (e x))"

definition omit_list :: "string \<Rightarrow> ('a \<Rightarrow> json option) \<Rightarrow> 'a list \<Rightarrow> member" where
  "omit_list k e xs = (if xs = [] then Omit else Member k (map_option JArr (enc_list e xs)))"

text \<open>\<open>json.Marshal(v)\<close>: the bytes, or an error.\<close>

definition marshal :: "('a \<Rightarrow> json option) \<Rightarrow> 'a \<Rightarrow> raw res" where
  "marshal e x = (case e x of None \<Rightarrow> Inl ErrJson | Some j \<Rightarrow> Inr (RawJson j))"

section \<open>Facts for the codecs\<close>

lemmas json_defs = fld_def find_field_def dec_ptr_def dec_raw_def marshal_def mem_str_def
  omit_str_def mem_f64_def omit_f64_def omit_ptr_def omit_list_def to_lower_def

lemma unmarshal_Inr_iff [simp]:
  "unmarshal d zero r = Inr x \<longleftrightarrow> (\<exists>j. r = RawJson j \<and> d zero j = Some x)"
  by (cases r) (auto split: option.splits)

lemma unmarshal_Inl [simp]: "unmarshal d zero r = Inl e \<Longrightarrow> e = ErrJson"
  by (cases r) (auto split: option.splits)

lemma enc_list_length: "enc_list e xs = Some js \<Longrightarrow> length js = length xs"
  by (induction xs arbitrary: js) (auto split: option.splits)

text \<open>
  A float that can be sent: finite and its own rounding. It is encoded, and whatever value the
  decoder starts from, it is read back.
\<close>

fun wire_f64 :: "float64 \<Rightarrow> bool" where
  "wire_f64 (F64 a) = (f64_round a = F64 a)"
| "wire_f64 x = False"

lemma wire_f64_zero [simp]: "wire_f64 (F64 0)"
  by (simp add: f64_round_def)

lemma f64_of_floor:
  assumes "wire_f64 (F64 a)" "a = of_int \<lfloor>a\<rfloor>"
  shows "f64_of_int \<lfloor>a\<rfloor> = F64 a"
  using assms by (simp add: f64_of_int_def)

lemma f64_wire:
  assumes "wire_f64 x"
  shows "\<exists>j. enc_f64 x = Some j \<and> (\<forall>cur. dec_f64 cur j = Some x)"
  using assms by (cases x) (auto simp: f64_of_floor)

lemma f64_wireE:
  assumes "wire_f64 x"
  obtains j where "enc_f64 x = Some j" "\<And>cur. dec_f64 cur j = Some x"
  using f64_wire [OF assms] by blast

text \<open>Lists of values that each survive the trip.\<close>

lemma dec_enc_elems:
  assumes "\<forall>x\<in>set xs. \<exists>j. e x = Some j \<and> d zero j = Some x"
  shows "\<exists>js. enc_list e xs = Some js \<and> dec_elems zero d js = Some xs"
  using assms by (induction xs) fastforce+

lemma dec_enc_ptr:
  assumes "\<forall>x. p = Some x \<longrightarrow> (\<exists>j. e x = Some j \<and> j \<noteq> JNull \<and> d zero j = Some x)"
  shows "\<exists>j. enc_ptr e p = Some j \<and> dec_ptr zero d None j = Some p"
  using assms by (cases p) (auto simp: dec_ptr_def)

end
