(* ===== verification/Payloads.thy ===== *)
theory Payloads
  imports Contracts
begin

text \<open>
  The event payloads of \<open>shared/messaging/events.go\<close>: what the services put into the
  \<open>data\<close> of an AMQP envelope.
\<close>

section \<open>Payload structs\<close>

record trip_event_data =
  te_Trip :: "pb_trip option"
  te_PickupLat :: float64
  te_PickupLng :: float64

definition trip_event_data_zero :: trip_event_data where
  "trip_event_data_zero = \<lparr>te_Trip = None, te_PickupLat = F64 0, te_PickupLng = F64 0\<rparr>"

definition trip_event_data_fields :: "trip_event_data fields" where
  "trip_event_data_fields =
     [fld ''trip'' te_Trip te_Trip_update (dec_ptr pb_trip_zero (dec_struct pb_trip_fields)),
      fld ''pickupLat'' te_PickupLat te_PickupLat_update dec_f64,
      fld ''pickupLng'' te_PickupLng te_PickupLng_update dec_f64]"

definition enc_trip_event_data :: "trip_event_data \<Rightarrow> json option" where
  "enc_trip_event_data e =
     enc_obj [Member ''trip'' (enc_ptr enc_pb_trip (te_Trip e)),
              mem_f64 ''pickupLat'' (te_PickupLat e), mem_f64 ''pickupLng'' (te_PickupLng e)]"

record driver_trip_response =
  dr_Driver :: "pbd_driver option"
  dr_TripID :: string
  dr_RiderID :: string
  dr_DriverID :: string
  dr_DriverName :: string
  dr_PackageSlug :: string

definition driver_trip_response_zero :: driver_trip_response where
  "driver_trip_response_zero = \<lparr>dr_Driver = None, dr_TripID = '''', dr_RiderID = '''', dr_DriverID = '''',
     dr_DriverName = '''', dr_PackageSlug = ''''\<rparr>"

definition driver_trip_response_fields :: "driver_trip_response fields" where
  "driver_trip_response_fields =
     [fld ''driver'' dr_Driver dr_Driver_update (dec_ptr pbd_driver_zero (dec_struct pbd_driver_fields)),
      fld ''tripID'' dr_TripID dr_TripID_update dec_str,
      fld ''riderID'' dr_RiderID dr_RiderID_update dec_str,
      fld ''driverID'' dr_DriverID dr_DriverID_update dec_str,
      fld ''driverName'' dr_DriverName dr_DriverName_update dec_str,
      fld ''packageSlug'' dr_PackageSlug dr_PackageSlug_update dec_str]"

definition enc_driver_trip_response :: "driver_trip_response \<Rightarrow> json option" where
  "enc_driver_trip_response d =
     enc_obj [Member ''driver'' (enc_ptr enc_pbd_driver (dr_Driver d)), mem_str ''tripID'' (dr_TripID d),
              mem_str ''riderID'' (dr_RiderID d), mem_str ''driverID'' (dr_DriverID d),
              mem_str ''driverName'' (dr_DriverName d), mem_str ''packageSlug'' (dr_PackageSlug d)]"

record payment_session_created =
  ps_TripID :: string
  ps_SessionID :: string
  ps_Amount :: float64
  ps_Currency :: string

definition payment_session_created_zero :: payment_session_created where
  "payment_session_created_zero =
     \<lparr>ps_TripID = '''', ps_SessionID = '''', ps_Amount = F64 0, ps_Currency = ''''\<rparr>"

definition payment_session_created_fields :: "payment_session_created fields" where
  "payment_session_created_fields =
     [fld ''tripID'' ps_TripID ps_TripID_update dec_str,
      fld ''sessionID'' ps_SessionID ps_SessionID_update dec_str,
      fld ''amount'' ps_Amount ps_Amount_update dec_f64,
      fld ''currency'' ps_Currency ps_Currency_update dec_str]"

definition enc_payment_session_created :: "payment_session_created \<Rightarrow> json option" where
  "enc_payment_session_created p =
     enc_obj [mem_str ''tripID'' (ps_TripID p), mem_str ''sessionID'' (ps_SessionID p),
              mem_f64 ''amount'' (ps_Amount p), mem_str ''currency'' (ps_Currency p)]"

record payment_trip_response =
  pr_TripID :: string
  pr_UserID :: string
  pr_DriverID :: string
  pr_Amount :: float64
  pr_Currency :: string

definition payment_trip_response_zero :: payment_trip_response where
  "payment_trip_response_zero =
     \<lparr>pr_TripID = '''', pr_UserID = '''', pr_DriverID = '''', pr_Amount = F64 0, pr_Currency = ''''\<rparr>"

definition payment_trip_response_fields :: "payment_trip_response fields" where
  "payment_trip_response_fields =
     [fld ''tripID'' pr_TripID pr_TripID_update dec_str,
      fld ''userID'' pr_UserID pr_UserID_update dec_str,
      fld ''driverID'' pr_DriverID pr_DriverID_update dec_str,
      fld ''amount'' pr_Amount pr_Amount_update dec_f64,
      fld ''currency'' pr_Currency pr_Currency_update dec_str]"

definition enc_payment_trip_response :: "payment_trip_response \<Rightarrow> json option" where
  "enc_payment_trip_response p =
     enc_obj [mem_str ''tripID'' (pr_TripID p), mem_str ''userID'' (pr_UserID p),
              mem_str ''driverID'' (pr_DriverID p), mem_f64 ''amount'' (pr_Amount p),
              mem_str ''currency'' (pr_Currency p)]"

record payment_status_update =
  pu_TripID :: string
  pu_UserID :: string
  pu_DriverID :: string

definition payment_status_update_zero :: payment_status_update where
  "payment_status_update_zero = \<lparr>pu_TripID = '''', pu_UserID = '''', pu_DriverID = ''''\<rparr>"

definition payment_status_update_fields :: "payment_status_update fields" where
  "payment_status_update_fields =
     [fld ''tripID'' pu_TripID pu_TripID_update dec_str,
      fld ''userID'' pu_UserID pu_UserID_update dec_str,
      fld ''driverID'' pu_DriverID pu_DriverID_update dec_str]"

definition enc_payment_status_update :: "payment_status_update \<Rightarrow> json option" where
  "enc_payment_status_update p =
     enc_obj [mem_str ''tripID'' (pu_TripID p), mem_str ''userID'' (pu_UserID p),
              mem_str ''driverID'' (pu_DriverID p)]"

record driver_location_update =
  dl_PackageSlug :: string
  dl_Latitude :: float64
  dl_Longitude :: float64

definition driver_location_update_zero :: driver_location_update where
  "driver_location_update_zero = \<lparr>dl_PackageSlug = '''', dl_Latitude = F64 0, dl_Longitude = F64 0\<rparr>"

definition driver_location_update_fields :: "driver_location_update fields" where
  "driver_location_update_fields =
     [fld ''packageSlug'' dl_PackageSlug dl_PackageSlug_update dec_str,
      fld ''latitude'' dl_Latitude dl_Latitude_update dec_f64,
      fld ''longitude'' dl_Longitude dl_Longitude_update dec_f64]"

definition enc_driver_location_update :: "driver_location_update \<Rightarrow> json option" where
  "enc_driver_location_update d =
     enc_obj [mem_str ''packageSlug'' (dl_PackageSlug d), mem_f64 ''latitude'' (dl_Latitude d),
              mem_f64 ''longitude'' (dl_Longitude d)]"

record driver_location_event =
  de_Latitude :: float64
  de_Longitude :: float64

definition driver_location_event_zero :: driver_location_event where
  "driver_location_event_zero = \<lparr>de_Latitude = F64 0, de_Longitude = F64 0\<rparr>"

definition driver_location_event_fields :: "driver_location_event fields" where
  "driver_location_event_fields =
     [fld ''latitude'' de_Latitude de_Latitude_update dec_f64,
      fld ''longitude'' de_Longitude de_Longitude_update dec_f64]"

definition enc_driver_location_event :: "driver_location_event \<Rightarrow> json option" where
  "enc_driver_location_event d =
     enc_obj [mem_f64 ''latitude'' (de_Latitude d), mem_f64 ''longitude'' (de_Longitude d)]"

record trip_cancelled_data =
  tc_TripID :: string
  tc_RiderID :: string
  tc_DriverID :: string
  tc_DriverAccepted :: bool

definition trip_cancelled_data_zero :: trip_cancelled_data where
  "trip_cancelled_data_zero =
     \<lparr>tc_TripID = '''', tc_RiderID = '''', tc_DriverID = '''', tc_DriverAccepted = False\<rparr>"

definition trip_cancelled_data_fields :: "trip_cancelled_data fields" where
  "trip_cancelled_data_fields =
     [fld ''tripID'' tc_TripID tc_TripID_update dec_str,
      fld ''riderID'' tc_RiderID tc_RiderID_update dec_str,
      fld ''driverID'' tc_DriverID tc_DriverID_update dec_str,
      fld ''driverAccepted'' tc_DriverAccepted tc_DriverAccepted_update dec_bool]"

definition enc_trip_cancelled_data :: "trip_cancelled_data \<Rightarrow> json option" where
  "enc_trip_cancelled_data t =
     enc_obj [mem_str ''tripID'' (tc_TripID t), mem_str ''riderID'' (tc_RiderID t),
              mem_str ''driverID'' (tc_DriverID t),
              Member ''driverAccepted'' (Some (JBool (tc_DriverAccepted t)))]"

record chat_message_data =
  cm_MessageID :: string
  cm_TripID :: string
  cm_SenderID :: string
  cm_Text :: string
  cm_SentAt :: int

definition chat_message_data_zero :: chat_message_data where
  "chat_message_data_zero =
     \<lparr>cm_MessageID = '''', cm_TripID = '''', cm_SenderID = '''', cm_Text = '''', cm_SentAt = 0\<rparr>"

definition chat_message_data_fields :: "chat_message_data fields" where
  "chat_message_data_fields =
     [fld ''messageID'' cm_MessageID cm_MessageID_update dec_str,
      fld ''tripID'' cm_TripID cm_TripID_update dec_str,
      fld ''senderID'' cm_SenderID cm_SenderID_update dec_str,
      fld ''text'' cm_Text cm_Text_update dec_str,
      fld ''sentAt'' cm_SentAt cm_SentAt_update dec_i64]"

definition enc_chat_message_data :: "chat_message_data \<Rightarrow> json option" where
  "enc_chat_message_data c =
     enc_obj [mem_str ''messageID'' (cm_MessageID c), mem_str ''tripID'' (cm_TripID c),
              mem_str ''senderID'' (cm_SenderID c), mem_str ''text'' (cm_Text c),
              Member ''sentAt'' (Some (JInt (cm_SentAt c)))]"

record chat_delivered_data =
  cd_MessageID :: string
  cd_TripID :: string

definition enc_chat_delivered_data :: "chat_delivered_data \<Rightarrow> json option" where
  "enc_chat_delivered_data c =
     enc_obj [mem_str ''messageID'' (cd_MessageID c), mem_str ''tripID'' (cd_TripID c)]"

section \<open>Round trips\<close>

named_theorems codec_defs \<open>zero values, tag tables and encoders of the structs\<close>

lemmas [codec_defs] = amqp_message_zero_def amqp_message_fields_def enc_amqp_message_def
  ws_message_zero_def ws_message_fields_def enc_ws_message_def
  pb_coordinate_zero_def pb_coordinate_fields_def enc_pb_coordinate_def
  pb_ride_fare_zero_def pb_ride_fare_fields_def enc_pb_ride_fare_def
  pb_trip_driver_zero_def pb_trip_driver_fields_def enc_pb_trip_driver_def
  driver_trip_response_zero_def driver_trip_response_fields_def enc_driver_trip_response_def
  payment_session_created_zero_def payment_session_created_fields_def enc_payment_session_created_def
  payment_trip_response_zero_def payment_trip_response_fields_def enc_payment_trip_response_def
  payment_status_update_zero_def payment_status_update_fields_def enc_payment_status_update_def
  driver_location_update_zero_def driver_location_update_fields_def enc_driver_location_update_def
  driver_location_event_zero_def driver_location_event_fields_def enc_driver_location_event_def
  trip_cancelled_data_zero_def trip_cancelled_data_fields_def enc_trip_cancelled_data_def
  chat_message_data_zero_def chat_message_data_fields_def enc_chat_message_data_def
  enc_chat_delivered_data_def

lemma amqp_message_roundtrip:
  assumes "am_Data m = RawJson d"
  shows "\<exists>j. enc_amqp_message m = Some j \<and>
     dec_struct amqp_message_fields amqp_message_zero j = Some m"
  using assms by (simp add: codec_defs json_defs)

lemma trip_cancelled_roundtrip:
  "\<exists>j. enc_trip_cancelled_data t = Some j \<and>
     dec_struct trip_cancelled_data_fields trip_cancelled_data_zero j = Some t"
  by (simp add: codec_defs json_defs)

text \<open>The gateway never fills the \<open>Driver\<close> member.\<close>

lemma driver_trip_response_roundtrip:
  assumes "dr_Driver d = None"
  shows "\<exists>j. enc_driver_trip_response d = Some j \<and>
     dec_struct driver_trip_response_fields driver_trip_response_zero j = Some d"
  using assms by (simp add: codec_defs json_defs)

lemma payment_status_update_roundtrip:
  "\<exists>j. enc_payment_status_update p = Some j \<and>
     dec_struct payment_status_update_fields payment_status_update_zero j = Some p"
  by (simp add: codec_defs json_defs)

lemma chat_message_roundtrip:
  assumes "- (2 ^ 63) \<le> cm_SentAt c" "cm_SentAt c < 2 ^ 63"
  shows "\<exists>j. enc_chat_message_data c = Some j \<and>
     dec_struct chat_message_data_fields chat_message_data_zero j = Some c"
  using assms by (simp add: codec_defs json_defs)

lemma payment_trip_response_roundtrip:
  assumes "wire_f64 (pr_Amount p)"
  shows "\<exists>j. enc_payment_trip_response p = Some j \<and>
     dec_struct payment_trip_response_fields payment_trip_response_zero j = Some p"
proof -
  from assms(1) obtain j0 where j0: "enc_f64 (pr_Amount p) = Some j0" "\<And>cur. dec_f64 cur j0 = Some (pr_Amount p)"
    by (rule f64_wireE) blast
  show ?thesis by (simp add: codec_defs json_defs j0)
qed

lemma payment_session_created_roundtrip:
  assumes "wire_f64 (ps_Amount p)"
  shows "\<exists>j. enc_payment_session_created p = Some j \<and>
     dec_struct payment_session_created_fields payment_session_created_zero j = Some p"
proof -
  from assms(1) obtain j0 where j0: "enc_f64 (ps_Amount p) = Some j0" "\<And>cur. dec_f64 cur j0 = Some (ps_Amount p)"
    by (rule f64_wireE) blast
  show ?thesis by (simp add: codec_defs json_defs j0)
qed

lemma driver_location_update_roundtrip:
  assumes "wire_f64 (dl_Latitude p)" "wire_f64 (dl_Longitude p)"
  shows "\<exists>j. enc_driver_location_update p = Some j \<and>
     dec_struct driver_location_update_fields driver_location_update_zero j = Some p"
proof -
  from assms(1) obtain j0 where j0: "enc_f64 (dl_Latitude p) = Some j0" "\<And>cur. dec_f64 cur j0 = Some (dl_Latitude p)"
    by (rule f64_wireE) blast
  from assms(2) obtain j1 where j1: "enc_f64 (dl_Longitude p) = Some j1" "\<And>cur. dec_f64 cur j1 = Some (dl_Longitude p)"
    by (rule f64_wireE) blast
  show ?thesis by (simp add: codec_defs json_defs j0 j1)
qed

lemma driver_location_event_roundtrip:
  assumes "wire_f64 (de_Latitude p)" "wire_f64 (de_Longitude p)"
  shows "\<exists>j. enc_driver_location_event p = Some j \<and>
     dec_struct driver_location_event_fields driver_location_event_zero j = Some p"
proof -
  from assms(1) obtain j0 where j0: "enc_f64 (de_Latitude p) = Some j0" "\<And>cur. dec_f64 cur j0 = Some (de_Latitude p)"
    by (rule f64_wireE) blast
  from assms(2) obtain j1 where j1: "enc_f64 (de_Longitude p) = Some j1" "\<And>cur. dec_f64 cur j1 = Some (de_Longitude p)"
    by (rule f64_wireE) blast
  show ?thesis by (simp add: codec_defs json_defs j0 j1)
qed

lemma pb_coordinate_roundtrip:
  assumes "wire_f64 (co_Latitude c)" "wire_f64 (co_Longitude c)"
  shows "\<exists>j. enc_pb_coordinate c = Some j \<and>
     dec_struct pb_coordinate_fields pb_coordinate_zero j = Some c"
proof -
  from assms(1) obtain j0 where j0: "enc_f64 (co_Latitude c) = Some j0" "\<And>cur. dec_f64 cur j0 = Some (co_Latitude c)"
    by (rule f64_wireE) blast
  from assms(2) obtain j1 where j1: "enc_f64 (co_Longitude c) = Some j1" "\<And>cur. dec_f64 cur j1 = Some (co_Longitude c)"
    by (rule f64_wireE) blast
  show ?thesis by (simp add: codec_defs json_defs j0 j1)
qed

lemma pb_ride_fare_roundtrip:
  assumes "wire_f64 (rf_TotalPriceInCents f)"
  shows "\<exists>j. enc_pb_ride_fare f = Some j \<and>
     dec_struct pb_ride_fare_fields pb_ride_fare_zero j = Some f"
proof -
  from assms(1) obtain j0 where j0: "enc_f64 (rf_TotalPriceInCents f) = Some j0" "\<And>cur. dec_f64 cur j0 = Some (rf_TotalPriceInCents f)"
    by (rule f64_wireE) blast
  show ?thesis by (simp add: codec_defs json_defs j0)
qed

lemma pb_trip_driver_roundtrip:
  "\<exists>j. enc_pb_trip_driver d = Some j \<and> dec_struct pb_trip_driver_fields pb_trip_driver_zero j = Some d"
  by (simp add: codec_defs json_defs)

text \<open>The nested messages: geometry, route, trip, and the trip event that carries them.\<close>

lemma enc_obj_not_null: "enc_obj ms = Some j \<Longrightarrow> j \<noteq> JNull"
  by (induction ms rule: enc_obj.induct) (auto split: option.splits json.splits)

definition wire_coordinate :: "pb_coordinate \<Rightarrow> bool" where
  "wire_coordinate c \<longleftrightarrow> wire_f64 (co_Latitude c) \<and> wire_f64 (co_Longitude c)"

definition wire_geometry :: "pb_geometry \<Rightarrow> bool" where
  "wire_geometry g \<longleftrightarrow> (\<forall>c\<in>set (ge_Coordinates g). pred_option wire_coordinate c)"

definition wire_route :: "pb_route \<Rightarrow> bool" where
  "wire_route r \<longleftrightarrow> (\<forall>g\<in>set (rt_Geometry r). pred_option wire_geometry g)
     \<and> wire_f64 (rt_Distance r) \<and> wire_f64 (rt_Duration r)"

definition wire_trip :: "pb_trip \<Rightarrow> bool" where
  "wire_trip t \<longleftrightarrow> pred_option (\<lambda>f. wire_f64 (rf_TotalPriceInCents f)) (pt_SelectedFare t)
     \<and> pred_option wire_route (pt_Route t)"

definition wire_trip_event :: "trip_event_data \<Rightarrow> bool" where
  "wire_trip_event e \<longleftrightarrow> pred_option wire_trip (te_Trip e)
     \<and> wire_f64 (te_PickupLat e) \<and> wire_f64 (te_PickupLng e)"

lemma pb_geometry_roundtrip:
  assumes "wire_geometry g"
  shows "\<exists>j. enc_pb_geometry g = Some j \<and> dec_struct pb_geometry_fields pb_geometry_zero j = Some g"
proof -
  have "\<exists>js. enc_list (enc_ptr enc_pb_coordinate) (ge_Coordinates g) = Some js \<and>
     dec_elems None (dec_ptr pb_coordinate_zero (dec_struct pb_coordinate_fields)) js
       = Some (ge_Coordinates g)"
  proof (intro dec_enc_elems ballI dec_enc_ptr allI impI)
    fix p c assume "p \<in> set (ge_Coordinates g)" "p = Some c"
    with assms have "wire_f64 (co_Latitude c)" "wire_f64 (co_Longitude c)"
      by (auto simp: wire_geometry_def wire_coordinate_def)
    from pb_coordinate_roundtrip [OF this]
    show "\<exists>j. enc_pb_coordinate c = Some j \<and> j \<noteq> JNull \<and>
        dec_struct pb_coordinate_fields pb_coordinate_zero j = Some c"
      by (metis enc_obj_not_null enc_pb_coordinate_def)
  qed
  then show ?thesis
    by (auto simp: enc_pb_geometry_def pb_geometry_fields_def pb_geometry_zero_def
        omit_list_def fld_def find_field_def to_lower_def)
qed

lemma pb_route_roundtrip:
  assumes "wire_route r"
  shows "\<exists>j. enc_pb_route r = Some j \<and> dec_struct pb_route_fields pb_route_zero j = Some r"
proof -
  have "\<exists>js. enc_list (enc_ptr enc_pb_geometry) (rt_Geometry r) = Some js \<and>
     dec_elems None (dec_ptr pb_geometry_zero (dec_struct pb_geometry_fields)) js
       = Some (rt_Geometry r)"
  proof (intro dec_enc_elems ballI dec_enc_ptr allI impI)
    fix p g assume "p \<in> set (rt_Geometry r)" "p = Some g"
    with assms have "wire_geometry g" by (auto simp: wire_route_def)
    from pb_geometry_roundtrip [OF this]
    show "\<exists>j. enc_pb_geometry g = Some j \<and> j \<noteq> JNull \<and>
        dec_struct pb_geometry_fields pb_geometry_zero j = Some g"
      by (metis enc_obj_not_null enc_pb_geometry_def)
  qed
  then obtain js where js: "enc_list (enc_ptr enc_pb_geometry) (rt_Geometry r) = Some js"
    "dec_elems None (dec_ptr pb_geometry_zero (dec_struct pb_geometry_fields)) js = Some (rt_Geometry r)"
    by blast
  from assms obtain j0 where j0: "enc_f64 (rt_Distance r) = Some j0"
      "\<And>cur. dec_f64 cur j0 = Some (rt_Distance r)"
    by (auto simp: wire_route_def elim: f64_wireE)
  from assms obtain j1 where j1: "enc_f64 (rt_Duration r) = Some j1"
      "\<And>cur. dec_f64 cur j1 = Some (rt_Duration r)"
    by (auto simp: wire_route_def elim: f64_wireE)
  show ?thesis using js
    by (simp add: enc_pb_route_def pb_route_fields_def pb_route_zero_def j0 j1
        omit_list_def omit_f64_def mem_f64_def fld_def find_field_def to_lower_def)
qed

text \<open>What one member of a trip contributes, shared by the two lemmas on trips.\<close>

lemma omit_ptr_roundtrip:
  assumes "\<forall>x. p = Some x \<longrightarrow>
     (\<exists>j. e x = Some j \<and> j \<noteq> JNull \<and> d zero j = Some x)"
  shows "(p = None \<and> omit_ptr k e p = Omit) \<or>
     (\<exists>j. omit_ptr k e p = Member k (Some j) \<and> dec_ptr zero d None j = Some p)"
  using assms by (cases p) (auto simp: omit_ptr_def dec_ptr_def)

lemma pb_trip_roundtrip:
  assumes "wire_trip t"
  shows "\<exists>j. enc_pb_trip t = Some j \<and> dec_struct pb_trip_fields pb_trip_zero j = Some t"
proof -
  have fare: "(pt_SelectedFare t = None \<and> omit_ptr ''selectedFare'' enc_pb_ride_fare (pt_SelectedFare t) = Omit) \<or>
     (\<exists>j. omit_ptr ''selectedFare'' enc_pb_ride_fare (pt_SelectedFare t) = Member ''selectedFare'' (Some j)
        \<and> dec_ptr pb_ride_fare_zero (dec_struct pb_ride_fare_fields) None j = Some (pt_SelectedFare t))"
    using assms by (intro omit_ptr_roundtrip)
      (metis enc_obj_not_null enc_pb_ride_fare_def option.pred_inject(2) pb_ride_fare_roundtrip wire_trip_def)
  have route: "(pt_Route t = None \<and> omit_ptr ''route'' enc_pb_route (pt_Route t) = Omit) \<or>
     (\<exists>j. omit_ptr ''route'' enc_pb_route (pt_Route t) = Member ''route'' (Some j)
        \<and> dec_ptr pb_route_zero (dec_struct pb_route_fields) None j = Some (pt_Route t))"
    using assms by (intro omit_ptr_roundtrip)
      (metis enc_obj_not_null enc_pb_route_def option.pred_inject(2) pb_route_roundtrip wire_trip_def)
  have driver: "(pt_Driver t = None \<and> omit_ptr ''driver'' enc_pb_trip_driver (pt_Driver t) = Omit) \<or>
     (\<exists>j. omit_ptr ''driver'' enc_pb_trip_driver (pt_Driver t) = Member ''driver'' (Some j)
        \<and> dec_ptr pb_trip_driver_zero (dec_struct pb_trip_driver_fields) None j = Some (pt_Driver t))"
    by (intro omit_ptr_roundtrip) (metis enc_obj_not_null enc_pb_trip_driver_def pb_trip_driver_roundtrip)
  show ?thesis using fare route driver
    by (elim disjE conjE exE)
       (simp_all add: enc_pb_trip_def pb_trip_fields_def pb_trip_zero_def
        omit_str_def mem_str_def fld_def find_field_def to_lower_def)
qed

lemma trip_event_roundtrip:
  assumes "wire_trip_event e"
  shows "\<exists>j. enc_trip_event_data e = Some j \<and>
     dec_struct trip_event_data_fields trip_event_data_zero j = Some e"
proof -
  have "\<exists>j. enc_ptr enc_pb_trip (te_Trip e) = Some j \<and>
     dec_ptr pb_trip_zero (dec_struct pb_trip_fields) None j = Some (te_Trip e)"
    using assms by (intro dec_enc_ptr)
      (metis enc_obj_not_null enc_pb_trip_def option.pred_inject(2) pb_trip_roundtrip wire_trip_event_def)
  then obtain j where j: "enc_ptr enc_pb_trip (te_Trip e) = Some j"
    "dec_ptr pb_trip_zero (dec_struct pb_trip_fields) None j = Some (te_Trip e)" by blast
  from assms obtain j0 where j0: "enc_f64 (te_PickupLat e) = Some j0"
      "\<And>cur. dec_f64 cur j0 = Some (te_PickupLat e)"
    by (auto simp: wire_trip_event_def elim: f64_wireE)
  from assms obtain j1 where j1: "enc_f64 (te_PickupLng e) = Some j1"
      "\<And>cur. dec_f64 cur j1 = Some (te_PickupLng e)"
    by (auto simp: wire_trip_event_def elim: f64_wireE)
  show ?thesis
    by (simp add: enc_trip_event_data_def trip_event_data_fields_def trip_event_data_zero_def
        j j0 j1 mem_f64_def fld_def find_field_def to_lower_def)
qed

end
