(* ===== verification/External.thy ===== *)
theory External
  imports Payloads
begin

text \<open>
  The systems the services talk to, whose code is not in the repository: the RabbitMQ client
  library, the Redis client, the run-time (clock, timers, random numbers, environment), the
  WebSocket library. Each is a record of operations over a world of any type \<open>'w\<close>; the model's
  definitions take the record they use as an argument and thread the world. What a theorem needs
  of such a system is a named predicate on its record and appears as a premise.
\<close>

section \<open>Run-time\<close>

text \<open>
  \<open>run_now\<close> is the time in nanoseconds since 1970. \<open>run_wait t\<close> is
  \<open>select { case <-ctx.Done(): ... case <-time.After(t): }\<close>: the context's error, or nothing when the timer came first. \<open>run_ctx\<close> is the same select with a
  default branch. \<open>run_int32\<close> gives the implementation-dependent conversion of a float that no
  32-bit integer represents; \<open>run_inject\<close> is the trace propagator writing into message headers.
\<close>

datatype hval = HStr string | HInt int | HI32 "32 word" | HI64 "64 word" | HF64 float64 | HOther

type_synonym table = "string \<rightharpoonup> hval"

record 'w runtime =
  run_now :: "'w \<Rightarrow> int \<times> 'w"
  run_uuid :: "'w \<Rightarrow> string \<times> 'w"
  run_sleep :: "duration \<Rightarrow> 'w \<Rightarrow> 'w"
  run_wait :: "duration \<Rightarrow> 'w \<Rightarrow> goerror option \<times> 'w"
  run_ctx :: "'w \<Rightarrow> goerror option \<times> 'w"
  run_rand :: "nat \<Rightarrow> 'w \<Rightarrow> nat \<times> 'w"
  run_env :: "string \<Rightarrow> 'w \<Rightarrow> string option"
  run_int32 :: "float64 \<Rightarrow> 32 word"
  run_inject :: "table \<Rightarrow> table"

text \<open>A variable of a service that its goroutines share, as a cell of the world.\<close>

record ('s, 'w) cell =
  cell_get :: "'w \<Rightarrow> 's"
  cell_put :: "'s \<Rightarrow> 'w \<Rightarrow> 'w"

section \<open>RabbitMQ\<close>

text \<open>\<open>amqp.Delivery\<close> and \<open>amqp.Publishing\<close>, with the fields the code reads or sets.\<close>

record delivery =
  d_Headers :: "table option"
  d_Exchange :: string
  d_RoutingKey :: string
  d_ContentType :: string
  d_MessageId :: string
  d_CorrelationId :: string
  d_Type :: string
  d_Body :: raw
  d_Tag :: nat

record publishing =
  p_Headers :: "table option"
  p_Persistent :: bool
  p_ContentType :: string
  p_MessageId :: string
  p_CorrelationId :: string
  p_Type :: string
  p_Timestamp :: "int option"
  p_Body :: raw

text \<open>
  The struct \<open>RabbitMQ\<close>: its connection and channel (the library's handles) and its URI. It is
  shared by pointer, so it lives in a cell of the world (\<open>bk_client\<close>, \<open>bk_set_client\<close>).
  A value is only made by \<open>NewRabbitMQ\<close>, which sets both handles.
\<close>

type_synonym conn = nat
type_synonym chan = nat

record rabbitmq =
  rq_conn :: conn
  rq_Channel :: chan
  rq_uri :: string

record exchange_args =
  ex_Kind :: string
  ex_Durable :: bool
  ex_AutoDelete :: bool
  ex_Internal :: bool
  ex_NoWait :: bool

record 'w broker =
  bk_client :: "'w \<Rightarrow> rabbitmq"
  bk_set_client :: "rabbitmq \<Rightarrow> 'w \<Rightarrow> 'w"
  bk_dial :: "string \<Rightarrow> 'w \<Rightarrow> conn res \<times> 'w"
  bk_channel :: "conn \<Rightarrow> 'w \<Rightarrow> chan res \<times> 'w"
  bk_is_closed :: "conn \<Rightarrow> 'w \<Rightarrow> bool"
  bk_close_conn :: "conn \<Rightarrow> 'w \<Rightarrow> 'w"
  bk_close_chan :: "chan \<Rightarrow> 'w \<Rightarrow> 'w"
  bk_qos :: "chan \<Rightarrow> nat \<Rightarrow> nat \<Rightarrow> bool \<Rightarrow> 'w \<Rightarrow> goerror option \<times> 'w"
  bk_consume :: "chan \<Rightarrow> string \<Rightarrow> string \<Rightarrow> 'w \<Rightarrow> goerror option \<times> 'w"
  bk_exchange_declare :: "chan \<Rightarrow> string \<Rightarrow> exchange_args \<Rightarrow> 'w \<Rightarrow> goerror option \<times> 'w"
  bk_queue_declare :: "chan \<Rightarrow> string \<Rightarrow> table option \<Rightarrow> 'w \<Rightarrow> string res \<times> 'w"
  bk_queue_bind :: "chan \<Rightarrow> string \<Rightarrow> string \<Rightarrow> string \<Rightarrow> 'w \<Rightarrow> goerror option \<times> 'w"
  bk_publish :: "chan \<Rightarrow> string \<Rightarrow> string \<Rightarrow> publishing \<Rightarrow> 'w \<Rightarrow> goerror option \<times> 'w"
  bk_ack :: "nat \<Rightarrow> 'w \<Rightarrow> goerror option \<times> 'w"
  bk_nack :: "nat \<Rightarrow> bool \<Rightarrow> 'w \<Rightarrow> goerror option \<times> 'w"
  bk_reject :: "nat \<Rightarrow> bool \<Rightarrow> 'w \<Rightarrow> goerror option \<times> 'w"

text \<open>
  What the services above \<open>shared/messaging\<close> use of it: a function that publishes an envelope
  under a routing key, and handlers of deliveries, which return an error or panic.
\<close>

type_synonym 'w publisher = "string \<Rightarrow> amqp_message \<Rightarrow> 'w \<Rightarrow> goerror option outcome \<times> 'w"
type_synonym 'w handler = "delivery \<Rightarrow> 'w \<Rightarrow> goerror option outcome \<times> 'w"

text \<open>
  A broker's history: what the services asked of it, each with whether the call reported success.
  \<open>broker_traces B tr\<close> says that \<open>tr\<close> is such a history, that a queue declared by
  name gets that name, and that the cell of the client struct behaves as a cell.
\<close>

datatype settlement = Acked | Nacked bool | Rejected bool

datatype bk_event =
    Published string string publishing bool
  | Settled nat settlement
  | ExchangeDeclared string exchange_args bool
  | QueueDeclared string "table option" bool
  | QueueBound string string string bool
  | Consuming string bool

definition broker_traces :: "'w broker \<Rightarrow> ('w \<Rightarrow> bk_event list) \<Rightarrow> bool" where
  "broker_traces B tr \<longleftrightarrow>
     (\<forall>c w. tr (bk_set_client B c w) = tr w)
   \<and> (\<forall>c w. bk_client B (bk_set_client B c w) = c)
   \<and> (\<forall>u w r w'. bk_dial B u w = (r, w') \<longrightarrow> tr w' = tr w)
   \<and> (\<forall>c w r w'. bk_channel B c w = (r, w') \<longrightarrow> tr w' = tr w)
   \<and> (\<forall>c w. tr (bk_close_conn B c w) = tr w)
   \<and> (\<forall>c w. tr (bk_close_chan B c w) = tr w)
   \<and> (\<forall>c n k g w r w'. bk_qos B c n k g w = (r, w') \<longrightarrow> tr w' = tr w)
   \<and> (\<forall>c q t w r w'. bk_consume B c q t w = (r, w') \<longrightarrow> tr w' = tr w @ [Consuming q (r = None)])
   \<and> (\<forall>c x a w r w'. bk_exchange_declare B c x a w = (r, w') \<longrightarrow>
        tr w' = tr w @ [ExchangeDeclared x a (r = None)])
   \<and> (\<forall>c q t w n w'. bk_queue_declare B c q t w = (Inr n, w') \<longrightarrow>
        n = q \<and> tr w' = tr w @ [QueueDeclared q t True])
   \<and> (\<forall>c q t w e w'. bk_queue_declare B c q t w = (Inl e, w') \<longrightarrow>
        tr w' = tr w @ [QueueDeclared q t False])
   \<and> (\<forall>c q k x w r w'. bk_queue_bind B c q k x w = (r, w') \<longrightarrow>
        tr w' = tr w @ [QueueBound q k x (r = None)])
   \<and> (\<forall>c x k p w r w'. bk_publish B c x k p w = (r, w') \<longrightarrow> tr w' = tr w @ [Published x k p (r = None)])
   \<and> (\<forall>t w r w'. bk_ack B t w = (r, w') \<longrightarrow> tr w' = tr w @ [Settled t Acked])
   \<and> (\<forall>t q w r w'. bk_nack B t q w = (r, w') \<longrightarrow> tr w' = tr w @ [Settled t (Nacked q)])
   \<and> (\<forall>t q w r w'. bk_reject B t q w = (r, w') \<longrightarrow> tr w' = tr w @ [Settled t (Rejected q)])"

lemma broker_trace_cell:
  assumes "broker_traces B tr"
  shows "tr (bk_set_client B c w) = tr w" "bk_client B (bk_set_client B c w) = c"
    "tr (bk_close_conn B cn w) = tr w" "tr (bk_close_chan B ch w) = tr w"
  using assms unfolding broker_traces_def by simp_all

lemma broker_traceD:
  assumes "broker_traces B tr"
  shows "bk_dial B u w = (r1, w1) \<Longrightarrow> tr w1 = tr w" "bk_channel B cn w = (r2, w1) \<Longrightarrow> tr w1 = tr w"
    "bk_qos B ch n k g w = (r3, w1) \<Longrightarrow> tr w1 = tr w"
    "bk_consume B ch q tag w = (r4, w1) \<Longrightarrow> tr w1 = tr w @ [Consuming q (r4 = None)]"
    "bk_exchange_declare B ch x a w = (r4, w1) \<Longrightarrow> tr w1 = tr w @ [ExchangeDeclared x a (r4 = None)]"
    "bk_queue_declare B ch q t w = (Inr q', w1) \<Longrightarrow> q' = q \<and> tr w1 = tr w @ [QueueDeclared q t True]"
    "bk_queue_declare B ch q t w = (Inl e, w1) \<Longrightarrow> tr w1 = tr w @ [QueueDeclared q t False]"
    "bk_queue_bind B ch q key x w = (r4, w1) \<Longrightarrow> tr w1 = tr w @ [QueueBound q key x (r4 = None)]"
    "bk_publish B ch x key p w = (r4, w1) \<Longrightarrow> tr w1 = tr w @ [Published x key p (r4 = None)]"
    "bk_ack B tg w = (r5, w1) \<Longrightarrow> tr w1 = tr w @ [Settled tg Acked]"
    "bk_nack B tg rq w = (r6, w1) \<Longrightarrow> tr w1 = tr w @ [Settled tg (Nacked rq)]"
    "bk_reject B tg rq w = (r6, w1) \<Longrightarrow> tr w1 = tr w @ [Settled tg (Rejected rq)]"
  using assms unfolding broker_traces_def by simp_all

text \<open>Timers, the clock, random numbers and identifiers do not touch the broker.\<close>

definition runtime_quiet :: "'w runtime \<Rightarrow> ('w \<Rightarrow> 'a) \<Rightarrow> bool" where
  "runtime_quiet rt tr \<longleftrightarrow>
     (\<forall>w n w'. run_now rt w = (n, w') \<longrightarrow> tr w' = tr w)
   \<and> (\<forall>w u w'. run_uuid rt w = (u, w') \<longrightarrow> tr w' = tr w)
   \<and> (\<forall>t w. tr (run_sleep rt t w) = tr w)
   \<and> (\<forall>t w e w'. run_wait rt t w = (e, w') \<longrightarrow> tr w' = tr w)
   \<and> (\<forall>w e w'. run_ctx rt w = (e, w') \<longrightarrow> tr w' = tr w)
   \<and> (\<forall>k w m w'. run_rand rt k w = (m, w') \<longrightarrow> tr w' = tr w)"

lemma runtime_quiet_sleep: "runtime_quiet rt tr \<Longrightarrow> tr (run_sleep rt t w) = tr w"
  unfolding runtime_quiet_def by simp

lemma runtime_quietD:
  assumes "runtime_quiet rt tr"
  shows "run_now rt w = (n, w1) \<Longrightarrow> tr w1 = tr w" "run_uuid rt w = (u, w1) \<Longrightarrow> tr w1 = tr w"
    "run_wait rt t w = (e, w1) \<Longrightarrow> tr w1 = tr w"
    "run_ctx rt w = (e, w1) \<Longrightarrow> tr w1 = tr w" "run_rand rt k w = (m, w1) \<Longrightarrow> tr w1 = tr w"
  using assms unfolding runtime_quiet_def by simp_all

section \<open>Redis\<close>

text \<open>
  The commands of \<open>go-redis\<close> the services use. Values read as strings and values read as bytes
  have operations of their own (\<open>.Result()\<close> and \<open>.Bytes()\<close>). A transaction pipeline is the
  list of its queued commands; a script is a function run atomically. A subscription is a handle.
\<close>

datatype redis_cmd = CmdSet string string duration | CmdDel "string list"

type_synonym sub = nat

record stream_entry =
  se_ID :: string
  se_Values :: "string \<rightharpoonup> raw option"

record 'w redis =
  rd_get :: "string \<Rightarrow> 'w \<Rightarrow> string res \<times> 'w"
  rd_set :: "string \<Rightarrow> string \<Rightarrow> duration \<Rightarrow> 'w \<Rightarrow> goerror option \<times> 'w"
  rd_get_bytes :: "string \<Rightarrow> 'w \<Rightarrow> raw res \<times> 'w"
  rd_set_bytes :: "string \<Rightarrow> raw \<Rightarrow> duration \<Rightarrow> 'w \<Rightarrow> goerror option \<times> 'w"
  rd_mget :: "string list \<Rightarrow> 'w \<Rightarrow> string option list res \<times> 'w"
  rd_exec :: "redis_cmd list \<Rightarrow> 'w \<Rightarrow> goerror option \<times> 'w"
  rd_del :: "string \<Rightarrow> 'w \<Rightarrow> goerror option \<times> 'w"
  rd_incr :: "string \<Rightarrow> 'w \<Rightarrow> int res \<times> 'w"
  rd_decr :: "string \<Rightarrow> 'w \<Rightarrow> int res \<times> 'w"
  rd_expire :: "string \<Rightarrow> duration \<Rightarrow> 'w \<Rightarrow> goerror option \<times> 'w"
  rd_script :: "('w \<Rightarrow> int res \<times> 'w) \<Rightarrow> 'w \<Rightarrow> int res \<times> 'w"
  rd_publish :: "string \<Rightarrow> raw \<Rightarrow> 'w \<Rightarrow> int res \<times> 'w"
  rd_subscribe :: "string \<Rightarrow> 'w \<Rightarrow> sub \<times> 'w"
  rd_unsubscribe :: "sub \<Rightarrow> 'w \<Rightarrow> 'w"
  rd_xadd :: "string \<Rightarrow> int \<Rightarrow> raw \<Rightarrow> 'w \<Rightarrow> goerror option \<times> 'w"
  rd_xrange :: "string \<Rightarrow> 'w \<Rightarrow> stream_entry list res \<times> 'w"
  rd_xdel :: "string \<Rightarrow> string list \<Rightarrow> 'w \<Rightarrow> goerror option \<times> 'w"
  rd_geo_add :: "string \<Rightarrow> string \<Rightarrow> float64 \<Rightarrow> float64 \<Rightarrow> 'w \<Rightarrow> goerror option \<times> 'w"
  rd_zrem :: "string \<Rightarrow> string \<Rightarrow> 'w \<Rightarrow> goerror option \<times> 'w"
  rd_geo_search :: "string \<Rightarrow> float64 \<Rightarrow> float64 \<Rightarrow> float64 \<Rightarrow> nat \<Rightarrow> 'w \<Rightarrow> string list res \<times> 'w"
  rd_num_sub :: "string \<Rightarrow> 'w \<Rightarrow> (string \<rightharpoonup> int) res \<times> 'w"

text \<open>
  Redis as a store of strings: \<open>kv w\<close> are the live keys of a world. A read that succeeds
  returns what is stored, a missing key is \<open>redis.Nil\<close>, a write that reports no error has
  happened, and a transaction that reports no error has run its commands in order. Nothing is
  said of a call that returns an error, and keys are read within their time to live.
\<close>

fun run_cmd :: "redis_cmd \<Rightarrow> (string \<rightharpoonup> string) \<Rightarrow> (string \<rightharpoonup> string)" where
  "run_cmd (CmdSet k v ttl) m = m(k \<mapsto> v)"
| "run_cmd (CmdDel ks) m = (\<lambda>k. if k \<in> set ks then None else m k)"

definition run_cmds :: "redis_cmd list \<Rightarrow> (string \<rightharpoonup> string) \<Rightarrow> (string \<rightharpoonup> string)" where
  "run_cmds cs m = fold run_cmd cs m"

lemma run_cmds_Nil [simp]: "run_cmds [] m = m"
  by (simp add: run_cmds_def)

lemma run_cmds_Cons [simp]: "run_cmds (c # cs) m = run_cmds cs (run_cmd c m)"
  by (simp add: run_cmds_def)

definition redis_strings :: "'w redis \<Rightarrow> ('w \<Rightarrow> string \<rightharpoonup> string) \<Rightarrow> bool" where
  "redis_strings R kv \<longleftrightarrow>
     (\<forall>k w r w'. rd_get R k w = (r, w') \<longrightarrow> kv w' = kv w \<and>
        (case r of Inr v \<Rightarrow> kv w k = Some v | Inl e \<Rightarrow> e = RedisNil \<longrightarrow> kv w k = None))
   \<and> (\<forall>ks w vs w'. rd_mget R ks w = (Inr vs, w') \<longrightarrow> kv w' = kv w \<and> vs = map (kv w) ks)
   \<and> (\<forall>k v t w w'. rd_set R k v t w = (None, w') \<longrightarrow> kv w' = (kv w)(k \<mapsto> v))
   \<and> (\<forall>cs w w'. rd_exec R cs w = (None, w') \<longrightarrow> kv w' = run_cmds cs (kv w))"

lemma redis_getD:
  assumes "redis_strings R kv" "rd_get R k w = (Inr v, w')"
  shows "kv w k = Some v" "kv w' = kv w"
  using assms unfolding redis_strings_def by fastforce+

lemma redis_get_nilD:
  assumes "redis_strings R kv" "rd_get R k w = (Inl RedisNil, w')"
  shows "kv w k = None" "kv w' = kv w"
  using assms unfolding redis_strings_def by fastforce+

lemma redis_mgetD:
  assumes "redis_strings R kv" "rd_mget R ks w = (Inr vs, w')"
  shows "vs = map (kv w) ks" "kv w' = kv w"
  using assms unfolding redis_strings_def by blast+

lemma redis_setD:
  assumes "redis_strings R kv" "rd_set R k v t w = (None, w')"
  shows "kv w' = (kv w)(k \<mapsto> v)"
  using assms unfolding redis_strings_def by blast

lemma redis_execD:
  assumes "redis_strings R kv" "rd_exec R cs w = (None, w')"
  shows "kv w' = run_cmds cs (kv w)"
  using assms unfolding redis_strings_def by blast

section \<open>WebSocket connections\<close>

type_synonym wsconn = nat

record 'w websocket =
  wc_write_json :: "wsconn \<Rightarrow> ws_message \<Rightarrow> 'w \<Rightarrow> goerror option \<times> 'w"
  wc_close :: "wsconn \<Rightarrow> 'w \<Rightarrow> 'w"

text \<open>
  The messages written to sockets, with whether the write succeeded. A write and a close of a
  connection, and nothing else of the library, belong to this history.
\<close>

definition socket_writes :: "'w websocket \<Rightarrow> ('w \<Rightarrow> (wsconn \<times> ws_message \<times> bool) list) \<Rightarrow> bool" where
  "socket_writes W out \<longleftrightarrow>
     (\<forall>c m w r w'. wc_write_json W c m w = (r, w') \<longrightarrow> out w' = out w @ [(c, m, r = None)])
   \<and> (\<forall>c w. out (wc_close W c w) = out w)"

lemma socket_writesD:
  assumes "socket_writes W out"
  shows "wc_write_json W c m w = (r, w') \<Longrightarrow> out w' = out w @ [(c, m, r = None)]"
    "out (wc_close W c w) = out w"
  using assms unfolding socket_writes_def by simp_all

end
