(* ===== verification/Retry.thy ===== *)
theory Retry
  imports External
begin

text \<open>
  Package \<open>retry\<close> (\<open>shared/retry/retry.go\<close>): the loop of \<open>WithBackoff\<close> as it is
  written, with its 64-bit wait that doubles and is capped, and its meaning: one attempt, then one
  more after each wait of a list that depends on the configuration only.
\<close>

section \<open>Configuration and loop\<close>

record retry_config =
  MaxRetries :: int
  InitialWait :: duration
  MaxWait :: duration

definition DefaultConfig :: retry_config where
  "DefaultConfig = \<lparr>MaxRetries = 3, InitialWait = seconds 1, MaxWait = seconds 10\<rparr>"

text \<open>\<open>wait *= 2; if wait > cfg.MaxWait { wait = cfg.MaxWait }\<close>, compared as signed numbers.\<close>

definition next_wait :: "retry_config \<Rightarrow> duration \<Rightarrow> duration" where
  "next_wait cfg wait = (let wait2 = wait * 2
     in if MaxWait cfg <s wait2 then MaxWait cfg else wait2)"

text \<open>
  The loop from \<open>attempt\<close> on, with the current wait and the last error. The operation can
  also panic, which ends the loop.
\<close>

function backoff_loop ::
  "'w runtime \<Rightarrow> retry_config \<Rightarrow> 'w handler \<Rightarrow> delivery \<Rightarrow> int \<Rightarrow> duration \<Rightarrow> goerror option \<Rightarrow> 'w
     \<Rightarrow> goerror option outcome \<times> 'w" where
  "backoff_loop rt cfg operation d attempt wait err w =
     (if attempt \<le> MaxRetries cfg then
        (case (if attempt > 0 then run_wait rt wait w else (None, w)) of
           (Some e, w1) \<Rightarrow> (Returns (Some e), w1)
         | (None, w1) \<Rightarrow>
             (let wait' = (if attempt > 0 then next_wait cfg wait else wait)
              in case operation d w1 of
                   (Returns None, w2) \<Rightarrow> (Returns None, w2)
                 | (Returns (Some e), w2) \<Rightarrow>
                     backoff_loop rt cfg operation d (attempt + 1) wait' (Some e) w2
                 | (Panics, w2) \<Rightarrow> (Panics, w2)
                 | (Exits, w2) \<Rightarrow> (Exits, w2)))
      else (Returns err, w))"
  by pat_completeness auto
termination
  by (relation "measure (\<lambda>(rt, cfg, operation, d, attempt, wait, err, w). nat (MaxRetries cfg + 1 - attempt))")
     auto

declare backoff_loop.simps [simp del]

definition WithBackoff ::
  "'w runtime \<Rightarrow> retry_config \<Rightarrow> 'w handler \<Rightarrow> delivery \<Rightarrow> 'w \<Rightarrow> goerror option outcome \<times> 'w" where
  "WithBackoff rt cfg operation d w = backoff_loop rt cfg operation d 0 (InitialWait cfg) None w"

section \<open>The meaning: attempts separated by a list of waits\<close>

fun attempts :: "'w runtime \<Rightarrow> 'w handler \<Rightarrow> delivery \<Rightarrow> duration list \<Rightarrow> 'w \<Rightarrow> goerror option outcome \<times> 'w" where
  "attempts rt operation d [] w = operation d w"
| "attempts rt operation d (t # ts) w =
     (case operation d w of
        (Returns (Some e), w1) \<Rightarrow>
          (case run_wait rt t w1 of
             (Some c, w2) \<Rightarrow> (Returns (Some c), w2)
           | (None, w2) \<Rightarrow> attempts rt operation d ts w2)
      | r \<Rightarrow> r)"

fun waits_from :: "retry_config \<Rightarrow> duration \<Rightarrow> nat \<Rightarrow> duration list" where
  "waits_from cfg wait 0 = []"
| "waits_from cfg wait (Suc n) = wait # waits_from cfg (next_wait cfg wait) n"

definition backoff_waits :: "retry_config \<Rightarrow> duration list" where
  "backoff_waits cfg = waits_from cfg (InitialWait cfg) (nat (MaxRetries cfg))"

text \<open>The rest of the loop after a failed attempt: wait, then go on.\<close>

lemma backoff_loop_later:
  assumes "0 < attempt" "n = nat (MaxRetries cfg + 1 - attempt)"
  shows "backoff_loop rt cfg operation d attempt wait (Some e) w =
     (case waits_from cfg wait n of
        [] \<Rightarrow> (Returns (Some e), w)
      | t # ts \<Rightarrow> (case run_wait rt t w of
           (Some c, w1) \<Rightarrow> (Returns (Some c), w1)
         | (None, w1) \<Rightarrow> attempts rt operation d ts w1))"
  using assms
proof (induction n arbitrary: attempt wait e w)
  case 0
  then show ?case by (simp add: backoff_loop.simps [of rt cfg operation d attempt])
next
  case (Suc n)
  then have le: "attempt \<le> MaxRetries cfg" and n: "n = nat (MaxRetries cfg + 1 - (attempt + 1))"
    and pos: "0 < attempt + 1" by auto
  note IH = Suc.IH [OF pos n]
  show ?case
    unfolding backoff_loop.simps [of rt cfg operation d attempt]
    using le Suc.prems(1) IH
    by (cases n) (auto simp: Let_def split: prod.splits option.splits outcome.splits)
qed

lemma WithBackoff_attempts:
  assumes "0 \<le> MaxRetries cfg"
  shows "WithBackoff rt cfg operation d w = attempts rt operation d (backoff_waits cfg) w"
proof -
  have n: "nat (MaxRetries cfg) = nat (MaxRetries cfg + 1 - 1)" by simp
  show ?thesis
    unfolding WithBackoff_def backoff_waits_def
    using assms backoff_loop_later [of 1 "nat (MaxRetries cfg)" cfg rt operation d "InitialWait cfg"]
    by (cases "nat (MaxRetries cfg)")
       (auto simp: backoff_loop.simps [of rt cfg operation d 0] split: prod.splits option.splits outcome.splits)
qed

lemma waits_from_length [simp]: "length (waits_from cfg wait n) = n"
  by (induction n arbitrary: wait) auto

section \<open>The waits double up to the cap\<close>

lemma sint_double:
  assumes "0 \<le> sint (x :: 64 word)" "sint x < 2 ^ 62"
  shows "sint (x * 2) = 2 * sint x"
proof -
  have "x * 2 = word_of_int (sint x * 2)" by simp
  moreover have "sint (word_of_int (sint x * 2) :: 64 word) = signed_take_bit 63 (sint x * 2)"
    by (subst sint_sbintrunc') simp
  ultimately have "sint (x * 2) = signed_take_bit 63 (sint x * 2)" by metis
  also have "\<dots> = sint x * 2"
    using assms by (intro signed_take_bit_int_eq_self) simp_all
  finally show ?thesis by simp
qed

lemma sint_next_wait:
  assumes "0 \<le> sint x" "sint x < 2 ^ 62"
  shows "sint (next_wait cfg x) = min (2 * sint x) (sint (MaxWait cfg))"
  using sint_double [OF assms] by (auto simp: next_wait_def word_sless_alt Let_def)

lemma waits_from_capped:
  assumes "k < n" "0 \<le> sint x" "sint x < 2 ^ 62" "0 \<le> sint (MaxWait cfg)" "sint (MaxWait cfg) < 2 ^ 62"
  shows "sint (waits_from cfg x n ! k) =
           (if k = 0 then sint x else min (2 ^ k * sint x) (sint (MaxWait cfg)))"
  using assms
proof (induction n arbitrary: k x)
  case (Suc n)
  let ?y = "next_wait cfg x" and ?M = "sint (MaxWait cfg)"
  have y: "sint ?y = min (2 * sint x) ?M" using Suc.prems by (intro sint_next_wait)
  have "0 \<le> sint ?y" "sint ?y < 2 ^ 62" using y Suc.prems by auto
  note IH = Suc.IH [OF _ this Suc.prems(4,5)]
  show ?case
  proof (cases k)
    case (Suc j)
    have "sint (waits_from cfg ?y n ! j) = (if j = 0 then sint ?y else min (2 ^ j * sint ?y) ?M)"
      using Suc Suc.prems(1) by (intro IH) simp
    moreover have "min (2 ^ j * sint ?y) ?M = min (2 ^ Suc j * sint x) ?M"
    proof (cases "2 * sint x \<le> ?M")
      case True
      then show ?thesis by (simp add: y)
    next
      case False
      have pow: "(1 :: int) \<le> 2 ^ j" by simp
      have "?M \<le> 2 ^ j * ?M" "2 * sint x \<le> 2 ^ j * (2 * sint x)"
        using mult_right_mono [OF pow, of ?M] mult_right_mono [OF pow, of "2 * sint x"] Suc.prems
        by simp_all
      with False show ?thesis by (simp add: y min_def mult.commute mult.left_commute)
    qed
    ultimately show ?thesis using Suc y by simp
  qed simp
qed simp

lemma DefaultConfig_waits: "backoff_waits DefaultConfig = [seconds 1, seconds 2, seconds 4]"
  by (simp add: backoff_waits_def DefaultConfig_def next_wait_def seconds_def eval_nat_numeral
        word_sless_alt)

lemma WithBackoff_default:
  "WithBackoff rt DefaultConfig h d w = attempts rt h d [seconds 1, seconds 2, seconds 4] w"
  by (subst WithBackoff_attempts) (simp_all add: DefaultConfig_waits, simp add: DefaultConfig_def)

end
