(* ===== verification/Reference.thy ===== *)
theory Reference
  imports External
begin

text \<open>
  A world in which every law assumed of an external system holds: a broker that records its
  history and can be down, a clock that counts, a Redis of strings, streams, counters and
  subscriptions, and sockets of which some are broken. The witnesses of the theorems run the model
  in it, or in an extension of it. Nothing else depends on this theory.
\<close>

record sim =
  si_events :: "bk_event list"
  si_client :: rabbitmq
  si_up :: bool
  si_clock :: int
  si_env :: "string \<rightharpoonup> string"
  si_kv :: "string \<rightharpoonup> string"
  si_bytes :: "string \<rightharpoonup> raw"
  si_counters :: "string \<Rightarrow> int"
  si_streams :: "string \<Rightarrow> stream_entry list"
  si_subs :: "string list"
  si_channel :: "(string \<times> raw) list"
  si_writes :: "(wsconn \<times> ws_message \<times> bool) list"
  si_broken :: "wsconn list"

definition sim0 :: sim where
  "sim0 = \<lparr>si_events = [], si_client = \<lparr>rq_conn = 0, rq_Channel = 0, rq_uri = ''amqp''\<rparr>, si_up = True,
     si_clock = 0, si_env = Map.empty, si_kv = Map.empty, si_bytes = Map.empty, si_counters = (\<lambda>_. 0),
     si_streams = (\<lambda>_. []), si_subs = [], si_channel = [], si_writes = [], si_broken = []\<rparr>"

lemma sim0_events: "si_events sim0 = []"
  by (simp add: sim0_def)

definition record_event :: "bk_event \<Rightarrow> 'a sim_scheme \<Rightarrow> 'a sim_scheme" where
  "record_event e s = s\<lparr>si_events := si_events s @ [e]\<rparr>"

definition down :: goerror where
  "down = ErrMsg ''Exception (504) Reason: channel/connection is not open''"

definition if_up :: "'a sim_scheme \<Rightarrow> goerror option" where
  "if_up s = (if si_up s then None else Some down)"

definition sim_broker :: "'a sim_scheme broker" where
  "sim_broker = \<lparr>
     bk_client = si_client,
     bk_set_client = (\<lambda>c s. s\<lparr>si_client := c\<rparr>),
     bk_dial = (\<lambda>u s. (if si_up s then Inr 0 else Inl down, s)),
     bk_channel = (\<lambda>c s. (if si_up s then Inr 0 else Inl down, s)),
     bk_is_closed = (\<lambda>c s. \<not> si_up s),
     bk_close_conn = (\<lambda>c s. s),
     bk_close_chan = (\<lambda>c s. s),
     bk_qos = (\<lambda>c n k g s. (if_up s, s)),
     bk_consume = (\<lambda>c q t s. (if_up s, record_event (Consuming q (si_up s)) s)),
     bk_exchange_declare = (\<lambda>c x a s. (if_up s, record_event (ExchangeDeclared x a (si_up s)) s)),
     bk_queue_declare = (\<lambda>c q t s. (if si_up s then Inr q else Inl down,
                                     record_event (QueueDeclared q t (si_up s)) s)),
     bk_queue_bind = (\<lambda>c q k x s. (if_up s, record_event (QueueBound q k x (si_up s)) s)),
     bk_publish = (\<lambda>c x k p s. (if_up s, record_event (Published x k p (si_up s)) s)),
     bk_ack = (\<lambda>t s. (if_up s, record_event (Settled t Acked) s)),
     bk_nack = (\<lambda>t q s. (if_up s, record_event (Settled t (Nacked q)) s)),
     bk_reject = (\<lambda>t q s. (if_up s, record_event (Settled t (Rejected q)) s))\<rparr>"

lemma sim_events_keeps:
  assumes "\<And>s e. f (s\<lparr>si_events := e\<rparr>) = f s"
  shows "bk_publish sim_broker c x k p s = (r, s') \<Longrightarrow> f s' = f s"
  using assms by (auto simp: sim_broker_def record_event_def)

lemma sim_broker_traces [simp]: "broker_traces sim_broker si_events"
  by (simp add: broker_traces_def sim_broker_def record_event_def if_up_def)

definition sim_runtime :: "'a sim_scheme runtime" where
  "sim_runtime = \<lparr>
     run_now = (\<lambda>s. (si_clock s, s\<lparr>si_clock := si_clock s + 1\<rparr>)),
     run_uuid = (\<lambda>s. (''uuid'', s)),
     run_sleep = (\<lambda>t s. s\<lparr>si_clock := si_clock s + sint t\<rparr>),
     run_wait = (\<lambda>t s. (None, s\<lparr>si_clock := si_clock s + sint t\<rparr>)),
     run_ctx = (\<lambda>s. (None, s)),
     run_rand = (\<lambda>n s. (0, s)),
     run_env = (\<lambda>k s. si_env s k),
     run_int32 = (\<lambda>x. 0),
     run_inject = (\<lambda>h. h(''traceparent'' \<mapsto> HStr ''00''))\<rparr>"

lemma sim_runtime_quiet [simp]:
  "(\<And>s n. f (s\<lparr>si_clock := n\<rparr>) = f s) \<Longrightarrow> runtime_quiet sim_runtime f"
  by (simp add: runtime_quiet_def sim_runtime_def)

definition sim_redis :: "'a sim_scheme redis" where
  "sim_redis = \<lparr>
     rd_get = (\<lambda>k s. (case si_kv s k of None \<Rightarrow> Inl RedisNil | Some v \<Rightarrow> Inr v, s)),
     rd_set = (\<lambda>k v t s. (None, s\<lparr>si_kv := (si_kv s)(k \<mapsto> v)\<rparr>)),
     rd_get_bytes = (\<lambda>k s. (case si_bytes s k of None \<Rightarrow> Inl RedisNil | Some v \<Rightarrow> Inr v, s)),
     rd_set_bytes = (\<lambda>k v t s. (None, s\<lparr>si_bytes := (si_bytes s)(k \<mapsto> v)\<rparr>)),
     rd_mget = (\<lambda>ks s. (Inr (map (si_kv s) ks), s)),
     rd_exec = (\<lambda>cs s. (None, s\<lparr>si_kv := run_cmds cs (si_kv s)\<rparr>)),
     rd_del = (\<lambda>k s. (None, s\<lparr>si_kv := (si_kv s)(k := None), si_counters := (si_counters s)(k := 0)\<rparr>)),
     rd_incr = (\<lambda>k s. (Inr (si_counters s k + 1),
                       s\<lparr>si_counters := (si_counters s)(k := si_counters s k + 1)\<rparr>)),
     rd_decr = (\<lambda>k s. (Inr (si_counters s k - 1),
                       s\<lparr>si_counters := (si_counters s)(k := si_counters s k - 1)\<rparr>)),
     rd_expire = (\<lambda>k t s. (None, s)),
     rd_script = (\<lambda>f s. f s),
     rd_publish = (\<lambda>c b s. (Inr (int (count_list (si_subs s) c)),
                            s\<lparr>si_channel := si_channel s @ [(c, b)]\<rparr>)),
     rd_subscribe = (\<lambda>c s. (length (si_subs s), s\<lparr>si_subs := si_subs s @ [c]\<rparr>)),
     rd_unsubscribe = (\<lambda>n s. s\<lparr>si_subs := (si_subs s)[n := '''']\<rparr>),
     rd_xadd = (\<lambda>k n b s. (None, s\<lparr>si_streams := (si_streams s)(k := si_streams s k @
                            [\<lparr>se_ID = ''id'', se_Values = [''payload'' \<mapsto> Some b]\<rparr>])\<rparr>)),
     rd_xrange = (\<lambda>k s. (Inr (si_streams s k), s)),
     rd_xdel = (\<lambda>k ids s. (None, s\<lparr>si_streams :=
                  (si_streams s)(k := filter (\<lambda>e. se_ID e \<notin> set ids) (si_streams s k))\<rparr>)),
     rd_geo_add = (\<lambda>k m x y s. (None, s)),
     rd_zrem = (\<lambda>k m s. (None, s)),
     rd_geo_search = (\<lambda>k x y r n s. (Inr [], s)),
     rd_num_sub = (\<lambda>c s. (Inr [c \<mapsto> int (count_list (si_subs s) c)], s))\<rparr>"

lemma sim_redis_strings [simp]: "redis_strings sim_redis si_kv"
  by (simp add: redis_strings_def sim_redis_def split: option.splits)

definition sim_websocket :: "'a sim_scheme websocket" where
  "sim_websocket = \<lparr>
     wc_write_json = (\<lambda>c m s. (if c \<in> set (si_broken s) then Some (ErrMsg ''broken pipe'') else None,
                               s\<lparr>si_writes := si_writes s @ [(c, m, c \<notin> set (si_broken s))]\<rparr>)),
     wc_close = (\<lambda>c s. s)\<rparr>"

lemma sim_websocket_writes [simp]: "socket_writes sim_websocket si_writes"
  by (simp add: socket_writes_def sim_websocket_def)

lemmas sim_defs = sim0_def record_event_def down_def if_up_def sim_broker_def sim_runtime_def
  sim_redis_def sim_websocket_def

end
