(* ===== verification/RabbitMQ_Facts.thy ===== *)
theory RabbitMQ_Facts
  imports RabbitMQ Reference
begin

text \<open>
  What \<open>rabbitmq.go\<close> achieves, over the history of a broker: the topology the services set up
  and the routes it gives, publication at most once per successful call, one settlement per
  delivery, and the bound on the rounds of a message through the dead-letter queue.
\<close>

section \<open>Messages that move\<close>

text \<open>The part of a history that matters for messages: accepted publications and settlements.\<close>

fun moves :: "bk_event \<Rightarrow> bool" where
  "moves (Published x k p ok) = ok"
| "moves (Settled t s) = True"
| "moves e = False"

definition mail :: "('w \<Rightarrow> bk_event list) \<Rightarrow> 'w \<Rightarrow> bk_event list" where
  "mail tr w = filter moves (tr w)"

fun is_published :: "bk_event \<Rightarrow> bool" where
  "is_published (Published x k p ok) = True"
| "is_published e = False"

lemma mail_cell:
  assumes "broker_traces B tr"
  shows "mail tr (bk_set_client B c w) = mail tr w" "mail tr (bk_close_conn B cn w) = mail tr w"
    "mail tr (bk_close_chan B ch w) = mail tr w" "mail tr (Close B w) = mail tr w"
  by (simp_all add: mail_def Close_def Let_def broker_trace_cell [OF assms])

lemma mailD:
  assumes "broker_traces B tr"
  shows "bk_dial B u w = (r1, w1) \<Longrightarrow> mail tr w1 = mail tr w"
    "bk_channel B cn w = (r2, w1) \<Longrightarrow> mail tr w1 = mail tr w"
    "bk_consume B ch q tag w = (r4, w1) \<Longrightarrow> mail tr w1 = mail tr w"
    "bk_exchange_declare B ch x a w = (r4, w1) \<Longrightarrow> mail tr w1 = mail tr w"
    "bk_queue_declare B ch q t w = (r5, w1) \<Longrightarrow> mail tr w1 = mail tr w"
    "bk_queue_bind B ch q key x w = (r4, w1) \<Longrightarrow> mail tr w1 = mail tr w"
    "bk_publish B ch x key p w = (r4, w1) \<Longrightarrow>
       mail tr w1 = mail tr w @ (if r4 = None then [Published x key p True] else [])"
    "bk_ack B tg w = (r6, w1) \<Longrightarrow> mail tr w1 = mail tr w @ [Settled tg Acked]"
    "bk_nack B tg rq w = (r6, w1) \<Longrightarrow> mail tr w1 = mail tr w @ [Settled tg (Nacked rq)]"
    "bk_reject B tg rq w = (r6, w1) \<Longrightarrow> mail tr w1 = mail tr w @ [Settled tg (Rejected rq)]"
proof -
  note D = broker_traceD [OF assms]
  show "bk_queue_declare B ch q t w = (r5, w1) \<Longrightarrow> mail tr w1 = mail tr w"
    by (cases r5) (auto simp: mail_def dest!: D)
qed (auto simp: mail_def dest!: broker_traceD [OF assms])

lemma mail_runtime:
  assumes "runtime_quiet rt tr"
  shows "runtime_quiet rt (mail tr)"
  using assms unfolding runtime_quiet_def mail_def by simp

section \<open>The set-up\<close>

text \<open>What the declarations and the client's cell leave alone, the set-up does.\<close>

definition declares_keep :: "'w broker \<Rightarrow> ('w \<Rightarrow> 'a) \<Rightarrow> bool" where
  "declares_keep B f \<longleftrightarrow>
     (\<forall>c w. f (bk_set_client B c w) = f w)
   \<and> (\<forall>c x a w r w'. bk_exchange_declare B c x a w = (r, w') \<longrightarrow> f w' = f w)
   \<and> (\<forall>c q t w r w'. bk_queue_declare B c q t w = (r, w') \<longrightarrow> f w' = f w)
   \<and> (\<forall>c q k x w r w'. bk_queue_bind B c q k x w = (r, w') \<longrightarrow> f w' = f w)"

lemma declares_keepD:
  assumes "declares_keep B f"
  shows "bk_exchange_declare B ch x a w = (r4, w1) \<Longrightarrow> f w1 = f w"
    "bk_queue_declare B ch q t w = (r5, w1) \<Longrightarrow> f w1 = f w"
    "bk_queue_bind B ch q key x w = (r4, w1) \<Longrightarrow> f w1 = f w"
  using assms unfolding declares_keep_def by simp_all

lemma bind_keys_keeps:
  assumes "declares_keep B f"
  shows "f (snd (bind_keys B n q ks x w)) = f w"
  by (induction ks arbitrary: w) (auto split: prod.splits option.splits dest!: declares_keepD [OF assms])

lemma declareAndBindQueue_keeps:
  assumes "declares_keep B f"
  shows "f (snd (declareAndBindQueue B q ks x w)) = f w"
  unfolding declareAndBindQueue_def using bind_keys_keeps [OF assms, of q]
  by (auto split: prod.splits sum.splits dest!: declares_keepD [OF assms]) (metis snd_conv)

lemma declare_queues_keeps:
  assumes "declares_keep B f"
  shows "f (snd (declare_queues B qs w)) = f w"
proof (induction qs arbitrary: w)
  case (Cons qk qs)
  obtain q ks where qk: "qk = (q, ks)" by (cases qk)
  have m: "f (snd (declareAndBindQueue B q ks TripExchange w)) = f w"
    by (rule declareAndBindQueue_keeps [OF assms])
  show ?case
    unfolding qk by (simp, rule bindo_keeps [where f = "f"]) (auto simp: m split: option.splits intro: Cons.IH)
qed simp

lemma setupDeadLetterExchange_keeps:
  assumes "declares_keep B f"
  shows "f (snd (setupDeadLetterExchange B w)) = f w"
  unfolding setupDeadLetterExchange_def
  by (auto split: prod.splits sum.splits option.splits dest!: declares_keepD [OF assms])

lemma setup_declares_keep:
  assumes "declares_keep B f"
  shows "f (snd (setupExchangesAndQueues B w)) = f w"
  unfolding setupExchangesAndQueues_def
  using setupDeadLetterExchange_keeps [OF assms, of w] declare_queues_keeps [OF assms]
  by (auto split: prod.splits option.splits dest!: declares_keepD [OF assms])

text \<open>The same with the handles: what connecting again leaves alone.\<close>

definition topology_keeps :: "'w broker \<Rightarrow> ('w \<Rightarrow> 'a) \<Rightarrow> bool" where
  "topology_keeps B f \<longleftrightarrow>
     (\<forall>c w. f (bk_set_client B c w) = f w)
   \<and> (\<forall>u w r w'. bk_dial B u w = (r, w') \<longrightarrow> f w' = f w)
   \<and> (\<forall>c w r w'. bk_channel B c w = (r, w') \<longrightarrow> f w' = f w)
   \<and> (\<forall>c w. f (bk_close_conn B c w) = f w)
   \<and> (\<forall>c w. f (bk_close_chan B c w) = f w)
   \<and> (\<forall>c x a w r w'. bk_exchange_declare B c x a w = (r, w') \<longrightarrow> f w' = f w)
   \<and> (\<forall>c q t w r w'. bk_queue_declare B c q t w = (r, w') \<longrightarrow> f w' = f w)
   \<and> (\<forall>c q k x w r w'. bk_queue_bind B c q k x w = (r, w') \<longrightarrow> f w' = f w)"

lemma topology_keeps_cell:
  assumes "topology_keeps B f"
  shows "f (bk_set_client B c w) = f w" "f (bk_close_conn B cn w) = f w" "f (bk_close_chan B ch w) = f w"
  using assms unfolding topology_keeps_def by simp_all

lemma topology_keepsD:
  assumes "topology_keeps B f"
  shows "bk_dial B u w = (r1, w1) \<Longrightarrow> f w1 = f w" "bk_channel B cn w = (r2, w1) \<Longrightarrow> f w1 = f w"
    "bk_exchange_declare B ch x a w = (r4, w1) \<Longrightarrow> f w1 = f w"
    "bk_queue_declare B ch q t w = (r5, w1) \<Longrightarrow> f w1 = f w"
    "bk_queue_bind B ch q key x w = (r4, w1) \<Longrightarrow> f w1 = f w"
  using assms unfolding topology_keeps_def by simp_all

lemma topology_declares: "topology_keeps B f \<Longrightarrow> declares_keep B f"
  unfolding topology_keeps_def declares_keep_def by (elim conjE, intro conjI)

lemma setup_keeps:
  assumes "topology_keeps B f"
  shows "f (snd (setupExchangesAndQueues B w)) = f w"
  by (rule setup_declares_keep [OF topology_declares [OF assms]])

lemma topology_keeps_mail:
  assumes "broker_traces B tr"
  shows "topology_keeps B (mail tr)"
  unfolding topology_keeps_def using mail_cell [OF assms] mailD [OF assms] by blast

text \<open>A set-up that succeeds has declared exactly this, in this order.\<close>

definition queue_events :: "string \<times> string list \<Rightarrow> bk_event list" where
  "queue_events qk = (case qk of (q, ks) \<Rightarrow>
     QueueDeclared q (Some dlx_args) True # map (\<lambda>k. QueueBound q k TripExchange True) ks)"

definition setup_events :: "bk_event list" where
  "setup_events =
     [ExchangeDeclared DeadLetterExchange durable_topic True, QueueDeclared DeadLetterQueue None True,
      QueueBound DeadLetterQueue ''#'' DeadLetterExchange True,
      ExchangeDeclared TripExchange durable_topic True]
     @ concat (map queue_events trip_queues)"

lemma bind_keys_trace:
  assumes "broker_traces B tr"
  shows "bind_keys B n q ks x w = (None, w') \<Longrightarrow> tr w' = tr w @ map (\<lambda>k. QueueBound q k x True) ks"
  by (induction ks arbitrary: w)
     (auto split: prod.splits option.splits dest!: broker_traceD [OF assms])

lemma declareAndBindQueue_trace:
  assumes "broker_traces B tr" "declareAndBindQueue B q ks TripExchange w = (Returns None, w')"
  shows "tr w' = tr w @ queue_events (q, ks)"
  using assms(2) unfolding declareAndBindQueue_def queue_events_def
  by (auto split: prod.splits sum.splits dest!: broker_traceD [OF assms(1)] bind_keys_trace [OF assms(1)])

lemma declare_queues_trace:
  assumes "broker_traces B tr"
  shows "declare_queues B qs w = (Returns None, w') \<Longrightarrow> tr w' = tr w @ concat (map queue_events qs)"
proof (induction qs arbitrary: w)
  case (Cons qk qs)
  obtain q ks where qk: "qk = (q, ks)" by (cases qk)
  from Cons.prems obtain w1 where w1: "declareAndBindQueue B q ks TripExchange w = (Returns None, w1)"
    and rest: "declare_queues B qs w1 = (Returns None, w')"
    by (auto simp: qk bindo_Returns_iff split: option.splits)
  show ?case
    using declareAndBindQueue_trace [OF assms w1] Cons.IH [OF rest] by (simp add: qk)
qed simp

lemma setupDeadLetterExchange_trace:
  assumes "broker_traces B tr" "setupDeadLetterExchange B w = (None, w')"
  shows "tr w' = tr w @ take 3 setup_events"
  using assms(2) unfolding setupDeadLetterExchange_def setup_events_def
  by (auto split: prod.splits sum.splits option.splits dest!: broker_traceD [OF assms(1)])

lemma setup_trace:
  assumes "broker_traces B tr" "setupExchangesAndQueues B w = (Returns None, w')"
  shows "tr w' = tr w @ setup_events"
  using assms(2) unfolding setupExchangesAndQueues_def
  by (auto simp: setup_events_def split: prod.splits option.splits
           dest!: broker_traceD [OF assms(1)] declare_queues_trace [OF assms(1)]
             setupDeadLetterExchange_trace [OF assms(1)])

section \<open>Routes\<close>

text \<open>
  Topic routing of RabbitMQ on the words of a routing key: \<open>*\<close> stands for one word, \<open>#\<close>
  for any number of words.
\<close>

fun topic_match :: "string list \<Rightarrow> string list \<Rightarrow> bool" where
  "topic_match [] ws = (ws = [])"
| "topic_match (p # ps) [] = (p = ''#'' \<and> topic_match ps [])"
| "topic_match (p # ps) (w # ws) =
     (if p = ''#'' then topic_match ps (w # ws) \<or> topic_match (p # ps) ws
      else (p = ''*'' \<or> p = w) \<and> topic_match ps ws)"

definition routed :: "bk_event list \<Rightarrow> string \<Rightarrow> string \<Rightarrow> string list" where
  "routed evs exchange key =
     remdups (concat (map (\<lambda>e. case e of
        QueueBound q p x True \<Rightarrow>
          if x = exchange \<and> topic_match (split_char (CHR ''.'') p) (split_char (CHR ''.'') key) then [q] else []
      | _ \<Rightarrow> []) evs))"

text \<open>Who receives what, by routing key.\<close>

definition routing_table :: "(string \<times> string list) list" where
  "routing_table =
     [(TripEventCreated, [FindAvailableDriversQueue, NotifyTripCreatedQueue]),
      (TripEventDriverNotInterested, [FindAvailableDriversQueue]),
      (TripEventDriverAssigned, [NotifyDriverAssignQueue, DriverTripAssignedQueue]),
      (TripEventCompleted, [NotifyTripCompletedQueue]),
      (TripEventNoDriversFound, [NotifyDriverNoDriversFoundQueue]),
      (TripEventCancelled, [NotifyTripCancelledQueue]),
      (DriverCmdTripRequest, [DriverCmdTripRequestQueue]),
      (DriverCmdTripAccept, [DriverTripResponseQueue]),
      (DriverCmdTripDecline, [DriverTripResponseQueue]),
      (DriverCmdLocation, [DriverLocationUpdateQueue]),
      (DriverEventLocation, [NotifyRiderDriverLocationQueue]),
      (PaymentCmdCreateSession, [PaymentTripResponseQueue]),
      (PaymentEventSessionCreated, [NotifyPaymentSessionCreatedQueue]),
      (PaymentEventSuccess, [NotifyPaymentSuccessQueue]),
      (ChatCmdSend, [ChatCmdSendQueue]),
      (ChatEventDelivered, [ChatEventDeliveredQueue]),
      (PaymentEventFailed, []), (PaymentEventCancelled, []), (DriverCmdRegister, [])]"

lemma routing_table_ok: "list_all (\<lambda>(k, qs). routed setup_events TripExchange k = qs) routing_table"
  by code_simp

lemma routed_setup: "(k, qs) \<in> set routing_table \<Longrightarrow> routed setup_events TripExchange k = qs"
  using routing_table_ok by (auto simp: list_all_iff)

lemma routed_append: "set (routed (a @ b) x k) = set (routed a x k) \<union> set (routed b x k)"
  unfolding routed_def set_remdups map_append concat_append set_append by (rule refl)

text \<open>\<open>NewRabbitMQ\<close> that succeeds leaves exactly these routes behind, beside what was bound before.\<close>

lemma NewRabbitMQ_trace:
  assumes "broker_traces B tr" "NewRabbitMQ B uri w = (Returns (Inr r), w')"
  shows "tr w' = tr w @ setup_events"
  using assms(2) unfolding NewRabbitMQ_def
  by (auto simp: bindo_Returns_iff Let_def broker_trace_cell [OF assms(1)]
           split: prod.splits sum.splits option.splits
           dest!: broker_traceD [OF assms(1)] setup_trace [OF assms(1)])

section \<open>Publishing\<close>

lemma reopen_channel_keeps:
  assumes "topology_keeps B f"
  shows "f (snd (reopen_channel B w)) = f w"
  unfolding reopen_channel_def Let_def
  by (auto split: prod.splits sum.splits simp: topology_keeps_cell [OF assms] setup_keeps [OF assms]
           intro!: bindo_keeps [where f = "f"] dest!: topology_keepsD [OF assms])

lemma reconnect_keeps:
  assumes "topology_keeps B f"
  shows "f (snd (reconnect B w)) = f w"
  unfolding reconnect_def Let_def
  by (rule bindo_keeps [where f = "f"])
     (auto split: prod.splits sum.splits option.splits
           simp: topology_keeps_cell [OF assms] setup_keeps [OF assms] reopen_channel_keeps [OF assms]
           intro!: bindo_keeps [where f = "f"] dest!: topology_keepsD [OF assms])

lemma publish_keeps:
  assumes "topology_keeps B f" "\<And>c x k p w r w'. bk_publish B c x k p w = (r, w') \<Longrightarrow> f w' = f w"
  shows "f (snd (publish B x k m w)) = f w"
proof -
  obtain r w1 where p: "bk_publish B (rq_Channel (bk_client B w)) x k m w = (r, w1)" by fastforce
  obtain o2 w2 where c: "reconnect B w1 = (o2, w2)" by fastforce
  have w2: "f w2 = f w1" using reconnect_keeps [OF assms(1), of w1] c by simp
  obtain r3 w3 where q: "bk_publish B (rq_Channel (bk_client B w2)) x k m w2 = (r3, w3)" by fastforce
  show ?thesis
    using assms(2) [OF p] assms(2) [OF q] w2
    by (cases o2) (auto simp: publish_def p c q split: option.splits)
qed

text \<open>
  A publication that reports success put the message on the broker exactly once, and one that
  reports an error, panics or ends the process put nothing there, however the channel was repaired.
\<close>

lemma publish_mail:
  assumes "broker_traces B tr"
  shows "mail tr (snd (publish B x k m w)) =
           mail tr w @ (if fst (publish B x k m w) = Returns None then [Published x k m True] else [])"
proof -
  obtain r w1 where p: "bk_publish B (rq_Channel (bk_client B w)) x k m w = (r, w1)" by fastforce
  obtain o2 w2 where c: "reconnect B w1 = (o2, w2)" by fastforce
  have w2: "mail tr w2 = mail tr w1" using reconnect_keeps [OF topology_keeps_mail [OF assms], of w1] c by simp
  obtain r3 w3 where q: "bk_publish B (rq_Channel (bk_client B w2)) x k m w2 = (r3, w3)" by fastforce
  show ?thesis
    using mailD(7) [OF assms p] mailD(7) [OF assms q] w2
    by (cases o2) (auto simp: publish_def p c q split: option.splits)
qed

lemma publish_mailD:
  assumes "broker_traces B tr" "publish B x k m w = (r, w')"
  shows "mail tr w' = mail tr w @ (if r = Returns None then [Published x k m True] else [])"
  using publish_mail [OF assms(1), of x k m w] assms(2) by simp

text \<open>The message \<open>PublishMessage\<close> puts on the broker, when the envelope can be encoded.\<close>

definition envelope_publishing :: "'w runtime \<Rightarrow> raw \<Rightarrow> publishing" where
  "envelope_publishing rt body = (json_publishing body)\<lparr>p_Headers := Some (run_inject rt Map.empty)\<rparr>"

lemma PublishMessage_publish:
  "PublishMessage B rt k m w =
     (case marshal enc_amqp_message m of
        Inl e \<Rightarrow> (Returns (Some (errorf_v ''failed to marshal message'' e)), w)
      | Inr body \<Rightarrow> publish B TripExchange k (envelope_publishing rt body) w)"
  by (simp add: PublishMessage_def TracedPublisher_def json_publishing_def envelope_publishing_def
        split: sum.splits)

lemma PublishMessage_keeps:
  assumes "topology_keeps B f" "\<And>c x k p w r w'. bk_publish B c x k p w = (r, w') \<Longrightarrow> f w' = f w"
    and run: "PublishMessage B rt k m w = (r, w')"
  shows "f w' = f w"
proof (cases "marshal enc_amqp_message m")
  case (Inl e)
  then show ?thesis using run by (simp add: PublishMessage_publish)
next
  case (Inr b)
  have "f (snd (publish B TripExchange k (envelope_publishing rt b) w)) = f w"
    by (rule publish_keeps [OF assms(1,2)])
  then show ?thesis using run Inr by (simp add: PublishMessage_publish)
qed

lemma marshal_amqp_message:
  "marshal enc_amqp_message m =
     (case am_Data m of RawBad \<Rightarrow> Inl ErrJson
      | RawNil \<Rightarrow> Inr (RawJson (JObj [(''ownerId'', JStr (am_OwnerID m)), (''data'', JNull)]))
      | RawJson j \<Rightarrow> Inr (RawJson (JObj [(''ownerId'', JStr (am_OwnerID m)), (''data'', j)])))"
  by (simp add: marshal_def enc_amqp_message_def mem_str_def split: raw.splits)

text \<open>
  What the services rely on when they publish an event: a call that reports success has put the
  envelope under its routing key exactly once, any other call nothing. \<open>sent\<close> are the
  envelopes on the trip exchange so far; \<open>ok\<close> is what the provider needs of the broker.
\<close>

locale event_publisher =
  fixes pub :: "'w publisher" and sent :: "'w \<Rightarrow> (string \<times> raw) list" and ok :: bool
  assumes published: "ok \<Longrightarrow> pub k m w = (Returns None, w') \<Longrightarrow>
      \<exists>b. marshal enc_amqp_message m = Inr b \<and> sent w' = sent w @ [(k, b)]"
    and not_published: "ok \<Longrightarrow> pub k m w = (r, w') \<Longrightarrow> r \<noteq> Returns None \<Longrightarrow> sent w' = sent w"
begin

lemma sent_grows:
  assumes ok "pub k m w = (r, w')"
  shows "sent w' = sent w \<or> (\<exists>b. marshal enc_amqp_message m = Inr b \<and> sent w' = sent w @ [(k, b)])"
  using published [OF assms(1)] not_published [OF assms] assms(2) by (cases "r = Returns None") auto

lemma published_two:
  assumes ok "pub k m w = (Returns None, w1)" "pub k' m' w1 = (Returns None, w2)"
  shows "\<exists>b b'. marshal enc_amqp_message m = Inr b \<and> marshal enc_amqp_message m' = Inr b'
     \<and> sent w2 = sent w @ [(k, b), (k', b')]"
  using published [OF assms(1,2)] published [OF assms(1,3)] by auto

end

definition envelope_of :: "bk_event \<Rightarrow> (string \<times> raw) list" where
  "envelope_of e = (case e of
     Published x k p ok \<Rightarrow> if ok \<and> x = TripExchange then [(k, p_Body p)] else []
   | _ \<Rightarrow> [])"

definition sent_of :: "('w \<Rightarrow> bk_event list) \<Rightarrow> 'w \<Rightarrow> (string \<times> raw) list" where
  "sent_of tr w = concat (map envelope_of (tr w))"

lemma sent_of_mail: "sent_of tr w = concat (map envelope_of (mail tr w))"
proof -
  have "concat (map envelope_of es) = concat (map envelope_of (filter moves es))" for es
    by (induction es) (auto simp: envelope_of_def split: bk_event.splits)
  then show ?thesis by (simp add: sent_of_def mail_def)
qed

lemma PublishMessage_sent:
  assumes "broker_traces B tr" "PublishMessage B rt k m w = (r, w')"
  shows "r = Returns None \<Longrightarrow> \<exists>b. marshal enc_amqp_message m = Inr b \<and> sent_of tr w' = sent_of tr w @ [(k, b)]"
    and "r \<noteq> Returns None \<Longrightarrow> sent_of tr w' = sent_of tr w"
  using assms(2) publish_mailD [OF assms(1)]
  by (auto simp: PublishMessage_publish sent_of_mail envelope_of_def envelope_publishing_def
        json_publishing_def split: sum.splits)

interpretation rabbit: event_publisher "PublishMessage B rt" "sent_of tr" "broker_traces B tr" for B rt tr
  by unfold_locales (blast intro: PublishMessage_sent)+

section \<open>Consuming\<close>

text \<open>A handler that leaves the deliveries to the loop: it may publish, but settles nothing.\<close>

definition settles_nothing :: "('w \<Rightarrow> bk_event list) \<Rightarrow> 'w handler \<Rightarrow> bool" where
  "settles_nothing tr h \<longleftrightarrow>
     (\<forall>d w r w'. h d w = (r, w') \<longrightarrow> (\<exists>ms. mail tr w' = mail tr w @ ms \<and> (\<forall>m\<in>set ms. is_published m)))"

lemma attempts_mail:
  assumes "runtime_quiet rt tr" "settles_nothing tr h"
  shows "attempts rt h d ts w = (r, w') \<Longrightarrow>
           \<exists>ms. mail tr w' = mail tr w @ ms \<and> (\<forall>m\<in>set ms. is_published m)"
proof (induction ts arbitrary: w)
  case Nil
  then show ?case using assms(2) unfolding settles_nothing_def by simp
next
  case (Cons t ts)
  note wait = runtime_quietD(3) [OF mail_runtime [OF assms(1)]]
  obtain r1 w1 where h: "h d w = (r1, w1)" by fastforce
  then obtain ms where ms: "mail tr w1 = mail tr w @ ms" "\<forall>m\<in>set ms. is_published m"
    using assms(2) unfolding settles_nothing_def by metis
  obtain c w2 where c: "run_wait rt t w1 = (c, w2)" by fastforce
  have w2: "mail tr w2 = mail tr w1" by (rule wait [OF c])
  show ?case
  proof (cases "\<exists>e. r1 = Returns (Some e) \<and> c = None")
    case True
    then have "attempts rt h d ts w2 = (r, w')" using Cons.prems by (auto simp: h c)
    then obtain ms2 where "mail tr w' = mail tr w2 @ ms2" "\<forall>m\<in>set ms2. is_published m"
      using Cons.IH by blast
    then show ?thesis using ms w2 by (intro exI [of _ "ms @ ms2"]) auto
  next
    case False
    then have "w' = w1 \<or> w' = w2"
      using Cons.prems by (auto simp: h c split: outcome.splits option.splits)
    then show ?thesis using ms w2 by auto
  qed
qed

lemma WithBackoff_mail:
  assumes "runtime_quiet rt tr" "settles_nothing tr h" "WithBackoff rt DefaultConfig h d w = (r, w')"
  shows "\<exists>ms. mail tr w' = mail tr w @ ms \<and> (\<forall>m\<in>set ms. is_published m)"
  using assms(3) unfolding WithBackoff_default by (rule attempts_mail [OF assms(1,2)])

text \<open>How a delivery ends, by what the loop returns for it.\<close>

definition settled_by :: "delivery \<Rightarrow> goerror option \<Rightarrow> bk_event list \<Rightarrow> bool" where
  "settled_by d r ms \<longleftrightarrow>
     (case r of
        None \<Rightarrow> ms = [Settled (d_Tag d) Acked]
      | Some e \<Rightarrow>
          (\<exists>now. ms = [Published DeadLetterExchange (d_RoutingKey d) (dlq_publishing e d now) True,
                       Settled (d_Tag d) Acked])
          \<or> ms = [Settled (d_Tag d) (Rejected False)])"

lemma consume_delivery_settles:
  assumes B: "broker_traces B tr" and rt: "runtime_quiet rt tr" and h: "settles_nothing tr h"
    and run: "consume_delivery B rt h d w = (Returns r, w')"
  shows "\<exists>ms ends. mail tr w' = mail tr w @ ms @ ends \<and> (\<forall>m\<in>set ms. is_published m) \<and> settled_by d r ends"
proof -
  obtain err w1 where b: "WithBackoff rt DefaultConfig h d w = (Returns err, w1)"
    using run by (auto simp: consume_delivery_def bindo_Returns_iff)
  obtain ms where ms: "mail tr w1 = mail tr w @ ms" "\<forall>m\<in>set ms. is_published m"
    using WithBackoff_mail [OF rt h b] by blast
  note now = runtime_quietD(1) [OF mail_runtime [OF rt]]
  have "\<exists>ends. mail tr w' = mail tr w1 @ ends \<and> settled_by d r ends"
    using run unfolding consume_delivery_def b
    by (auto simp: settled_by_def bindo_Returns_iff split: option.splits prod.splits
             dest!: mailD [OF B] now publish_mailD [OF B])
  then show ?thesis using ms by (metis append.assoc)
qed

section \<open>The dead-letter worker\<close>

abbreviation headers_of :: "delivery \<Rightarrow> table" where
  "headers_of d \<equiv> (case d_Headers d of None \<Rightarrow> Map.empty | Some h \<Rightarrow> h)"

text \<open>What one turn of the worker does with a message, by its headers.\<close>

lemma dlq_step_discards:
  assumes "broker_traces B tr"
    and "header_string (headers_of msg) x_origin_exchange = '''' \<or>
         header_string (headers_of msg) x_original_routing_key = '''' \<or>
         5 <s header_count rt (headers_of msg) + 1"
  shows "mail tr (dlq_step B rt msg w) = mail tr w @ [Settled (d_Tag msg) Acked]"
proof -
  obtain e w1 where "bk_ack B (d_Tag msg) w = (e, w1)" by fastforce
  then show ?thesis
    using mailD(8) [OF assms(1)] assms(2) by (auto simp: dlq_step_def Let_def)
qed

lemma dlq_step_retries:
  assumes B: "broker_traces B tr" and rt: "runtime_quiet rt tr"
    and x: "header_string (headers_of msg) x_origin_exchange = x" "x \<noteq> ''''"
    and k: "header_string (headers_of msg) x_original_routing_key = k" "k \<noteq> ''''"
    and n: "header_count rt (headers_of msg) + 1 = n" "\<not> 5 <s n"
  shows "\<exists>now. mail tr (dlq_step B rt msg w) = mail tr w @
             [Published x k (retry_publishing
                (msg\<lparr>d_Headers := Some ((headers_of msg)(broker_retry_count \<mapsto> HI32 n))\<rparr>) now) True,
              Settled (d_Tag msg) Acked]
           \<or> mail tr (dlq_step B rt msg w) = mail tr w @ [Settled (d_Tag msg) (Nacked True)]"
proof -
  let ?msg = "msg\<lparr>d_Headers := Some ((headers_of msg)(broker_retry_count \<mapsto> HI32 n))\<rparr>"
  define w1 where "w1 = run_sleep rt (dlq_delay n) w"
  have w1: "mail tr w1 = mail tr w"
    unfolding w1_def by (rule runtime_quiet_sleep [OF mail_runtime [OF rt]])
  obtain now w2 where now: "run_now rt w1 = (now, w2)" by fastforce
  have w2: "mail tr w2 = mail tr w1" by (rule runtime_quietD(1) [OF mail_runtime [OF rt] now])
  obtain e w3 where p: "bk_publish B (rq_Channel (bk_client B w2)) x k (retry_publishing ?msg now) w2 = (e, w3)"
    by fastforce
  obtain e4 w4 where a: "bk_ack B (d_Tag msg) w3 = (e4, w4)" by fastforce
  obtain e5 w5 where na: "bk_nack B (d_Tag msg) True w3 = (e5, w5)" by fastforce
  show ?thesis
    using x k n mailD(7) [OF B p] mailD(8) [OF B a] mailD(9) [OF B na] w1 w2
    by (cases e) (auto simp: dlq_step_def Let_def retryDLQMessage_def now p a na w1_def [symmetric])
qed

text \<open>
  How a publication comes back as a delivery: the library writes an \<open>int\<close> of a header table
  as a 32-bit integer.
\<close>

fun on_wire :: "hval \<Rightarrow> hval" where
  "on_wire (HInt n) = HI32 (word_of_int n)"
| "on_wire v = v"

definition as_delivered :: "string \<Rightarrow> string \<Rightarrow> nat \<Rightarrow> publishing \<Rightarrow> delivery" where
  "as_delivered exchange key tag p =
     \<lparr>d_Headers = map_option (\<lambda>h k. map_option on_wire (h k)) (p_Headers p), d_Exchange = exchange,
      d_RoutingKey = key, d_ContentType = p_ContentType p, d_MessageId = p_MessageId p,
      d_CorrelationId = p_CorrelationId p, d_Type = p_Type p, d_Body = p_Body p, d_Tag = tag\<rparr>"

lemma as_delivered_simps [simp]:
  "d_Body (as_delivered x k t p) = p_Body p" "d_RoutingKey (as_delivered x k t p) = k"
  "d_Exchange (as_delivered x k t p) = x" "d_Tag (as_delivered x k t p) = t"
  by (simp_all add: as_delivered_def)

text \<open>
  One round: the consumer fails on the delivery and sends it to the dead-letter exchange, the
  worker takes it from there and publishes it again, and it is delivered once more.
\<close>

definition dead_letter :: "goerror \<Rightarrow> int \<Rightarrow> nat \<Rightarrow> delivery \<Rightarrow> delivery" where
  "dead_letter e now t d = as_delivered DeadLetterExchange (d_RoutingKey d) t (dlq_publishing e d now)"

inductive dlq_rounds ::
  "'w broker \<Rightarrow> 'w runtime \<Rightarrow> ('w \<Rightarrow> bk_event list) \<Rightarrow> delivery \<Rightarrow> nat \<Rightarrow> delivery \<Rightarrow> bool"
  for B rt tr d where
  rounds_0: "dlq_rounds B rt tr d 0 d"
| rounds_Suc:
    "\<lbrakk>dlq_rounds B rt tr d n d1;
      mail tr (dlq_step B rt (dead_letter e now t d1) w) = mail tr w @ [Published x k p True, s]\<rbrakk>
     \<Longrightarrow> dlq_rounds B rt tr d (Suc n) (as_delivered x k t' p)"

inductive_cases dlq_rounds_SucE: "dlq_rounds B rt tr d (Suc n) d'"

lemma dead_letter_headers:
  "headers_of (dead_letter e now t d) = (\<lambda>k. map_option on_wire (failure_headers e d k))"
  by (simp add: dead_letter_def as_delivered_def dlq_publishing_def)

lemma dead_letter_simps:
  "header_string (headers_of (dead_letter e now t d)) x_origin_exchange =
     (if d_Exchange d = '''' then TripExchange else d_Exchange d)"
  "header_string (headers_of (dead_letter e now t d)) x_original_routing_key = d_RoutingKey d"
  "headers_of (dead_letter e now t d) broker_retry_count =
     map_option on_wire (headers_of d broker_retry_count)"
  "d_Body (dead_letter e now t d) = d_Body d"
  unfolding dead_letter_headers
  by (auto simp: failure_headers_def header_string_def header_defs Let_def dead_letter_def
        as_delivered_def dlq_publishing_def split: option.splits)

text \<open>The count of a message that has not been to the worker, and of one that has.\<close>

definition count_is :: "nat \<Rightarrow> delivery \<Rightarrow> bool" where
  "count_is n d \<longleftrightarrow> headers_of d broker_retry_count = (if n = 0 then None else Some (HI32 (of_nat n)))"

lemma count_header: "count_is n d \<Longrightarrow> header_count rt (headers_of (dead_letter e now t d)) = of_nat n"
  by (simp add: count_is_def header_count_def dead_letter_simps split: if_splits)

lemma sless_count: "n \<le> 5 \<Longrightarrow> (5 <s (of_nat n + 1 :: 32 word)) = (n = 5)"
  by (cases "n = 0 \<or> n = 1 \<or> n = 2 \<or> n = 3 \<or> n = 4 \<or> n = 5") (auto simp: word_sless_alt)

text \<open>
  The worker's turn on a dead-lettered message of count \<open>n\<close>: dropped at 5, else at most one
  publication, to where it came from and with the count raised.
\<close>

lemma dlq_round:
  assumes B: "broker_traces B tr" and rt: "runtime_quiet rt tr"
    and n: "count_is n d" "n \<le> 5" and k: "d_RoutingKey d \<noteq> ''''"
    and pub: "mail tr (dlq_step B rt (dead_letter e now t d) w) = mail tr w @ [Published x key p True, s]"
  shows "n < 5 \<and> key = d_RoutingKey d \<and> x = (if d_Exchange d = '''' then TripExchange else d_Exchange d)
       \<and> p_Body p = d_Body d \<and> count_is (Suc n) (as_delivered x key t' p)"
proof -
  let ?m = "dead_letter e now t d"
  let ?x = "if d_Exchange d = '''' then TripExchange else d_Exchange d"
  have cnt: "header_count rt (headers_of ?m) = of_nat n" by (rule count_header [OF n(1)])
  have n5: "n \<noteq> 5"
  proof
    assume "n = 5"
    then have "mail tr (dlq_step B rt ?m w) = mail tr w @ [Settled (d_Tag ?m) Acked]"
      using cnt by (intro dlq_step_discards [OF B]) (simp add: word_sless_alt)
    then show False using pub by simp
  qed
  have sl: "\<not> 5 <s (of_nat n + 1 :: 32 word)" using n5 n(2) sless_count by auto
  have x: "?x \<noteq> ''''" by (simp add: TripExchange_def)
  obtain now' where "mail tr (dlq_step B rt ?m w) = mail tr w @
             [Published ?x (d_RoutingKey d) (retry_publishing
                (?m\<lparr>d_Headers := Some ((headers_of ?m)(broker_retry_count \<mapsto> HI32 (of_nat n + 1)))\<rparr>) now') True,
              Settled (d_Tag ?m) Acked]"
    using dlq_step_retries [OF B rt dead_letter_simps(1) x dead_letter_simps(2) k, of e now t "of_nat n + 1" w]
      cnt sl pub by auto
  then have "x = ?x" "key = d_RoutingKey d" "p = retry_publishing
                (?m\<lparr>d_Headers := Some ((headers_of ?m)(broker_retry_count \<mapsto> HI32 (of_nat n + 1)))\<rparr>) now'"
    using pub by auto
  then show ?thesis
    using n n5 by (simp add: retry_publishing_def as_delivered_def count_is_def dead_letter_simps add.commute)
qed

lemma dlq_rounds_bound:
  assumes B: "broker_traces B tr" and rt: "runtime_quiet rt tr"
    and d: "headers_of d broker_retry_count = None" "d_RoutingKey d \<noteq> ''''"
    and chain: "dlq_rounds B rt tr d n d'"
  shows "n \<le> 5 \<and> count_is n d' \<and> d_Body d' = d_Body d \<and> d_RoutingKey d' = d_RoutingKey d"
  using chain
proof (induction rule: dlq_rounds.induct)
  case rounds_0
  then show ?case using d by (simp add: count_is_def)
next
  case (rounds_Suc n d1 e now t w x k p s t')
  have IH: "n \<le> 5" "count_is n d1" "d_Body d1 = d_Body d" "d_RoutingKey d1 = d_RoutingKey d"
    using rounds_Suc.IH by auto
  have "d_RoutingKey d1 \<noteq> ''''" using IH(4) d(2) by simp
  from dlq_round [OF B rt IH(2,1) this rounds_Suc.hyps(2), of t'] IH show ?case
    by auto
qed

section \<open>Properties\<close>


lemma routed_Nil: "routed [] x k = []"
  by (simp add: routed_def)


text \<open>
  C6: \<open>PublishMessage\<close> puts the encoded envelope on the trip exchange exactly once when it
  returns no error, and not at all otherwise, even when the channel was lost in between and the
  client reconnected.
\<close>

theorem PublishMessage_once:
  assumes "broker_traces B tr" "PublishMessage B rt k m w = (r, w')"
  shows "mail tr w' = mail tr w @
     (case marshal enc_amqp_message m of
        Inl e \<Rightarrow> []
      | Inr body \<Rightarrow> if r = Returns None then [Published TripExchange k (envelope_publishing rt body) True] else [])"
  using assms(2) publish_mailD [OF assms(1)]
  by (auto simp: PublishMessage_publish split: sum.splits)

theorem PublishMessage_once_witness:
  "mail si_events (snd (PublishMessage sim_broker sim_runtime TripEventCreated
       \<lparr>am_OwnerID = ''u1'', am_Data = RawNil\<rparr> sim0)) =
     [Published TripExchange TripEventCreated (envelope_publishing (sim_runtime :: sim runtime)
        (RawJson (JObj [(''ownerId'', JStr ''u1''), (''data'', JNull)]))) True]"
proof -
  have r: "PublishMessage sim_broker sim_runtime TripEventCreated \<lparr>am_OwnerID = ''u1'', am_Data = RawNil\<rparr> sim0 =
    (Returns None, snd (PublishMessage sim_broker sim_runtime TripEventCreated
       \<lparr>am_OwnerID = ''u1'', am_Data = RawNil\<rparr> sim0))"
    by (simp add: PublishMessage_publish marshal_amqp_message publish_def sim_defs)
  show ?thesis
    using PublishMessage_once [OF sim_broker_traces r] by (simp add: marshal_amqp_message mail_def sim0_def)
qed


definition sample_delivery :: delivery where
  "sample_delivery = \<lparr>d_Headers = None, d_Exchange = TripExchange, d_RoutingKey = TripEventCreated,
     d_ContentType = '''', d_MessageId = '''', d_CorrelationId = '''', d_Type = '''',
     d_Body = RawBad, d_Tag = 7\<rparr>"

definition failing :: "'w handler" where
  "failing d w = (Returns (Some ErrJson), w)"

lemma settles_nothing_failing: "settles_nothing tr failing"
  by (simp add: settles_nothing_def failing_def)

lemma consume_failing:
  "consume_delivery sim_broker sim_runtime failing sample_delivery sim0 =
     (Returns (Some ErrJson), snd (consume_delivery sim_broker sim_runtime failing sample_delivery sim0))"
  by (simp add: consume_delivery_def WithBackoff_default failing_def publish_def sim_defs)


text \<open>
  C8: A message that comes fresh from \<open>PublishMessage\<close> and whose handler keeps failing goes
  through the dead-letter worker at most five times; each round keeps its body and routing key
  and counts in \<open>broker-retry-count\<close>.
\<close>

theorem poison_message_bounded:
  assumes "broker_traces B tr" "runtime_quiet rt tr"
    and "headers_of d broker_retry_count = None" "d_RoutingKey d \<noteq> ''''"
    and "dlq_rounds B rt tr d n d'"
  shows "n \<le> 5 \<and> count_is n d' \<and> d_Body d' = d_Body d \<and> d_RoutingKey d' = d_RoutingKey d"
  by (rule dlq_rounds_bound [OF assms])

lemma sample_round:
  "\<exists>p s. mail si_events (dlq_step sim_broker sim_runtime (dead_letter ErrJson 0 1 sample_delivery) sim0) =
     mail si_events sim0 @ [Published TripExchange TripEventCreated p True, s]"
proof -
  let ?m = "dead_letter ErrJson 0 1 sample_delivery"
  have "count_is 0 sample_delivery" by (simp add: count_is_def sample_delivery_def)
  then have c: "header_count (sim_runtime :: sim runtime) (headers_of ?m) + 1 = 1" by (simp add: count_header)
  show ?thesis
    unfolding dlq_step_def Let_def dead_letter_simps c
    by (simp add: sample_delivery_def TripExchange_def TripEventCreated_def retryDLQMessage_def
          sim_defs mail_def word_sless_alt)
qed

theorem poison_message_bounded_witness:
  "\<exists>d'. dlq_rounds sim_broker (sim_runtime :: sim runtime) si_events sample_delivery 1 d' \<and> count_is 1 d' \<and> d_Body d' = RawBad"
proof -
  obtain p s where p: "mail si_events (dlq_step sim_broker sim_runtime
      (dead_letter ErrJson 0 1 sample_delivery) sim0) =
      mail si_events sim0 @ [Published TripExchange TripEventCreated p True, s]"
    using sample_round by blast
  have r: "dlq_rounds sim_broker (sim_runtime :: sim runtime) si_events sample_delivery (Suc 0)
      (as_delivered TripExchange TripEventCreated 8 p)"
    by (rule rounds_Suc [OF rounds_0 p])
  have d: "headers_of sample_delivery broker_retry_count = None" "d_RoutingKey sample_delivery \<noteq> ''''"
    by (simp_all add: sample_delivery_def TripEventCreated_def)
  have rt: "runtime_quiet sim_runtime (si_events :: sim \<Rightarrow> bk_event list)" by simp
  show ?thesis
    using poison_message_bounded [OF sim_broker_traces rt d r] r
    by (intro exI [of _ "as_delivered TripExchange TripEventCreated 8 p"]) (simp add: sample_delivery_def)
qed

text \<open>
  C9: \<open>WithBackoff\<close> calls the operation until it succeeds, at most once more than
  \<open>MaxRetries\<close>, and waits before the k-th retry for the initial wait doubled k times, capped
  from the second retry on; the default gives waits of 1, 2 and 4 seconds.
\<close>

theorem WithBackoff_schedule:
  assumes "0 \<le> MaxRetries cfg" "0 \<le> sint (InitialWait cfg)" "sint (InitialWait cfg) < 2 ^ 62"
    and "0 \<le> sint (MaxWait cfg)" "sint (MaxWait cfg) < 2 ^ 62"
  shows "WithBackoff rt cfg h d w = attempts rt h d (backoff_waits cfg) w
       \<and> length (backoff_waits cfg) = nat (MaxRetries cfg)
       \<and> (\<forall>k < nat (MaxRetries cfg). sint (backoff_waits cfg ! k) =
            (if k = 0 then sint (InitialWait cfg)
             else min (2 ^ k * sint (InitialWait cfg)) (sint (MaxWait cfg))))
       \<and> backoff_waits DefaultConfig = [seconds 1, seconds 2, seconds 4]"
  using WithBackoff_attempts [OF assms(1)] waits_from_capped [OF _ assms(2-5)] DefaultConfig_waits
  by (simp add: backoff_waits_def)

theorem WithBackoff_schedule_witness:
  "WithBackoff sim_runtime DefaultConfig failing sample_delivery sim0 =
     attempts sim_runtime failing sample_delivery (backoff_waits DefaultConfig) sim0"
proof -
  have "0 \<le> MaxRetries DefaultConfig" "0 \<le> sint (InitialWait DefaultConfig)"
    "sint (InitialWait DefaultConfig) < 2 ^ 62" "0 \<le> sint (MaxWait DefaultConfig)"
    "sint (MaxWait DefaultConfig) < 2 ^ 62"
    by (simp_all add: DefaultConfig_def sint_seconds)
  from WithBackoff_schedule [OF this, of sim_runtime failing sample_delivery sim0] show ?thesis by simp
qed

text \<open>
  The dead-letter worker throws away a message that lacks the origin headers. The broker's
  own dead-lettering, which the consumer falls back on when it cannot publish to the dead-letter
  exchange, does not set them: such a message is acknowledged and lost.
\<close>

theorem rejected_message_lost:
  assumes "broker_traces B tr" "d_Headers msg = Some h" "h x_origin_exchange = None"
  shows "mail tr (dlq_step B rt msg w) = mail tr w @ [Settled (d_Tag msg) Acked]"
  using assms(2,3) by (intro dlq_step_discards [OF assms(1)]) (simp add: header_string_def)

theorem rejected_message_lost_witness:
  "mail si_events (dlq_step sim_broker sim_runtime
      (sample_delivery\<lparr>d_Headers := Some [''x-first-death-queue'' \<mapsto> HStr NotifyTripCreatedQueue]\<rparr>) sim0) =
   [Settled 7 Acked]"
  using rejected_message_lost [OF sim_broker_traces,
      where msg = "sample_delivery\<lparr>d_Headers := Some [''x-first-death-queue'' \<mapsto> HStr NotifyTripCreatedQueue]\<rparr>"
        and w = sim0 and rt = sim_runtime]
  by (simp add: x_origin_exchange_def mail_def sim0_events sample_delivery_def)

text \<open>
  The dead-letter job reports success without having drained anything: between the start of
  the consumer and the close of the connection \<open>main\<close> publishes and settles nothing, and
  does not wait.
\<close>

theorem dlq_worker_drains_nothing:
  assumes "broker_traces B tr" "runtime_quiet rt tr" "dlq_worker_main B rt w = (Returns (), w')"
  shows "tr w' = tr w @ setup_events @ [Consuming DeadLetterQueue True]"
proof -
  obtain uri rmq w1 where new: "NewRabbitMQ B uri w = (Returns (Inr rmq), w1)"
    and go: "(case StartDLQConsumer B rt w1 of ((Some e, _), w2) \<Rightarrow> (Exits, w2)
              | ((None, _), w2) \<Rightarrow> (Returns (), Close B w2)) = (Returns (), w')"
    using assms(3) unfolding dlq_worker_main_def bindo_Returns_iff Let_def
    by (fastforce split: sum.splits)
  have "tr w' = tr w1 @ [Consuming DeadLetterQueue True]"
    using go unfolding StartDLQConsumer_def
    by (auto simp: Close_def Let_def broker_trace_cell [OF assms(1)] split: prod.splits option.splits
             dest!: broker_traceD [OF assms(1)] runtime_quietD [OF assms(2)])
  then show ?thesis using NewRabbitMQ_trace [OF assms(1) new] by simp
qed

lemma sim_worker_main:
  "dlq_worker_main sim_broker sim_runtime sim0 = (Returns (), snd (dlq_worker_main sim_broker sim_runtime sim0))"
  by (simp add: dlq_worker_main_def StartDLQConsumer_def Close_def NewRabbitMQ_def setupExchangesAndQueues_def
        setupDeadLetterExchange_def trip_queues_def declareAndBindQueue_def sim_defs Let_def)

theorem dlq_worker_drains_nothing_witness:
  "si_events (snd (dlq_worker_main sim_broker sim_runtime sim0)) =
     setup_events @ [Consuming DeadLetterQueue True]"
  using dlq_worker_drains_nothing [OF sim_broker_traces _ sim_worker_main] by (simp add: sim0_events)

end
