(* ===== verification/RetryLoop.thy ===== *)
theory RetryLoop
  imports Retry RabbitMQ_Facts
begin

text \<open>
  The loop of \<open>WithBackoff\<close> (\<open>shared/retry/retry.go\<close>) with its counter at the width the
  machine gives it: \<open>attempt\<close> is a signed 64-bit \<open>int\<close> that wraps, and the loop is only as
  finite as its condition makes it. It returns, and returns what \<open>Retry.WithBackoff\<close> computes, for every
  \<open>MaxRetries\<close> but the largest one, for which the condition never becomes false.
\<close>

section \<open>The loop\<close>

partial_function (option) int_loop ::
  "'w runtime \<Rightarrow> retry_config \<Rightarrow> 'w handler \<Rightarrow> delivery \<Rightarrow> 64 word \<Rightarrow> duration \<Rightarrow> goerror option \<Rightarrow> 'w
     \<Rightarrow> (goerror option outcome \<times> 'w) option" where
  "int_loop rt cfg operation d attempt wait err w =
     (if attempt \<le>s word_of_int (MaxRetries cfg) then
        (case (if 0 <s attempt then run_wait rt wait w else (None, w)) of
           (Some e, w1) \<Rightarrow> Some (Returns (Some e), w1)
         | (None, w1) \<Rightarrow>
             (case operation d w1 of
                (Returns None, w2) \<Rightarrow> Some (Returns None, w2)
              | (Returns (Some e), w2) \<Rightarrow>
                  int_loop rt cfg operation d (attempt + 1)
                    (if 0 <s attempt then next_wait cfg wait else wait) (Some e) w2
              | (Panics, w2) \<Rightarrow> Some (Panics, w2)
              | (Exits, w2) \<Rightarrow> Some (Exits, w2)))
      else Some (Returns err, w))"

definition WithBackoff_int ::
  "'w runtime \<Rightarrow> retry_config \<Rightarrow> 'w handler \<Rightarrow> delivery \<Rightarrow> 'w \<Rightarrow> (goerror option outcome \<times> 'w) option" where
  "WithBackoff_int rt cfg operation d w = int_loop rt cfg operation d 0 (InitialWait cfg) None w"

section \<open>The counter below the largest number\<close>

lemma sint_of_int64: "sint (word_of_int k :: 64 word) = k" if "- (2 ^ 63) \<le> k" "k < 2 ^ 63"
proof -
  have "sint (word_of_int k :: 64 word) = signed_take_bit 63 k" by (subst sint_sbintrunc') simp
  also have "\<dots> = k" using that by (intro signed_take_bit_int_eq_self) simp_all
  finally show ?thesis .
qed

lemma sint_Suc64:
  assumes "sint (x :: 64 word) < 2 ^ 63 - 1"
  shows "sint (x + 1) = sint x + 1"
proof -
  have "- (2 ^ 63) \<le> sint x" using sint_greater_eq [of x] by simp
  then have "sint (word_of_int (sint x + 1) :: 64 word) = sint x + 1"
    using assms by (intro sint_of_int64) simp_all
  then show ?thesis by simp
qed

lemma int_loop_guard:
  assumes "- (2 ^ 63) \<le> m" "m < 2 ^ 63 - 1"
  shows "(attempt \<le>s (word_of_int m :: 64 word)) = (sint attempt \<le> m)"
proof -
  have "sint (word_of_int m :: 64 word) = m" using assms by (intro sint_of_int64) simp_all
  then show ?thesis by (simp only: word_sle_eq)
qed

text \<open>The measure: what is left of the attempts, which the wrap-around cannot reach.\<close>

lemma int_loop_backoff:
  assumes "n = nat (MaxRetries cfg + 1 - sint attempt)" "- (2 ^ 63) \<le> MaxRetries cfg"
    "MaxRetries cfg < 2 ^ 63 - 1" "0 \<le> sint attempt"
  shows "int_loop rt cfg operation d attempt wait err w
     = Some (backoff_loop rt cfg operation d (sint attempt) wait err w)"
  using assms
proof (induction n arbitrary: attempt wait err w)
  case (0 attempt wait err w)
  then have "\<not> sint attempt \<le> MaxRetries cfg" by simp
  moreover from this have "\<not> attempt \<le>s word_of_int (MaxRetries cfg)"
    using int_loop_guard [OF 0(2,3)] by blast
  ultimately show ?case
    by (subst int_loop.simps, subst backoff_loop.simps) (simp only: if_False)
next
  case (Suc n attempt wait err w)
  have le: "sint attempt \<le> MaxRetries cfg" using Suc.prems(1) by simp
  have g: "attempt \<le>s word_of_int (MaxRetries cfg)" using int_loop_guard [OF Suc.prems(2,3)] le by blast
  have pos: "(0 <s attempt) = (0 < sint attempt)" by (simp add: word_sless_alt)
  have s: "sint (attempt + 1) = sint attempt + 1" using le Suc.prems(3) by (intro sint_Suc64) simp
  have n: "n = nat (MaxRetries cfg + 1 - sint (attempt + 1))" "0 \<le> sint (attempt + 1)"
    unfolding s using Suc.prems(1,4) by linarith+
  have IH: "int_loop rt cfg operation d (attempt + 1) wt er v
     = Some (backoff_loop rt cfg operation d (sint attempt + 1) wt er v)" for wt er v
    using Suc.IH [OF n(1) Suc.prems(2,3) n(2), of wt er v] by (simp only: s)
  show ?case
    by (subst int_loop.simps, subst backoff_loop.simps)
       (simp add: le g pos IH Let_def split: prod.split option.split outcome.split)
qed

section \<open>The largest number\<close>

lemma below_max64: "x \<le>s (word_of_int (2 ^ 63 - 1) :: 64 word)"
proof -
  have "sint x < 2 ^ 63" using sint_less [of x] by simp
  then show ?thesis using sint_of_int64 [of "2 ^ 63 - 1"] by (simp add: word_sle_eq)
qed

lemma int_loop_forever:
  assumes "int_loop rt cfg operation d attempt wait err w = Some r"
  shows "MaxRetries cfg = 2 ^ 63 - 1 \<longrightarrow> (\<forall>d w. \<exists>e w'. operation d w = (Returns (Some e), w'))
     \<longrightarrow> (\<forall>t w. fst (run_wait rt t w) = None) \<longrightarrow> False"
proof (induction rt cfg operation d attempt wait err w r rule: int_loop.raw_induct)
  case 2
  show ?case by (rule assms)
next
  case (1 loop rt cfg operation d attempt wait err w r)
  show ?case
  proof (intro impI)
    assume m: "MaxRetries cfg = 2 ^ 63 - 1" and f: "\<forall>d w. \<exists>e w'. operation d w = (Returns (Some e), w')"
      and c: "\<forall>t w. fst (run_wait rt t w) = None"
    obtain w1 where w1: "(if 0 <s attempt then run_wait rt wait w else (None, w)) = (None, w1)"
      using c by (metis prod.collapse)
    obtain e w2 where "operation d w1 = (Returns (Some e), w2)" using f by blast
    with 1(2) w1 have "loop rt cfg operation d (attempt + 1)
        (if 0 <s attempt then next_wait cfg wait else wait) (Some e) w2 = Some r"
      using below_max64 by (simp only: m if_True prod.case option.case outcome.case)
    from 1(1) [OF this] m f c show False by blast
  qed
qed

text \<open>
  C40: Retrying terminates. For every retry limit an \<open>int\<close> can hold except the largest, the loop with
  its wrapping counter returns, with the outcome and the effects of \<open>WithBackoff\<close>; with the largest limit
  the condition \<open>attempt <= cfg.MaxRetries\<close> cannot fail, and an operation that keeps failing under a
  context that is never cancelled is retried for ever.
\<close>

theorem retry_terminates:
  assumes "- (2 ^ 63) \<le> MaxRetries cfg" "MaxRetries cfg < 2 ^ 63"
  shows "if MaxRetries cfg \<noteq> 2 ^ 63 - 1
     then WithBackoff_int rt cfg operation d w = Some (WithBackoff rt cfg operation d w)
     else (\<forall>d w. \<exists>e w'. operation d w = (Returns (Some e), w')) \<longrightarrow> (\<forall>t w. fst (run_wait rt t w) = None)
        \<longrightarrow> WithBackoff_int rt cfg operation d w = None"
proof (cases "MaxRetries cfg = 2 ^ 63 - 1")
  case True
  then show ?thesis
    using int_loop_forever [of rt cfg operation d 0 "InitialWait cfg" None w]
    by (cases "WithBackoff_int rt cfg operation d w") (auto simp only: WithBackoff_int_def if_False simp_thms)
next
  case False
  then have "int_loop rt cfg operation d 0 (InitialWait cfg) None w
     = Some (backoff_loop rt cfg operation d (sint (0 :: 64 word)) (InitialWait cfg) None w)"
    using assms by (intro int_loop_backoff [OF refl]) simp_all
  with False show ?thesis by (simp add: WithBackoff_int_def WithBackoff_def)
qed

definition patient :: "unit runtime" where
  "patient = \<lparr>run_now = \<lambda>w. (0, w), run_uuid = \<lambda>w. ('''', w), run_sleep = \<lambda>t w. w,
     run_wait = \<lambda>t w. (None, w), run_ctx = \<lambda>w. (None, w), run_rand = \<lambda>n w. (0, w), run_env = \<lambda>k w. None,
     run_int32 = \<lambda>x. 0, run_inject = \<lambda>t. t\<rparr>"

definition down :: "unit handler" where
  "down = (\<lambda>d w. (Returns (Some (ErrMsg ''down'')), w))"

lemma down_attempts: "attempts patient down d ts () = (Returns (Some (ErrMsg ''down'')), ())"
  by (induction ts) (simp_all add: patient_def down_def)

theorem retry_terminates_witness:
  "WithBackoff_int patient DefaultConfig down sample_delivery () = Some (Returns (Some (ErrMsg ''down'')), ())
   \<and> WithBackoff_int patient (DefaultConfig\<lparr>MaxRetries := 2 ^ 63 - 1\<rparr>) down sample_delivery () = None"
proof
  have "MaxRetries DefaultConfig = 3" by (simp add: DefaultConfig_def)
  then show "WithBackoff_int patient DefaultConfig down sample_delivery () = Some (Returns (Some (ErrMsg ''down'')), ())"
    using retry_terminates [of DefaultConfig patient down sample_delivery "()"]
    by (simp add: WithBackoff_default down_attempts del: attempts.simps)
  have "\<forall>d w. \<exists>e w'. down d w = (Returns (Some e), w')" "\<forall>t w. fst (run_wait patient t w) = None"
    by (simp_all add: down_def patient_def)
  then show "WithBackoff_int patient (DefaultConfig\<lparr>MaxRetries := 2 ^ 63 - 1\<rparr>) down sample_delivery () = None"
    using retry_terminates [of "DefaultConfig\<lparr>MaxRetries := 2 ^ 63 - 1\<rparr>" patient down sample_delivery "()"]
    by simp
qed

end
