(* ===== verification/ConnectionManager.thy ===== *)
theory ConnectionManager
  imports External
begin

text \<open>
  \<open>shared/messaging/connection_manager.go\<close>: the WebSocket connections of one gateway node, by
  socket and by user. Each operation that the code runs under \<open>cm.mu\<close> is one function on the
  state; \<open>SendToSocket\<close> and \<open>SendMessage\<close> also thread the world of the sockets. The
  invariant says that \<open>byUser\<close> is the reverse index of \<open>bySocket\<close>; the locale at the end is
  what the Redis manager relies on.
\<close>

section \<open>State and operations\<close>

record connRecord =
  cr_conn :: wsconn
  cr_userID :: string

record connection_manager =
  bySocket :: "string \<rightharpoonup> connRecord"
  byUser :: "string \<rightharpoonup> string list"

definition NewConnectionManager :: connection_manager where
  "NewConnectionManager = \<lparr>bySocket = Map.empty, byUser = Map.empty\<rparr>"

definition cm_Add :: "string \<Rightarrow> string \<Rightarrow> wsconn \<Rightarrow> connection_manager \<Rightarrow> connection_manager" where
  "cm_Add socketID userID conn cm =
     cm\<lparr>bySocket := (bySocket cm)(socketID \<mapsto> \<lparr>cr_conn = conn, cr_userID = userID\<rparr>),
        byUser := (byUser cm)(userID \<mapsto> set_insert socketID (map_set (byUser cm) userID))\<rparr>"

text \<open>The owner of the removed socket, or the empty string.\<close>

definition cm_Remove :: "string \<Rightarrow> connection_manager \<Rightarrow> string \<times> connection_manager" where
  "cm_Remove socketID cm =
     (case bySocket cm socketID of
        None \<Rightarrow> ('''', cm)
      | Some rec \<Rightarrow>
          (let userID = cr_userID rec;
               cm1 = cm\<lparr>bySocket := (bySocket cm)(socketID := None)\<rparr>
           in (userID,
               case byUser cm1 userID of
                 None \<Rightarrow> cm1
               | Some sockets \<Rightarrow>
                   (let sockets' = set_delete socketID sockets
                    in cm1\<lparr>byUser := (byUser cm1)(userID :=
                         (if sockets' = [] then None else Some sockets'))\<rparr>))))"

definition cm_HasUser :: "connection_manager \<Rightarrow> string \<Rightarrow> bool" where
  "cm_HasUser cm userID \<longleftrightarrow> length (map_set (byUser cm) userID) > 0"

definition cm_SendToSocket ::
  "'w websocket \<Rightarrow> string \<Rightarrow> ws_message \<Rightarrow> connection_manager \<Rightarrow> 'w
     \<Rightarrow> goerror option \<times> connection_manager \<times> 'w" where
  "cm_SendToSocket W socketID msg cm w =
     (case bySocket cm socketID of
        None \<Rightarrow> (Some ErrConnectionNotFound, cm, w)
      | Some rec \<Rightarrow>
          (case wc_write_json W (cr_conn rec) msg w of
             (None, w1) \<Rightarrow> (None, cm, w1)
           | (Some e, w1) \<Rightarrow> (Some e, snd (cm_Remove socketID cm), wc_close W (cr_conn rec) w1)))"

text \<open>The loop over the sockets read before it starts, with \<open>lastErr\<close>.\<close>

fun send_to_sockets ::
  "'w websocket \<Rightarrow> string list \<Rightarrow> ws_message \<Rightarrow> goerror option \<Rightarrow> connection_manager \<Rightarrow> 'w
     \<Rightarrow> goerror option \<times> connection_manager \<times> 'w" where
  "send_to_sockets W [] msg lastErr cm w = (lastErr, cm, w)"
| "send_to_sockets W (sid # sids) msg lastErr cm w =
     (case cm_SendToSocket W sid msg cm w of
        (None, cm1, w1) \<Rightarrow> send_to_sockets W sids msg lastErr cm1 w1
      | (Some e, cm1, w1) \<Rightarrow> send_to_sockets W sids msg (Some e) cm1 w1)"

definition cm_SendMessage ::
  "'w websocket \<Rightarrow> string \<Rightarrow> ws_message \<Rightarrow> connection_manager \<Rightarrow> 'w
     \<Rightarrow> goerror option \<times> connection_manager \<times> 'w" where
  "cm_SendMessage W userID msg cm w =
     (let socketIDs = map_set (byUser cm) userID
      in if length socketIDs = 0 then (Some ErrConnectionNotFound, cm, w)
         else send_to_sockets W socketIDs msg None cm w)"

section \<open>The reverse index\<close>

definition owner :: "connection_manager \<Rightarrow> string \<rightharpoonup> string" where
  "owner cm s = map_option cr_userID (bySocket cm s)"

definition cm_inv :: "connection_manager \<Rightarrow> bool" where
  "cm_inv cm \<longleftrightarrow>
     (\<forall>u. distinct (map_set (byUser cm) u) \<and> set (map_set (byUser cm) u) = {s. owner cm s = Some u})
   \<and> (\<forall>u. byUser cm u \<noteq> Some [])"

lemma cm_inv_new: "cm_inv NewConnectionManager"
  by (simp add: cm_inv_def NewConnectionManager_def owner_def)

lemma owner_Add: "owner (cm_Add s u c cm) = (owner cm)(s \<mapsto> u)"
  by (auto simp: owner_def cm_Add_def)

lemma owner_Remove: "owner (snd (cm_Remove s cm)) = (owner cm)(s := None)"
  by (auto simp: owner_def cm_Remove_def Let_def split: option.splits)

lemma bySocket_Remove: "bySocket (snd (cm_Remove s cm)) = (bySocket cm)(s := None)"
  by (auto simp: cm_Remove_def Let_def split: option.splits)

lemma fst_Remove: "fst (cm_Remove s cm) = (case owner cm s of None \<Rightarrow> '''' | Some u \<Rightarrow> u)"
  by (auto simp: owner_def cm_Remove_def Let_def split: option.splits)

lemma cm_inv_Add:
  assumes "cm_inv cm" "owner cm s = None"
  shows "cm_inv (cm_Add s u c cm)"
  using assms unfolding cm_inv_def owner_Add
  by (auto simp: cm_Add_def)

lemma map_set_Remove:
  "map_set (byUser (snd (cm_Remove s cm))) u =
     (if owner cm s = Some u then set_delete s (map_set (byUser cm) u) else map_set (byUser cm) u)"
  by (auto simp: cm_Remove_def owner_def map_set_def set_delete_def Let_def split: option.splits)

lemma cm_inv_Remove:
  assumes "cm_inv cm"
  shows "cm_inv (snd (cm_Remove s cm))"
proof -
  have "byUser (snd (cm_Remove s cm)) u \<noteq> Some []" for u
    using assms by (auto simp: cm_inv_def cm_Remove_def Let_def split: option.splits)
  moreover have "distinct (map_set (byUser (snd (cm_Remove s cm))) u)" for u
    using assms by (simp add: cm_inv_def map_set_Remove)
  moreover have "set (map_set (byUser (snd (cm_Remove s cm))) u) = {t. owner (snd (cm_Remove s cm)) t = Some u}" for u
    using assms unfolding map_set_Remove owner_Remove cm_inv_def by auto
  ultimately show ?thesis unfolding cm_inv_def by blast
qed

lemma cm_HasUser_iff:
  assumes "cm_inv cm"
  shows "cm_HasUser cm u \<longleftrightarrow> (\<exists>s. owner cm s = Some u)"
proof -
  have "set (map_set (byUser cm) u) = {s. owner cm s = Some u}"
    using assms unfolding cm_inv_def by simp
  then show ?thesis unfolding cm_HasUser_def length_greater_0_conv set_empty [symmetric] by auto
qed

lemma cm_inv_SendToSocket:
  assumes "cm_inv cm" "cm_SendToSocket W s m cm w = (e, cm', w')"
  shows "cm_inv cm'"
  using assms cm_inv_Remove by (auto simp: cm_SendToSocket_def split: option.splits prod.splits)

lemma cm_inv_send_to_sockets:
  "cm_inv cm \<Longrightarrow> send_to_sockets W ss m le cm w = (e, cm', w') \<Longrightarrow> cm_inv cm'"
proof (induction ss arbitrary: le cm w)
  case (Cons s ss)
  obtain e1 cm1 w1 where s: "cm_SendToSocket W s m cm w = (e1, cm1, w1)" by (metis prod_cases3)
  then show ?case
    using Cons cm_inv_SendToSocket [OF Cons.prems(1) s] by (cases e1) auto
qed simp

lemma cm_inv_SendMessage:
  "cm_inv cm \<Longrightarrow> cm_SendMessage W u m cm w = (e, cm', w') \<Longrightarrow> cm_inv cm'"
  by (auto simp: cm_SendMessage_def Let_def intro: cm_inv_send_to_sockets split: if_splits)


section \<open>Fan-out to the sockets of a user\<close>

text \<open>
  One write to each socket of the list, in order; the sockets whose write failed are closed and
  forgotten, and the call succeeds when every write did.
\<close>

lemma send_to_sockets_writes:
  assumes out: "socket_writes W out"
  shows "send_to_sockets W ss m le cm w = (e, cm', w') \<Longrightarrow> distinct ss \<Longrightarrow>
           \<forall>s\<in>set ss. bySocket cm s \<noteq> None \<Longrightarrow>
         \<exists>oks. length oks = length ss
           \<and> out w' = out w @ map (\<lambda>(s, ok). (cr_conn (the (bySocket cm s)), m, ok)) (zip ss oks)
           \<and> (e = None \<longleftrightarrow> le = None \<and> False \<notin> set oks)
           \<and> bySocket cm' = (\<lambda>s. if (s, False) \<in> set (zip ss oks) then None else bySocket cm s)"
proof (induction ss arbitrary: le cm w)
  case (Cons s ss)
  obtain rec where rec: "bySocket cm s = Some rec" using Cons.prems(3) by auto
  obtain r w1 where wr: "wc_write_json W (cr_conn rec) m w = (r, w1)" by fastforce
  define cm1 where "cm1 = (if r = None then cm else snd (cm_Remove s cm))"
  define w2 where "w2 = (if r = None then w1 else wc_close W (cr_conn rec) w1)"
  define le1 where "le1 = (if r = None then le else r)"
  have run: "send_to_sockets W ss m le1 cm1 w2 = (e, cm', w')"
    using Cons.prems(1) by (cases r) (auto simp: cm_SendToSocket_def rec wr cm1_def w2_def le1_def)
  have b1: "bySocket cm1 = (if r = None then bySocket cm else (bySocket cm)(s := None))"
    by (simp add: cm1_def bySocket_Remove)
  have same: "\<forall>t\<in>set ss. bySocket cm1 t = bySocket cm t" using Cons.prems(2) b1 by auto
  have "\<forall>t\<in>set ss. bySocket cm1 t \<noteq> None" using same Cons.prems(3) by simp
  moreover have "distinct ss" using Cons.prems(2) by simp
  ultimately obtain oks where oks: "length oks = length ss"
    "out w' = out w2 @ map (\<lambda>(t, ok). (cr_conn (the (bySocket cm1 t)), m, ok)) (zip ss oks)"
    "e = None \<longleftrightarrow> le1 = None \<and> False \<notin> set oks"
    "bySocket cm' = (\<lambda>t. if (t, False) \<in> set (zip ss oks) then None else bySocket cm1 t)"
    using Cons.IH [OF run] by blast
  have o2: "out w2 = out w @ [(cr_conn rec, m, r = None)]"
    using socket_writesD [OF out] wr by (auto simp: w2_def)
  have mp: "map (\<lambda>(t, ok). (cr_conn (the (bySocket cm1 t)), m, ok)) (zip ss oks) =
            map (\<lambda>(t, ok). (cr_conn (the (bySocket cm t)), m, ok)) (zip ss oks)"
    using same by (auto dest: set_zip_leftD)
  have o: "out w' = out w @ map (\<lambda>(t, ok). (cr_conn (the (bySocket cm t)), m, ok))
                             (zip (s # ss) ((r = None) # oks))"
    unfolding oks(2) mp o2 by (simp add: rec)
  show ?case
    using oks(1,3,4) b1 o
    by (intro exI [of _ "(r = None) # oks"]) (auto simp: le1_def fun_eq_iff)
qed simp

lemma SendMessage_writes:
  assumes "socket_writes W out" "cm_inv cm" "cm_SendMessage W u m cm w = (e, cm', w')"
  shows "\<exists>ss oks. distinct ss \<and> set ss = {s. owner cm s = Some u} \<and> length oks = length ss
           \<and> out w' = out w @ map (\<lambda>(s, ok). (cr_conn (the (bySocket cm s)), m, ok)) (zip ss oks)
           \<and> (e = None \<longleftrightarrow> ss \<noteq> [] \<and> False \<notin> set oks)
           \<and> bySocket cm' = (\<lambda>s. if (s, False) \<in> set (zip ss oks) then None else bySocket cm s)"
proof -
  let ?ss = "map_set (byUser cm) u"
  have ss: "distinct ?ss" "set ?ss = {s. owner cm s = Some u}"
    using assms(2) unfolding cm_inv_def by auto
  have reg: "\<forall>s\<in>set ?ss. bySocket cm s \<noteq> None" unfolding ss(2) owner_def by auto
  show ?thesis
  proof (cases "?ss = []")
    case True
    then show ?thesis
      using assms(3) ss by (intro exI [of _ ?ss] exI [of _ "[]"]) (auto simp: cm_SendMessage_def)
  next
    case False
    then have "send_to_sockets W ?ss m None cm w = (e, cm', w')"
      using assms(3) by (simp add: cm_SendMessage_def Let_def)
    from send_to_sockets_writes [OF assms(1) this ss(1) reg] ss False show ?thesis by blast
  qed
qed

section \<open>What the Redis manager relies on\<close>

locale socket_registry =
  fixes inv :: "'c \<Rightarrow> bool"
    and owned :: "'c \<Rightarrow> string \<rightharpoonup> string"
    and add :: "string \<Rightarrow> string \<Rightarrow> wsconn \<Rightarrow> 'c \<Rightarrow> 'c"
    and remove :: "string \<Rightarrow> 'c \<Rightarrow> string \<times> 'c"
    and has_user :: "'c \<Rightarrow> string \<Rightarrow> bool"
  assumes add_inv: "inv c \<Longrightarrow> owned c s = None \<Longrightarrow> inv (add s u k c)"
    and remove_inv: "inv c \<Longrightarrow> inv (snd (remove s c))"
    and owned_add: "owned (add s u k c) = (owned c)(s \<mapsto> u)"
    and owned_remove: "owned (snd (remove s c)) = (owned c)(s := None)"
    and removed_user: "fst (remove s c) = (case owned c s of None \<Rightarrow> '''' | Some u \<Rightarrow> u)"
    and has_user_iff: "inv c \<Longrightarrow> has_user c u \<longleftrightarrow> (\<exists>s. owned c s = Some u)"
begin

lemma has_user_add:
  assumes "inv c" "owned c s = None"
  shows "has_user (add s u k c) v \<longleftrightarrow> v = u \<or> has_user c v"
  using assms by (simp add: has_user_iff add_inv owned_add) (metis option.distinct(1))

lemma has_user_after_remove: "inv c \<Longrightarrow> has_user (snd (remove s c)) u \<Longrightarrow> has_user c u"
  by (auto simp: has_user_iff remove_inv owned_remove split: if_splits)

lemma removed_last:
  assumes "inv c" "has_user c u" "\<not> has_user (snd (remove s c)) u"
  shows "fst (remove s c) = u"
  using assms by (simp add: has_user_iff remove_inv owned_remove removed_user) (metis option.simps(5))

lemma remove_twice: "fst (remove s (snd (remove s c))) = ''''"
  by (simp add: removed_user owned_remove)

end

interpretation sockets: socket_registry cm_inv owner cm_Add cm_Remove cm_HasUser
  by unfold_locales
     (auto simp: cm_inv_Add cm_inv_Remove owner_Add owner_Remove fst_Remove cm_HasUser_iff)

end
