(* ===== verification/RedisCM.thy ===== *)
theory RedisCM
  imports ConnectionManager
begin

text \<open>
  \<open>shared/messaging/rcm.go\<close>: the manager of the WebSocket connections of a gateway node, with
  Redis channels between the nodes, rooms, the stream of messages a user has missed, and the
  rider/driver pair of a trip. Methods that change the manager take it after their arguments and
  return it updated. A goroutine a method starts is listed in its result; the goroutines that read
  a Redis channel handle one message after the other, each by \<open>user_subscription_step\<close> or
  \<open>room_subscription_step\<close>.
\<close>

section \<open>State\<close>

record rcm =
  localCM :: connection_manager
  userSubs :: "string \<rightharpoonup> sub"
  roomSubs :: "string \<rightharpoonup> sub"
  socketRooms :: "string \<rightharpoonup> string list"
  roomSockets :: "string \<rightharpoonup> string list"
  persisted :: "64 word"
  replayed :: "64 word"
  replayFails :: "64 word"

definition NewRedisConnectionManager :: rcm where
  "NewRedisConnectionManager = \<lparr>localCM = NewConnectionManager, userSubs = Map.empty,
     roomSubs = Map.empty, socketRooms = Map.empty, roomSockets = Map.empty,
     persisted = 0, replayed = 0, replayFails = 0\<rparr>"

datatype goroutine = RunUserSubscription string sub | RunRoomSubscription string sub | ReplayUserStream string

definition userEventStreamTTL :: duration where "userEventStreamTTL = hours 2"
definition userEventStreamMaxLen :: int where "userEventStreamMaxLen = 500"

definition userEventStreamKey :: "string \<Rightarrow> string" where
  "userEventStreamKey userID = ''user:'' @ userID @ '':stream''"

definition user_channel :: "string \<Rightarrow> string" where
  "user_channel userID = ''user:'' @ userID @ '':events''"

definition room_channel :: "string \<Rightarrow> string" where
  "room_channel roomID = ''room:'' @ roomID"

section \<open>Adding and removing sockets\<close>

text \<open>The part of \<open>Add\<close> under \<open>rcm.mu\<close>.\<close>

definition add_user_sub :: "'w redis \<Rightarrow> string \<Rightarrow> rcm \<Rightarrow> 'w \<Rightarrow> goroutine list \<times> rcm \<times> 'w" where
  "add_user_sub R userID rcm w =
     (case userSubs rcm userID of
        Some _ \<Rightarrow> ([], rcm, w)
      | None \<Rightarrow>
          (case rd_subscribe R (user_channel userID) w of
             (pubsub, w1) \<Rightarrow> ([RunUserSubscription userID pubsub],
                              rcm\<lparr>userSubs := (userSubs rcm)(userID \<mapsto> pubsub)\<rparr>, w1)))"

definition rcm_Add :: "'w redis \<Rightarrow> string \<Rightarrow> string \<Rightarrow> wsconn \<Rightarrow> rcm \<Rightarrow> 'w \<Rightarrow> goroutine list \<times> rcm \<times> 'w" where
  "rcm_Add R userID socketID conn rcm w =
     (case add_user_sub R userID (rcm\<lparr>localCM := cm_Add socketID userID conn (localCM rcm)\<rparr>) w of
        (gs, rcm1, w1) \<Rightarrow> (gs @ [ReplayUserStream userID], rcm1, w1))"

text \<open>
  Taking a socket out of the sockets of a room; the last one closes the room's subscription.
  \<open>Remove\<close> and \<open>LeaveRoom\<close> both contain this block.
\<close>

definition drop_from_room :: "'w redis \<Rightarrow> string \<Rightarrow> string \<Rightarrow> rcm \<Rightarrow> 'w \<Rightarrow> rcm \<times> 'w" where
  "drop_from_room R socketID roomID rcm w =
     (case roomSockets rcm roomID of
        None \<Rightarrow> (rcm, w)
      | Some sockets \<Rightarrow>
          (let sockets' = set_delete socketID sockets
           in if length sockets' = 0 then
                (let rcm1 = rcm\<lparr>roomSockets := (roomSockets rcm)(roomID := None)\<rparr>
                 in case roomSubs rcm1 roomID of
                      None \<Rightarrow> (rcm1, w)
                    | Some s \<Rightarrow> (rcm1\<lparr>roomSubs := (roomSubs rcm1)(roomID := None)\<rparr>, rd_unsubscribe R s w))
              else (rcm\<lparr>roomSockets := (roomSockets rcm)(roomID \<mapsto> sockets')\<rparr>, w)))"

fun drop_from_rooms :: "'w redis \<Rightarrow> string \<Rightarrow> string list \<Rightarrow> rcm \<Rightarrow> 'w \<Rightarrow> rcm \<times> 'w" where
  "drop_from_rooms R socketID [] rcm w = (rcm, w)"
| "drop_from_rooms R socketID (r # rs) rcm w =
     (case drop_from_room R socketID r rcm w of (rcm1, w1) \<Rightarrow> drop_from_rooms R socketID rs rcm1 w1)"

text \<open>The part of \<open>Remove\<close> under \<open>rcm.mu\<close>, for the user that \<open>localCM.Remove\<close> returned.\<close>

definition remove_socket_state :: "'w redis \<Rightarrow> string \<Rightarrow> string \<Rightarrow> rcm \<Rightarrow> 'w \<Rightarrow> rcm \<times> 'w" where
  "remove_socket_state R socketID userID rcm w =
     (case drop_from_rooms R socketID (map_set (socketRooms rcm) socketID) rcm w of
        (rcm1, w1) \<Rightarrow>
          (let rcm2 = rcm1\<lparr>socketRooms := (socketRooms rcm1)(socketID := None)\<rparr>
           in if userID \<noteq> '''' \<and> \<not> cm_HasUser (localCM rcm2) userID then
                (case userSubs rcm2 userID of
                   None \<Rightarrow> (rcm2, w1)
                 | Some s \<Rightarrow> (rcm2\<lparr>userSubs := (userSubs rcm2)(userID := None)\<rparr>, rd_unsubscribe R s w1))
              else (rcm2, w1)))"

definition rcm_Remove :: "'w redis \<Rightarrow> string \<Rightarrow> rcm \<Rightarrow> 'w \<Rightarrow> rcm \<times> 'w" where
  "rcm_Remove R socketID rcm w =
     (case cm_Remove socketID (localCM rcm) of
        (userID, cm) \<Rightarrow> remove_socket_state R socketID userID (rcm\<lparr>localCM := cm\<rparr>) w)"

section \<open>Rooms\<close>

definition JoinRoom :: "'w redis \<Rightarrow> string \<Rightarrow> string \<Rightarrow> rcm \<Rightarrow> 'w \<Rightarrow> goroutine list \<times> rcm \<times> 'w" where
  "JoinRoom R socketID roomID rcm w =
     (let rcm1 = rcm\<lparr>socketRooms := (socketRooms rcm)(socketID \<mapsto>
                       set_insert roomID (map_set (socketRooms rcm) socketID)),
                    roomSockets := (roomSockets rcm)(roomID \<mapsto>
                       set_insert socketID (map_set (roomSockets rcm) roomID))\<rparr>
      in case roomSubs rcm1 roomID of
           Some _ \<Rightarrow> ([], rcm1, w)
         | None \<Rightarrow>
             (case rd_subscribe R (room_channel roomID) w of
                (pubsub, w1) \<Rightarrow> ([RunRoomSubscription roomID pubsub],
                                 rcm1\<lparr>roomSubs := (roomSubs rcm1)(roomID \<mapsto> pubsub)\<rparr>, w1)))"

definition LeaveRoom :: "'w redis \<Rightarrow> string \<Rightarrow> string \<Rightarrow> rcm \<Rightarrow> 'w \<Rightarrow> rcm \<times> 'w" where
  "LeaveRoom R socketID roomID rcm w =
     (let rcm1 = (case socketRooms rcm socketID of
                    None \<Rightarrow> rcm
                  | Some rooms \<Rightarrow>
                      rcm\<lparr>socketRooms := (socketRooms rcm)(socketID \<mapsto> set_delete roomID rooms)\<rparr>)
      in drop_from_room R socketID roomID rcm1 w)"

fun leave_all :: "'w redis \<Rightarrow> string list \<Rightarrow> string \<Rightarrow> rcm \<Rightarrow> 'w \<Rightarrow> rcm \<times> 'w" where
  "leave_all R [] roomID rcm w = (rcm, w)"
| "leave_all R (s # ss) roomID rcm w =
     (case LeaveRoom R s roomID rcm w of (rcm1, w1) \<Rightarrow> leave_all R ss roomID rcm1 w1)"

definition LeaveUserFromRoom :: "'w redis \<Rightarrow> string \<Rightarrow> string \<Rightarrow> rcm \<Rightarrow> 'w \<Rightarrow> rcm \<times> 'w" where
  "LeaveUserFromRoom R userID roomID rcm w =
     (if userID = '''' \<or> roomID = '''' then (rcm, w)
      else leave_all R (map_set (byUser (localCM rcm)) userID) roomID rcm w)"

definition HasLocalUser :: "rcm \<Rightarrow> string \<Rightarrow> bool" where
  "HasLocalUser rcm userID = (if userID = '''' then False else cm_HasUser (localCM rcm) userID)"

fun deliver_to_sockets :: "'w websocket \<Rightarrow> string list \<Rightarrow> ws_message \<Rightarrow> rcm \<Rightarrow> 'w \<Rightarrow> rcm \<times> 'w" where
  "deliver_to_sockets W [] msg rcm w = (rcm, w)"
| "deliver_to_sockets W (s # ss) msg rcm w =
     (case cm_SendToSocket W s msg (localCM rcm) w of
        (_, cm, w1) \<Rightarrow> deliver_to_sockets W ss msg (rcm\<lparr>localCM := cm\<rparr>) w1)"

definition deliverToRoomLocally :: "'w websocket \<Rightarrow> string \<Rightarrow> ws_message \<Rightarrow> rcm \<Rightarrow> 'w \<Rightarrow> rcm \<times> 'w" where
  "deliverToRoomLocally W roomID msg rcm w = deliver_to_sockets W (map_set (roomSockets rcm) roomID) msg rcm w"

definition BroadcastToRoom :: "'w redis \<Rightarrow> string \<Rightarrow> ws_message \<Rightarrow> 'w \<Rightarrow> goerror option \<times> 'w" where
  "BroadcastToRoom R roomID msg w =
     (case marshal enc_ws_message msg of
        Inl e \<Rightarrow> (Some e, w)
      | Inr b \<Rightarrow>
          (case rd_publish R (room_channel roomID) b w of
             (Inl e, w1) \<Rightarrow> (Some e, w1)
           | (Inr n, w1) \<Rightarrow> (None, w1)))"

section \<open>Messages for a user\<close>

abbreviation read_ws :: "raw \<Rightarrow> ws_message res" where
  "read_ws payload \<equiv> unmarshal (dec_struct ws_message_fields) ws_message_zero payload"

text \<open>One message of a user's channel, and one of a room's.\<close>

definition user_subscription_step :: "'w websocket \<Rightarrow> string \<Rightarrow> raw \<Rightarrow> rcm \<Rightarrow> 'w \<Rightarrow> rcm \<times> 'w" where
  "user_subscription_step W userID payload rcm w =
     (case read_ws payload of
        Inl e \<Rightarrow> (rcm, w)
      | Inr wsMsg \<Rightarrow>
          (case cm_SendMessage W userID wsMsg (localCM rcm) w of
             (_, cm, w1) \<Rightarrow> (rcm\<lparr>localCM := cm\<rparr>, w1)))"

definition room_subscription_step :: "'w websocket \<Rightarrow> string \<Rightarrow> raw \<Rightarrow> rcm \<Rightarrow> 'w \<Rightarrow> rcm \<times> 'w" where
  "room_subscription_step W roomID payload rcm w =
     (case read_ws payload of
        Inl e \<Rightarrow> (rcm, w)
      | Inr wsMsg \<Rightarrow> deliverToRoomLocally W roomID wsMsg rcm w)"

definition persistUserMessage ::
  "'w redis \<Rightarrow> string \<Rightarrow> ws_message \<Rightarrow> rcm \<Rightarrow> 'w \<Rightarrow> goerror option \<times> rcm \<times> 'w" where
  "persistUserMessage R userID msg rcm w =
     (case marshal enc_ws_message msg of
        Inl e \<Rightarrow> (Some e, rcm, w)
      | Inr payload \<Rightarrow>
          (let key = userEventStreamKey userID
           in case rd_xadd R key userEventStreamMaxLen payload w of
                (Some e, w1) \<Rightarrow> (Some e, rcm, w1)
              | (None, w1) \<Rightarrow>
                  (case rd_expire R key userEventStreamTTL w1 of
                     (_, w2) \<Rightarrow> (None, rcm\<lparr>persisted := persisted rcm + 1\<rparr>, w2))))"

text \<open>
  The loop over the entries of the stream: the identifiers to delete, the number delivered, and
  the manager. An entry that cannot be read is dropped, a failed delivery ends the loop.
\<close>

fun replay_loop ::
  "'w websocket \<Rightarrow> string \<Rightarrow> stream_entry list \<Rightarrow> rcm \<Rightarrow> 'w \<Rightarrow> (string list \<times> nat) \<times> rcm \<times> 'w" where
  "replay_loop W userID [] rcm w = (([], 0), rcm, w)"
| "replay_loop W userID (entry # entries) rcm w =
     (case (case se_Values entry ''payload'' of
              Some (Some payload) \<Rightarrow> read_ws payload
            | _ \<Rightarrow> Inl ErrJson) of
        Inl e \<Rightarrow>
          (case replay_loop W userID entries rcm w of
             ((acked, n), rcm1, w1) \<Rightarrow> ((se_ID entry # acked, n), rcm1, w1))
      | Inr wsMsg \<Rightarrow>
          (case cm_SendMessage W userID wsMsg (localCM rcm) w of
             (Some e, cm, w1) \<Rightarrow>
               (([], 0), rcm\<lparr>localCM := cm, replayFails := replayFails rcm + 1\<rparr>, w1)
           | (None, cm, w1) \<Rightarrow>
               (case replay_loop W userID entries (rcm\<lparr>localCM := cm\<rparr>) w1 of
                  ((acked, n), rcm2, w2) \<Rightarrow> ((se_ID entry # acked, n + 1), rcm2, w2))))"

definition replayUserStream :: "'w redis \<Rightarrow> 'w websocket \<Rightarrow> string \<Rightarrow> rcm \<Rightarrow> 'w \<Rightarrow> rcm \<times> 'w" where
  "replayUserStream R W userID rcm w =
     (let key = userEventStreamKey userID
      in case rd_xrange R key w of
           (Inl e, w1) \<Rightarrow> (rcm\<lparr>replayFails := replayFails rcm + 1\<rparr>, w1)
         | (Inr entries, w1) \<Rightarrow>
             (if length entries = 0 then (rcm, w1)
              else (case replay_loop W userID entries rcm w1 of
                      ((acked, n), rcm2, w2) \<Rightarrow>
                        (case (if length acked > 0 then rd_xdel R key acked w2 else (None, w2)) of
                           (e, w3) \<Rightarrow>
                             (let rcm3 = (case e of None \<Rightarrow> rcm2
                                          | Some _ \<Rightarrow> rcm2\<lparr>replayFails := replayFails rcm2 + 1\<rparr>)
                              in (rcm3\<lparr>replayed := replayed rcm3 + of_nat n\<rparr>, w3))))))"

definition rcm_SendMessage ::
  "'w redis \<Rightarrow> 'w websocket \<Rightarrow> string \<Rightarrow> ws_message \<Rightarrow> rcm \<Rightarrow> 'w \<Rightarrow> goerror option \<times> rcm \<times> 'w" where
  "rcm_SendMessage R W userID msg rcm w =
     (case cm_SendMessage W userID msg (localCM rcm) w of
        (None, cm, w1) \<Rightarrow> (None, rcm\<lparr>localCM := cm\<rparr>, w1)
      | (Some _, cm, w1) \<Rightarrow>
          (let rcm1 = rcm\<lparr>localCM := cm\<rparr>
           in case marshal enc_ws_message msg of
                Inl e \<Rightarrow> (Some e, rcm1, w1)
              | Inr b \<Rightarrow>
                  (case rd_publish R (user_channel userID) b w1 of
                     (Inl e, w2) \<Rightarrow> (Some e, rcm1, w2)
                   | (Inr receivedBy, w2) \<Rightarrow>
                       if receivedBy = 0 then persistUserMessage R userID msg rcm1 w2
                       else (None, rcm1, w2))))"

section \<open>The pair of a trip\<close>

definition tripChatRiderKey :: "string \<Rightarrow> string" where
  "tripChatRiderKey tripID = ''trip:'' @ tripID @ '':chat:rider''"
definition tripChatDriverKey :: "string \<Rightarrow> string" where
  "tripChatDriverKey tripID = ''trip:'' @ tripID @ '':chat:driver''"
definition activeRiderKey :: "string \<Rightarrow> string" where
  "activeRiderKey driverID = ''driver:'' @ driverID @ '':active_rider''"
definition activeDriverKey :: "string \<Rightarrow> string" where
  "activeDriverKey riderID = ''rider:'' @ riderID @ '':active_driver''"

lemmas chat_key_defs = tripChatRiderKey_def tripChatDriverKey_def activeRiderKey_def activeDriverKey_def

definition SetTripChatPair :: "'w redis \<Rightarrow> string \<Rightarrow> string \<Rightarrow> string \<Rightarrow> duration \<Rightarrow> 'w \<Rightarrow> goerror option \<times> 'w" where
  "SetTripChatPair R tripID riderID driverID ttl w =
     (if tripID = '''' \<or> riderID = '''' \<or> driverID = ''''
      then (Some (ErrMsg ''tripID, riderID and driverID are required''), w)
      else rd_exec R [CmdSet (tripChatRiderKey tripID) riderID ttl,
                      CmdSet (tripChatDriverKey tripID) driverID ttl] w)"

definition ResolveTripChatPeer :: "'w redis \<Rightarrow> string \<Rightarrow> string \<Rightarrow> 'w \<Rightarrow> string res \<times> 'w" where
  "ResolveTripChatPeer R tripID senderID w =
     (if tripID = '''' \<or> senderID = '''' then (Inl (ErrMsg ''tripID and senderID are required''), w)
      else (case rd_mget R [tripChatRiderKey tripID, tripChatDriverKey tripID] w of
              (Inl e, w1) \<Rightarrow> (Inl e, w1)
            | (Inr values, w1) \<Rightarrow>
                (case (values ! 0, values ! 1) of
                   (Some riderID, Some driverID) \<Rightarrow>
                     (if riderID = '''' \<or> driverID = '''' then (Inl ErrTripChatPairNotFound, w1)
                      else if senderID = riderID then (Inr driverID, w1)
                      else if senderID = driverID then (Inr riderID, w1)
                      else (Inl ErrTripChatUnauthorized, w1))
                 | _ \<Rightarrow> (Inl ErrTripChatPairNotFound, w1))))"

definition ClearTripChatPair :: "'w redis \<Rightarrow> string \<Rightarrow> 'w \<Rightarrow> goerror option \<times> 'w" where
  "ClearTripChatPair R tripID w =
     (if tripID = '''' then (Some (ErrMsg ''tripID is required''), w)
      else (case rd_mget R [tripChatRiderKey tripID, tripChatDriverKey tripID] w of
              (Inl e, w1) \<Rightarrow> (Some e, w1)
            | (Inr values, w1) \<Rightarrow>
                (let str = (\<lambda>v. case v of Some s \<Rightarrow> s | None \<Rightarrow> '''');
                     riderID = (if length values \<ge> 2 then str (values ! 0) else '''');
                     driverID = (if length values \<ge> 2 then str (values ! 1) else '''')
                 in rd_exec R ([CmdDel [tripChatRiderKey tripID, tripChatDriverKey tripID]]
                       @ (if riderID \<noteq> '''' then [CmdDel [activeDriverKey riderID]] else [])
                       @ (if driverID \<noteq> '''' then [CmdDel [activeRiderKey driverID]] else [])) w1)))"

definition GetActiveDriver :: "'w redis \<Rightarrow> string \<Rightarrow> 'w \<Rightarrow> string res \<times> 'w" where
  "GetActiveDriver R riderID w =
     (if riderID = '''' then (Inl (ErrMsg ''riderID is required''), w)
      else (case rd_get R (activeDriverKey riderID) w of
              (Inr driverID, w1) \<Rightarrow> (Inr driverID, w1)
            | (Inl e, w1) \<Rightarrow> if e = RedisNil then (Inr '''', w1) else (Inl e, w1)))"

end
