(* ===== verification/RedisCM_Facts.thy ===== *)
theory RedisCM_Facts
  imports RedisCM Reference
begin

text \<open>
  What \<open>rcm.go\<close> keeps and achieves: the two room indices agree, a user with a socket is
  subscribed to the user's channel under every interleaving of the locked sections, what a replay
  removes from a user's stream, and the rider/driver pair of a trip in Redis. Three theorems
  show how the manager goes wrong after a failed write.
\<close>

section \<open>The room indices\<close>

definition room_inv :: "rcm \<Rightarrow> bool" where
  "room_inv rcm \<longleftrightarrow>
     (\<forall>r s. s \<in> set (map_set (roomSockets rcm) r) \<longleftrightarrow> r \<in> set (map_set (socketRooms rcm) s))
   \<and> (\<forall>r. roomSockets rcm r \<noteq> Some [])
   \<and> (\<forall>r. roomSubs rcm r = None \<longleftrightarrow> roomSockets rcm r = None)"

lemma room_inv_new: "room_inv NewRedisConnectionManager"
  by (simp add: room_inv_def NewRedisConnectionManager_def)

lemma room_inv_localCM [simp]: "room_inv (rcm\<lparr>localCM := cm\<rparr>) = room_inv rcm"
  by (simp add: room_inv_def)

lemma room_inv_userSubs [simp]: "room_inv (rcm\<lparr>userSubs := us\<rparr>) = room_inv rcm"
  by (simp add: room_inv_def)

lemma room_inv_Join:
  assumes "room_inv rcm" "JoinRoom R s r rcm w = (gs, rcm', w')"
  shows "room_inv rcm'"
  using assms unfolding room_inv_def JoinRoom_def Let_def
  by (auto split: option.splits prod.splits if_splits) (metis option.distinct(1))

lemma drop_from_room_fields:
  assumes "drop_from_room R s r rcm w = (rcm', w')"
  shows "socketRooms rcm' = socketRooms rcm" "localCM rcm' = localCM rcm" "userSubs rcm' = userSubs rcm"
  using assms by (auto simp: drop_from_room_def Let_def split: option.splits if_splits)

text \<open>Dropping a socket from one room, seen by the other index.\<close>

definition rooms_but :: "string \<Rightarrow> string set \<Rightarrow> rcm \<Rightarrow> bool" where
  "rooms_but s rs rcm \<longleftrightarrow>
     (\<forall>r t. t \<in> set (map_set (roomSockets rcm) r) \<longleftrightarrow>
              r \<in> set (map_set (socketRooms rcm) t) \<and> \<not> (t = s \<and> r \<in> rs))
   \<and> (\<forall>r. roomSockets rcm r \<noteq> Some [])
   \<and> (\<forall>r. roomSubs rcm r = None \<longleftrightarrow> roomSockets rcm r = None)"

lemma rooms_but_empty: "rooms_but s {} rcm = room_inv rcm"
  by (simp add: rooms_but_def room_inv_def)

lemma map_set_drop:
  assumes "drop_from_room R s r rcm w = (rcm', w')"
  shows "map_set (roomSockets rcm') q =
           (if q = r then set_delete s (map_set (roomSockets rcm) r) else map_set (roomSockets rcm) q)"
  using assms unfolding drop_from_room_def Let_def
  by (auto simp: map_set_def set_delete_def split: option.splits if_splits)

lemma rooms_but_drop:
  assumes inv: "rooms_but s rs rcm" and run: "drop_from_room R s r rcm w = (rcm', w')"
  shows "rooms_but s (insert r rs) rcm'"
proof -
  have "roomSockets rcm' q \<noteq> Some []" for q
    using inv run unfolding rooms_but_def drop_from_room_def Let_def
    by (auto split: option.splits if_splits)
  moreover have "roomSubs rcm' q = None \<longleftrightarrow> roomSockets rcm' q = None" for q
    using inv run unfolding rooms_but_def drop_from_room_def Let_def
    by (auto split: option.splits if_splits)
  moreover have "t \<in> set (map_set (roomSockets rcm') q) \<longleftrightarrow>
      q \<in> set (map_set (socketRooms rcm') t) \<and> \<not> (t = s \<and> q \<in> insert r rs)" for q t
    using inv unfolding map_set_drop [OF run] drop_from_room_fields [OF run] rooms_but_def by auto
  ultimately show ?thesis unfolding rooms_but_def by blast
qed

lemma rooms_but_drops:
  "rooms_but s rs rcm \<Longrightarrow> drop_from_rooms R s qs rcm w = (rcm', w') \<Longrightarrow> rooms_but s (rs \<union> set qs) rcm'"
proof (induction qs arbitrary: rs rcm w)
  case (Cons q qs)
  obtain rcm1 w1 where d: "drop_from_room R s q rcm w = (rcm1, w1)" by fastforce
  from Cons.IH [OF rooms_but_drop [OF Cons.prems(1) d]] Cons.prems(2) d show ?case
    by simp
qed simp

lemma drop_from_rooms_fields:
  "drop_from_rooms R s qs rcm w = (rcm', w') \<Longrightarrow>
     socketRooms rcm' = socketRooms rcm \<and> localCM rcm' = localCM rcm \<and> userSubs rcm' = userSubs rcm"
proof (induction qs arbitrary: rcm w)
  case (Cons q qs)
  obtain rcm1 w1 where d: "drop_from_room R s q rcm w = (rcm1, w1)" by fastforce
  from Cons.IH [of rcm1 w1] Cons.prems d drop_from_room_fields [OF d] show ?case by simp
qed simp

lemma room_inv_Leave:
  assumes "room_inv rcm" "LeaveRoom R s r rcm w = (rcm', w')"
  shows "room_inv rcm'"
proof -
  define rcm1 where "rcm1 = (case socketRooms rcm s of None \<Rightarrow> rcm
      | Some rooms \<Rightarrow> rcm\<lparr>socketRooms := (socketRooms rcm)(s \<mapsto> set_delete r rooms)\<rparr>)"
  have run: "drop_from_room R s r rcm1 w = (rcm', w')"
    using assms(2) unfolding LeaveRoom_def Let_def rcm1_def by simp
  have rs: "roomSockets rcm1 = roomSockets rcm" "roomSubs rcm1 = roomSubs rcm"
    unfolding rcm1_def by (auto split: option.splits)
  have sr: "map_set (socketRooms rcm1) t =
      (if t = s then set_delete r (map_set (socketRooms rcm) s) else map_set (socketRooms rcm) t)" for t
    unfolding rcm1_def by (auto simp: map_set_def set_delete_def split: option.splits)
  have inv1: "\<forall>q. roomSockets rcm1 q \<noteq> Some []"
    "\<forall>q. roomSubs rcm1 q = None \<longleftrightarrow> roomSockets rcm1 q = None"
    using assms(1) unfolding rs room_inv_def by auto
  have "roomSockets rcm' q \<noteq> Some []" for q
    using inv1 run unfolding drop_from_room_def Let_def by (auto split: option.splits if_splits)
  moreover have "roomSubs rcm' q = None \<longleftrightarrow> roomSockets rcm' q = None" for q
    using inv1 run unfolding drop_from_room_def Let_def by (auto split: option.splits if_splits)
  moreover have "t \<in> set (map_set (roomSockets rcm') q) \<longleftrightarrow> q \<in> set (map_set (socketRooms rcm') t)" for q t
    using assms(1) unfolding map_set_drop [OF run] drop_from_room_fields [OF run] sr rs room_inv_def by auto
  ultimately show ?thesis unfolding room_inv_def by blast
qed

lemma remove_socket_state_localCM:
  "remove_socket_state R s u rcm w = (rcm', w') \<Longrightarrow> localCM rcm' = localCM rcm"
  unfolding remove_socket_state_def
  by (auto simp: Let_def split: prod.splits option.splits if_splits dest!: drop_from_rooms_fields)

lemma remove_socket_state_userSubs:
  assumes "remove_socket_state R s u rcm w = (rcm', w')"
  shows "userSubs rcm' =
    (if u \<noteq> '''' \<and> \<not> cm_HasUser (localCM rcm) u then (userSubs rcm)(u := None) else userSubs rcm)"
  using assms unfolding remove_socket_state_def
  by (auto simp: Let_def fun_eq_iff split: prod.splits option.splits if_splits dest!: drop_from_rooms_fields)

lemma room_inv_remove:
  assumes "room_inv rcm" "remove_socket_state R s u rcm w = (rcm', w')"
  shows "room_inv rcm'"
proof -
  obtain rcm1 w1 where d: "drop_from_rooms R s (map_set (socketRooms rcm) s) rcm w = (rcm1, w1)"
    by fastforce
  have b: "rooms_but s (set (map_set (socketRooms rcm) s)) rcm1"
    using rooms_but_drops [OF assms(1) [folded rooms_but_empty [of s]] d] by simp
  note f = drop_from_rooms_fields [OF d]
  define rcm2 where "rcm2 = rcm1\<lparr>socketRooms := (socketRooms rcm1)(s := None)\<rparr>"
  have inv2: "room_inv rcm2"
    using b f unfolding room_inv_def rooms_but_def rcm2_def by auto
  have "rcm' = rcm2 \<or> (\<exists>us. rcm' = rcm2\<lparr>userSubs := us\<rparr>)"
    using assms(2) unfolding remove_socket_state_def d rcm2_def
    by (auto simp: Let_def split: option.splits if_splits)
  then show ?thesis using inv2 by auto
qed

section \<open>A node under concurrent requests\<close>

text \<open>
  The state of a node between the sections its goroutines run under a lock: the manager, the
  sockets with their users whose \<open>Add\<close> has registered the socket and not yet taken
  \<open>rcm.mu\<close>, those whose \<open>Remove\<close> has unregistered the socket and not yet taken it, and
  the world. Identifiers of sockets are fresh (they are UUIDs), users are not empty (the handlers
  of the gateway refuse requests without one), and a handler removes its socket after its
  \<open>Add\<close> has returned. \<open>faults\<close> allows writes to fail, after which
  \<open>SendToSocket\<close> unregisters the socket by itself.
\<close>

record 'w node =
  nd_rcm :: rcm
  nd_adding :: "(string \<times> string) list"
  nd_removing :: "(string \<times> string) list"
  nd_world :: 'w

inductive node_step :: "'w redis \<Rightarrow> bool \<Rightarrow> 'w node \<Rightarrow> 'w node \<Rightarrow> bool" for R faults where
  add_socket:
    "\<lbrakk>owner (localCM (nd_rcm n)) s = None; u \<noteq> ''''\<rbrakk> \<Longrightarrow>
     node_step R faults n (n\<lparr>nd_rcm := (nd_rcm n)\<lparr>localCM := cm_Add s u c (localCM (nd_rcm n))\<rparr>,
                            nd_adding := (s, u) # nd_adding n\<rparr>)"
| add_sub:
    "\<lbrakk>(s, u) \<in> set (nd_adding n); add_user_sub R u (nd_rcm n) (nd_world n) = (gs, rcm', w')\<rbrakk> \<Longrightarrow>
     node_step R faults n (n\<lparr>nd_rcm := rcm', nd_adding := remove1 (s, u) (nd_adding n), nd_world := w'\<rparr>)"
| remove_socket:
    "\<lbrakk>s \<notin> fst ` set (nd_adding n); cm_Remove s (localCM (nd_rcm n)) = (u, cm)\<rbrakk> \<Longrightarrow>
     node_step R faults n (n\<lparr>nd_rcm := (nd_rcm n)\<lparr>localCM := cm\<rparr>,
                            nd_removing := (s, u) # nd_removing n\<rparr>)"
| remove_rest:
    "\<lbrakk>(s, u) \<in> set (nd_removing n); remove_socket_state R s u (nd_rcm n) (nd_world n) = (rcm', w')\<rbrakk> \<Longrightarrow>
     node_step R faults n (n\<lparr>nd_rcm := rcm', nd_removing := remove1 (s, u) (nd_removing n), nd_world := w'\<rparr>)"
| join:
    "JoinRoom R s r (nd_rcm n) (nd_world n) = (gs, rcm', w') \<Longrightarrow>
     node_step R faults n (n\<lparr>nd_rcm := rcm', nd_world := w'\<rparr>)"
| leave:
    "LeaveRoom R s r (nd_rcm n) (nd_world n) = (rcm', w') \<Longrightarrow>
     node_step R faults n (n\<lparr>nd_rcm := rcm', nd_world := w'\<rparr>)"
| write_failed:
    "faults \<Longrightarrow>
     node_step R faults n (n\<lparr>nd_rcm := (nd_rcm n)\<lparr>localCM := snd (cm_Remove s (localCM (nd_rcm n)))\<rparr>\<rparr>)"
| elsewhere: "node_step R faults n (n\<lparr>nd_world := w\<rparr>)"

inductive node_reach :: "'w redis \<Rightarrow> bool \<Rightarrow> 'w node \<Rightarrow> bool" for R faults where
  start: "node_reach R faults
     \<lparr>nd_rcm = NewRedisConnectionManager, nd_adding = [], nd_removing = [], nd_world = w\<rparr>"
| step: "node_reach R faults n \<Longrightarrow> node_step R faults n n' \<Longrightarrow> node_reach R faults n'"

inductive_cases node_stepE: "node_step R faults n n'"

definition subscribed :: "'w node \<Rightarrow> bool" where
  "subscribed n \<longleftrightarrow>
     (\<forall>u. cm_HasUser (localCM (nd_rcm n)) u \<longrightarrow>
        userSubs (nd_rcm n) u \<noteq> None \<or> u \<in> snd ` set (nd_adding n))"

definition node_inv :: "'w node \<Rightarrow> bool" where
  "node_inv n \<longleftrightarrow> cm_inv (localCM (nd_rcm n)) \<and> room_inv (nd_rcm n) \<and> subscribed n"

text \<open>Without failed writes a subscription is not kept without a reason.\<close>

definition no_stale_subs :: "'w node \<Rightarrow> bool" where
  "no_stale_subs n \<longleftrightarrow>
     (\<forall>u. userSubs (nd_rcm n) u \<noteq> None \<longrightarrow>
        u \<noteq> '''' \<and> (cm_HasUser (localCM (nd_rcm n)) u \<or> u \<in> snd ` set (nd_removing n)))
   \<and> (\<forall>s u. (s, u) \<in> set (nd_adding n) \<longrightarrow> u \<noteq> '''' \<and> owner (localCM (nd_rcm n)) s = Some u)"

lemma in_remove1: "x \<in> set xs \<Longrightarrow> x \<noteq> y \<Longrightarrow> x \<in> set (remove1 y xs)"
  by simp

lemma add_user_sub_fields:
  assumes "add_user_sub R u rcm w = (gs, rcm', w')"
  shows "localCM rcm' = localCM rcm" "room_inv rcm' = room_inv rcm" "userSubs rcm' u \<noteq> None"
    "v \<noteq> u \<Longrightarrow> userSubs rcm' v = userSubs rcm v"
  using assms by (auto simp: add_user_sub_def split: option.splits prod.splits)

lemma JoinRoom_fields:
  "JoinRoom R s r rcm w = (gs, rcm', w') \<Longrightarrow> localCM rcm' = localCM rcm \<and> userSubs rcm' = userSubs rcm"
  by (auto simp: JoinRoom_def Let_def split: option.splits prod.splits)

lemma LeaveRoom_fields:
  assumes "LeaveRoom R s r rcm w = (rcm', w')"
  shows "localCM rcm' = localCM rcm \<and> userSubs rcm' = userSubs rcm"
  using assms unfolding LeaveRoom_def Let_def
  by (auto simp: drop_from_room_fields(2,3) split: option.splits)

lemma add_sub_inv:
  assumes "node_inv n" "add_user_sub R u (nd_rcm n) (nd_world n) = (gs, rcm', w')"
  shows "node_inv (n\<lparr>nd_rcm := rcm', nd_adding := remove1 (s, u) (nd_adding n), nd_world := w'\<rparr>)"
proof -
  note f = add_user_sub_fields [OF assms(2)]
  have "userSubs rcm' v \<noteq> None \<or> v \<in> snd ` set (remove1 (s, u) (nd_adding n))"
    if h: "cm_HasUser (localCM rcm') v" for v
  proof (cases "v = u")
    case False
    then have "userSubs (nd_rcm n) v \<noteq> None \<or> v \<in> snd ` set (nd_adding n)"
      using assms(1) h f(1) by (auto simp: node_inv_def subscribed_def)
    then show ?thesis using f(4) [OF False] False by (force intro: in_remove1)
  qed (simp add: f(3))
  then show ?thesis using assms(1) f(1,2) by (auto simp: node_inv_def subscribed_def)
qed

lemma node_step_inv:
  assumes "node_step R faults n n'" "node_inv n"
  shows "node_inv n'"
  using assms
proof (induction rule: node_step.induct)
  case (add_socket n s u c)
  then have inv: "cm_inv (localCM (nd_rcm n))" by (simp add: node_inv_def)
  show ?case
    using add_socket sockets.has_user_add [OF inv add_socket(1)] sockets.add_inv [OF inv add_socket(1)]
    by (auto simp: node_inv_def subscribed_def)
next
  case (add_sub s u n gs rcm' w')
  then show ?case by (intro add_sub_inv)
next
  case (remove_socket s n u cm)
  then have cm: "cm = snd (cm_Remove s (localCM (nd_rcm n)))" by simp
  show ?case
    using remove_socket sockets.has_user_after_remove
    by (auto simp: node_inv_def subscribed_def cm sockets.remove_inv)
next
  case (remove_rest s u n rcm' w')
  note f = remove_socket_state_localCM [OF remove_rest(2)] remove_socket_state_userSubs [OF remove_rest(2)]
  show ?case
    using remove_rest room_inv_remove [OF _ remove_rest(2)]
    by (auto simp: node_inv_def subscribed_def f split: if_splits)
next
  case (join s r n gs rcm' w')
  then show ?case
    using JoinRoom_fields [OF join(1)] room_inv_Join [OF _ join(1)] by (auto simp: node_inv_def subscribed_def)
next
  case (leave s r n rcm' w')
  then show ?case
    using LeaveRoom_fields [OF leave(1)] room_inv_Leave [OF _ leave(1)] by (auto simp: node_inv_def subscribed_def)
next
  case (write_failed n s)
  then show ?case
    using sockets.has_user_after_remove by (auto simp: node_inv_def subscribed_def sockets.remove_inv)
next
  case (elsewhere n w)
  then show ?case by (simp add: node_inv_def subscribed_def)
qed

lemma node_reach_inv: "node_reach R faults n \<Longrightarrow> node_inv n"
proof (induction rule: node_reach.induct)
  case (start w)
  have "cm_inv (localCM NewRedisConnectionManager)" "room_inv NewRedisConnectionManager"
    using cm_inv_new room_inv_new by (simp_all add: NewRedisConnectionManager_def)
  moreover have "\<not> cm_HasUser (localCM NewRedisConnectionManager) u" for u
    by (simp add: NewRedisConnectionManager_def NewConnectionManager_def cm_HasUser_def)
  ultimately show ?case by (simp add: node_inv_def subscribed_def)
next
  case (step n n')
  then show ?case using node_step_inv by blast
qed

lemma add_sub_stale:
  assumes "node_inv n" "no_stale_subs n" "(s, u) \<in> set (nd_adding n)"
    and "add_user_sub R u (nd_rcm n) (nd_world n) = (gs, rcm', w')"
  shows "no_stale_subs (n\<lparr>nd_rcm := rcm', nd_adding := remove1 (s, u) (nd_adding n), nd_world := w'\<rparr>)"
proof -
  note f = add_user_sub_fields [OF assms(4)]
  have inv: "cm_inv (localCM (nd_rcm n))" using assms(1) by (simp add: node_inv_def)
  have u: "u \<noteq> ''''" "owner (localCM (nd_rcm n)) s = Some u"
    using assms(2,3) by (auto simp: no_stale_subs_def)
  then have "cm_HasUser (localCM (nd_rcm n)) u" by (auto simp: cm_HasUser_iff [OF inv])
  then have "v \<noteq> '''' \<and> (cm_HasUser (localCM rcm') v \<or> v \<in> snd ` set (nd_removing n))"
    if "userSubs rcm' v \<noteq> None" for v
    using that f(1) f(4) [of v] u(1) assms(2) by (cases "v = u") (auto simp: no_stale_subs_def)
  moreover have "v \<noteq> '''' \<and> owner (localCM rcm') t = Some v"
    if "(t, v) \<in> set (remove1 (s, u) (nd_adding n))" for t v
  proof -
    have "(t, v) \<in> set (nd_adding n)" using that set_remove1_subset by (metis subsetD)
    then show ?thesis using assms(2) f(1) unfolding no_stale_subs_def by simp
  qed
  ultimately show ?thesis unfolding no_stale_subs_def by simp
qed

lemma remove_rest_stale:
  assumes "no_stale_subs n" "remove_socket_state R s u (nd_rcm n) (nd_world n) = (rcm', w')"
  shows "no_stale_subs (n\<lparr>nd_rcm := rcm', nd_removing := remove1 (s, u) (nd_removing n), nd_world := w'\<rparr>)"
proof -
  note f = remove_socket_state_localCM [OF assms(2)] remove_socket_state_userSubs [OF assms(2)]
  have "v \<noteq> '''' \<and> (cm_HasUser (localCM rcm') v \<or> v \<in> snd ` set (remove1 (s, u) (nd_removing n)))"
    if sub: "userSubs rcm' v \<noteq> None" for v
  proof (cases "v = u")
    case True
    have "v \<noteq> ''''" using sub f assms(1) by (auto simp: no_stale_subs_def split: if_splits)
    then show ?thesis using sub f True by (auto split: if_splits)
  next
    case False
    have "userSubs (nd_rcm n) v \<noteq> None" using sub f by (auto split: if_splits)
    then have "v \<noteq> '''' \<and> (cm_HasUser (localCM (nd_rcm n)) v \<or> v \<in> snd ` set (nd_removing n))"
      using assms(1) unfolding no_stale_subs_def by blast
    then show ?thesis using f(1) False by (force intro: in_remove1)
  qed
  then show ?thesis using assms(1) f(1) unfolding no_stale_subs_def by auto
qed

lemma node_step_stale:
  assumes "node_step R False n n'" "node_inv n" "no_stale_subs n"
  shows "no_stale_subs n'"
  using assms
proof (cases rule: node_step.cases)
  case (add_socket s u c)
  then have inv: "cm_inv (localCM (nd_rcm n))" using assms(2) by (simp add: node_inv_def)
  show ?thesis
    using add_socket assms(3) sockets.has_user_add [OF inv add_socket(2)]
    by (auto simp: no_stale_subs_def owner_Add)
next
  case (add_sub s u gs rcm' w')
  then show ?thesis using add_sub_stale [OF assms(2,3)] by simp
next
  case (remove_socket s u cm)
  then have cm: "cm = snd (cm_Remove s (localCM (nd_rcm n)))" "u = fst (cm_Remove s (localCM (nd_rcm n)))"
    by simp_all
  have inv: "cm_inv (localCM (nd_rcm n))" using assms(2) by (simp add: node_inv_def)
  have "t \<noteq> s" if "(t, v) \<in> set (nd_adding n)" for t v
    using that remove_socket(2) by force
  then show ?thesis
    using assms(3) sockets.removed_last [OF inv] unfolding remove_socket(1)
    by (auto simp: no_stale_subs_def cm owner_Remove)
next
  case (remove_rest s u rcm' w')
  then show ?thesis using remove_rest_stale [OF assms(3)] by simp
next
  case (join s r gs rcm' w')
  then show ?thesis using assms(3) JoinRoom_fields [OF join(2)] by (simp add: no_stale_subs_def)
next
  case (leave s r rcm' w')
  then show ?thesis using assms(3) LeaveRoom_fields [OF leave(2)] by (simp add: no_stale_subs_def)
next
  case (elsewhere w)
  then show ?thesis using assms(3) by (simp add: no_stale_subs_def)
qed simp

lemma node_reach_stale: "node_reach R False n \<Longrightarrow> no_stale_subs n"
proof (induction rule: node_reach.induct)
  case (start w)
  show ?case by (simp add: no_stale_subs_def NewRedisConnectionManager_def)
next
  case (step n n')
  then show ?case using node_step_stale node_reach_inv by blast
qed

section \<open>Replaying the missed messages\<close>

text \<open>
  The streams of Redis as a store: reading returns what is there, a deletion without an error
  removes the named entries, and sockets do not touch them.
\<close>

definition redis_streams :: "'w redis \<Rightarrow> 'w websocket \<Rightarrow> ('w \<Rightarrow> string \<Rightarrow> stream_entry list) \<Rightarrow> bool" where
  "redis_streams R W st \<longleftrightarrow>
     (\<forall>k w es w'. rd_xrange R k w = (Inr es, w') \<longrightarrow> es = st w k \<and> st w' = st w)
   \<and> (\<forall>k ids w w'. rd_xdel R k ids w = (None, w') \<longrightarrow>
        st w' = (st w)(k := filter (\<lambda>e. se_ID e \<notin> set ids) (st w k)))
   \<and> (\<forall>c m w r w'. wc_write_json W c m w = (r, w') \<longrightarrow> st w' = st w)
   \<and> (\<forall>c w. st (wc_close W c w) = st w)"

lemma redis_streamsD:
  assumes "redis_streams R W st"
  shows "rd_xrange R k w = (Inr es, w') \<Longrightarrow> es = st w k \<and> st w' = st w"
    "rd_xdel R k ids w = (None, w') \<Longrightarrow> st w' = (st w)(k := filter (\<lambda>e. se_ID e \<notin> set ids) (st w k))"
    "wc_write_json W c m w = (r, w') \<Longrightarrow> st w' = st w" "st (wc_close W c w) = st w"
  using assms unfolding redis_streams_def by simp_all

lemma SendToSocket_keeps:
  assumes "\<And>c m w r w'. wc_write_json W c m w = (r, w') \<Longrightarrow> f w' = f w" "\<And>c w. f (wc_close W c w) = f w"
    and "cm_SendToSocket W s m cm w = (e, cm', w')"
  shows "f w' = f w"
  using assms(3) by (auto simp: cm_SendToSocket_def assms(2) split: option.splits prod.splits dest!: assms(1))

lemma send_to_sockets_keeps:
  assumes "\<And>c m w r w'. wc_write_json W c m w = (r, w') \<Longrightarrow> f w' = f w" "\<And>c w. f (wc_close W c w) = f w"
  shows "send_to_sockets W ss m le cm w = (e, cm', w') \<Longrightarrow> f w' = f w"
proof (induction ss arbitrary: le cm w)
  case (Cons s ss)
  obtain e1 cm1 w1 where s: "cm_SendToSocket W s m cm w = (e1, cm1, w1)" by (metis prod_cases3)
  have "f w1 = f w" by (rule SendToSocket_keeps [OF assms s])
  then show ?case using Cons s by (cases e1) auto
qed simp

lemma SendMessage_keeps:
  assumes "\<And>c m w r w'. wc_write_json W c m w = (r, w') \<Longrightarrow> f w' = f w" "\<And>c w. f (wc_close W c w) = f w"
    and "cm_SendMessage W u m cm w = (e, cm', w')"
  shows "f w' = f w"
  using assms(3) send_to_sockets_keeps [of W f, OF assms(1,2)]
  by (auto simp: cm_SendMessage_def Let_def split: if_splits)

text \<open>
  The loop works on a prefix of the entries, which it acknowledges; the next entry, if there is
  one, is readable and its delivery failed.
\<close>

definition readable :: "stream_entry \<Rightarrow> ws_message option" where
  "readable entry = (case se_Values entry ''payload'' of
      Some (Some payload) \<Rightarrow> (case read_ws payload of Inr m \<Rightarrow> Some m | Inl e \<Rightarrow> None)
    | _ \<Rightarrow> None)"

fun delivered_prefix ::
  "'w websocket \<Rightarrow> string \<Rightarrow> stream_entry list \<Rightarrow> connection_manager \<Rightarrow> 'w \<Rightarrow> nat" where
  "delivered_prefix W u [] cm w = 0"
| "delivered_prefix W u (e # es) cm w =
     (case readable e of
        None \<Rightarrow> Suc (delivered_prefix W u es cm w)
      | Some m \<Rightarrow> (case cm_SendMessage W u m cm w of
           (Some _, _, _) \<Rightarrow> 0
         | (None, cm1, w1) \<Rightarrow> Suc (delivered_prefix W u es cm1 w1)))"

lemma replay_loop_step:
  "(case (case se_Values entry ''payload'' of Some (Some payload) \<Rightarrow> read_ws payload | _ \<Rightarrow> Inl ErrJson) of
      Inl e \<Rightarrow> a | Inr m \<Rightarrow> b m) = (case readable entry of None \<Rightarrow> a | Some m \<Rightarrow> b m)"
  by (simp add: readable_def del: unmarshal_Inr_iff split: option.split sum.split)

lemma replay_loop_acks:
  "replay_loop W u es rcm w = ((acked, n), rcm', w') \<Longrightarrow>
     acked = map se_ID (take (delivered_prefix W u es (localCM rcm) w) es)"
proof (induction es arbitrary: rcm w acked n)
  case (Cons e es)
  obtain r cm1 w1 where s: "\<And>m. readable e = Some m \<Longrightarrow> cm_SendMessage W u m (localCM rcm) w = (r, cm1, w1)"
    by (metis option.inject prod_cases3)
  show ?case
  proof (cases "readable e")
    case None
    then show ?thesis
      using Cons.prems Cons.IH unfolding replay_loop.simps replay_loop_step
      by (auto split: prod.splits)
  next
    case (Some m)
    then show ?thesis
      using Cons.prems Cons.IH [of "rcm\<lparr>localCM := cm1\<rparr>" w1] s [OF Some]
      unfolding replay_loop.simps replay_loop_step
      by (auto split: prod.splits option.splits)
  qed
qed simp

lemma replay_loop_keeps:
  assumes "\<And>c m w r w'. wc_write_json W c m w = (r, w') \<Longrightarrow> f w' = f w" "\<And>c w. f (wc_close W c w) = f w"
  shows "replay_loop W u es rcm w = (an, rcm', w') \<Longrightarrow> f w' = f w"
proof (induction es arbitrary: rcm w an)
  case (Cons e es)
  show ?case
  proof (cases "readable e")
    case None
    then show ?thesis
      using Cons.prems Cons.IH unfolding replay_loop.simps replay_loop_step
      by (fastforce split: prod.splits)
  next
    case (Some m)
    obtain r cm1 w1 where s: "cm_SendMessage W u m (localCM rcm) w = (r, cm1, w1)" by (metis prod_cases3)
    have "f w1 = f w" by (rule SendMessage_keeps [OF assms s])
    then show ?thesis
      using Cons.prems Cons.IH [of "rcm\<lparr>localCM := cm1\<rparr>" w1] s Some
      unfolding replay_loop.simps replay_loop_step
      by (fastforce split: prod.splits option.splits)
  qed
qed simp

lemma filter_not_in_prefix:
  assumes "distinct (map se_ID es)"
  shows "filter (\<lambda>e. se_ID e \<notin> set (map se_ID (take n es))) es = drop n es"
proof -
  have "filter (\<lambda>e. se_ID e \<notin> set (map se_ID (take n es))) (take n es @ drop n es) = drop n es"
  proof -
    have "distinct (map se_ID (take n es) @ map se_ID (drop n es))"
      using assms by (simp flip: map_append)
    then have d: "set (map se_ID (take n es)) \<inter> set (map se_ID (drop n es)) = {}" by simp
    have "filter (\<lambda>e. se_ID e \<notin> set (map se_ID (take n es))) (drop n es) = drop n es"
      using d by (intro filter_True) auto
    moreover have "filter (\<lambda>e. se_ID e \<notin> set (map se_ID (take n es))) (take n es) = []"
      by (intro filter_False) auto
    ultimately show ?thesis by (simp only: filter_append) simp
  qed
  then show ?thesis by simp
qed

lemma replay_stream:
  assumes st: "redis_streams R W st" and d: "distinct (map se_ID (st w (userEventStreamKey u)))"
    and x: "rd_xrange R (userEventStreamKey u) w = (Inr es, w1)"
    and del: "\<And>ids w2. rd_xdel R (userEventStreamKey u) ids w2 = (None, del ids w2)"
    and run: "replayUserStream R W u rcm w = (rcm', w')"
  shows "st w' (userEventStreamKey u) =
     drop (delivered_prefix W u es (localCM rcm) w1) (st w (userEventStreamKey u))"
proof -
  let ?k = "userEventStreamKey u"
  note D = redis_streamsD [OF st]
  have es: "es = st w ?k" "st w1 = st w" using D(1) [OF x] by auto
  obtain acked n rcm2 w2 where l: "replay_loop W u es rcm w1 = ((acked, n), rcm2, w2)"
    by (metis surj_pair)
  have w2: "st w2 = st w" using replay_loop_keeps [of W st, OF D(3,4) l] es by simp
  have acked: "acked = map se_ID (take (delivered_prefix W u es (localCM rcm) w1) es)"
    by (rule replay_loop_acks [OF l])
  have rest: "filter (\<lambda>e. se_ID e \<notin> set acked) (st w ?k) =
      drop (delivered_prefix W u es (localCM rcm) w1) (st w ?k)"
    unfolding acked es(1) by (rule filter_not_in_prefix [OF d])
  show ?thesis
  proof (cases "es = [] \<or> acked = []")
    case True
    then have "st w' ?k = st w ?k"
      using run x l w2 es by (auto simp: replayUserStream_def Let_def split: if_splits)
    moreover have "drop (delivered_prefix W u es (localCM rcm) w1) (st w ?k) = st w ?k"
      using True rest es(1) by auto
    ultimately show ?thesis by simp
  next
    case False
    then have "w' = del acked w2"
      using run x l del by (auto simp: replayUserStream_def Let_def split: if_splits)
    then show ?thesis using D(2) [OF del [of acked w2]] w2 rest by simp
  qed
qed

section \<open>The pair of a trip\<close>

lemma chat_keys [key_simps]:
  "tripChatRiderKey t = tripChatRiderKey t' \<longleftrightarrow> t = t'"
  "tripChatDriverKey t = tripChatDriverKey t' \<longleftrightarrow> t = t'"
  "activeDriverKey t = activeDriverKey t' \<longleftrightarrow> t = t'"
  "activeRiderKey t = activeRiderKey t' \<longleftrightarrow> t = t'"
  "tripChatRiderKey t \<noteq> activeDriverKey t'" "activeDriverKey t' \<noteq> tripChatRiderKey t"
  "tripChatRiderKey t \<noteq> activeRiderKey t'" "activeRiderKey t' \<noteq> tripChatRiderKey t"
  "tripChatDriverKey t \<noteq> activeDriverKey t'" "activeDriverKey t' \<noteq> tripChatDriverKey t"
  "tripChatDriverKey t \<noteq> activeRiderKey t'" "activeRiderKey t' \<noteq> tripChatDriverKey t"
  "activeDriverKey t \<noteq> activeRiderKey t'" "activeRiderKey t' \<noteq> activeDriverKey t"
  by (simp_all add: chat_key_defs)

lemma rider_driver_key [key_simps]:
  "tripChatRiderKey t \<noteq> tripChatDriverKey t'" "tripChatDriverKey t' \<noteq> tripChatRiderKey t"
proof -
  show "tripChatRiderKey t \<noteq> tripChatDriverKey t'"
    unfolding chat_key_defs
    by (simp add: append_eq_append_conv2)
  then show "tripChatDriverKey t' \<noteq> tripChatRiderKey t" by simp
qed

text \<open>Who is whose peer, by the store.\<close>

definition chat_peer :: "(string \<rightharpoonup> string) \<Rightarrow> string \<Rightarrow> string \<Rightarrow> string res" where
  "chat_peer m t u =
     (case (m (tripChatRiderKey t), m (tripChatDriverKey t)) of
        (Some r, Some d) \<Rightarrow>
          if r = '''' \<or> d = '''' then Inl ErrTripChatPairNotFound
          else if u = r then Inr d else if u = d then Inr r else Inl ErrTripChatUnauthorized
      | _ \<Rightarrow> Inl ErrTripChatPairNotFound)"

text \<open>A read of Redis that fails passes its error on; otherwise the answer is that of the store.\<close>

lemma ResolveTripChatPeer_store:
  assumes "redis_strings R kv" "ResolveTripChatPeer R t u w = (r, w')" "t \<noteq> ''''" "u \<noteq> ''''"
  shows "(\<exists>e w1. rd_mget R [tripChatRiderKey t, tripChatDriverKey t] w = (Inl e, w1) \<and> r = Inl e)
       \<or> r = chat_peer (kv w) t u \<and> kv w' = kv w"
proof -
  obtain vs w1 where m: "rd_mget R [tripChatRiderKey t, tripChatDriverKey t] w = (vs, w1)" by fastforce
  show ?thesis
  proof (cases vs)
    case (Inr vals)
    then have v: "vals = map (kv w) [tripChatRiderKey t, tripChatDriverKey t]" "kv w1 = kv w"
      using redis_mgetD [OF assms(1) m [unfolded Inr]] by auto
    then show ?thesis
      using assms(2-4) m Inr
      by (auto simp: ResolveTripChatPeer_def chat_peer_def split: option.splits if_splits)
  qed (use assms m in \<open>simp add: ResolveTripChatPeer_def\<close>)
qed

lemma SetTripChatPair_store:
  assumes "redis_strings R kv" "SetTripChatPair R t r d ttl w = (None, w')"
  shows "kv w' = (kv w)(tripChatRiderKey t \<mapsto> r, tripChatDriverKey t \<mapsto> d)"
    "t \<noteq> ''''" "r \<noteq> ''''" "d \<noteq> ''''"
  using assms redis_execD [OF assms(1)] by (auto simp: SetTripChatPair_def split: if_splits)

lemma ClearTripChatPair_store:
  assumes R: "redis_strings R kv" and c: "ClearTripChatPair R t w = (None, w')"
  shows "kv w' = (\<lambda>k. if k \<in> {tripChatRiderKey t, tripChatDriverKey t}
       \<or> (\<exists>r. kv w (tripChatRiderKey t) = Some r \<and> r \<noteq> '''' \<and> k = activeDriverKey r)
       \<or> (\<exists>d. kv w (tripChatDriverKey t) = Some d \<and> d \<noteq> '''' \<and> k = activeRiderKey d)
     then None else kv w k)" "t \<noteq> ''''"
proof -
  show "t \<noteq> ''''" using c by (auto simp: ClearTripChatPair_def split: if_splits)
  obtain vs w1 where m: "rd_mget R [tripChatRiderKey t, tripChatDriverKey t] w = (Inr vs, w1)"
    using c \<open>t \<noteq> ''''\<close> by (auto simp: ClearTripChatPair_def split: prod.splits sum.splits)
  have v: "vs = [kv w (tripChatRiderKey t), kv w (tripChatDriverKey t)]" "kv w1 = kv w"
    using redis_mgetD [OF R m] by auto
  obtain cs where cs: "rd_exec R cs w1 = (None, w')"
    and "cs = [CmdDel [tripChatRiderKey t, tripChatDriverKey t]]
        @ (case kv w (tripChatRiderKey t) of None \<Rightarrow> [] | Some r \<Rightarrow>
             if r \<noteq> '''' then [CmdDel [activeDriverKey r]] else [])
        @ (case kv w (tripChatDriverKey t) of None \<Rightarrow> [] | Some d \<Rightarrow>
             if d \<noteq> '''' then [CmdDel [activeRiderKey d]] else [])"
    using c \<open>t \<noteq> ''''\<close> m by (auto simp: ClearTripChatPair_def v Let_def split: option.splits)
  then show "kv w' = (\<lambda>k. if k \<in> {tripChatRiderKey t, tripChatDriverKey t}
       \<or> (\<exists>r. kv w (tripChatRiderKey t) = Some r \<and> r \<noteq> '''' \<and> k = activeDriverKey r)
       \<or> (\<exists>d. kv w (tripChatDriverKey t) = Some d \<and> d \<noteq> '''' \<and> k = activeRiderKey d)
     then None else kv w k)"
    unfolding redis_execD [OF R cs] v(2) by (auto simp: fun_eq_iff split: option.splits)
qed

section \<open>A message seen twice, a subscription that stays\<close>

lemma ws_message_roundtrip:
  assumes "ws_Data m = RawJson d"
  shows "\<exists>j. marshal enc_ws_message m = Inr (RawJson j) \<and> read_ws (RawJson j) = Inr m"
  using assms
  by (cases m) (simp add: marshal_def enc_ws_message_def ws_message_fields_def ws_message_zero_def json_defs)

text \<open>
  A node that has the user's two sockets, the second of them broken: the message goes to the first
  socket, and the failure of the second sends it to the user's channel as well, where this very
  node reads it.
\<close>

lemma SendMessage_two:
  assumes "map_set (byUser cm) u = [s1, s2]" "s1 \<noteq> s2"
    and "bySocket cm s1 = Some r1" "bySocket cm s2 = Some r2"
    and "wc_write_json W (cr_conn r1) m w = (None, w1)" "wc_write_json W (cr_conn r2) m w1 = (Some e, w2)"
  shows "cm_SendMessage W u m cm w = (Some e, snd (cm_Remove s2 cm), wc_close W (cr_conn r2) w2)"
  using assms by (simp add: cm_SendMessage_def cm_SendToSocket_def)

section \<open>Properties\<close>

text \<open>
  C10: In every state a node can reach under concurrent requests and failed writes, a user with a
  socket on the node is subscribed to the user's channel or an \<open>Add\<close> is about to subscribe;
  the rooms of a socket and the sockets of a room agree; and the node is subscribed to a room
  exactly when one of its sockets is in it.
\<close>

theorem node_stays_subscribed:
  assumes "node_reach R faults n"
  shows "(cm_HasUser (localCM (nd_rcm n)) u \<longrightarrow>
            userSubs (nd_rcm n) u \<noteq> None \<or> u \<in> snd ` set (nd_adding n))
       \<and> (s \<in> set (map_set (roomSockets (nd_rcm n)) r) \<longleftrightarrow> r \<in> set (map_set (socketRooms (nd_rcm n)) s))
       \<and> (roomSubs (nd_rcm n) r \<noteq> None \<longleftrightarrow> map_set (roomSockets (nd_rcm n)) r \<noteq> [])"
  using node_reach_inv [OF assms]
  by (auto simp: node_inv_def subscribed_def room_inv_def map_set_def split: option.splits)

definition one_socket :: "sim node" where
  "one_socket = \<lparr>nd_rcm = NewRedisConnectionManager\<lparr>localCM := cm_Add ''s1'' ''u1'' 1 NewConnectionManager\<rparr>,
     nd_adding = [(''s1'', ''u1'')], nd_removing = [], nd_world = sim0\<rparr>"

lemma reach_one_socket: "node_reach sim_redis faults one_socket"
proof -
  have "node_step sim_redis faults \<lparr>nd_rcm = NewRedisConnectionManager, nd_adding = [], nd_removing = [], nd_world = sim0\<rparr>
          one_socket"
    using node_step.add_socket [of "\<lparr>nd_rcm = NewRedisConnectionManager, nd_adding = [], nd_removing = [],
        nd_world = sim0\<rparr>" "''s1''" "''u1''" sim_redis faults 1]
    by (simp add: one_socket_def NewRedisConnectionManager_def NewConnectionManager_def owner_def)
  then show ?thesis by (rule node_reach.step [OF node_reach.start])
qed

lemma one_socket_user: "cm_HasUser (localCM (nd_rcm one_socket)) ''u1''"
  by (simp add: one_socket_def cm_HasUser_def cm_Add_def NewRedisConnectionManager_def)

theorem node_stays_subscribed_witness:
  "\<exists>u. cm_HasUser (localCM (nd_rcm one_socket)) u
     \<and> (userSubs (nd_rcm one_socket) u \<noteq> None \<or> u \<in> snd ` set (nd_adding one_socket))"
  by (intro exI [of _ "''u1''"] conjI one_socket_user
      node_stays_subscribed [OF reach_one_socket, THEN conjunct1, rule_format])

text \<open>
  C11: As long as no write to a socket fails, a node keeps a user's subscription only while the
  user has a socket on it or a \<open>Remove\<close> is about to close it.
\<close>

theorem no_subscription_leak:
  assumes "node_reach R False n" "userSubs (nd_rcm n) u \<noteq> None"
  shows "cm_HasUser (localCM (nd_rcm n)) u \<or> u \<in> snd ` set (nd_removing n)"
  using node_reach_stale [OF assms(1)] assms(2) by (auto simp: no_stale_subs_def)

definition one_subscribed :: "sim node" where
  "one_subscribed =
     (case add_user_sub sim_redis ''u1'' (nd_rcm one_socket) (nd_world one_socket) of
        (gs, rcm, w) \<Rightarrow> one_socket\<lparr>nd_rcm := rcm, nd_adding := [], nd_world := w\<rparr>)"

lemma reach_one_subscribed: "node_reach sim_redis faults one_subscribed"
proof -
  obtain gs rcm w where a: "add_user_sub sim_redis ''u1'' (nd_rcm one_socket) (nd_world one_socket) = (gs, rcm, w)"
    by (metis prod_cases3)
  have m: "(''s1'', ''u1'') \<in> set (nd_adding one_socket)" "remove1 (''s1'', ''u1'') (nd_adding one_socket) = []"
    by (simp_all add: one_socket_def)
  have "node_step sim_redis faults one_socket one_subscribed"
    using node_step.add_sub [OF m(1) a, of faults] unfolding m(2) one_subscribed_def a by simp
  then show ?thesis by (rule node_reach.step [OF reach_one_socket])
qed

theorem no_subscription_leak_witness:
  "cm_HasUser (localCM (nd_rcm one_subscribed)) ''u1'' \<or> ''u1'' \<in> snd ` set (nd_removing one_subscribed)"
proof -
  have "userSubs (nd_rcm one_subscribed) ''u1'' \<noteq> None"
    by (simp add: one_subscribed_def one_socket_def add_user_sub_def sim_redis_def NewRedisConnectionManager_def)
  then show ?thesis by (rule no_subscription_leak [OF reach_one_subscribed])
qed

text \<open>
  A failed write leaks the subscription. When the write to a user's only socket fails, the
  connection manager forgets the socket by itself; the \<open>Remove\<close> that follows when the
  connection ends no longer learns its user, so the node stays subscribed to a user it cannot
  reach. Other nodes then count it as a receiver and do not keep messages for the user.
\<close>

theorem failed_write_leaks:
  assumes "cm_inv (localCM rcm)" "map_set (byUser (localCM rcm)) u = [s]"
    and "bySocket (localCM rcm) s = Some r" "userSubs rcm u = Some sub"
    and "wc_write_json W (cr_conn r) m w = (Some e, w1)"
    and "cm_SendMessage W u m (localCM rcm) w = (res, cm, w2)"
    and "rcm_Remove R s (rcm\<lparr>localCM := cm\<rparr>) w2 = (rcm', w3)"
  shows "userSubs rcm' u = Some sub \<and> \<not> HasLocalUser rcm' u"
proof -
  have cm: "cm = snd (cm_Remove s (localCM rcm))"
    using assms(2,3,5,6) by (simp add: cm_SendMessage_def cm_SendToSocket_def)
  have none: "cm_Remove s cm = ('''', cm)"
    unfolding cm_Remove_def using bySocket_Remove [of s "localCM rcm"] by (simp add: cm)
  have run: "remove_socket_state R s '''' (rcm\<lparr>localCM := cm\<rparr>) w2 = (rcm', w3)"
    using assms(7) none by (simp add: rcm_Remove_def)
  have "cm_inv cm" using assms(1) cm sockets.remove_inv by simp
  moreover have "owner cm t \<noteq> Some u" for t
  proof
    assume t: "owner cm t = Some u"
    then have "t \<noteq> s" "owner (localCM rcm) t = Some u" unfolding cm owner_Remove by (auto split: if_splits)
    moreover have "set (map_set (byUser (localCM rcm)) u) = {t. owner (localCM rcm) t = Some u}"
      using assms(1) unfolding cm_inv_def by blast
    ultimately show False using assms(2) by auto
  qed
  ultimately have "\<not> cm_HasUser cm u" using cm_HasUser_iff by blast
  then show ?thesis
    using remove_socket_state_localCM [OF run] remove_socket_state_userSubs [OF run] assms(4)
    by (simp add: HasLocalUser_def)
qed

theorem failed_write_leaks_witness:
  "\<exists>rcm' w3. userSubs rcm' ''u1'' = Some 0 \<and> \<not> HasLocalUser rcm' ''u1''
     \<and> rcm_Remove sim_redis ''s1'' ((nd_rcm one_subscribed)\<lparr>localCM :=
          fst (snd (cm_SendMessage sim_websocket ''u1'' ws_message_zero (localCM (nd_rcm one_subscribed))
             (sim0\<lparr>si_broken := [1]\<rparr>)))\<rparr>)
        (snd (snd (cm_SendMessage sim_websocket ''u1'' ws_message_zero (localCM (nd_rcm one_subscribed))
             (sim0\<lparr>si_broken := [1]\<rparr>)))) = (rcm', w3)"
proof -
  let ?rcm = "nd_rcm one_subscribed"
  have inv: "cm_inv (localCM ?rcm)" using node_reach_inv [OF reach_one_subscribed] by (simp add: node_inv_def)
  have m: "map_set (byUser (localCM ?rcm)) ''u1'' = [''s1'']"
    and b: "bySocket (localCM ?rcm) ''s1'' = Some \<lparr>cr_conn = 1, cr_userID = ''u1''\<rparr>"
    and s: "userSubs ?rcm ''u1'' = Some 0"
    by (simp_all add: one_subscribed_def one_socket_def add_user_sub_def sim_redis_def
          NewRedisConnectionManager_def NewConnectionManager_def cm_Add_def sim0_def set_insert_def)
  obtain e w1 where wr: "wc_write_json sim_websocket 1 ws_message_zero (sim0\<lparr>si_broken := [1]\<rparr>) = (Some e, w1)"
    by (simp add: sim_websocket_def)
  obtain res cm w2 where sm: "cm_SendMessage sim_websocket ''u1'' ws_message_zero (localCM ?rcm)
      (sim0\<lparr>si_broken := [1]\<rparr>) = (res, cm, w2)" by (metis prod_cases3)
  obtain rcm' w3 where rm: "rcm_Remove sim_redis ''s1'' (?rcm\<lparr>localCM := cm\<rparr>) w2 = (rcm', w3)" by fastforce
  show ?thesis
    using failed_write_leaks [OF inv m b s _ sm rm, unfolded connRecord.simps, OF wr] rm
    unfolding sm by auto
qed

text \<open>
  One broken socket doubles a message on the others. A node with two sockets of the user, the
  second broken, writes to the first, then also publishes to the user's channel, which this node
  reads itself: the first socket gets the message twice, and the call reports success.
\<close>

theorem partial_failure_duplicates:
  assumes out: "socket_writes W out"
    and "map_set (byUser (localCM rcm)) u = [s1, s2]" "s1 \<noteq> s2"
    and "bySocket (localCM rcm) s1 = Some r1" "bySocket (localCM rcm) s2 = Some r2" "cr_userID r2 = u"
    and "wc_write_json W (cr_conn r1) m w = (None, w1)" "wc_write_json W (cr_conn r2) m w1 = (Some e, w2)"
    and m: "marshal enc_ws_message m = Inr b" "ws_Data m = RawJson j"
    and "rd_publish R (user_channel u) b (wc_close W (cr_conn r2) w2) = (Inr n, w3)" "n \<noteq> 0" "out w3 = out w2"
    and "wc_write_json W (cr_conn r1) m w3 = (None, w4)"
    and "rcm_SendMessage R W u m rcm w = (res, rcm', w')" "user_subscription_step W u b rcm' w' = (rcm2, w5)"
  shows "res = None \<and> out w5 = out w @ [(cr_conn r1, m, True), (cr_conn r2, m, False), (cr_conn r1, m, True)]"
proof -
  let ?cm = "snd (cm_Remove s2 (localCM rcm))"
  have first: "cm_SendMessage W u m (localCM rcm) w = (Some e, ?cm, wc_close W (cr_conn r2) w2)"
    by (rule SendMessage_two) (use assms in auto)
  have res: "res = None" "rcm' = rcm\<lparr>localCM := ?cm\<rparr>" "w' = w3"
    using assms(12,11,15) m(1) by (auto simp: rcm_SendMessage_def first Let_def)
  have "owner (localCM rcm) s2 = Some u" using assms(5,6) by (simp add: owner_def)
  then have left: "map_set (byUser ?cm) u = [s1]"
    using assms(2,3) by (simp add: map_set_Remove set_delete_def)
  have "bySocket ?cm s1 = Some r1" using assms(3,4) by (simp add: bySocket_Remove)
  then have second: "cm_SendMessage W u m ?cm w3 = (None, ?cm, w4)"
    using left assms(14) by (simp add: cm_SendMessage_def cm_SendToSocket_def)
  have rd: "read_ws b = Inr m" using ws_message_roundtrip [OF m(2)] m(1) by (auto split: option.splits)
  have "w5 = w4" using assms(16) unfolding user_subscription_step_def res rd by (simp add: second)
  then show ?thesis
    using res socket_writesD(1) [OF out assms(7)] socket_writesD(1) [OF out assms(8)]
      socket_writesD(1) [OF out assms(14)] assms(13) by simp
qed

definition two_sockets :: rcm where
  "two_sockets = NewRedisConnectionManager\<lparr>localCM :=
     cm_Add ''s2'' ''u1'' 2 (cm_Add ''s1'' ''u1'' 1 NewConnectionManager)\<rparr>"

definition hello :: ws_message where
  "hello = \<lparr>ws_Type = ''hello'', ws_Topic = '''', ws_RoomID = '''', ws_Data = RawJson JNull\<rparr>"

definition second_broken :: sim where
  "second_broken = sim0\<lparr>si_broken := [2], si_subs := [user_channel ''u1'']\<rparr>"

theorem partial_failure_duplicates_witness:
  "\<exists>rcm' w' b rcm2 w5. rcm_SendMessage sim_redis sim_websocket ''u1'' hello two_sockets second_broken = (None, rcm', w')
     \<and> user_subscription_step sim_websocket ''u1'' b rcm' w' = (rcm2, w5)
     \<and> si_writes w5 = [(1, hello, True), (2, hello, False), (1, hello, True)]"
proof -
  have two: "map_set (byUser (localCM two_sockets)) ''u1'' = [''s1'', ''s2'']"
      "bySocket (localCM two_sockets) ''s1'' = Some \<lparr>cr_conn = 1, cr_userID = ''u1''\<rparr>"
      "bySocket (localCM two_sockets) ''s2'' = Some \<lparr>cr_conn = 2, cr_userID = ''u1''\<rparr>"
    by (simp_all add: two_sockets_def NewRedisConnectionManager_def NewConnectionManager_def cm_Add_def set_insert_def)
  obtain b where b: "marshal enc_ws_message hello = Inr b"
    using ws_message_roundtrip [of hello JNull] by (auto simp: hello_def)
  define w1 where "w1 = second_broken\<lparr>si_writes := [(1, hello, True)]\<rparr>"
  define w2 where "w2 = w1\<lparr>si_writes := [(1, hello, True), (2, hello, False)]\<rparr>"
  define w3 where "w3 = w2\<lparr>si_channel := [(user_channel ''u1'', b)]\<rparr>"
  define w4 where "w4 = w3\<lparr>si_writes := [(1, hello, True), (2, hello, False), (1, hello, True)]\<rparr>"
  note ws = w1_def w2_def w3_def w4_def second_broken_def sim_defs
  have s1: "wc_write_json sim_websocket 1 hello second_broken = (None, w1)" by (simp add: ws)
  have s2: "wc_write_json sim_websocket 2 hello w1 = (Some (ErrMsg ''broken pipe''), w2)" by (simp add: ws)
  have s3: "rd_publish sim_redis (user_channel ''u1'') b (wc_close sim_websocket 2 w2) = (Inr 1, w3)"
    by (simp add: ws)
  have s4: "wc_write_json sim_websocket 1 hello w3 = (None, w4)" by (simp add: ws)
  have o: "si_writes w3 = si_writes w2" "si_writes second_broken = []" by (simp_all add: ws)
  obtain res rcm' w' where r: "rcm_SendMessage sim_redis sim_websocket ''u1'' hello two_sockets second_broken =
      (res, rcm', w')" by (metis prod_cases3)
  obtain rcm2 w5 where u: "user_subscription_step sim_websocket ''u1'' b rcm' w' = (rcm2, w5)" by fastforce
  have "res = None \<and> si_writes w5 = si_writes second_broken @ [(1, hello, True), (2, hello, False), (1, hello, True)]"
    using partial_failure_duplicates [OF sim_websocket_writes two(1) _ two(2,3) _ _ _ b _ _ _ o(1) _ r u,
        unfolded connRecord.simps, OF _ _ s1 s2 _ s3 _ s4, of JNull] by (simp add: hello_def)
  then show ?thesis using r u o(2) by auto
qed

text \<open>
  C12: A replay removes from the user's stream exactly the messages it has worked off: the longest
  prefix whose readable entries were all delivered. The entry whose delivery failed and all later
  ones stay for the next connection, in order.
\<close>

theorem replay_keeps_undelivered:
  assumes "redis_streams R W st" "distinct (map se_ID (st w (userEventStreamKey u)))"
    and "rd_xrange R (userEventStreamKey u) w = (Inr es, w1)"
    and "\<And>ids w2. rd_xdel R (userEventStreamKey u) ids w2 = (None, del ids w2)"
    and "replayUserStream R W u rcm w = (rcm', w')"
  shows "st w' (userEventStreamKey u) =
     drop (delivered_prefix W u es (localCM rcm) w1) (st w (userEventStreamKey u))"
  by (rule replay_stream [OF assms])

definition missed_one :: sim where
  "missed_one = sim0\<lparr>si_streams := (\<lambda>_. [\<lparr>se_ID = ''1-0'', se_Values = [''payload'' \<mapsto> Some RawBad]\<rparr>])\<rparr>"

lemma sim_streams: "redis_streams sim_redis sim_websocket si_streams"
  by (auto simp: redis_streams_def sim_redis_def sim_websocket_def)

theorem replay_keeps_undelivered_witness:
  "si_streams (snd (replayUserStream sim_redis sim_websocket ''u1'' two_sockets missed_one))
     (userEventStreamKey ''u1'') = []"
proof -
  let ?es = "si_streams missed_one (userEventStreamKey ''u1'')"
  have d: "distinct (map se_ID ?es)" and x: "rd_xrange sim_redis (userEventStreamKey ''u1'') missed_one = (Inr ?es, missed_one)"
    and n: "delivered_prefix sim_websocket ''u1'' ?es (localCM two_sockets) missed_one = 1"
    by (simp_all add: missed_one_def sim_redis_def readable_def)
  have del: "\<And>ids w2. rd_xdel sim_redis (userEventStreamKey ''u1'') ids w2 = (None, snd (rd_xdel sim_redis (userEventStreamKey ''u1'') ids w2))"
    by (simp add: sim_redis_def)
  obtain rcm' w' where r: "replayUserStream sim_redis sim_websocket ''u1'' two_sockets missed_one = (rcm', w')"
    by fastforce
  have "si_streams w' (userEventStreamKey ''u1'') = drop 1 ?es"
    using replay_keeps_undelivered [OF sim_streams d x del r] unfolding n .
  also have "\<dots> = []" by (simp add: missed_one_def)
  finally show ?thesis by (simp add: r)
qed

text \<open>
  After \<open>SetTripChatPair\<close> the rider of the trip is told the driver and the driver the
  rider; anyone else is refused. A read of Redis that fails passes its own error on.
\<close>

theorem chat_pair_resolves:
  assumes "redis_strings R kv" "SetTripChatPair R t rider driver ttl w = (None, w1)"
    and "ResolveTripChatPeer R t u w1 = (res, w2)" "u \<noteq> ''''"
    and "\<And>e w3. rd_mget R [tripChatRiderKey t, tripChatDriverKey t] w1 \<noteq> (Inl e, w3)"
  shows "res = (if u = rider then Inr driver else if u = driver then Inr rider else Inl ErrTripChatUnauthorized)"
  using ResolveTripChatPeer_store [OF assms(1,3) _ assms(4)] SetTripChatPair_store [OF assms(1,2)] assms(5)
  by (auto simp: chat_peer_def key_simps)

theorem chat_pair_resolves_witness:
  "fst (ResolveTripChatPeer sim_redis ''t1'' ''d1'' (snd (SetTripChatPair sim_redis ''t1'' ''r1'' ''d1'' (hours 1) sim0)))
     = Inr ''r1''"
proof -
  have s: "SetTripChatPair sim_redis ''t1'' ''r1'' ''d1'' (hours 1) sim0 =
      (None, snd (SetTripChatPair sim_redis ''t1'' ''r1'' ''d1'' (hours 1) sim0))"
    by (simp add: SetTripChatPair_def sim_redis_def)
  have m: "\<And>e w3 ks w. rd_mget sim_redis ks w \<noteq> (Inl e, w3)" by (simp add: sim_redis_def)
  show ?thesis
    using chat_pair_resolves [OF sim_redis_strings s _ _ m, of "''d1''"] by (simp add: prod_eq_iff)
qed

text \<open>
  C13: \<open>ClearTripChatPair\<close> ends the chat of its trip and nothing else: nobody has a peer in the
  trip any more, the rider and the driver stored for it have no active driver and rider, and the
  pair of every other trip is as it was.
\<close>

theorem chat_pair_cleared:
  assumes "redis_strings R kv" "ClearTripChatPair R t w = (None, w')"
  shows "chat_peer (kv w') t u = Inl ErrTripChatPairNotFound
       \<and> (t' \<noteq> t \<longrightarrow> chat_peer (kv w') t' u = chat_peer (kv w) t' u)
       \<and> (kv w (tripChatRiderKey t) = Some rider \<and> rider \<noteq> '''' \<longrightarrow> kv w' (activeDriverKey rider) = None)
       \<and> (kv w (tripChatDriverKey t) = Some driver \<and> driver \<noteq> '''' \<longrightarrow> kv w' (activeRiderKey driver) = None)"
  unfolding ClearTripChatPair_store(1) [OF assms] chat_peer_def by (auto simp: key_simps)

theorem chat_pair_cleared_witness:
  "chat_peer (si_kv (snd (ClearTripChatPair sim_redis ''t1'' (sim0\<lparr>si_kv := [tripChatRiderKey ''t1'' \<mapsto> ''r1'']\<rparr>)))) ''t1'' ''r1''
     = Inl ErrTripChatPairNotFound"
proof -
  let ?w = "sim0\<lparr>si_kv := [tripChatRiderKey ''t1'' \<mapsto> ''r1'']\<rparr>"
  have "ClearTripChatPair sim_redis ''t1'' ?w = (None, snd (ClearTripChatPair sim_redis ''t1'' ?w))"
    by (simp add: ClearTripChatPair_def sim_redis_def Let_def)
  from chat_pair_cleared [OF sim_redis_strings this, of "''r1''"] show ?thesis by blast
qed

end
