(* ===== verification/QueueConsumer.thy ===== *)
theory QueueConsumer
  imports RedisCM_Facts RabbitMQ_Facts
begin

text \<open>
  \<open>shared/messaging/queue_consumer.go\<close>: the gateway's consumer of a queue. It reads the
  envelope, brings the payload of some routing keys into the form the front end's schemas expect,
  derives the legacy topic, and hands the message to the manager of the owner's sockets. The maps
  from routing keys to functions are case distinctions. \<open>Data\<close> is represented by its
  marshalled form; one that cannot be marshalled is \<open>RawBad\<close>, on which \<open>SendMessage\<close>
  fails as \<open>json.Marshal\<close> does.
\<close>

section \<open>Trips for the front end\<close>

definition sanitizeTripForWS :: "pb_trip option \<Rightarrow> pb_trip res" where
  "sanitizeTripForWS t =
     (case t of
        None \<Rightarrow> Inl (ErrMsg ''trip payload is nil'')
      | Some trip \<Rightarrow>
          if pt_Id trip = '''' then Inl (ErrMsg ''trip.id is required'')
          else if pt_UserID trip = '''' then Inl (ErrMsg ''trip.userID is required'')
          else if pt_Status trip = '''' then Inl (ErrMsg ''trip.status is required'')
          else Inr (case pt_Driver trip of
             Some d \<Rightarrow> if td_Id d = '''' \<or> td_Name d = '''' then trip\<lparr>pt_Driver := None\<rparr> else trip
           | None \<Rightarrow> trip))"

text \<open>The anonymous struct with the only member \<open>trip\<close> is its member.\<close>

definition wrapped_trip_fields :: "pb_trip option fields" where
  "wrapped_trip_fields =
     [fld ''trip'' (\<lambda>t. t) (\<lambda>f. f) (dec_ptr pb_trip_zero (dec_struct pb_trip_fields))]"

definition canonicalTripJSON :: "raw \<Rightarrow> raw res" where
  "canonicalTripJSON payload =
     (let send = (\<lambda>t. case sanitizeTripForWS (Some t) of
                        Inl e \<Rightarrow> Inl e | Inr trip \<Rightarrow> marshal enc_pb_trip trip);
          flat = (case unmarshal (dec_struct pb_trip_fields) pb_trip_zero payload of
                    Inr trip \<Rightarrow> if pt_Id trip \<noteq> '''' then send trip
                                else Inl (ErrMsg ''unable to parse trip payload'')
                  | Inl e \<Rightarrow> Inl (ErrMsg ''unable to parse trip payload''))
      in case unmarshal (dec_struct wrapped_trip_fields) None payload of
           Inr (Some t) \<Rightarrow> send t
         | _ \<Rightarrow> flat)"

definition canonicalizeTripPayload :: "raw \<Rightarrow> raw res" where
  "canonicalizeTripPayload payload =
     (case canonicalTripJSON payload of
        Inl e \<Rightarrow> Inl (errorf_w ''canonicalize trip payload'' e)
      | Inr tripJSON \<Rightarrow> Inr tripJSON)"

section \<open>Payments and positions\<close>

definition as_data :: "raw res \<Rightarrow> raw" where
  "as_data r = (case r of Inr b \<Rightarrow> b | Inl e \<Rightarrow> RawBad)"

definition canonicalizePaymentSessionCreated :: "raw \<Rightarrow> raw res" where
  "canonicalizePaymentSessionCreated payload =
     (case unmarshal (dec_struct payment_session_created_fields) payment_session_created_zero payload of
        Inl e \<Rightarrow> Inl (errorf_w ''invalid payment session payload'' e)
      | Inr payment \<Rightarrow>
          if ps_TripID payment = '''' \<or> ps_SessionID payment = ''''
          then Inl (ErrMsg ''invalid payment session payload: tripID and sessionID are required'')
          else Inr (as_data (marshal enc_payment_session_created payment)))"

definition canonicalizeDriverLocation :: "raw \<Rightarrow> raw res" where
  "canonicalizeDriverLocation payload =
     (case unmarshal (dec_struct driver_location_event_fields) driver_location_event_zero payload of
        Inl e \<Rightarrow> Inl (errorf_w ''invalid driver location payload'' e)
      | Inr location \<Rightarrow> Inr (as_data (marshal enc_driver_location_event location)))"

section \<open>By routing key\<close>

definition skippedWSRoutingKeys :: "string list" where
  "skippedWSRoutingKeys = [ChatEventDelivered]"

definition wsCanonicalizers :: "(string \<times> (raw \<Rightarrow> raw res)) list" where
  "wsCanonicalizers =
     [(TripEventCreated, canonicalizeTripPayload),
      (DriverCmdTripRequest, canonicalizeTripPayload),
      (TripEventDriverAssigned, canonicalizeTripPayload),
      (TripEventDriverNotInterested, canonicalizeTripPayload),
      (PaymentEventSessionCreated, canonicalizePaymentSessionCreated),
      (DriverEventLocation, canonicalizeDriverLocation)]"

text \<open>The result says with \<open>None\<close> that the message is to be skipped.\<close>

definition canonicalizeWSData :: "string \<Rightarrow> raw \<Rightarrow> raw option res" where
  "canonicalizeWSData routingKey payload =
     (if routingKey \<in> set skippedWSRoutingKeys then Inr None
      else case map_of wsCanonicalizers routingKey of
             None \<Rightarrow> Inr (Some payload)
           | Some canonicalizer \<Rightarrow>
               (case canonicalizer payload of Inl e \<Rightarrow> Inl e | Inr data \<Rightarrow> Inr (Some data)))"

definition tripTopic :: "string \<Rightarrow> string" where
  "tripTopic tripID = (if tripID = '''' then '''' else ''trip:'' @ tripID)"

definition id_fields :: "string fields" where
  "id_fields = [fld ''id'' (\<lambda>s. s) (\<lambda>f. f) dec_str]"

definition resolveTopicFromWrappedTrip :: "raw \<Rightarrow> string" where
  "resolveTopicFromWrappedTrip payload =
     (case unmarshal (dec_struct [fld ''trip'' (\<lambda>s. s) (\<lambda>f. f) (dec_struct id_fields)]) '''' payload of
        Inr tripID \<Rightarrow> tripTopic tripID | Inl e \<Rightarrow> '''')"

definition resolveTopicFromFlatTrip :: "raw \<Rightarrow> string" where
  "resolveTopicFromFlatTrip payload =
     (case unmarshal (dec_struct id_fields) '''' payload of
        Inr tripID \<Rightarrow> tripTopic tripID | Inl e \<Rightarrow> '''')"

definition resolveTopicFromPayment :: "raw \<Rightarrow> string" where
  "resolveTopicFromPayment payload =
     (case unmarshal (dec_struct [fld ''tripID'' (\<lambda>s. s) (\<lambda>f. f) dec_str]) '''' payload of
        Inr tripID \<Rightarrow> tripTopic tripID | Inl e \<Rightarrow> '''')"

definition wsTopicResolvers :: "(string \<times> (raw \<Rightarrow> string)) list" where
  "wsTopicResolvers =
     [(TripEventDriverNotInterested, resolveTopicFromWrappedTrip),
      (TripEventNoDriversFound, resolveTopicFromWrappedTrip),
      (TripEventDriverAssigned, resolveTopicFromFlatTrip),
      (PaymentEventSessionCreated, resolveTopicFromPayment)]"

definition deriveTripTopic :: "string \<Rightarrow> raw \<Rightarrow> string" where
  "deriveTripTopic routingKey payload =
     (case map_of wsTopicResolvers routingKey of None \<Rightarrow> '''' | Some resolver \<Rightarrow> resolver payload)"

section \<open>The handler\<close>

abbreviation read_amqp :: "raw \<Rightarrow> amqp_message res" where
  "read_amqp body \<equiv> unmarshal (dec_struct amqp_message_fields) amqp_message_zero body"

text \<open>What the handler sends: nothing, a message for the owner's sockets, or an error.\<close>

definition client_message :: "string \<Rightarrow> raw \<Rightarrow> (string \<times> ws_message) option res" where
  "client_message routingKey body =
     (case read_amqp body of
        Inl e \<Rightarrow> Inl e
      | Inr amqpMsg \<Rightarrow>
          (let userID = am_OwnerID amqpMsg
           in if userID = '''' then Inr None
              else (case canonicalizeWSData routingKey (am_Data amqpMsg) of
                      Inl e \<Rightarrow> Inl e
                    | Inr None \<Rightarrow> Inr None
                    | Inr (Some data) \<Rightarrow>
                        Inr (Some (userID,
                          \<lparr>ws_Type = routingKey, ws_Topic = deriveTripTopic routingKey (am_Data amqpMsg),
                           ws_RoomID = '''', ws_Data = data\<rparr>)))))"

definition queue_handler ::
  "'w redis \<Rightarrow> 'w websocket \<Rightarrow> delivery \<Rightarrow> rcm \<Rightarrow> 'w \<Rightarrow> goerror option \<times> rcm \<times> 'w" where
  "queue_handler R W d rcm w =
     (case client_message (d_RoutingKey d) (d_Body d) of
        Inl e \<Rightarrow> (Some e, rcm, w)
      | Inr None \<Rightarrow> (None, rcm, w)
      | Inr (Some (userID, clientMsg)) \<Rightarrow> rcm_SendMessage R W userID clientMsg rcm w)"

text \<open>
  \<open>Start\<close> consumes the queue with this handler; the gateway's manager is shared by all its
  goroutines, so the handler reads it from its cell in the world and writes it back.
\<close>

definition QueueConsumer_handler :: "'w redis \<Rightarrow> 'w websocket \<Rightarrow> (rcm, 'w) cell \<Rightarrow> 'w handler" where
  "QueueConsumer_handler R W C d w =
     (case queue_handler R W d (cell_get C w) w of (e, rcm, w1) \<Rightarrow> (Returns e, cell_put C rcm w1))"

definition QueueConsumer_Start :: "'w broker \<Rightarrow> string \<Rightarrow> 'w \<Rightarrow> goerror option \<times> 'w" where
  "QueueConsumer_Start B queueName w = ConsumeMessages B queueName w"

section \<open>Facts\<close>

lemma sanitize_ok:
  assumes "sanitizeTripForWS t = Inr trip"
  shows "pt_Id trip \<noteq> ''''" "pt_UserID trip \<noteq> ''''" "pt_Status trip \<noteq> ''''"
    "pt_Driver trip = Some d \<Longrightarrow> td_Id d \<noteq> '''' \<and> td_Name d \<noteq> ''''"
  using assms by (auto simp: sanitizeTripForWS_def split: option.splits if_splits)

lemma canonicalTripJSON_ok:
  assumes "canonicalTripJSON payload = Inr b"
  shows "\<exists>t trip j. sanitizeTripForWS (Some t) = Inr trip \<and> enc_pb_trip trip = Some j \<and> b = RawJson j"
  using assms unfolding canonicalTripJSON_def Let_def marshal_def
  by (auto split: sum.splits option.splits if_splits)

definition trip_keys :: "string list" where
  "trip_keys = [TripEventCreated, DriverCmdTripRequest, TripEventDriverAssigned, TripEventDriverNotInterested]"

lemma trip_key_canonicalizer:
  assumes "k \<in> set trip_keys"
  shows "map_of wsCanonicalizers k = Some canonicalizeTripPayload" "k \<notin> set skippedWSRoutingKeys"
  using assms by (auto simp: trip_keys_def wsCanonicalizers_def skippedWSRoutingKeys_def routing_key_defs)

lemma client_message_send:
  assumes "client_message k body = Inr (Some (u, m))"
  shows "\<exists>am. read_amqp body = Inr am \<and> u = am_OwnerID am \<and> u \<noteq> '''' \<and> ws_Type m = k
     \<and> canonicalizeWSData k (am_Data am) = Inr (Some (ws_Data m)) \<and> ws_Topic m = deriveTripTopic k (am_Data am)"
  using assms unfolding client_message_def Let_def
  by (auto split: sum.splits option.splits if_splits)

section \<open>Properties\<close>


definition sample_trip_body :: raw where
  "sample_trip_body = RawJson (JObj [(''ownerId'', JStr ''rider-1''), (''data'', JObj [(''trip'',
     JObj [(''id'', JStr ''trip-1''), (''userID'', JStr ''rider-1''), (''status'', JStr ''pending''),
           (''driver'', JObj [])])])])"

definition sample_trip_push :: ws_message where
  "sample_trip_push = \<lparr>ws_Type = TripEventCreated, ws_Topic = '''', ws_RoomID = '''',
     ws_Data = RawJson (JObj [(''id'', JStr ''trip-1''), (''status'', JStr ''pending''),
                              (''userID'', JStr ''rider-1'')])\<rparr>"

lemma sample_push: "client_message TripEventCreated sample_trip_body = Inr (Some (''rider-1'', sample_trip_push))"
  by code_simp


text \<open>
  The delivery receipts of the chat service are never forwarded to a client, whatever they
  hold: a receipt that can be read is skipped and acknowledged without a push.
\<close>

theorem chat_receipts_skipped:
  assumes "read_amqp (d_Body d) = Inr am" "d_RoutingKey d = ChatEventDelivered"
  shows "queue_handler R W d rcm w = (None, rcm, w)"
  using assms
  by (auto simp: queue_handler_def client_message_def canonicalizeWSData_def skippedWSRoutingKeys_def
        Let_def split: sum.splits option.splits)

theorem chat_receipts_skipped_witness:
  "queue_handler sim_redis sim_websocket
     (sample_delivery\<lparr>d_RoutingKey := ChatEventDelivered, d_Body := sample_trip_body\<rparr>)
     NewRedisConnectionManager sim0 = (None, NewRedisConnectionManager, sim0)"
proof -
  have "\<exists>am. read_amqp sample_trip_body = Inr am" by (simp add: sample_trip_body_def codec_defs json_defs)
  then obtain am where "read_amqp (d_Body (sample_delivery\<lparr>d_RoutingKey := ChatEventDelivered,
      d_Body := sample_trip_body\<rparr>)) = Inr am" by auto
  then show ?thesis by (rule chat_receipts_skipped) simp
qed

end
