(* ===== verification/TripTypes.thy ===== *)
theory TripTypes
  imports Payloads
begin

text \<open>
  The data of the trip service: routes as OSRM returns them, prices, fares, the preview kept in
  Redis and the trip document (\<open>services/trip-service/pkg/types\<close>,
  \<open>internal/domain\<close>, \<open>shared/types\<close>). A pointer is an option; a method called through a
  nil pointer or an index out of range panics. An \<open>ObjectID\<close> is its hexadecimal form. A nil
  slice and an empty one are the same list.
\<close>

section \<open>Identifiers\<close>

type_synonym object_id = string

definition hex_digits :: string where
  "hex_digits = ''0123456789abcdef''"

definition is_hex24 :: "string \<Rightarrow> bool" where
  "is_hex24 s \<longleftrightarrow> length s = 24 \<and> list_all (\<lambda>c. c \<in> set hex_digits) (to_lower s)"

definition nil_object_id :: object_id where
  "nil_object_id = replicate 24 (CHR ''0'')"

text \<open>\<open>primitive.ObjectIDFromHex\<close>, and the decoding of an identifier written as a string.\<close>

definition ObjectIDFromHex :: "string \<Rightarrow> object_id res" where
  "ObjectIDFromHex s = (if is_hex24 s then Inr (to_lower s)
     else Inl (ErrMsg ''the provided hex string is not a valid ObjectID''))"

fun dec_oid :: "object_id dec" where
  "dec_oid cur JNull = Some cur"
| "dec_oid cur (JStr s) = (if s = '''' then Some nil_object_id else if is_hex24 s then Some (to_lower s) else None)"
| "dec_oid cur j = None"

definition oid_ok :: "object_id \<Rightarrow> bool" where
  "oid_ok s \<longleftrightarrow> is_hex24 s \<and> to_lower s = s"

lemma dec_oid_ok: "oid_ok s \<Longrightarrow> dec_oid cur (JStr s) = Some s"
  by (auto simp: oid_ok_def is_hex24_def)

lemma ObjectIDFromHex_ok: "oid_ok s \<Longrightarrow> ObjectIDFromHex s = Inr s"
  by (simp add: oid_ok_def ObjectIDFromHex_def)

section \<open>Coordinates and routes\<close>

record coordinate =
  Latitude :: float64
  Longitude :: float64

record osrm_route =
  os_Distance :: float64
  os_Duration :: float64
  os_Coordinates :: "float64 list list"

record osrm_response =
  os_Routes :: "osrm_route list"

definition osrm_route_zero :: osrm_route where
  "osrm_route_zero = \<lparr>os_Distance = F64 0, os_Duration = F64 0, os_Coordinates = []\<rparr>"

definition osrm_response_zero :: osrm_response where
  "osrm_response_zero = \<lparr>os_Routes = []\<rparr>"

definition osrm_route_fields :: "osrm_route fields" where
  "osrm_route_fields =
     [fld ''distance'' os_Distance os_Distance_update dec_f64,
      fld ''duration'' os_Duration os_Duration_update dec_f64,
      fld ''geometry'' os_Coordinates os_Coordinates_update
        (dec_struct [fld ''coordinates'' (\<lambda>c. c) (\<lambda>f. f) (dec_list [] (dec_list (F64 0) dec_f64))])]"

definition osrm_response_fields :: "osrm_response fields" where
  "osrm_response_fields =
     [fld ''routes'' os_Routes os_Routes_update (dec_list osrm_route_zero (dec_struct osrm_route_fields))]"

definition enc_array :: "('a \<Rightarrow> json option) \<Rightarrow> 'a list \<Rightarrow> json option" where
  "enc_array e xs = map_option JArr (enc_list e xs)"

definition enc_osrm_route :: "osrm_route \<Rightarrow> json option" where
  "enc_osrm_route r =
     enc_obj [mem_f64 ''distance'' (os_Distance r), mem_f64 ''duration'' (os_Duration r),
       Member ''geometry'' (enc_obj [Member ''coordinates'' (enc_array (enc_array enc_f64) (os_Coordinates r))])]"

definition enc_osrm_response :: "osrm_response \<Rightarrow> json option" where
  "enc_osrm_response r = enc_obj [Member ''routes'' (enc_array enc_osrm_route (os_Routes r))]"

text \<open>\<open>ToProto\<close> of a route: the first OSRM route, element 0 of a point as the latitude.\<close>

fun points_to_proto :: "float64 list list \<Rightarrow> pb_coordinate option list outcome" where
  "points_to_proto [] = Returns []"
| "points_to_proto (coord # cs) =
     (case coord of
        x # y # _ \<Rightarrow>
          (case points_to_proto cs of
             Returns ps \<Rightarrow> Returns (Some \<lparr>co_Latitude = x, co_Longitude = y\<rparr> # ps)
           | r \<Rightarrow> r)
      | _ \<Rightarrow> Panics)"

definition OSRM_ToProto :: "osrm_response option \<Rightarrow> pb_route outcome" where
  "OSRM_ToProto ro =
     (case ro of
        None \<Rightarrow> Panics
      | Some resp \<Rightarrow>
          (case os_Routes resp of
             [] \<Rightarrow> Panics
           | route # _ \<Rightarrow>
               (case points_to_proto (os_Coordinates route) of
                  Returns coordinates \<Rightarrow>
                    Returns \<lparr>rt_Geometry = [Some \<lparr>ge_Coordinates = coordinates\<rparr>],
                             rt_Distance = os_Distance route, rt_Duration = os_Duration route\<rparr>
                | Panics \<Rightarrow> Panics
                | Exits \<Rightarrow> Exits)))"

section \<open>Prices and fares\<close>

record pricing_config =
  PricePerUnitOfDistance :: float64
  PricingPerMinute :: float64

definition DefaultPricingConfig :: pricing_config where
  "DefaultPricingConfig = \<lparr>PricePerUnitOfDistance = F64 (3 / 2), PricingPerMinute = F64 (1 / 4)\<rparr>"

record ride_fare =
  fm_ID :: object_id
  fm_UserID :: string
  fm_PackageSlug :: string
  fm_TotalPriceInCents :: float64
  fm_Route :: "osrm_response option"

definition RideFare_ToProto :: "ride_fare \<Rightarrow> pb_ride_fare" where
  "RideFare_ToProto r = \<lparr>rf_Id = fm_ID r, rf_PackageSlug = fm_PackageSlug r,
     rf_TotalPriceInCents = fm_TotalPriceInCents r\<rparr>"

record fare_option =
  fo_ID :: object_id
  fo_PackageSlug :: string
  fo_TotalPriceInCents :: float64

record fare_preview =
  fp_UserID :: string
  fp_Route :: "osrm_response option"
  fp_Fares :: "fare_option option list"

definition fare_option_zero :: fare_option where
  "fare_option_zero = \<lparr>fo_ID = nil_object_id, fo_PackageSlug = '''', fo_TotalPriceInCents = F64 0\<rparr>"

definition fare_option_fields :: "fare_option fields" where
  "fare_option_fields =
     [fld ''id'' fo_ID fo_ID_update dec_oid,
      fld ''packageSlug'' fo_PackageSlug fo_PackageSlug_update dec_str,
      fld ''totalPriceInCents'' fo_TotalPriceInCents fo_TotalPriceInCents_update dec_f64]"

definition enc_fare_option :: "fare_option \<Rightarrow> json option" where
  "enc_fare_option f =
     enc_obj [mem_str ''id'' (fo_ID f), mem_str ''packageSlug'' (fo_PackageSlug f),
              mem_f64 ''totalPriceInCents'' (fo_TotalPriceInCents f)]"

definition fare_preview_zero :: fare_preview where
  "fare_preview_zero = \<lparr>fp_UserID = '''', fp_Route = None, fp_Fares = []\<rparr>"

definition fare_preview_fields :: "fare_preview fields" where
  "fare_preview_fields =
     [fld ''userID'' fp_UserID fp_UserID_update dec_str,
      fld ''route'' fp_Route fp_Route_update (dec_ptr osrm_response_zero (dec_struct osrm_response_fields)),
      fld ''fares'' fp_Fares fp_Fares_update
        (dec_list None (dec_ptr fare_option_zero (dec_struct fare_option_fields)))]"

definition enc_fare_preview :: "fare_preview \<Rightarrow> json option" where
  "enc_fare_preview p =
     enc_obj [mem_str ''userID'' (fp_UserID p), Member ''route'' (enc_ptr enc_osrm_response (fp_Route p)),
              Member ''fares'' (enc_array (enc_ptr enc_fare_option) (fp_Fares p))]"

text \<open>The options of a preview the service made are never nil; a nil one would panic.\<close>

definition ToRideFaresProto :: "fare_preview \<Rightarrow> pb_ride_fare list outcome" where
  "ToRideFaresProto p =
     (if None \<in> set (fp_Fares p) then Panics
      else Returns (map (\<lambda>f. \<lparr>rf_Id = fo_ID (the f), rf_PackageSlug = fo_PackageSlug (the f),
                              rf_TotalPriceInCents = fo_TotalPriceInCents (the f)\<rparr>) (fp_Fares p)))"

section \<open>Trips\<close>

record trip_model =
  tm_ID :: object_id
  tm_UserID :: string
  tm_Status :: string
  tm_RideFare :: "ride_fare option"
  tm_Driver :: "pb_trip_driver option"

definition Trip_ToProto :: "trip_model \<Rightarrow> pb_trip outcome" where
  "Trip_ToProto t =
     (let driver = (case tm_Driver t of
                      Some d \<Rightarrow> if td_Id d \<noteq> '''' \<and> td_Name d \<noteq> '''' then Some d else None
                    | None \<Rightarrow> None)
      in case tm_RideFare t of
           None \<Rightarrow> Panics
         | Some fare \<Rightarrow>
             (case OSRM_ToProto (fm_Route fare) of
                Returns route \<Rightarrow>
                  Returns \<lparr>pt_Id = tm_ID t, pt_SelectedFare = Some (RideFare_ToProto fare),
                           pt_Route = Some route, pt_Status = tm_Status t, pt_UserID = tm_UserID t,
                           pt_Driver = driver\<rparr>
              | Panics \<Rightarrow> Panics
              | Exits \<Rightarrow> Exits))"

section \<open>Facts\<close>

lemma points_to_proto_length:
  "points_to_proto cs = Returns ps \<Longrightarrow> length ps = length cs"
  by (induction cs arbitrary: ps) (auto split: list.splits outcome.splits)

lemma points_to_proto_ok:
  "list_all (\<lambda>c. 2 \<le> length c) cs \<Longrightarrow>
     points_to_proto cs = Returns (map (\<lambda>c. Some \<lparr>co_Latitude = c ! 0, co_Longitude = c ! 1\<rparr>) cs)"
  by (induction cs) (auto split: list.splits)

definition routable :: "osrm_response option \<Rightarrow> bool" where
  "routable ro \<longleftrightarrow> (case ro of None \<Rightarrow> False
     | Some r \<Rightarrow> os_Routes r \<noteq> [] \<and> list_all (\<lambda>c. 2 \<le> length c) (os_Coordinates (hd (os_Routes r))))"

lemma OSRM_ToProto_ok:
  assumes "routable ro"
  shows "\<exists>r. OSRM_ToProto ro = Returns r"
  using assms
  by (auto simp: routable_def OSRM_ToProto_def points_to_proto_ok split: option.splits list.splits)

lemma Trip_ToProto_ok:
  assumes "tm_RideFare t = Some fare" "routable (fm_Route fare)"
  shows "\<exists>p. Trip_ToProto t = Returns p \<and> pt_Id p = tm_ID t \<and> pt_UserID p = tm_UserID t \<and> pt_Status p = tm_Status t
       \<and> pt_SelectedFare p = Some (RideFare_ToProto fare)"
  using OSRM_ToProto_ok [OF assms(2)] assms(1) by (auto simp: Trip_ToProto_def Let_def)

text \<open>What can travel as JSON.\<close>

definition wire_osrm_route :: "osrm_route \<Rightarrow> bool" where
  "wire_osrm_route r \<longleftrightarrow> wire_f64 (os_Distance r) \<and> wire_f64 (os_Duration r)
     \<and> (\<forall>c\<in>set (os_Coordinates r). \<forall>x\<in>set c. wire_f64 x)"

definition wire_osrm :: "osrm_response option \<Rightarrow> bool" where
  "wire_osrm ro \<longleftrightarrow> (\<forall>r. ro = Some r \<longrightarrow> (\<forall>x\<in>set (os_Routes r). wire_osrm_route x))"

lemma osrm_route_roundtrip:
  assumes "wire_osrm_route r"
  shows "\<exists>j. enc_osrm_route r = Some j \<and> dec_struct osrm_route_fields osrm_route_zero j = Some r"
proof -
  have "\<exists>js. enc_list (enc_array enc_f64) (os_Coordinates r) = Some js \<and>
      dec_elems [] (dec_list (F64 0) dec_f64) js = Some (os_Coordinates r)"
  proof (intro dec_enc_elems ballI)
    fix c assume "c \<in> set (os_Coordinates r)"
    then have "\<forall>x\<in>set c. \<exists>j. enc_f64 x = Some j \<and> dec_f64 (F64 0) j = Some x"
      using assms f64_wire by (fastforce simp: wire_osrm_route_def)
    from dec_enc_elems [where e = enc_f64 and d = dec_f64 and zero = "F64 0", OF this] obtain js where "enc_list enc_f64 c = Some js" "dec_elems (F64 0) dec_f64 js = Some c"
      by blast
    then show "\<exists>j. enc_array enc_f64 c = Some j \<and> dec_list (F64 0) dec_f64 [] j = Some c"
      by (simp add: enc_array_def)
  qed
  then obtain js where js: "enc_list (enc_array enc_f64) (os_Coordinates r) = Some js"
    "dec_elems [] (dec_list (F64 0) dec_f64) js = Some (os_Coordinates r)" by blast
  from assms obtain j0 where j0: "enc_f64 (os_Distance r) = Some j0"
      "\<And>cur. dec_f64 cur j0 = Some (os_Distance r)" by (auto simp: wire_osrm_route_def elim: f64_wireE)
  from assms obtain j1 where j1: "enc_f64 (os_Duration r) = Some j1"
      "\<And>cur. dec_f64 cur j1 = Some (os_Duration r)" by (auto simp: wire_osrm_route_def elim: f64_wireE)
  show ?thesis
    by (cases r) (use js j0 j1 in \<open>simp add: enc_osrm_route_def osrm_route_fields_def osrm_route_zero_def
          enc_array_def json_defs\<close>)
qed

lemma osrm_response_roundtrip:
  assumes "wire_osrm ro"
  shows "\<exists>j. enc_ptr enc_osrm_response ro = Some j
     \<and> dec_ptr osrm_response_zero (dec_struct osrm_response_fields) None j = Some ro"
proof (intro dec_enc_ptr allI impI)
  fix r assume r: "ro = Some r"
  have "\<exists>js. enc_list enc_osrm_route (os_Routes r) = Some js \<and>
      dec_elems osrm_route_zero (dec_struct osrm_route_fields) js = Some (os_Routes r)"
    using assms r by (intro dec_enc_elems ballI osrm_route_roundtrip) (simp add: wire_osrm_def)
  then obtain js where "enc_list enc_osrm_route (os_Routes r) = Some js"
      "dec_elems osrm_route_zero (dec_struct osrm_route_fields) js = Some (os_Routes r)" by blast
  then show "\<exists>j. enc_osrm_response r = Some j \<and> j \<noteq> JNull \<and>
      dec_struct osrm_response_fields osrm_response_zero j = Some r"
    by (cases r) (simp add: enc_osrm_response_def osrm_response_fields_def osrm_response_zero_def
          enc_array_def json_defs)
qed

lemma fare_option_roundtrip:
  assumes "oid_ok (fo_ID f)" "wire_f64 (fo_TotalPriceInCents f)"
  shows "\<exists>j. enc_fare_option f = Some j \<and> j \<noteq> JNull
     \<and> dec_struct fare_option_fields fare_option_zero j = Some f"
proof -
  from assms(2) obtain j where j: "enc_f64 (fo_TotalPriceInCents f) = Some j"
    "\<And>cur. dec_f64 cur j = Some (fo_TotalPriceInCents f)" by (rule f64_wireE) blast
  show ?thesis
    by (cases f) (use j dec_oid_ok [OF assms(1)] in \<open>simp add: enc_fare_option_def fare_option_fields_def
          fare_option_zero_def json_defs\<close>)
qed

definition wire_preview :: "fare_preview \<Rightarrow> bool" where
  "wire_preview p \<longleftrightarrow> wire_osrm (fp_Route p)
     \<and> (\<forall>f\<in>set (fp_Fares p). \<exists>x. f = Some x \<and> oid_ok (fo_ID x) \<and> wire_f64 (fo_TotalPriceInCents x))"

lemma fare_preview_roundtrip:
  assumes "wire_preview p"
  shows "\<exists>j. enc_fare_preview p = Some j \<and> dec_struct fare_preview_fields fare_preview_zero j = Some p"
proof -
  have "\<exists>js. enc_list (enc_ptr enc_fare_option) (fp_Fares p) = Some js \<and>
      dec_elems None (dec_ptr fare_option_zero (dec_struct fare_option_fields)) js = Some (fp_Fares p)"
    using assms by (intro dec_enc_elems ballI dec_enc_ptr)
      (metis fare_option_roundtrip option.inject wire_preview_def)
  then obtain js where js: "enc_list (enc_ptr enc_fare_option) (fp_Fares p) = Some js"
      "dec_elems None (dec_ptr fare_option_zero (dec_struct fare_option_fields)) js = Some (fp_Fares p)" by blast
  obtain j where j: "enc_ptr enc_osrm_response (fp_Route p) = Some j"
     "dec_ptr osrm_response_zero (dec_struct osrm_response_fields) None j = Some (fp_Route p)"
    using osrm_response_roundtrip [of "fp_Route p"] assms by (auto simp: wire_preview_def)
  show ?thesis
    by (cases p) (use js j in \<open>simp add: enc_fare_preview_def fare_preview_fields_def fare_preview_zero_def
          enc_array_def mem_str_def fld_def find_field_def\<close>)
qed

end
