(* ===== verification/TripService.thy ===== *)
theory TripService
  imports TripTypes External
begin

text \<open>
  The trip service's domain interfaces and their implementations, and its service layer:
  \<open>internal/domain/trip.go\<close> (the repository interfaces, records of functions),
  \<open>internal/infrastructure/repository/mongodb.go\<close> and \<open>redis.go\<close>,
  \<open>internal/service/service.go\<close>. The MongoDB collection, \<open>primitive.NewObjectID\<close> and the
  HTTP client are parameters.
\<close>

section \<open>External operations\<close>

text \<open>The fields of a \<open>$set\<close>: the status, and the driver when there is one.\<close>

definition set_trip :: "string \<Rightarrow> pb_trip_driver option \<Rightarrow> trip_model \<Rightarrow> trip_model" where
  "set_trip status driver t = t\<lparr>tm_Status := status,
     tm_Driver := (case driver of None \<Rightarrow> tm_Driver t | Some d \<Rightarrow> Some d)\<rparr>"

record 'w mongo_trips =
  mt_new_id :: "'w \<Rightarrow> object_id \<times> 'w"
  mt_insert_one :: "trip_model \<Rightarrow> 'w \<Rightarrow> object_id res \<times> 'w"
  mt_find_one :: "object_id \<Rightarrow> 'w \<Rightarrow> trip_model res \<times> 'w"
  mt_update_one :: "object_id \<Rightarrow> string \<Rightarrow> pb_trip_driver option \<Rightarrow> 'w \<Rightarrow> nat res \<times> 'w"

text \<open>
  The collection as a map: a read that succeeds finds the document, an insertion that succeeds
  stores it under its identifier, an update that succeeds sets the fields and counts the document
  as modified exactly when it exists and changes. A failed call may or may not have written.
\<close>

definition mongo_docs :: "'w mongo_trips \<Rightarrow> ('w \<Rightarrow> object_id \<rightharpoonup> trip_model) \<Rightarrow> bool" where
  "mongo_docs M docs \<longleftrightarrow>
     (\<forall>w i w'. mt_new_id M w = (i, w') \<longrightarrow> docs w' = docs w \<and> oid_ok i)
   \<and> (\<forall>t w i w'. mt_insert_one M t w = (Inr i, w') \<longrightarrow> i = tm_ID t \<and> docs w' = (docs w)(i \<mapsto> t))
   \<and> (\<forall>i w r w'. mt_find_one M i w = (r, w') \<longrightarrow> docs w' = docs w)
   \<and> (\<forall>i w t w'. mt_find_one M i w = (Inr t, w') \<longrightarrow> docs w i = Some t)
   \<and> (\<forall>i s d w n w'. mt_update_one M i s d w = (Inr n, w') \<longrightarrow>
        (case docs w i of
           None \<Rightarrow> n = 0 \<and> docs w' = docs w
         | Some t \<Rightarrow> docs w' = (docs w)(i \<mapsto> set_trip s d t) \<and> (n = 0 \<longleftrightarrow> set_trip s d t = t)))"

text \<open>\<open>http.Get\<close>: it fails, or gives a body, whose reading can fail.\<close>

type_synonym 'w http_get = "string \<Rightarrow> 'w \<Rightarrow> raw res res \<times> 'w"

text \<open>Redis as a store of byte strings.\<close>

definition redis_bytes :: "'w redis \<Rightarrow> ('w \<Rightarrow> string \<rightharpoonup> raw) \<Rightarrow> bool" where
  "redis_bytes R bv \<longleftrightarrow>
     (\<forall>k w r w'. rd_get_bytes R k w = (r, w') \<longrightarrow> bv w' = bv w)
   \<and> (\<forall>k w b w'. rd_get_bytes R k w = (Inr b, w') \<longrightarrow> bv w k = Some b)
   \<and> (\<forall>k w w'. rd_get_bytes R k w = (Inl RedisNil, w') \<longrightarrow> bv w k = None)
   \<and> (\<forall>k b t w w'. rd_set_bytes R k b t w = (None, w') \<longrightarrow> bv w' = (bv w)(k \<mapsto> b))"

section \<open>The repository interfaces\<close>

record 'w trip_repo =
  tr_CreateTrip :: "trip_model \<Rightarrow> 'w \<Rightarrow> trip_model res \<times> 'w"
  tr_GetTripByID :: "string \<Rightarrow> 'w \<Rightarrow> trip_model option res \<times> 'w"
  tr_UpdateTrip :: "string \<Rightarrow> string \<Rightarrow> pb_trip_driver option \<Rightarrow> 'w \<Rightarrow> goerror option \<times> 'w"

record 'w fare_repo =
  fr_SaveFarePreview :: "fare_preview \<Rightarrow> 'w \<Rightarrow> goerror option \<times> 'w"
  fr_GetRideFareByID :: "string \<Rightarrow> string \<Rightarrow> 'w \<Rightarrow> ride_fare option res \<times> 'w"

section \<open>MongoDB\<close>

definition mongo_CreateTrip :: "'w mongo_trips \<Rightarrow> trip_model \<Rightarrow> 'w \<Rightarrow> trip_model res \<times> 'w" where
  "mongo_CreateTrip M trip w =
     (case mt_insert_one M trip w of
        (Inl e, w1) \<Rightarrow> (Inl e, w1)
      | (Inr i, w1) \<Rightarrow> (Inr (trip\<lparr>tm_ID := i\<rparr>), w1))"

definition mongo_GetTripByID :: "'w mongo_trips \<Rightarrow> string \<Rightarrow> 'w \<Rightarrow> trip_model option res \<times> 'w" where
  "mongo_GetTripByID M tripID w =
     (case ObjectIDFromHex tripID of
        Inl e \<Rightarrow> (Inl e, w)
      | Inr i \<Rightarrow>
          (case mt_find_one M i w of
             (Inl e, w1) \<Rightarrow> (Inl e, w1)
           | (Inr trip, w1) \<Rightarrow> (Inr (Some trip), w1)))"

definition mongo_UpdateTrip ::
  "'w mongo_trips \<Rightarrow> string \<Rightarrow> string \<Rightarrow> pb_trip_driver option \<Rightarrow> 'w \<Rightarrow> goerror option \<times> 'w" where
  "mongo_UpdateTrip M tripID status driver w =
     (case ObjectIDFromHex tripID of
        Inl e \<Rightarrow> (Some e, w)
      | Inr i \<Rightarrow>
          (case mt_update_one M i status driver w of
             (Inl e, w1) \<Rightarrow> (Some e, w1)
           | (Inr n, w1) \<Rightarrow>
               if n = 0 then (Some (ErrMsg (''trip not found: '' @ tripID)), w1) else (None, w1)))"

definition NewMongoRepository :: "'w mongo_trips \<Rightarrow> 'w trip_repo" where
  "NewMongoRepository M = \<lparr>tr_CreateTrip = mongo_CreateTrip M, tr_GetTripByID = mongo_GetTripByID M,
     tr_UpdateTrip = mongo_UpdateTrip M\<rparr>"

section \<open>Fare previews in Redis\<close>

definition rideFareTTL :: duration where "rideFareTTL = minutes 20"
definition farePreviewPrefix :: string where "farePreviewPrefix = ''fare_preview:''"

definition redis_SaveFarePreview :: "'w redis \<Rightarrow> fare_preview \<Rightarrow> 'w \<Rightarrow> goerror option \<times> 'w" where
  "redis_SaveFarePreview R preview w =
     (case marshal enc_fare_preview preview of
        Inl e \<Rightarrow> (Some (errorf_w ''failed to marshal fare preview'' e), w)
      | Inr data \<Rightarrow> rd_set_bytes R (farePreviewPrefix @ fp_UserID preview) data rideFareTTL w)"

text \<open>The loop over the options; a nil one panics in the code, and none is stored.\<close>

fun find_fare :: "string \<Rightarrow> fare_option option list \<Rightarrow> fare_option option" where
  "find_fare fareID [] = None"
| "find_fare fareID (None # fs) = find_fare fareID fs"
| "find_fare fareID (Some opt # fs) = (if fo_ID opt = fareID then Some opt else find_fare fareID fs)"

definition redis_GetRideFareByID ::
  "'w redis \<Rightarrow> string \<Rightarrow> string \<Rightarrow> 'w \<Rightarrow> ride_fare option res \<times> 'w" where
  "redis_GetRideFareByID R fareID userID w =
     (case rd_get_bytes R (farePreviewPrefix @ userID) w of
        (Inl e, w1) \<Rightarrow>
          if e = RedisNil then (Inl (ErrMsg (''no fare preview found for user: '' @ userID)), w1)
          else (Inl (errorf_w ''failed to get fare preview from redis'' e), w1)
      | (Inr data, w1) \<Rightarrow>
          (case unmarshal (dec_struct fare_preview_fields) fare_preview_zero data of
             Inl e \<Rightarrow> (Inl (errorf_w ''failed to unmarshal fare preview'' e), w1)
           | Inr preview \<Rightarrow>
               (case find_fare fareID (fp_Fares preview) of
                  None \<Rightarrow> (Inl (ErrMsg (''fare not found with ID: '' @ fareID)), w1)
                | Some opt \<Rightarrow>
                    (Inr (Some \<lparr>fm_ID = fo_ID opt, fm_UserID = fp_UserID preview,
                                fm_PackageSlug = fo_PackageSlug opt,
                                fm_TotalPriceInCents = fo_TotalPriceInCents opt,
                                fm_Route = fp_Route preview\<rparr>), w1))))"

definition NewRedisRideFareRepository :: "'w redis \<Rightarrow> 'w fare_repo" where
  "NewRedisRideFareRepository R = \<lparr>fr_SaveFarePreview = redis_SaveFarePreview R,
     fr_GetRideFareByID = redis_GetRideFareByID R\<rparr>"

section \<open>The service\<close>

definition svc_CreateTrip :: "'w trip_repo \<Rightarrow> 'w mongo_trips \<Rightarrow> ride_fare \<Rightarrow> 'w \<Rightarrow> trip_model res \<times> 'w" where
  "svc_CreateTrip repo M fare w =
     (case mt_new_id M w of
        (i, w1) \<Rightarrow> tr_CreateTrip repo \<lparr>tm_ID = i, tm_UserID = fm_UserID fare, tm_Status = ''pending'',
                      tm_RideFare = Some fare, tm_Driver = None\<rparr> w1)"

definition route_url :: "coordinate \<Rightarrow> coordinate \<Rightarrow> string" where
  "route_url pickup destination =
     ''http://router.project-osrm.org/route/v1/driving/'' @ f64_format (Longitude pickup) @ '',''
     @ f64_format (Latitude pickup) @ '';'' @ f64_format (Longitude destination) @ '',''
     @ f64_format (Latitude destination) @ ''?overview=full&geometries=geojson''"

definition svc_GetRoute :: "'w http_get \<Rightarrow> coordinate \<Rightarrow> coordinate \<Rightarrow> 'w \<Rightarrow> osrm_response res \<times> 'w" where
  "svc_GetRoute get pickup destination w =
     (case get (route_url pickup destination) w of
        (Inl e, w1) \<Rightarrow> (Inl (errorf_w ''failed to get route'' e), w1)
      | (Inr (Inl e), w1) \<Rightarrow> (Inl (errorf_w ''failed to read response body'' e), w1)
      | (Inr (Inr body), w1) \<Rightarrow>
          (case unmarshal (dec_struct osrm_response_fields) osrm_response_zero body of
             Inl e \<Rightarrow> (Inl (errorf_w ''failed to unmarshal response'' e), w1)
           | Inr routeResponse \<Rightarrow> (Inr routeResponse, w1)))"

definition svc_GetAndValidateFare :: "'w fare_repo \<Rightarrow> string \<Rightarrow> string \<Rightarrow> 'w \<Rightarrow> ride_fare res \<times> 'w" where
  "svc_GetAndValidateFare F fareID userID w =
     (case fr_GetRideFareByID F fareID userID w of
        (Inl e, w1) \<Rightarrow> (Inl (errorf_w ''failed to get trip fare'' e), w1)
      | (Inr None, w1) \<Rightarrow> (Inl (ErrMsg ''fare does not exist''), w1)
      | (Inr (Some fare), w1) \<Rightarrow>
          if userID \<noteq> fm_UserID fare then (Inl (ErrMsg ''fare does not belong to the user''), w1)
          else (Inr fare, w1))"

definition base_fare :: "string \<Rightarrow> rat \<Rightarrow> ride_fare" where
  "base_fare slug cents = \<lparr>fm_ID = nil_object_id, fm_UserID = '''', fm_PackageSlug = slug,
     fm_TotalPriceInCents = F64 cents, fm_Route = None\<rparr>"

definition getBaseFares :: "ride_fare list" where
  "getBaseFares = [base_fare ''van'' 100, base_fare ''suv'' 150, base_fare ''sedan'' 250, base_fare ''luxury'' 400]"

definition estimateFareRoute :: "ride_fare \<Rightarrow> osrm_response \<Rightarrow> ride_fare" where
  "estimateFareRoute f route =
     (let pricingCfg = DefaultPricingConfig;
          carPackagePrice = fm_TotalPriceInCents f;
          distanceKm = os_Distance (hd (os_Routes route));
          durationInMinutes = os_Duration (hd (os_Routes route));
          distanceFare = f64_mul distanceKm (PricePerUnitOfDistance pricingCfg);
          timeFare = f64_mul durationInMinutes (PricingPerMinute pricingCfg);
          totalPrice = f64_add (f64_add carPackagePrice distanceFare) timeFare
      in \<lparr>fm_ID = nil_object_id, fm_UserID = '''', fm_PackageSlug = fm_PackageSlug f,
          fm_TotalPriceInCents = totalPrice, fm_Route = None\<rparr>)"

definition svc_EstimatePackagePriceWithRoute :: "osrm_response \<Rightarrow> ride_fare list res" where
  "svc_EstimatePackagePriceWithRoute route =
     (if length (os_Routes route) = 0 then Inl (ErrMsg ''no routes found'')
      else Inr (map (\<lambda>f. estimateFareRoute f route) getBaseFares))"

text \<open>The loop that gives every fare an identifier.\<close>

fun make_options :: "'w mongo_trips \<Rightarrow> ride_fare list \<Rightarrow> 'w \<Rightarrow> fare_option list \<times> 'w" where
  "make_options M [] w = ([], w)"
| "make_options M (f # fs) w =
     (case mt_new_id M w of
        (i, w1) \<Rightarrow>
          (case make_options M fs w1 of
             (opts, w2) \<Rightarrow>
               (\<lparr>fo_ID = i, fo_PackageSlug = fm_PackageSlug f,
                 fo_TotalPriceInCents = fm_TotalPriceInCents f\<rparr> # opts, w2)))"

definition svc_GenerateTripFares ::
  "'w fare_repo \<Rightarrow> 'w mongo_trips \<Rightarrow> ride_fare list \<Rightarrow> string \<Rightarrow> osrm_response \<Rightarrow> 'w \<Rightarrow> fare_preview res \<times> 'w" where
  "svc_GenerateTripFares F M rideFares userID route w =
     (case make_options M rideFares w of
        (options, w1) \<Rightarrow>
          (let preview = \<lparr>fp_UserID = userID, fp_Route = Some route, fp_Fares = map Some options\<rparr>
           in case fr_SaveFarePreview F preview w1 of
                (Some e, w2) \<Rightarrow> (Inl (errorf_w ''failed to save fare preview'' e), w2)
              | (None, w2) \<Rightarrow> (Inr preview, w2)))"

text \<open>\<open>GetTripByID\<close> and \<open>UpdateTrip\<close> of the service pass on to the repository.\<close>

abbreviation svc_GetTripByID :: "'w trip_repo \<Rightarrow> string \<Rightarrow> 'w \<Rightarrow> trip_model option res \<times> 'w" where
  "svc_GetTripByID repo \<equiv> tr_GetTripByID repo"

abbreviation svc_UpdateTrip ::
  "'w trip_repo \<Rightarrow> string \<Rightarrow> string \<Rightarrow> pb_trip_driver option \<Rightarrow> 'w \<Rightarrow> goerror option \<times> 'w" where
  "svc_UpdateTrip repo \<equiv> tr_UpdateTrip repo"

text \<open>A nil trip without an error would be dereferenced.\<close>

definition svc_CompleteTrip :: "'w trip_repo \<Rightarrow> string \<Rightarrow> 'w \<Rightarrow> trip_model res outcome \<times> 'w" where
  "svc_CompleteTrip repo tripID w =
     (case tr_GetTripByID repo tripID w of
        (Inl e, w1) \<Rightarrow> (Returns (Inl (errorf_w ''trip not found'' e)), w1)
      | (Inr None, w1) \<Rightarrow> (Panics, w1)
      | (Inr (Some trip), w1) \<Rightarrow>
          if tm_Status trip = ''completed'' then (Returns (Inr trip), w1)
          else (case tr_UpdateTrip repo tripID ''completed'' None w1 of
                  (Some e, w2) \<Rightarrow> (Returns (Inl (errorf_w ''failed to complete trip'' e)), w2)
                | (None, w2) \<Rightarrow> (Returns (Inr (trip\<lparr>tm_Status := ''completed''\<rparr>)), w2)))"

definition may_cancel :: "trip_model \<Rightarrow> string \<Rightarrow> bool" where
  "may_cancel trip requesterUserID \<longleftrightarrow>
     (let isRider = (tm_UserID trip = requesterUserID);
          isAccepted = (tm_Status trip = ''accepted'');
          driverID = (case tm_Driver trip of None \<Rightarrow> '''' | Some d \<Rightarrow> td_Id d);
          isAcceptedDriver = (isAccepted \<and> driverID \<noteq> '''');
          isAssignedDriver = (isAcceptedDriver \<and> driverID = requesterUserID)
      in isRider \<or> isAssignedDriver)"

definition svc_CancelTrip :: "'w trip_repo \<Rightarrow> string \<Rightarrow> string \<Rightarrow> 'w \<Rightarrow> trip_model res outcome \<times> 'w" where
  "svc_CancelTrip repo tripID requesterUserID w =
     (case tr_GetTripByID repo tripID w of
        (Inl e, w1) \<Rightarrow> (Returns (Inl (errorf_w ''trip not found'' e)), w1)
      | (Inr None, w1) \<Rightarrow> (Panics, w1)
      | (Inr (Some trip), w1) \<Rightarrow>
          if \<not> may_cancel trip requesterUserID then
            (Returns (Inl (ErrMsg ''only the rider can cancel before acceptance; after acceptance rider or assigned driver can cancel'')), w1)
          else if tm_Status trip = ''cancelled'' then (Returns (Inr trip), w1)
          else (case tr_UpdateTrip repo tripID ''cancelled'' None w1 of
                  (Some e, w2) \<Rightarrow> (Returns (Inl (errorf_w ''failed to cancel trip'' e)), w2)
                | (None, w2) \<Rightarrow> (Returns (Inr (trip\<lparr>tm_Status := ''cancelled''\<rparr>)), w2)))"

section \<open>The contract of a trip repository\<close>

text \<open>\<open>ok\<close> stands for what an implementation needs of the database below it.\<close>

locale trip_repository =
  fixes repo :: "'w trip_repo" and docs :: "'w \<Rightarrow> object_id \<rightharpoonup> trip_model" and ok :: bool
  assumes get_found: "ok \<Longrightarrow> tr_GetTripByID repo i w = (Inr r, w') \<Longrightarrow>
      docs w' = docs w \<and> (\<exists>t k. r = Some t \<and> ObjectIDFromHex i = Inr k \<and> docs w k = Some t)"
    and get_failed: "ok \<Longrightarrow> tr_GetTripByID repo i w = (Inl e, w') \<Longrightarrow> docs w' = docs w"
    and update_done: "ok \<Longrightarrow> tr_UpdateTrip repo i s d w = (None, w') \<Longrightarrow>
      \<exists>k t. ObjectIDFromHex i = Inr k \<and> docs w k = Some t \<and> set_trip s d t \<noteq> t
          \<and> docs w' = (docs w)(k \<mapsto> set_trip s d t)"
    and create_done: "ok \<Longrightarrow> tr_CreateTrip repo t w = (Inr t', w') \<Longrightarrow>
      t' = t \<and> docs w' = (docs w)(tm_ID t \<mapsto> t)"
begin

lemma get_never_nil: "ok \<Longrightarrow> tr_GetTripByID repo i w \<noteq> (Inr None, w')"
  using get_found by blast

lemma complete_trip:
  assumes ok and run: "svc_CompleteTrip repo i w = (Returns (Inr trip), w')"
  shows "\<exists>k t. ObjectIDFromHex i = Inr k \<and> docs w k = Some t \<and> trip = t\<lparr>tm_Status := ''completed''\<rparr>
     \<and> docs w' = (docs w)(k \<mapsto> trip)"
proof -
  obtain t w1 where g: "tr_GetTripByID repo i w = (Inr (Some t), w1)"
    using run by (auto simp: svc_CompleteTrip_def split: prod.splits sum.splits option.splits)
  from get_found [OF \<open>ok\<close> g] obtain k where
    k: "ObjectIDFromHex i = Inr k" "docs w k = Some t" "docs w1 = docs w" by auto
  show ?thesis
  proof (cases "tm_Status t = ''completed''")
    case True
    then show ?thesis
      using run g k by (intro exI [of _ k] exI [of _ t]) (auto simp: svc_CompleteTrip_def fun_upd_idem)
  next
    case False
    then have u: "tr_UpdateTrip repo i ''completed'' None w1 = (None, w')" "trip = t\<lparr>tm_Status := ''completed''\<rparr>"
      using run g by (auto simp: svc_CompleteTrip_def split: prod.splits option.splits)
    from update_done [OF \<open>ok\<close> u(1)] k show ?thesis
      by (intro exI [of _ k] exI [of _ t]) (auto simp: u(2) set_trip_def)
  qed
qed

lemma cancel_trip:
  assumes ok and run: "svc_CancelTrip repo i u w = (Returns (Inr trip), w')"
  shows "\<exists>k t. ObjectIDFromHex i = Inr k \<and> docs w k = Some t \<and> may_cancel t u
     \<and> trip = t\<lparr>tm_Status := ''cancelled''\<rparr> \<and> docs w' = (docs w)(k \<mapsto> trip)"
proof -
  obtain t w1 where g: "tr_GetTripByID repo i w = (Inr (Some t), w1)" and m: "may_cancel t u"
    using run by (auto simp: svc_CancelTrip_def split: prod.splits sum.splits option.splits if_splits)
  from get_found [OF \<open>ok\<close> g] obtain k where
    k: "ObjectIDFromHex i = Inr k" "docs w k = Some t" "docs w1 = docs w" by auto
  show ?thesis
  proof (cases "tm_Status t = ''cancelled''")
    case True
    then show ?thesis
      using run g k m by (intro exI [of _ k] exI [of _ t]) (auto simp: svc_CancelTrip_def fun_upd_idem)
  next
    case False
    then have u: "tr_UpdateTrip repo i ''cancelled'' None w1 = (None, w')" "trip = t\<lparr>tm_Status := ''cancelled''\<rparr>"
      using run g m by (auto simp: svc_CancelTrip_def split: prod.splits option.splits)
    from update_done [OF \<open>ok\<close> u(1)] k m show ?thesis
      by (intro exI [of _ k] exI [of _ t]) (auto simp: u(2) set_trip_def)
  qed
qed

lemma cancel_refused:
  assumes ok "docs w k = Some t" "ObjectIDFromHex i = Inr k" "\<not> may_cancel t u"
    and run: "svc_CancelTrip repo i u w = (r, w')"
  shows "docs w' = docs w \<and> (\<exists>e. r = Returns (Inl e))"
proof -
  obtain g w1 where g: "tr_GetTripByID repo i w = (g, w1)" by fastforce
  show ?thesis
  proof (cases g)
    case (Inl e)
    then show ?thesis using run g get_failed [OF \<open>ok\<close>] by (auto simp: svc_CancelTrip_def)
  next
    case (Inr r0)
    from get_found [OF \<open>ok\<close> g [unfolded Inr]] assms(2,3) have "docs w1 = docs w" "r0 = Some t" by auto
    then show ?thesis using run g Inr assms(4) by (auto simp: svc_CancelTrip_def)
  qed
qed

lemma update_same_fails:
  assumes ok "ObjectIDFromHex i = Inr k" "docs w k = Some t" "set_trip s d t = t"
  shows "tr_UpdateTrip repo i s d w \<noteq> (None, w')"
  using update_done [OF \<open>ok\<close>, of i s d w w'] assms by auto

end

lemma mongo_get:
  assumes "mongo_docs M docs" "mongo_GetTripByID M i w = (Inr r, w')"
  shows "docs w' = docs w \<and> (\<exists>t k. r = Some t \<and> ObjectIDFromHex i = Inr k \<and> docs w k = Some t)"
  using assms unfolding mongo_GetTripByID_def mongo_docs_def by (auto split: sum.splits prod.splits)

lemma mongo_get_failed:
  assumes "mongo_docs M docs" "mongo_GetTripByID M i w = (Inl e, w')"
  shows "docs w' = docs w"
  using assms unfolding mongo_GetTripByID_def mongo_docs_def by (auto split: sum.splits prod.splits)

lemma mongo_update:
  assumes M: "mongo_docs M docs" and run: "mongo_UpdateTrip M i s d w = (None, w')"
  shows "\<exists>k t. ObjectIDFromHex i = Inr k \<and> docs w k = Some t \<and> set_trip s d t \<noteq> t
     \<and> docs w' = (docs w)(k \<mapsto> set_trip s d t)"
proof -
  obtain k n where k: "ObjectIDFromHex i = Inr k" and n: "mt_update_one M k s d w = (Inr n, w')" "n \<noteq> 0"
    using run by (auto simp: mongo_UpdateTrip_def split: sum.splits prod.splits if_splits)
  have "case docs w k of None \<Rightarrow> n = 0 \<and> docs w' = docs w
      | Some t \<Rightarrow> docs w' = (docs w)(k \<mapsto> set_trip s d t) \<and> (n = 0 \<longleftrightarrow> set_trip s d t = t)"
    using M n(1) unfolding mongo_docs_def by blast
  then show ?thesis using k n(2) by (auto split: option.splits)
qed

lemma mongo_create:
  assumes "mongo_docs M docs" "mongo_CreateTrip M t w = (Inr t', w')"
  shows "t' = t \<and> docs w' = (docs w)(tm_ID t \<mapsto> t)"
  using assms unfolding mongo_CreateTrip_def mongo_docs_def by (auto split: sum.splits prod.splits)

interpretation mongo: trip_repository "NewMongoRepository M" docs "mongo_docs M docs" for M docs
  by (unfold_locales, unfold NewMongoRepository_def trip_repo.simps)
     (erule (1) mongo_get mongo_get_failed mongo_update mongo_create)+

end
