(* ===== verification/Publishing.thy ===== *)
theory Publishing
  imports RabbitMQ_Facts
begin

text \<open>
  What the services' theorems need around \<open>PublishMessage\<close>: a publication leaves the
  parts of the world that the broker does not touch, and the reference broker publishes.
\<close>

definition pub_keeps :: "'w publisher \<Rightarrow> ('w \<Rightarrow> 'a) \<Rightarrow> bool" where
  "pub_keeps pub f \<longleftrightarrow> (\<forall>k m w r w'. pub k m w = (r, w') \<longrightarrow> f w' = f w)"

lemma pub_keepsD: "pub_keeps pub f \<Longrightarrow> pub k m w = (r, w') \<Longrightarrow> f w' = f w"
  unfolding pub_keeps_def by blast

text \<open>A publisher of the reference broker, which is up and leaves the rest of its world alone.\<close>

lemma sim_publish_up:
  fixes s :: "'a sim_scheme"
  assumes "si_up s" "marshal enc_amqp_message m = Inr b"
  shows "PublishMessage sim_broker (sim_runtime :: 'a sim_scheme runtime) k m s =
     (Returns None, record_event (Published TripExchange k
        (envelope_publishing (sim_runtime :: 'a sim_scheme runtime) b) True) s)"
  using assms by (simp add: PublishMessage_publish publish_def sim_broker_def if_up_def)

lemma sim_topology_keeps:
  assumes "\<And>s e. f (s\<lparr>si_events := e\<rparr>) = f s" "\<And>s c. f (s\<lparr>si_client := c\<rparr>) = f s"
  shows "topology_keeps sim_broker f"
  using assms by (auto simp: topology_keeps_def sim_broker_def record_event_def)

lemma sim_pub_keeps:
  fixes f :: "'a sim_scheme \<Rightarrow> 'b"
  assumes "\<And>s e. f (s\<lparr>si_events := e\<rparr>) = f s" "\<And>s c. f (s\<lparr>si_client := c\<rparr>) = f s"
  shows "pub_keeps (PublishMessage sim_broker sim_runtime) f"
  unfolding pub_keeps_def
proof (intro allI impI)
  fix k m and w :: "'a sim_scheme" and r w'
  assume run: "PublishMessage sim_broker sim_runtime k m w = (r, w')"
  show "f w' = f w"
    using PublishMessage_keeps [OF sim_topology_keeps [of f, OF assms] _ run] sim_events_keeps [of f, OF assms(1)]
    by blast
qed

section \<open>Reading events\<close>

text \<open>The envelope and the payload, which every consumer reads first.\<close>

definition read_event :: "'a dec \<Rightarrow> 'a \<Rightarrow> delivery \<Rightarrow> (amqp_message \<times> 'a) res" where
  "read_event dec zero d =
     (case unmarshal (dec_struct amqp_message_fields) amqp_message_zero (d_Body d) of
        Inl e \<Rightarrow> Inl e
      | Inr message \<Rightarrow>
          (case unmarshal dec zero (am_Data message) of
             Inl e \<Rightarrow> Inl e
           | Inr payload \<Rightarrow> Inr (message, payload)))"

text \<open>A delivery that carries a payload in a well-formed envelope.\<close>

definition handed_over :: "string \<Rightarrow> raw \<Rightarrow> delivery" where
  "handed_over k b = sample_delivery\<lparr>d_RoutingKey := k, d_Body := b\<rparr>"

definition event_delivery :: "string \<Rightarrow> string \<Rightarrow> json \<Rightarrow> delivery" where
  "event_delivery k owner j = sample_delivery\<lparr>d_RoutingKey := k,
     d_Body := RawJson (JObj [(''ownerId'', JStr owner), (''data'', j)])\<rparr>"

lemma event_delivery_key [simp]: "d_RoutingKey (event_delivery k owner j) = k"
  by (simp add: event_delivery_def)

lemma read_event_delivery:
  "dec zero j = Some p \<Longrightarrow>
     read_event dec zero (event_delivery k owner j) = Inr (\<lparr>am_OwnerID = owner, am_Data = RawJson j\<rparr>, p)"
  by (simp add: read_event_def event_delivery_def codec_defs json_defs)

text \<open>The envelope of a payload that is JSON, as the consumers decode it.\<close>

lemma read_amqp_sent:
  assumes "marshal enc_amqp_message \<lparr>am_OwnerID = u, am_Data = RawJson j\<rparr> = Inr b"
  shows "unmarshal (dec_struct amqp_message_fields) amqp_message_zero b = Inr \<lparr>am_OwnerID = u, am_Data = RawJson j\<rparr>"
proof -
  obtain i where "enc_amqp_message \<lparr>am_OwnerID = u, am_Data = RawJson j\<rparr> = Some i"
    "dec_struct amqp_message_fields amqp_message_zero i = Some \<lparr>am_OwnerID = u, am_Data = RawJson j\<rparr>"
    using amqp_message_roundtrip [of "\<lparr>am_OwnerID = u, am_Data = RawJson j\<rparr>" j] by auto
  with assms show ?thesis by (auto simp: marshal_def)
qed

lemma read_event_sent:
  assumes "marshal enc_amqp_message \<lparr>am_OwnerID = u, am_Data = RawJson j\<rparr> = Inr b" "dec zero j = Some p" "d_Body d = b"
  shows "read_event dec zero d = Inr (\<lparr>am_OwnerID = u, am_Data = RawJson j\<rparr>, p)"
  using read_amqp_sent [OF assms(1)] assms(2,3) by (simp add: read_event_def del: unmarshal_Inr_iff)

end
