(* ===== verification/TripEvents.thy ===== *)
theory TripEvents
  imports TripService Publishing
begin

text \<open>
  The trip service's edges: \<open>internal/infrastructure/events\<close> (the publisher and the two
  consumers), \<open>internal/infrastructure/grpc/grpc_handler.go\<close> and
  \<open>internal/infrastructure/http/http.go\<close>. \<open>pub\<close> is \<open>PublishMessage\<close> of the broker
  client. A panic in a consumer or in a gRPC handler ends the process.
\<close>

section \<open>Publisher\<close>

text \<open>The first coordinate of the route is \<open>[longitude, latitude]\<close>.\<close>

definition with_pickup :: "trip_model \<Rightarrow> trip_event_data \<Rightarrow> trip_event_data outcome" where
  "with_pickup trip payload =
     (case tm_RideFare trip of
        None \<Rightarrow> Returns payload
      | Some fare \<Rightarrow>
          (case fm_Route fare of
             None \<Rightarrow> Returns payload
           | Some resp \<Rightarrow>
               (case os_Routes resp of
                  [] \<Rightarrow> Returns payload
                | route # _ \<Rightarrow>
                    (case os_Coordinates route of
                       [] \<Rightarrow> Returns payload
                     | c # _ \<Rightarrow>
                         (case c of
                            x # y # _ \<Rightarrow> Returns (payload\<lparr>te_PickupLng := x, te_PickupLat := y\<rparr>)
                          | _ \<Rightarrow> Panics)))))"

definition trip_event_of :: "pb_trip \<Rightarrow> trip_event_data" where
  "trip_event_of t = \<lparr>te_Trip = Some t, te_PickupLat = F64 0, te_PickupLng = F64 0\<rparr>"

definition PublishTripCreated :: "'w publisher \<Rightarrow> trip_model \<Rightarrow> 'w \<Rightarrow> goerror option outcome \<times> 'w" where
  "PublishTripCreated pub trip w =
     bindo (Trip_ToProto trip, w) (\<lambda>t w1.
     bindo (with_pickup trip (trip_event_of t), w1) (\<lambda>payload w2.
       case marshal enc_trip_event_data payload of
         Inl e \<Rightarrow> (Returns (Some e), w2)
       | Inr tripEventJSON \<Rightarrow>
           pub TripEventCreated \<lparr>am_OwnerID = tm_UserID trip, am_Data = tripEventJSON\<rparr> w2))"

definition completed_payload :: "trip_model \<Rightarrow> raw" where
  "completed_payload trip = RawJson (JObj [(''tripID'', JStr (tm_ID trip))])"

definition PublishTripCompleted :: "'w publisher \<Rightarrow> trip_model \<Rightarrow> 'w \<Rightarrow> goerror option outcome \<times> 'w" where
  "PublishTripCompleted pub trip w =
     bindo (pub TripEventCompleted \<lparr>am_OwnerID = tm_UserID trip, am_Data = completed_payload trip\<rparr> w)
       (\<lambda>e w1. case e of
          Some e \<Rightarrow> (Returns (Some e), w1)
        | None \<Rightarrow>
            (case tm_Driver trip of
               None \<Rightarrow> (Returns None, w1)
             | Some d \<Rightarrow>
                 if td_Id d \<noteq> '''' then
                   pub TripEventCompleted \<lparr>am_OwnerID = td_Id d, am_Data = completed_payload trip\<rparr> w1
                 else (Returns None, w1)))"

definition PublishTripCancelled ::
  "'w publisher \<Rightarrow> string \<Rightarrow> string \<Rightarrow> string \<Rightarrow> bool \<Rightarrow> 'w \<Rightarrow> goerror option outcome \<times> 'w" where
  "PublishTripCancelled pub tripID riderID driverID driverAccepted w =
     (case marshal enc_trip_cancelled_data \<lparr>tc_TripID = tripID, tc_RiderID = riderID,
             tc_DriverID = driverID, tc_DriverAccepted = driverAccepted\<rparr> of
        Inl e \<Rightarrow> (Returns (Some e), w)
      | Inr data \<Rightarrow> pub TripEventCancelled \<lparr>am_OwnerID = riderID, am_Data = data\<rparr> w)"

section \<open>Consumer of the drivers' answers\<close>

definition handleTripDeclined ::
  "'w publisher \<Rightarrow> 'w trip_repo \<Rightarrow> string \<Rightarrow> string \<Rightarrow> 'w \<Rightarrow> goerror option outcome \<times> 'w" where
  "handleTripDeclined pub repo tripID riderID w =
     (case tr_GetTripByID repo tripID w of
        (Inl e, w1) \<Rightarrow> (Returns (Some e), w1)
      | (Inr None, w1) \<Rightarrow> (Panics, w1)
      | (Inr (Some trip), w1) \<Rightarrow>
          bindo (Trip_ToProto trip, w1) (\<lambda>t w2.
            case marshal enc_trip_event_data (trip_event_of t) of
              Inl e \<Rightarrow> (Returns (Some e), w2)
            | Inr payload \<Rightarrow>
                pub TripEventDriverNotInterested \<lparr>am_OwnerID = riderID, am_Data = payload\<rparr> w2))"

definition accepted_driver :: "driver_trip_response \<Rightarrow> pb_trip_driver" where
  "accepted_driver payload = \<lparr>td_Id = dr_DriverID payload, td_Name = dr_DriverName payload,
     td_ProfilePicture = '''', td_CarPlate = ''''\<rparr>"

definition payment_request :: "driver_trip_response \<Rightarrow> trip_model \<Rightarrow> ride_fare \<Rightarrow> payment_trip_response" where
  "payment_request payload trip fare = \<lparr>pr_TripID = dr_TripID payload, pr_UserID = tm_UserID trip,
     pr_DriverID = dr_DriverID payload, pr_Amount = fm_TotalPriceInCents fare, pr_Currency = ''USD''\<rparr>"

definition notify_accepted ::
  "'w publisher \<Rightarrow> driver_trip_response \<Rightarrow> trip_model \<Rightarrow> 'w \<Rightarrow> goerror option outcome \<times> 'w" where
  "notify_accepted pub payload trip w =
     bindo (Trip_ToProto trip, w) (\<lambda>t w1.
       case marshal enc_pb_trip t of
         Inl e \<Rightarrow> (Returns (Some e), w1)
       | Inr marshalledTrip \<Rightarrow>
           bindo (pub TripEventDriverAssigned \<lparr>am_OwnerID = tm_UserID trip, am_Data = marshalledTrip\<rparr> w1)
             (\<lambda>e w2. case e of
                Some e \<Rightarrow> (Returns (Some e), w2)
              | None \<Rightarrow>
                  (case tm_RideFare trip of
                     None \<Rightarrow> (Panics, w2)
                   | Some fare \<Rightarrow>
                       (case marshal enc_payment_trip_response (payment_request payload trip fare) of
                          Inl e \<Rightarrow> (Returns (Some e), w2)
                        | Inr marshalledPayload \<Rightarrow>
                            pub PaymentCmdCreateSession
                              \<lparr>am_OwnerID = tm_UserID trip, am_Data = marshalledPayload\<rparr> w2))))"

definition handleTripAccepted ::
  "'w publisher \<Rightarrow> 'w trip_repo \<Rightarrow> driver_trip_response \<Rightarrow> 'w \<Rightarrow> goerror option outcome \<times> 'w" where
  "handleTripAccepted pub repo payload w =
     (case tr_GetTripByID repo (dr_TripID payload) w of
        (Inl e, w1) \<Rightarrow> (Returns (Some e), w1)
      | (Inr None, w1) \<Rightarrow> (Returns (Some (ErrMsg (''trip was not found '' @ dr_TripID payload))), w1)
      | (Inr (Some _), w1) \<Rightarrow>
          (case tr_UpdateTrip repo (dr_TripID payload) ''accepted'' (Some (accepted_driver payload)) w1 of
             (Some e, w2) \<Rightarrow> (Returns (Some e), w2)
           | (None, w2) \<Rightarrow>
               (case tr_GetTripByID repo (dr_TripID payload) w2 of
                  (Inl e, w3) \<Rightarrow> (Returns (Some e), w3)
                | (Inr None, w3) \<Rightarrow> (Panics, w3)
                | (Inr (Some trip), w3) \<Rightarrow> notify_accepted pub payload trip w3)))"

definition driver_consumer :: "'w publisher \<Rightarrow> 'w trip_repo \<Rightarrow> 'w handler" where
  "driver_consumer pub repo d w =
     (case read_event (dec_struct driver_trip_response_fields) driver_trip_response_zero d of
        Inl e \<Rightarrow> (Returns (Some e), w)
      | Inr (_, payload) \<Rightarrow>
          (if d_RoutingKey d = DriverCmdTripAccept then handleTripAccepted pub repo payload w
           else if d_RoutingKey d = DriverCmdTripDecline
             then handleTripDeclined pub repo (dr_TripID payload) (dr_RiderID payload) w
           else (Returns None, w)))"

section \<open>Consumer of the payments\<close>

definition payment_consumer :: "'w publisher \<Rightarrow> 'w trip_repo \<Rightarrow> 'w handler" where
  "payment_consumer pub repo d w =
     (case read_event (dec_struct payment_status_update_fields) payment_status_update_zero d of
        Inl e \<Rightarrow> (Returns (Some e), w)
      | Inr (_, payload) \<Rightarrow>
          bindo (svc_CompleteTrip repo (pu_TripID payload) w) (\<lambda>r w1.
            case r of
              Inl e \<Rightarrow> (Returns (Some e), w1)
            | Inr trip \<Rightarrow> PublishTripCompleted pub trip w1))"

section \<open>gRPC and HTTP\<close>

definition status_internal :: "string \<Rightarrow> goerror \<Rightarrow> goerror" where
  "status_internal text e = GrpcStatus Internal (text @ '': '' @ err_string e)"

definition grpc_CreateTrip ::
  "'w publisher \<Rightarrow> 'w trip_repo \<Rightarrow> 'w mongo_trips \<Rightarrow> 'w fare_repo \<Rightarrow> string \<Rightarrow> string \<Rightarrow> 'w
     \<Rightarrow> string res outcome \<times> 'w" where
  "grpc_CreateTrip pub repo M F fareID userID w =
     (case svc_GetAndValidateFare F fareID userID w of
        (Inl e, w1) \<Rightarrow> (Returns (Inl (status_internal ''failed to validate the fare'' e)), w1)
      | (Inr rideFare, w1) \<Rightarrow>
          (case svc_CreateTrip repo M rideFare w1 of
             (Inl e, w2) \<Rightarrow> (Returns (Inl (status_internal ''failed to create the trip'' e)), w2)
           | (Inr trip, w2) \<Rightarrow>
               bindo (PublishTripCreated pub trip w2) (\<lambda>e w3.
                 case e of
                   Some e \<Rightarrow> (Returns (Inl (status_internal ''failed to publish the trip created event'' e)), w3)
                 | None \<Rightarrow> (Returns (Inr (tm_ID trip)), w3))))"

text \<open>The error of the estimate is dropped, which leaves no fares.\<close>

definition grpc_PreviewTrip ::
  "'w http_get \<Rightarrow> 'w mongo_trips \<Rightarrow> 'w fare_repo \<Rightarrow> string \<Rightarrow> coordinate option \<Rightarrow> coordinate option \<Rightarrow> 'w
     \<Rightarrow> (pb_route \<times> pb_ride_fare list) res outcome \<times> 'w" where
  "grpc_PreviewTrip get M F userID pickup destination w =
     (case (pickup, destination) of
        (Some pickupCoord, Some destinationCoord) \<Rightarrow>
          (case svc_GetRoute get pickupCoord destinationCoord w of
             (Inl e, w1) \<Rightarrow> (Returns (Inl (status_internal ''failed to get route'' e)), w1)
           | (Inr route, w1) \<Rightarrow>
               (let estimatedFares = (case svc_EstimatePackagePriceWithRoute route of Inr fs \<Rightarrow> fs | Inl _ \<Rightarrow> [])
                in case svc_GenerateTripFares F M estimatedFares userID route w1 of
                     (Inl e, w2) \<Rightarrow> (Returns (Inl (status_internal ''failed to generate the ride fares'' e)), w2)
                   | (Inr preview, w2) \<Rightarrow>
                       bindo (OSRM_ToProto (Some route), w2) (\<lambda>r w3.
                       bindo (ToRideFaresProto preview, w3) (\<lambda>fs w4. (Returns (Inr (r, fs)), w4)))))
      | _ \<Rightarrow> (Panics, w))"

text \<open>A failed publication is logged and does not fail the call.\<close>

definition grpc_CancelTrip ::
  "'w publisher \<Rightarrow> 'w trip_repo \<Rightarrow> string \<Rightarrow> string \<Rightarrow> 'w \<Rightarrow> string res outcome \<times> 'w" where
  "grpc_CancelTrip pub repo tripID userID w =
     bindo (svc_CancelTrip repo tripID userID w) (\<lambda>r w1.
       case r of
         Inl e \<Rightarrow> (Returns (Inl (status_internal ''failed to cancel trip'' e)), w1)
       | Inr trip \<Rightarrow>
           (let driverID = (case tm_Driver trip of None \<Rightarrow> '''' | Some d \<Rightarrow> td_Id d);
                driverAccepted = (driverID \<noteq> '''')
            in bindo (PublishTripCancelled pub tripID (tm_UserID trip) driverID driverAccepted w1)
                 (\<lambda>e w2. (Returns (Inr driverID), w2))))"

text \<open>The HTTP handler: a status code with an error text or a route.\<close>

record preview_request =
  pq_UserID :: string
  pq_Pickup :: coordinate
  pq_Destination :: coordinate

definition coordinate_zero :: coordinate where
  "coordinate_zero = \<lparr>Latitude = F64 0, Longitude = F64 0\<rparr>"

definition coordinate_fields :: "coordinate fields" where
  "coordinate_fields = [fld ''latitude'' Latitude Latitude_update dec_f64,
                        fld ''longitude'' Longitude Longitude_update dec_f64]"

definition preview_request_zero :: preview_request where
  "preview_request_zero = \<lparr>pq_UserID = '''', pq_Pickup = coordinate_zero, pq_Destination = coordinate_zero\<rparr>"

definition preview_request_fields :: "preview_request fields" where
  "preview_request_fields =
     [fld ''userID'' pq_UserID pq_UserID_update dec_str,
      fld ''pickup'' pq_Pickup pq_Pickup_update (dec_struct coordinate_fields),
      fld ''destination'' pq_Destination pq_Destination_update (dec_struct coordinate_fields)]"

definition HandleTripPreview :: "'w http_get \<Rightarrow> raw \<Rightarrow> 'w \<Rightarrow> (nat \<times> (string + osrm_response)) \<times> 'w" where
  "HandleTripPreview get body w =
     (case unmarshal (dec_struct preview_request_fields) preview_request_zero body of
        Inl e \<Rightarrow> ((400, Inl ''failed to parse JSON data''), w)
      | Inr reqBody \<Rightarrow>
          (case svc_GetRoute get (pq_Pickup reqBody) (pq_Destination reqBody) w of
             (Inl e, w1) \<Rightarrow> ((500, Inl ''failed to get route''), w1)
           | (Inr t, w1) \<Rightarrow> ((200, Inr t), w1)))"

end
