(* ===== verification/TripFacts.thy ===== *)
theory TripFacts
  imports TripEvents
begin

text \<open>
  Facts the properties of the trip service share: what the repository, the previews in Redis and the
  publisher leave unchanged, the fares of a stored preview, and a reference collection of trips.
\<close>

section \<open>Keeping the worlds apart\<close>

definition mongo_keeps :: "'w mongo_trips \<Rightarrow> ('w \<Rightarrow> 'a) \<Rightarrow> bool" where
  "mongo_keeps M f \<longleftrightarrow>
     (\<forall>w i w'. mt_new_id M w = (i, w') \<longrightarrow> f w' = f w)
   \<and> (\<forall>t w r w'. mt_insert_one M t w = (r, w') \<longrightarrow> f w' = f w)
   \<and> (\<forall>i w r w'. mt_find_one M i w = (r, w') \<longrightarrow> f w' = f w)
   \<and> (\<forall>i s d w r w'. mt_update_one M i s d w = (r, w') \<longrightarrow> f w' = f w)"

lemma mongo_keepsD:
  assumes "mongo_keeps M f"
  shows "tr_GetTripByID (NewMongoRepository M) i w = (r1, w') \<Longrightarrow> f w' = f w"
    "tr_UpdateTrip (NewMongoRepository M) i s d w = (r2, w') \<Longrightarrow> f w' = f w"
    "tr_CreateTrip (NewMongoRepository M) t w = (r3, w') \<Longrightarrow> f w' = f w"
    "mt_new_id M w = (n, w') \<Longrightarrow> f w' = f w"
  using assms unfolding mongo_keeps_def
  by (auto simp: NewMongoRepository_def mongo_GetTripByID_def mongo_UpdateTrip_def mongo_CreateTrip_def
        split: sum.splits prod.splits if_splits)

section \<open>Prices\<close>

lemma estimate_at_least:
  assumes "os_Routes route = r # rs" "os_Distance r = F64 d" "0 \<le> d" "os_Duration r = F64 t" "0 \<le> t"
    and "n < 2 ^ 53"
  shows "f64_at_least (of_nat n) (fm_TotalPriceInCents (estimateFareRoute (base_fare slug (of_nat n)) route))"
proof -
  let ?v = "of_nat n :: rat"
  have v: "f64_val ?v = ?v" "0 \<le> ?v" using f64_val_nat [OF assms(6)] by simp_all
  have "f64_at_least 0 (f64_mul (F64 d) (F64 (3 / 2)))" "f64_at_least 0 (f64_mul (F64 t) (F64 (1 / 4)))"
    using assms(3,5) by (intro f64_mul_nonneg; simp)+
  moreover have "f64_at_least ?v (F64 ?v)" by simp
  ultimately show ?thesis
    using v assms(1,2,4)
    by (simp add: estimateFareRoute_def base_fare_def DefaultPricingConfig_def Let_def f64_add_at_least)
qed

section \<open>Quotes\<close>

lemma redis_bytesD:
  assumes "redis_bytes R bv"
  shows "rd_get_bytes R k w = (r, w') \<Longrightarrow> bv w' = bv w"
    "rd_get_bytes R k w = (Inr b, w') \<Longrightarrow> bv w k = Some b"
    "rd_get_bytes R k w = (Inl RedisNil, w') \<Longrightarrow> bv w k = None"
    "rd_set_bytes R k b t w = (None, w') \<Longrightarrow> bv w' = (bv w)(k \<mapsto> b)"
  using assms unfolding redis_bytes_def by blast+

lemma find_fare_distinct:
  assumes "Some opt \<in> set fs" "distinct (map fo_ID (map the fs))" "None \<notin> set fs"
  shows "find_fare (fo_ID opt) fs = Some opt"
  using assms
proof (induction fs)
  case (Cons f fs)
  then obtain x where x: "f = Some x" by (cases f) auto
  show ?case
  proof (cases "x = opt")
    case False
    then have "Some opt \<in> set fs" using Cons.prems x by auto
    moreover from this have "fo_ID opt \<in> set (map fo_ID (map the fs))" by force
    ultimately show ?thesis using Cons x False by auto
  qed (simp add: x)
qed simp

lemma stored_preview_read:
  assumes "redis_bytes R bv" "wire_preview p" "marshal enc_fare_preview p = Inr b"
    and "bv w (farePreviewPrefix @ fp_UserID p) = Some b"
    and "redis_GetRideFareByID R i (fp_UserID p) w = (Inr r, w')"
  shows "\<exists>opt. find_fare i (fp_Fares p) = Some opt \<and> r = Some \<lparr>fm_ID = fo_ID opt, fm_UserID = fp_UserID p,
     fm_PackageSlug = fo_PackageSlug opt, fm_TotalPriceInCents = fo_TotalPriceInCents opt, fm_Route = fp_Route p\<rparr>"
proof -
  obtain j where j: "b = RawJson j" "dec_struct fare_preview_fields fare_preview_zero j = Some p"
    using fare_preview_roundtrip [OF assms(2)] assms(3) by (auto simp: marshal_def)
  obtain g w1 where g: "rd_get_bytes R (farePreviewPrefix @ fp_UserID p) w = (g, w1)" by fastforce
  then obtain b' where b': "g = Inr b'"
    using assms(5) by (cases g) (auto simp: redis_GetRideFareByID_def split: if_splits)
  then have "b' = b" using redis_bytesD(2) [OF assms(1)] g assms(4) by fastforce
  then show ?thesis
    using assms(5) g b' j by (auto simp: redis_GetRideFareByID_def split: option.splits)
qed

lemma make_options_prices:
  "make_options M fs w = (opts, w') \<Longrightarrow>
     map fo_TotalPriceInCents opts = map fm_TotalPriceInCents fs \<and> map fo_PackageSlug opts = map fm_PackageSlug fs"
  by (induction fs arbitrary: opts w) (auto split: prod.splits)

lemma make_options_ids:
  assumes "mongo_docs M docs"
  shows "make_options M fs w = (opts, w') \<Longrightarrow> list_all (\<lambda>x. oid_ok (fo_ID x)) opts"
proof (induction fs arbitrary: opts w)
  case (Cons f fs)
  then show ?case using assms unfolding mongo_docs_def by (fastforce split: prod.splits)
qed simp

section \<open>Answers of drivers, payments\<close>

lemma notify_accepted_done:
  assumes "notify_accepted pub payload trip w = (Returns None, w')"
  obtains t fare j j' w1 where "Trip_ToProto trip = Returns t" "tm_RideFare trip = Some fare"
    "marshal enc_pb_trip t = Inr j" "marshal enc_payment_trip_response (payment_request payload trip fare) = Inr j'"
    "pub TripEventDriverAssigned \<lparr>am_OwnerID = tm_UserID trip, am_Data = j\<rparr> w = (Returns None, w1)"
    "pub PaymentCmdCreateSession \<lparr>am_OwnerID = tm_UserID trip, am_Data = j'\<rparr> w1 = (Returns None, w')"
proof -
  obtain t where t: "Trip_ToProto trip = Returns t"
    using assms by (auto simp: notify_accepted_def bindo_Returns_iff)
  obtain j where j: "marshal enc_pb_trip t = Inr j"
    using assms t by (cases "marshal enc_pb_trip t") (auto simp: notify_accepted_def)
  obtain w1 where p: "pub TripEventDriverAssigned \<lparr>am_OwnerID = tm_UserID trip, am_Data = j\<rparr> w = (Returns None, w1)"
    using assms t j by (auto simp: notify_accepted_def bindo_Returns_iff split: option.splits)
  obtain fare where f: "tm_RideFare trip = Some fare"
    using assms t j p by (cases "tm_RideFare trip") (auto simp: notify_accepted_def)
  obtain j' where j': "marshal enc_payment_trip_response (payment_request payload trip fare) = Inr j'"
    using assms t j p f
    by (cases "marshal enc_payment_trip_response (payment_request payload trip fare)")
       (auto simp: notify_accepted_def)
  show thesis
    using that [OF t f j j' p] assms t j p f j' by (simp add: notify_accepted_def)
qed

lemma handleTripAccepted_done:
  assumes M: "mongo_docs M docs" "mongo_keeps M (sent_of tr)" and B: "broker_traces B tr"
    and pk: "pub_keeps (PublishMessage B rt) docs"
    and run: "handleTripAccepted (PublishMessage B rt) (NewMongoRepository M) payload w = (Returns None, w')"
  shows "\<exists>k t w1. ObjectIDFromHex (dr_TripID payload) = Inr k \<and> docs w k = Some t
     \<and> set_trip ''accepted'' (Some (accepted_driver payload)) t \<noteq> t
     \<and> docs w' = (docs w)(k \<mapsto> set_trip ''accepted'' (Some (accepted_driver payload)) t)
     \<and> sent_of tr w1 = sent_of tr w
     \<and> notify_accepted (PublishMessage B rt) payload (set_trip ''accepted'' (Some (accepted_driver payload)) t) w1
         = (Returns None, w')"
proof -
  let ?repo = "NewMongoRepository M" and ?i = "dr_TripID payload" and ?d = "Some (accepted_driver payload)"
  obtain t0 w1 w2 t1 w3 where g1: "tr_GetTripByID ?repo ?i w = (Inr (Some t0), w1)"
    and u: "tr_UpdateTrip ?repo ?i ''accepted'' ?d w1 = (None, w2)"
    and g2: "tr_GetTripByID ?repo ?i w2 = (Inr (Some t1), w3)"
    and n: "notify_accepted (PublishMessage B rt) payload t1 w3 = (Returns None, w')"
    using run unfolding handleTripAccepted_def by (auto split: prod.splits sum.splits option.splits)
  from mongo.get_found [OF M(1) g1] mongo.update_done [OF M(1) u] obtain k where
    k: "ObjectIDFromHex ?i = Inr k" "docs w k = Some t0" "docs w1 = docs w"
      "set_trip ''accepted'' ?d t0 \<noteq> t0" "docs w2 = (docs w)(k \<mapsto> set_trip ''accepted'' ?d t0)" by auto
  from mongo.get_found [OF M(1) g2] k have t1: "t1 = set_trip ''accepted'' ?d t0" "docs w3 = docs w2" by auto
  have s: "sent_of tr w3 = sent_of tr w"
    using mongo_keepsD(1) [OF M(2) g1] mongo_keepsD(2) [OF M(2) u] mongo_keepsD(1) [OF M(2) g2] by simp
  have "docs w' = docs w3"
    by (rule notify_accepted_done [OF n]) (metis pub_keepsD [OF pk])
  then show ?thesis using k t1 s n by auto
qed


lemma PublishTripCreated_done:
  assumes "PublishTripCreated pub trip w = (Returns None, w')"
  obtains t ev j where "Trip_ToProto trip = Returns t" "with_pickup trip (trip_event_of t) = Returns ev"
    "marshal enc_trip_event_data ev = Inr j"
    "pub TripEventCreated \<lparr>am_OwnerID = tm_UserID trip, am_Data = j\<rparr> w = (Returns None, w')"
proof -
  obtain t where t: "Trip_ToProto trip = Returns t"
    using assms by (auto simp: PublishTripCreated_def bindo_Returns_iff)
  obtain ev where ev: "with_pickup trip (trip_event_of t) = Returns ev"
    using assms t by (auto simp: PublishTripCreated_def bindo_Returns_iff)
  obtain j where j: "marshal enc_trip_event_data ev = Inr j"
    using assms t ev by (cases "marshal enc_trip_event_data ev") (auto simp: PublishTripCreated_def)
  show thesis using that [OF t ev j] assms t ev j by (simp add: PublishTripCreated_def)
qed

section \<open>A world with trips\<close>

record tsim = sim +
  ts_docs :: "object_id \<rightharpoonup> trip_model"
  ts_ids :: nat

definition tsim0 :: tsim where
  "tsim0 = sim.extend sim0 (tsim.fields Map.empty 1)"

definition sim_mongo :: "tsim mongo_trips" where
  "sim_mongo = \<lparr>
     mt_new_id = (\<lambda>s. (replicate 24 (hex_digits ! (ts_ids s mod 16)), s\<lparr>ts_ids := ts_ids s + 1\<rparr>)),
     mt_insert_one = (\<lambda>t s. (Inr (tm_ID t), s\<lparr>ts_docs := (ts_docs s)(tm_ID t \<mapsto> t)\<rparr>)),
     mt_find_one = (\<lambda>i s. (case ts_docs s i of None \<Rightarrow> Inl (ErrMsg ''mongo: no documents in result'')
                            | Some t \<Rightarrow> Inr t, s)),
     mt_update_one = (\<lambda>i st d s. case ts_docs s i of
                          None \<Rightarrow> (Inr 0, s)
                        | Some t \<Rightarrow> (Inr (if set_trip st d t = t then 0 else 1),
                                     s\<lparr>ts_docs := (ts_docs s)(i \<mapsto> set_trip st d t)\<rparr>))\<rparr>"

lemma hex_digit_ok: "n < 16 \<Longrightarrow> oid_ok (replicate 24 (hex_digits ! n))"
proof -
  have "\<forall>n\<in>{..<16}. lower_char (hex_digits ! n) = hex_digits ! n \<and> hex_digits ! n \<in> set hex_digits"
    by (simp add: hex_digits_def numeral_eq_Suc lessThan_Suc)
  then show "n < 16 \<Longrightarrow> oid_ok (replicate 24 (hex_digits ! n))"
    by (simp add: oid_ok_def is_hex24_def to_lower_def list_all_iff)
qed

lemma sim_mongo_docs: "mongo_docs sim_mongo ts_docs"
  by (auto simp: mongo_docs_def sim_mongo_def hex_digit_ok split: option.splits)

lemma sim_mongo_keeps:
  "(\<And>s d. f (s\<lparr>ts_docs := d\<rparr>) = f s) \<Longrightarrow> (\<And>s n. f (s\<lparr>ts_ids := n\<rparr>) = f s) \<Longrightarrow> mongo_keeps sim_mongo f"
  by (auto simp: mongo_keeps_def sim_mongo_def split: option.splits)

lemma sim_sent_keeps: "mongo_keeps sim_mongo (sent_of si_events)"
  by (rule sim_mongo_keeps) (simp_all add: sent_of_def)

end
