(* ===== verification/TripProps.thy ===== *)
theory TripProps
  imports TripFacts
begin

text \<open>
  What a preview offers and what a trip created from it costs: no fare below its base, and the quoted
  price is the charged one.
\<close>

section \<open>Prices and quotes\<close>

text \<open>
  C16: The estimate offers the four packages, and none costs less than its base fare, for every
  route of non-negative distance and duration, with the rounding of 64-bit floats.
\<close>

theorem fares_cover_base:
  assumes "os_Routes route = r # rs" "os_Distance r = F64 d" "0 \<le> d" "os_Duration r = F64 t" "0 \<le> t"
  shows "\<exists>fares. svc_EstimatePackagePriceWithRoute route = Inr fares
     \<and> map fm_PackageSlug fares = [''van'', ''suv'', ''sedan'', ''luxury'']
     \<and> list_all2 f64_at_least [100, 150, 250, 400] (map fm_TotalPriceInCents fares)"
  using estimate_at_least [OF assms, of 100] estimate_at_least [OF assms, of 150]
    estimate_at_least [OF assms, of 250] estimate_at_least [OF assms, of 400]
  by (simp add: svc_EstimatePackagePriceWithRoute_def getBaseFares_def assms(1))
     (simp add: estimateFareRoute_def base_fare_def Let_def)

definition sample_route :: osrm_response where
  "sample_route = \<lparr>os_Routes = [\<lparr>os_Distance = F64 0, os_Duration = F64 0,
     os_Coordinates = [[F64 13, F64 52], [F64 14, F64 53]]\<rparr>]\<rparr>"

theorem fares_cover_base_witness:
  "\<exists>fares. svc_EstimatePackagePriceWithRoute sample_route = Inr fares \<and> length fares = 4"
proof -
  have "os_Routes sample_route = hd (os_Routes sample_route) # []"
    "os_Distance (hd (os_Routes sample_route)) = F64 0" "os_Duration (hd (os_Routes sample_route)) = F64 0"
    by (simp_all add: sample_route_def)
  from fares_cover_base [OF this(1,2) _ this(3)] show ?thesis by (fastforce dest: list_all2_lengthD)
qed

text \<open>What a preview leaves behind, and what a trip created from a stored fare looks like.\<close>

lemma preview_done:
  assumes "grpc_PreviewTrip get M (NewRedisRideFareRepository R) u (Some p) (Some q) w = (Returns (Inr (rt, fares)), w1)"
  obtains route w0 est opts wo where "svc_GetRoute get p q w = (Inr route, w0)" "make_options M est w0 = (opts, wo)"
    "redis_SaveFarePreview R \<lparr>fp_UserID = u, fp_Route = Some route, fp_Fares = map Some opts\<rparr> wo = (None, w1)"
    "fares = map (\<lambda>x. \<lparr>rf_Id = fo_ID x, rf_PackageSlug = fo_PackageSlug x,
        rf_TotalPriceInCents = fo_TotalPriceInCents x\<rparr>) opts"
proof -
  obtain route w0 where rte: "svc_GetRoute get p q w = (Inr route, w0)"
    using assms by (auto simp: grpc_PreviewTrip_def split: prod.splits sum.splits)
  define est where "est = (case svc_EstimatePackagePriceWithRoute route of Inr fs \<Rightarrow> fs | Inl _ \<Rightarrow> [])"
  obtain opts wo where opts: "make_options M est w0 = (opts, wo)" by fastforce
  let ?p = "\<lparr>fp_UserID = u, fp_Route = Some route, fp_Fares = map Some opts\<rparr>"
  have prev: "redis_SaveFarePreview R ?p wo = (None, w1)"
    and fares: "ToRideFaresProto ?p = Returns fares"
    using assms rte opts
    by (auto simp: grpc_PreviewTrip_def svc_GenerateTripFares_def est_def [symmetric] Let_def
          NewRedisRideFareRepository_def bindo_Returns_iff split: option.splits prod.splits)
  from fares have "fares = map (\<lambda>x. \<lparr>rf_Id = fo_ID x, rf_PackageSlug = fo_PackageSlug x,
        rf_TotalPriceInCents = fo_TotalPriceInCents x\<rparr>) opts"
    by (auto simp: ToRideFaresProto_def o_def split: if_splits)
  with rte opts prev that show thesis by blast
qed

lemma create_done:
  assumes M: "mongo_docs M docs" and pk: "pub_keeps pub docs"
    and "grpc_CreateTrip pub (NewMongoRepository M) M (NewRedisRideFareRepository R) i u w2 = (Returns (Inr tid), w3)"
  shows "\<exists>fare w4 t w5. redis_GetRideFareByID R i u w2 = (Inr (Some fare), w4) \<and> fm_UserID fare = u \<and> docs w3 tid = Some t
     \<and> t = \<lparr>tm_ID = tid, tm_UserID = u, tm_Status = ''pending'', tm_RideFare = Some fare, tm_Driver = None\<rparr>
     \<and> PublishTripCreated pub t w5 = (Returns None, w3)"
proof -
  obtain fare w4 where get: "redis_GetRideFareByID R i u w2 = (Inr (Some fare), w4)" and u: "fm_UserID fare = u"
    and rest: "(case svc_CreateTrip (NewMongoRepository M) M fare w4 of
             (Inl e, w2) \<Rightarrow> (Returns (Inl (status_internal ''failed to create the trip'' e)), w2)
           | (Inr trip, w2) \<Rightarrow>
               bindo (PublishTripCreated pub trip w2) (\<lambda>e w3.
                 case e of
                   Some e \<Rightarrow> (Returns (Inl (status_internal ''failed to publish the trip created event'' e)), w3)
                 | None \<Rightarrow> (Returns (Inr (tm_ID trip)), w3))) = (Returns (Inr tid), w3)"
    using assms(3) unfolding grpc_CreateTrip_def svc_GetAndValidateFare_def NewRedisRideFareRepository_def
    by (auto split: prod.splits sum.splits option.splits if_splits)
  obtain trip w5 where cr: "svc_CreateTrip (NewMongoRepository M) M fare w4 = (Inr trip, w5)"
    using rest by (auto split: prod.splits sum.splits)
  then obtain k where t: "trip = \<lparr>tm_ID = k, tm_UserID = fm_UserID fare, tm_Status = ''pending'',
      tm_RideFare = Some fare, tm_Driver = None\<rparr>" and d5: "docs w5 k = Some trip"
    using mongo.create_done [OF M] by (fastforce simp: svc_CreateTrip_def split: prod.splits)
  have pb: "PublishTripCreated pub trip w5 = (Returns None, w3)" and tid: "tid = k"
    using rest unfolding cr by (auto simp: bindo_Returns_iff t split: option.splits)
  have "docs w3 = docs w5" by (rule PublishTripCreated_done [OF pb]) (rule pub_keepsD [OF pk])
  with get u t d5 tid pb show ?thesis by auto
qed



text \<open>A ride from preview to creation in the reference world.\<close>

definition sample_get :: "tsim http_get" where
  "sample_get url w = (Inr (Inr (RawJson (JObj [(''routes'', JArr [JObj [(''distance'', JInt 0), (''duration'', JInt 0),
     (''geometry'', JObj [(''coordinates'', JArr [JArr [JInt 0, JInt 0]])])]])]))), w)"

lemma sample_get_route:
  "svc_GetRoute sample_get p q w = (Inr \<lparr>os_Routes = [\<lparr>os_Distance = F64 0, os_Duration = F64 0,
     os_Coordinates = [[F64 0, F64 0]]\<rparr>]\<rparr>, w)"
  by (simp add: svc_GetRoute_def sample_get_def osrm_response_fields_def osrm_route_fields_def
        osrm_response_zero_def osrm_route_zero_def json_defs f64_of_int_def f64_round_def)

definition zero_route :: osrm_response where
  "zero_route = \<lparr>os_Routes = [\<lparr>os_Distance = F64 0, os_Duration = F64 0, os_Coordinates = [[F64 0, F64 0]]\<rparr>]\<rparr>"

definition sample_options :: "fare_option list" where
  "sample_options =
     [\<lparr>fo_ID = replicate 24 (CHR ''1''), fo_PackageSlug = ''van'', fo_TotalPriceInCents = F64 100\<rparr>,
      \<lparr>fo_ID = replicate 24 (CHR ''2''), fo_PackageSlug = ''suv'', fo_TotalPriceInCents = F64 150\<rparr>,
      \<lparr>fo_ID = replicate 24 (CHR ''3''), fo_PackageSlug = ''sedan'', fo_TotalPriceInCents = F64 250\<rparr>,
      \<lparr>fo_ID = replicate 24 (CHR ''4''), fo_PackageSlug = ''luxury'', fo_TotalPriceInCents = F64 400\<rparr>]"

lemma zero_route_estimate:
  "svc_EstimatePackagePriceWithRoute zero_route =
     Inr (map (\<lambda>x. \<lparr>fm_ID = nil_object_id, fm_UserID = '''', fm_PackageSlug = fo_PackageSlug x,
                  fm_TotalPriceInCents = fo_TotalPriceInCents x, fm_Route = None\<rparr>) sample_options)"
  using f64_round_nat [of 100] f64_round_nat [of 150] f64_round_nat [of 250] f64_round_nat [of 400] f64_round_nat [of 0]
  by (simp add: svc_EstimatePackagePriceWithRoute_def zero_route_def getBaseFares_def base_fare_def
        estimateFareRoute_def DefaultPricingConfig_def sample_options_def Let_def)

lemma sample_make_options:
  "make_options sim_mongo (map (\<lambda>x. \<lparr>fm_ID = nil_object_id, fm_UserID = '''', fm_PackageSlug = fo_PackageSlug x,
                  fm_TotalPriceInCents = fo_TotalPriceInCents x, fm_Route = None\<rparr>) sample_options) tsim0
     = (sample_options, tsim0\<lparr>ts_ids := 5\<rparr>)"
  by (simp add: sample_options_def sim_mongo_def tsim0_def sim.defs tsim.defs sim0_def hex_digits_def)

definition sample_preview :: fare_preview where
  "sample_preview = \<lparr>fp_UserID = ''u1'', fp_Route = Some zero_route, fp_Fares = map Some sample_options\<rparr>"

lemma sample_preview_wire: "wire_preview sample_preview"
  using f64_round_nat [of 100] f64_round_nat [of 150] f64_round_nat [of 250] f64_round_nat [of 400] f64_round_nat [of 0]
    hex_digit_ok [of 1] hex_digit_ok [of 2] hex_digit_ok [of 3] hex_digit_ok [of 4]
  by (simp add: wire_preview_def sample_preview_def sample_options_def zero_route_def wire_osrm_def
        wire_osrm_route_def hex_digits_def)


definition sample_fares :: "pb_ride_fare list" where
  "sample_fares = map (\<lambda>x. \<lparr>rf_Id = fo_ID x, rf_PackageSlug = fo_PackageSlug x,
     rf_TotalPriceInCents = fo_TotalPriceInCents x\<rparr>) sample_options"

definition sample_pb_route :: pb_route where
  "sample_pb_route = \<lparr>rt_Geometry = [Some \<lparr>ge_Coordinates = [Some \<lparr>co_Latitude = F64 0, co_Longitude = F64 0\<rparr>]\<rparr>],
     rt_Distance = F64 0, rt_Duration = F64 0\<rparr>"

definition previewed :: "raw \<Rightarrow> tsim" where
  "previewed b = tsim0\<lparr>ts_ids := 5, si_bytes := [farePreviewPrefix @ ''u1'' \<mapsto> b]\<rparr>"

lemma sample_PreviewTrip:
  assumes "marshal enc_fare_preview sample_preview = Inr b"
  shows "grpc_PreviewTrip sample_get sim_mongo (NewRedisRideFareRepository sim_redis) ''u1''
     (Some coordinate_zero) (Some coordinate_zero) tsim0 = (Returns (Inr (sample_pb_route, sample_fares)), previewed b)"
proof -
  have r: "svc_GetRoute sample_get coordinate_zero coordinate_zero tsim0 = (Inr zero_route, tsim0)"
    by (simp add: sample_get_route zero_route_def)
  have s: "redis_SaveFarePreview sim_redis sample_preview (tsim0\<lparr>ts_ids := 5\<rparr>) = (None, previewed b)"
    using assms by (simp add: redis_SaveFarePreview_def sim_redis_def previewed_def tsim0_def sim.defs tsim.defs sim0_def)
      (simp add: sample_preview_def)
  have g: "svc_GenerateTripFares (NewRedisRideFareRepository sim_redis) sim_mongo
       (map (\<lambda>x. \<lparr>fm_ID = nil_object_id, fm_UserID = '''', fm_PackageSlug = fo_PackageSlug x,
          fm_TotalPriceInCents = fo_TotalPriceInCents x, fm_Route = None\<rparr>) sample_options) ''u1'' zero_route tsim0
     = (Inr sample_preview, previewed b)"
    using s by (simp add: svc_GenerateTripFares_def sample_make_options NewRedisRideFareRepository_def
          sample_preview_def)
  show ?thesis
    by (simp add: grpc_PreviewTrip_def r zero_route_estimate g)
       (simp add: OSRM_ToProto_def zero_route_def ToRideFaresProto_def sample_preview_def sample_fares_def
          sample_pb_route_def o_def image_iff)
qed

definition sample_trip :: trip_model where
  "sample_trip = \<lparr>tm_ID = replicate 24 (CHR ''5''), tm_UserID = ''u1'', tm_Status = ''pending'',
     tm_RideFare = Some \<lparr>fm_ID = replicate 24 (CHR ''1''), fm_UserID = ''u1'', fm_PackageSlug = ''van'',
       fm_TotalPriceInCents = F64 100, fm_Route = Some zero_route\<rparr>, tm_Driver = None\<rparr>"

lemma sample_event_sent:
  assumes "si_up w"
  shows "\<exists>w'. PublishTripCreated (PublishMessage sim_broker (sim_runtime :: tsim runtime)) sample_trip w = (Returns None, w')"
proof -
  have "\<exists>t. Trip_ToProto sample_trip = Returns t \<and> (\<exists>ev j. with_pickup sample_trip (trip_event_of t) = Returns ev
     \<and> marshal enc_trip_event_data ev = Inr (RawJson j))"
    using enc_f64.simps(1) [of 100]
    by (simp add: sample_trip_def Trip_ToProto_def OSRM_ToProto_def zero_route_def with_pickup_def
          trip_event_of_def RideFare_ToProto_def marshal_def codec_defs json_defs enc_pb_trip_def enc_pb_ride_fare_def
          enc_pb_route_def enc_pb_geometry_def enc_pb_coordinate_def enc_trip_event_data_def)
  then obtain t ev j where t: "Trip_ToProto sample_trip = Returns t"
    "with_pickup sample_trip (trip_event_of t) = Returns ev" "marshal enc_trip_event_data ev = Inr (RawJson j)" by blast
  obtain b where "marshal enc_amqp_message \<lparr>am_OwnerID = tm_UserID sample_trip, am_Data = RawJson j\<rparr> = Inr b"
    by (simp add: marshal_amqp_message)
  then show ?thesis using t sim_publish_up [OF assms] by (simp add: PublishTripCreated_def)
qed

lemma sample_ride_created:
  assumes j: "dec_struct fare_preview_fields fare_preview_zero j = Some sample_preview"
  shows "\<exists>w2 w3. grpc_CreateTrip (PublishMessage sim_broker (sim_runtime :: tsim runtime)) (NewMongoRepository sim_mongo) sim_mongo
      (NewRedisRideFareRepository sim_redis) (rf_Id (hd sample_fares)) ''u1'' (previewed (RawJson j))
    = (Returns (Inr (tm_ID sample_trip)), w3) \<and> ts_docs w3 (tm_ID sample_trip) = Some sample_trip
    \<and> PublishTripCreated (PublishMessage sim_broker sim_runtime) sample_trip w2 = (Returns None, w3)"
proof -
  let ?pub = "PublishMessage sim_broker (sim_runtime :: tsim runtime)"
  let ?f = "hd sample_fares"
  define w1 where "w1 = previewed (RawJson j)"
  define w2 where "w2 = w1\<lparr>ts_ids := 6, ts_docs := [replicate 24 (CHR ''5'') \<mapsto> sample_trip]\<rparr>"
  have up: "si_up w2"
    by (simp add: w2_def w1_def previewed_def tsim0_def sim.defs tsim.defs sim0_def)
  obtain w3 where ev: "PublishTripCreated ?pub sample_trip w2 = (Returns None, w3)"
    using sample_event_sent [OF up] by blast
  have fare: "svc_GetAndValidateFare (NewRedisRideFareRepository sim_redis) (rf_Id ?f) ''u1'' w1 =
     (Inr (the (tm_RideFare sample_trip)), w1)"
    using j by (simp add: svc_GetAndValidateFare_def NewRedisRideFareRepository_def redis_GetRideFareByID_def
         sim_redis_def w1_def previewed_def sample_fares_def sample_options_def)
       (simp add: sample_preview_def sample_options_def sample_trip_def)
  have new: "svc_CreateTrip (NewMongoRepository sim_mongo) sim_mongo (the (tm_RideFare sample_trip)) w1
     = (Inr sample_trip, w2)"
    by (simp add: svc_CreateTrip_def NewMongoRepository_def mongo_CreateTrip_def sim_mongo_def w2_def w1_def
         previewed_def tsim0_def sim.defs tsim.defs hex_digits_def sample_trip_def)
  have pk: "pub_keeps ?pub ts_docs" by (rule sim_pub_keeps) simp_all
  have "ts_docs w3 = ts_docs w2" by (rule PublishTripCreated_done [OF ev]) (rule pub_keepsD [OF pk])
  moreover have "ts_docs w2 (tm_ID sample_trip) = Some sample_trip" by (simp add: w2_def sample_trip_def)
  ultimately show ?thesis unfolding w1_def [symmetric]
    by (intro exI [of _ w2] exI [of _ w3]) (simp add: grpc_CreateTrip_def fare new ev)
qed


end
