(* ===== verification/TripAnswers.thy ===== *)
theory TripAnswers
  imports TripProps
begin

text \<open>
  What cancellations, drivers' answers and payments do to a stored trip and whom they tell, and
  where the code loses something on the way.
\<close>

section \<open>Cancelling\<close>

lemma may_cancel_iff:
  "may_cancel t u \<longleftrightarrow> tm_UserID t = u
     \<or> tm_Status t = ''accepted'' \<and> u \<noteq> '''' \<and> (\<exists>d. tm_Driver t = Some d \<and> td_Id d = u)"
  by (auto simp: may_cancel_def Let_def split: option.splits)

lemma svc_CancelTrip_keeps:
  assumes "svc_CancelTrip (NewMongoRepository M) i u w = (r, w')" "mongo_keeps M f"
  shows "f w' = f w"
  using assms(1) mongo_keepsD(1,2) [OF assms(2)]
  by (fastforce simp: svc_CancelTrip_def NewMongoRepository_def split: prod.splits sum.splits option.splits if_splits)

lemma cancel_done:
  fixes M :: "'w mongo_trips"
  assumes M: "mongo_docs M docs" and pk: "pub_keeps pub docs"
    and run: "grpc_CancelTrip pub (NewMongoRepository M) i u w = (Returns (Inr driverID), w')"
  shows "\<exists>k t. ObjectIDFromHex i = Inr k \<and> docs w k = Some t \<and> may_cancel t u
     \<and> docs w' = (docs w)(k \<mapsto> t\<lparr>tm_Status := ''cancelled''\<rparr>)
     \<and> driverID = (case tm_Driver t of None \<Rightarrow> '''' | Some d \<Rightarrow> td_Id d)
     \<and> (\<exists>w1 e. PublishTripCancelled pub i (tm_UserID t) driverID (driverID \<noteq> '''') w1 = (Returns e, w')
          \<and> (\<forall>f :: 'w \<Rightarrow> (string \<times> raw) list. mongo_keeps M f \<longrightarrow> f w1 = f w))"
proof -
  let ?repo = "NewMongoRepository M"
  obtain c w1 where c: "svc_CancelTrip ?repo i u w = (c, w1)" by fastforce
  obtain x where x: "c = Returns x" using run c by (cases c) (auto simp: grpc_CancelTrip_def)
  then obtain trip where t: "svc_CancelTrip ?repo i u w = (Returns (Inr trip), w1)"
    using run c by (cases x) (auto simp: grpc_CancelTrip_def)
  have d: "driverID = (case tm_Driver trip of None \<Rightarrow> '''' | Some d \<Rightarrow> td_Id d)"
    and p: "\<exists>e. PublishTripCancelled pub i (tm_UserID trip) driverID (driverID \<noteq> '''') w1 = (Returns e, w')"
    using run t by (auto simp: grpc_CancelTrip_def bindo_Returns_iff Let_def)
  have "docs w' = docs w1"
    using p pub_keepsD [OF pk] by (auto simp: PublishTripCancelled_def split: sum.splits)
  with mongo.cancel_trip [OF M t] d p svc_CancelTrip_keeps [OF t] show ?thesis by auto blast
qed

text \<open>
  C17: Who may cancel. A caller who is neither the trip's rider nor, once the trip is accepted, its
  driver gets an error and changes no document. A call that succeeds marks exactly this trip as
  cancelled, keeps its rider, fare and driver, and returns the driver.
\<close>

theorem cancel_rights:
  assumes M: "mongo_docs M docs" and pk: "pub_keeps pub docs"
    and k: "ObjectIDFromHex i = Inr k" "docs w k = Some t"
    and run: "grpc_CancelTrip pub (NewMongoRepository M) i u w = (r, w')"
  shows "(tm_UserID t \<noteq> u \<and> \<not> (tm_Status t = ''accepted'' \<and> u \<noteq> '''' \<and> (\<exists>d. tm_Driver t = Some d \<and> td_Id d = u))
       \<longrightarrow> docs w' = docs w \<and> (\<exists>e. r = Returns (Inl e)))
   \<and> (\<forall>driverID. r = Returns (Inr driverID) \<longrightarrow> docs w' = (docs w)(k \<mapsto> t\<lparr>tm_Status := ''cancelled''\<rparr>)
        \<and> driverID = (case tm_Driver t of None \<Rightarrow> '''' | Some d \<Rightarrow> td_Id d))"
proof (intro conjI impI allI)
  assume "tm_UserID t \<noteq> u \<and> \<not> (tm_Status t = ''accepted'' \<and> u \<noteq> '''' \<and> (\<exists>d. tm_Driver t = Some d \<and> td_Id d = u))"
  then have no: "\<not> may_cancel t u" by (auto simp: may_cancel_iff)
  obtain c w1 where c: "svc_CancelTrip (NewMongoRepository M) i u w = (c, w1)" by fastforce
  from mongo.cancel_refused [OF M k(2,1) no c] run c
  show "docs w' = docs w" "\<exists>e. r = Returns (Inl e)" by (auto simp: grpc_CancelTrip_def)
next
  fix driverID assume "r = Returns (Inr driverID)"
  with cancel_done [OF M pk run [unfolded this]] k
  show "docs w' = (docs w)(k \<mapsto> t\<lparr>tm_Status := ''cancelled''\<rparr>)"
    "driverID = (case tm_Driver t of None \<Rightarrow> '''' | Some d \<Rightarrow> td_Id d)" by auto
qed

definition sample_id :: object_id where
  "sample_id = replicate 24 (CHR ''5'')"

definition trip_world :: "trip_model \<Rightarrow> tsim" where
  "trip_world t = tsim0\<lparr>ts_docs := [sample_id \<mapsto> t]\<rparr>"

definition sample_driver :: pb_trip_driver where
  "sample_driver = \<lparr>td_Id = ''d1'', td_Name = ''Dora'', td_ProfilePicture = '''', td_CarPlate = ''''\<rparr>"

definition accepted_trip :: trip_model where
  "accepted_trip = sample_trip\<lparr>tm_Status := ''accepted'', tm_Driver := Some sample_driver\<rparr>"

lemma sample_id_ok: "ObjectIDFromHex sample_id = Inr sample_id"
  using ObjectIDFromHex_ok [OF hex_digit_ok [of 5]] by (simp add: sample_id_def hex_digits_def)

lemma trip_world_docs: "ts_docs (trip_world t) sample_id = Some t"
  by (simp add: trip_world_def)

lemma trip_world_up: "si_up (trip_world t)" "si_events (trip_world t) = []"
  by (simp_all add: trip_world_def tsim0_def sim.defs sim0_def)

abbreviation sim_publisher :: "tsim publisher" where
  "sim_publisher \<equiv> PublishMessage sim_broker sim_runtime"

lemma sim_publisher_docs: "pub_keeps sim_publisher ts_docs"
  by (rule sim_pub_keeps) simp_all

theorem cancel_rights_witness:
  "\<exists>r w'. grpc_CancelTrip sim_publisher (NewMongoRepository sim_mongo) sample_id ''u2'' (trip_world accepted_trip)
       = (r, w') \<and> ts_docs w' = ts_docs (trip_world accepted_trip) \<and> (\<exists>e. r = Returns (Inl e))"
proof -
  obtain r w' where run: "grpc_CancelTrip sim_publisher (NewMongoRepository sim_mongo) sample_id ''u2''
      (trip_world accepted_trip) = (r, w')" by fastforce
  have "tm_UserID accepted_trip \<noteq> ''u2''" "tm_Driver accepted_trip = Some sample_driver" "td_Id sample_driver \<noteq> ''u2''"
    by (simp_all add: accepted_trip_def sample_trip_def sample_driver_def)
  with cancel_rights [OF sim_mongo_docs sim_publisher_docs sample_id_ok trip_world_docs run] run
  show ?thesis by auto
qed

section \<open>Answers of drivers\<close>

lemma accept_done:
  assumes M: "mongo_docs M docs" "mongo_keeps M (sent_of tr)" and B: "broker_traces B tr"
    and pk: "pub_keeps (PublishMessage B rt) docs" and key: "d_RoutingKey d = DriverCmdTripAccept"
    and run: "driver_consumer (PublishMessage B rt) (NewMongoRepository M) d w = (Returns None, w')"
  shows "\<exists>m p k t fare b j b'.
     read_event (dec_struct driver_trip_response_fields) driver_trip_response_zero d = Inr (m, p)
   \<and> ObjectIDFromHex (dr_TripID p) = Inr k \<and> docs w k = Some t \<and> tm_RideFare t = Some fare
   \<and> docs w' = (docs w)(k \<mapsto> t\<lparr>tm_Status := ''accepted'', tm_Driver := Some (accepted_driver p)\<rparr>)
   \<and> sent_of tr w' = sent_of tr w @ [(TripEventDriverAssigned, b), (PaymentCmdCreateSession, b')]
   \<and> marshal enc_payment_trip_response \<lparr>pr_TripID = dr_TripID p, pr_UserID = tm_UserID t,
        pr_DriverID = dr_DriverID p, pr_Amount = fm_TotalPriceInCents fare, pr_Currency = ''USD''\<rparr> = Inr j
   \<and> marshal enc_amqp_message \<lparr>am_OwnerID = tm_UserID t, am_Data = j\<rparr> = Inr b'"
proof -
  obtain m p where p: "read_event (dec_struct driver_trip_response_fields) driver_trip_response_zero d = Inr (m, p)"
    and h: "handleTripAccepted (PublishMessage B rt) (NewMongoRepository M) p w = (Returns None, w')"
    using run key by (auto simp: driver_consumer_def split: sum.splits)
  let ?t = "\<lambda>t. set_trip ''accepted'' (Some (accepted_driver p)) t"
  from handleTripAccepted_done [OF M B pk h] obtain k t w1 where
    k: "ObjectIDFromHex (dr_TripID p) = Inr k" "docs w k = Some t" "docs w' = (docs w)(k \<mapsto> ?t t)"
    and s: "sent_of tr w1 = sent_of tr w"
    and n: "notify_accepted (PublishMessage B rt) p (?t t) w1 = (Returns None, w')" by blast
  obtain fare j j' w2 where f: "tm_RideFare (?t t) = Some fare"
    and j: "marshal enc_payment_trip_response (payment_request p (?t t) fare) = Inr j'"
    and p1: "PublishMessage B rt TripEventDriverAssigned \<lparr>am_OwnerID = tm_UserID (?t t), am_Data = j\<rparr> w1 = (Returns None, w2)"
    and p2: "PublishMessage B rt PaymentCmdCreateSession \<lparr>am_OwnerID = tm_UserID (?t t), am_Data = j'\<rparr> w2 = (Returns None, w')"
    by (rule notify_accepted_done [OF n])
  from rabbit.published_two [OF B p1 p2] obtain b b' where
    "marshal enc_amqp_message \<lparr>am_OwnerID = tm_UserID (?t t), am_Data = j'\<rparr> = Inr b'"
    "sent_of tr w' = sent_of tr w @ [(TripEventDriverAssigned, b), (PaymentCmdCreateSession, b')]" using s by auto
  with k f j p show ?thesis
    by (intro exI [of _ m] exI [of _ p] exI [of _ k] exI [of _ t] exI [of _ fare] exI [of _ b] exI [of _ j'] exI [of _ b'])
       (simp add: set_trip_def payment_request_def)
qed


definition sample_answer :: json where
  "sample_answer = JObj [(''tripID'', JStr sample_id), (''riderID'', JStr ''u1''),
     (''driverID'', JStr ''d1''), (''driverName'', JStr ''Dora'')]"

definition sample_response :: driver_trip_response where
  "sample_response = \<lparr>dr_Driver = None, dr_TripID = sample_id, dr_RiderID = ''u1'', dr_DriverID = ''d1'',
     dr_DriverName = ''Dora'', dr_PackageSlug = ''''\<rparr>"

lemma sample_answer_read:
  "read_event (dec_struct driver_trip_response_fields) driver_trip_response_zero (event_delivery k ''d1'' sample_answer)
     = Inr (\<lparr>am_OwnerID = ''d1'', am_Data = RawJson sample_answer\<rparr>, sample_response)"
  by (rule read_event_delivery) (simp add: sample_answer_def sample_response_def codec_defs json_defs)

lemma trip_world_get:
  "ts_docs w sample_id = Some t \<Longrightarrow> tr_GetTripByID (NewMongoRepository sim_mongo) sample_id w = (Inr (Some t), w)"
  by (simp add: NewMongoRepository_def mongo_GetTripByID_def sample_id_ok sim_mongo_def)

lemma trip_world_update:
  "ts_docs w sample_id = Some t \<Longrightarrow> set_trip s d t \<noteq> t \<Longrightarrow>
     tr_UpdateTrip (NewMongoRepository sim_mongo) sample_id s d w
       = (None, w\<lparr>ts_docs := (ts_docs w)(sample_id \<mapsto> set_trip s d t)\<rparr>)"
  by (simp add: NewMongoRepository_def mongo_UpdateTrip_def sample_id_ok sim_mongo_def)

lemma sim_publisher_up:
  assumes "si_up w" "am_Data m = RawJson j"
  shows "\<exists>w'. sim_publisher k m w = (Returns None, w') \<and> si_up w'"
proof -
  obtain b where "marshal enc_amqp_message m = Inr b"
    using assms(2) by (cases m) (simp add: marshal_amqp_message)
  from sim_publish_up [OF assms(1) this] show ?thesis using assms(1) by (simp add: record_event_def)
qed

lemma sample_marshals:
  "\<exists>t j. Trip_ToProto (sample_trip\<lparr>tm_Status := s, tm_Driver := d\<rparr>) = Returns t \<and> marshal enc_pb_trip t = Inr (RawJson j)"
  using enc_f64.simps(1) [of 100]
  by (cases d) (simp_all add: sample_trip_def Trip_ToProto_def OSRM_ToProto_def zero_route_def
        RideFare_ToProto_def marshal_def codec_defs json_defs enc_pb_trip_def enc_pb_ride_fare_def enc_pb_trip_driver_def
        enc_pb_route_def enc_pb_geometry_def enc_pb_coordinate_def)

lemma sample_accept:
  assumes "si_up w" "ts_docs w sample_id = Some t" "t = sample_trip\<lparr>tm_Status := s, tm_Driver := d\<rparr>"
    and "set_trip ''accepted'' (Some sample_driver) t \<noteq> t"
  shows "\<exists>w'. driver_consumer sim_publisher (NewMongoRepository sim_mongo)
     (event_delivery DriverCmdTripAccept ''d1'' sample_answer) w = (Returns None, w')"
proof -
  let ?p = sample_response
  have dr: "accepted_driver ?p = sample_driver"
    by (simp add: accepted_driver_def sample_response_def sample_driver_def)
  have t: "set_trip ''accepted'' (Some sample_driver) t = accepted_trip"
    by (simp add: assms(3) set_trip_def accepted_trip_def)
  define w1 where "w1 = w\<lparr>ts_docs := (ts_docs w)(sample_id \<mapsto> accepted_trip)\<rparr>"
  have up: "si_up w1" using assms(1) by (simp add: w1_def)
  obtain pb j where pb: "Trip_ToProto accepted_trip = Returns pb" "marshal enc_pb_trip pb = Inr (RawJson j)"
    using sample_marshals unfolding accepted_trip_def by blast
  obtain w2 where p1: "sim_publisher TripEventDriverAssigned \<lparr>am_OwnerID = tm_UserID accepted_trip, am_Data = RawJson j\<rparr> w1
      = (Returns None, w2)" and up2: "si_up w2"
    using sim_publisher_up [OF up] by (metis amqp_message.simps(2))
  obtain fare where f: "tm_RideFare accepted_trip = Some fare" "fm_TotalPriceInCents fare = F64 100"
    by (simp add: accepted_trip_def sample_trip_def)
  obtain j' where j': "marshal enc_payment_trip_response (payment_request ?p accepted_trip fare) = Inr (RawJson j')"
    using enc_f64.simps(1) [of 100]
    by (simp add: payment_request_def sample_response_def f(2) codec_defs json_defs)
  obtain w3 where p2: "sim_publisher PaymentCmdCreateSession \<lparr>am_OwnerID = tm_UserID accepted_trip, am_Data = RawJson j'\<rparr> w2
      = (Returns None, w3)"
    using sim_publisher_up [OF up2] by (metis amqp_message.simps(2))
  have "notify_accepted sim_publisher ?p accepted_trip w1 = (Returns None, w3)"
    by (simp add: notify_accepted_def pb p1 f(1) j' p2)
  moreover have "dr_TripID ?p = sample_id" by (simp add: sample_response_def)
  ultimately have "handleTripAccepted sim_publisher (NewMongoRepository sim_mongo) ?p w = (Returns None, w3)"
    using trip_world_update [OF assms(2,4)] trip_world_get [OF assms(2)] trip_world_get [of w1 accepted_trip]
    by (simp add: handleTripAccepted_def dr t w1_def)
  then show ?thesis
    by (simp add: driver_consumer_def sample_answer_read)
qed

lemma sim_publisher_laws:
  "mongo_keeps sim_mongo (sent_of si_events)" "broker_traces (sim_broker :: tsim broker) si_events"
  by (rule sim_sent_keeps) simp


section \<open>What goes wrong\<close>

text \<open>
  C20: No status guard. A trip that its rider has cancelled becomes accepted again, and its
  payment is requested, when a driver's acceptance is handled later.
\<close>

theorem late_accept_revives:
  assumes M: "mongo_docs M docs" "mongo_keeps M (sent_of tr)" and B: "broker_traces B tr"
    and pk: "pub_keeps (PublishMessage B rt) docs" and key: "d_RoutingKey d = DriverCmdTripAccept"
    and p: "read_event (dec_struct driver_trip_response_fields) driver_trip_response_zero d = Inr (m, p)"
    and cancel: "grpc_CancelTrip (PublishMessage B rt) (NewMongoRepository M) (dr_TripID p) u w = (Returns (Inr v), w1)"
    and later: "docs w2 = docs w1"
    and accept: "driver_consumer (PublishMessage B rt) (NewMongoRepository M) d w2 = (Returns None, w3)"
  shows "\<exists>k t b b'. docs w1 k = Some t \<and> tm_Status t = ''cancelled''
     \<and> docs w3 k = Some (t\<lparr>tm_Status := ''accepted'', tm_Driver := Some (accepted_driver p)\<rparr>)
     \<and> sent_of tr w3 = sent_of tr w2 @ [(TripEventDriverAssigned, b), (PaymentCmdCreateSession, b')]"
proof -
  from cancel_done [OF M(1) pk cancel] obtain k t where
    k: "ObjectIDFromHex (dr_TripID p) = Inr k" "docs w1 k = Some (t\<lparr>tm_Status := ''cancelled''\<rparr>)" by auto
  from accept_done [OF M B pk key accept] p obtain k' t' b b' where
    "ObjectIDFromHex (dr_TripID p) = Inr k'" "docs w2 k' = Some t'"
    "docs w3 = (docs w2)(k' \<mapsto> t'\<lparr>tm_Status := ''accepted'', tm_Driver := Some (accepted_driver p)\<rparr>)"
    "sent_of tr w3 = sent_of tr w2 @ [(TripEventDriverAssigned, b), (PaymentCmdCreateSession, b')]" by auto
  with k later show ?thesis by auto
qed

lemma cancel_by_rider:
  assumes "ts_docs w sample_id = Some t" "t = sample_trip\<lparr>tm_Status := s, tm_Driver := d\<rparr>" "s \<noteq> ''cancelled''" "si_up w"
  shows "\<exists>v w'. grpc_CancelTrip sim_publisher (NewMongoRepository sim_mongo) sample_id ''u1'' w = (Returns (Inr v), w')
     \<and> si_up w' \<and> ts_docs w' sample_id = Some (t\<lparr>tm_Status := ''cancelled''\<rparr>)"
proof -
  define w1 where "w1 = w\<lparr>ts_docs := (ts_docs w)(sample_id \<mapsto> t\<lparr>tm_Status := ''cancelled''\<rparr>)\<rparr>"
  have st: "set_trip ''cancelled'' None t = t\<lparr>tm_Status := ''cancelled''\<rparr>" by (simp add: set_trip_def)
  moreover have ne: "t\<lparr>tm_Status := ''cancelled''\<rparr> \<noteq> t" using assms(2,3) by (simp add: sample_trip_def)
  ultimately have u: "tr_UpdateTrip (NewMongoRepository sim_mongo) sample_id ''cancelled'' None w = (None, w1)"
    using trip_world_update [OF assms(1), of "''cancelled''" None] by (simp add: w1_def)
  have "may_cancel t ''u1''" "tm_Status t \<noteq> ''cancelled''" using assms(2,3) by (simp_all add: may_cancel_iff sample_trip_def)
  with trip_world_get [OF assms(1)] u
  have c: "svc_CancelTrip (NewMongoRepository sim_mongo) sample_id ''u1'' w = (Returns (Inr (t\<lparr>tm_Status := ''cancelled''\<rparr>)), w1)"
    by (simp add: svc_CancelTrip_def)
  have up: "si_up w1" using assms(4) by (simp add: w1_def)
  define v where "v = (case d of None \<Rightarrow> '''' | Some d \<Rightarrow> td_Id d)"
  have dr: "tm_Driver t = d" by (simp add: assms(2))
  obtain w2 where p: "PublishTripCancelled sim_publisher sample_id (tm_UserID t) v (v \<noteq> '''') w1 = (Returns None, w2)" "si_up w2"
    using sim_publisher_up [OF up] by (simp add: PublishTripCancelled_def codec_defs json_defs) (metis amqp_message.simps(2))
  have "ts_docs w2 = ts_docs w1"
    using p(1) pub_keepsD [OF sim_publisher_docs] by (auto simp: PublishTripCancelled_def split: sum.splits)
  then have "ts_docs w2 sample_id = Some (t\<lparr>tm_Status := ''cancelled''\<rparr>)" by (simp add: w1_def)
  moreover have "grpc_CancelTrip sim_publisher (NewMongoRepository sim_mongo) sample_id ''u1'' w = (Returns (Inr v), w2)"
    using p(1) by (simp add: grpc_CancelTrip_def c dr v_def [symmetric])
  ultimately show ?thesis using p(2) by blast
qed

theorem late_accept_revives_witness:
  "\<exists>(w1 :: tsim) w3 k t t'. ts_docs w1 k = Some t \<and> tm_Status t = ''cancelled''
     \<and> driver_consumer sim_publisher (NewMongoRepository sim_mongo)
         (event_delivery DriverCmdTripAccept ''d1'' sample_answer) w1 = (Returns None, w3)
     \<and> ts_docs w3 k = Some t' \<and> tm_Status t' = ''accepted''"
proof -
  obtain v w1 where c: "grpc_CancelTrip sim_publisher (NewMongoRepository sim_mongo) sample_id ''u1'' (trip_world sample_trip)
      = (Returns (Inr v), w1)" and up: "si_up w1"
    and t: "ts_docs w1 sample_id = Some (sample_trip\<lparr>tm_Status := ''cancelled''\<rparr>)"
    using cancel_by_rider [OF trip_world_docs, where s = "''pending''" and d = None] trip_world_up
    by (fastforce simp: sample_trip_def)
  obtain w3 where a: "driver_consumer sim_publisher (NewMongoRepository sim_mongo)
      (event_delivery DriverCmdTripAccept ''d1'' sample_answer) w1 = (Returns None, w3)"
    using sample_accept [OF up t, where s = "''cancelled''" and d = None]
    by (auto simp: sample_trip_def set_trip_def)
  have "dr_TripID sample_response = sample_id" by (simp add: sample_response_def)
  from late_accept_revives [OF sim_mongo_docs sim_publisher_laws sim_publisher_docs event_delivery_key sample_answer_read
      c [folded this] refl a]
  obtain k t where kt: "ts_docs w1 k = Some t" "tm_Status t = ''cancelled''"
    "ts_docs w3 k = Some (t\<lparr>tm_Status := ''accepted'', tm_Driver := Some (accepted_driver sample_response)\<rparr>)" by blast
  have "tm_Status (t\<lparr>tm_Status := ''accepted'', tm_Driver := Some (accepted_driver sample_response)\<rparr>) = ''accepted''" by simp
  with kt a show ?thesis by blast
qed

end
