(* ===== verification/TripFailures.thy ===== *)
theory TripFailures
  imports TripAnswers
begin

text \<open>
  Completed trips, and the places where the trip service gives up or loses something: an
  acceptance that cannot be retried, a declined trip that is offered without its pick-up point, a
  preview without a route, and the two meanings of a coordinate in one event.
\<close>

section \<open>Payments\<close>

lemma PublishTripCompleted_sent:
  assumes B: "broker_traces B tr" and run: "PublishTripCompleted (PublishMessage B rt) trip w = (Returns None, w')"
  shows "\<exists>b. marshal enc_amqp_message \<lparr>am_OwnerID = tm_UserID trip, am_Data = completed_payload trip\<rparr> = Inr b
     \<and> (case tm_Driver trip of
          Some d \<Rightarrow> if td_Id d = '''' then sent_of tr w' = sent_of tr w @ [(TripEventCompleted, b)]
            else \<exists>b'. marshal enc_amqp_message \<lparr>am_OwnerID = td_Id d, am_Data = completed_payload trip\<rparr> = Inr b'
              \<and> sent_of tr w' = sent_of tr w @ [(TripEventCompleted, b), (TripEventCompleted, b')]
        | None \<Rightarrow> sent_of tr w' = sent_of tr w @ [(TripEventCompleted, b)])"
proof -
  obtain w1 where p: "PublishMessage B rt TripEventCompleted
      \<lparr>am_OwnerID = tm_UserID trip, am_Data = completed_payload trip\<rparr> w = (Returns None, w1)"
    using run by (auto simp: PublishTripCompleted_def bindo_Returns_iff split: option.splits)
  show ?thesis
  proof (cases "\<exists>d. tm_Driver trip = Some d \<and> td_Id d \<noteq> ''''")
    case True
    then obtain d where d: "tm_Driver trip = Some d" "td_Id d \<noteq> ''''" by blast
    with run p have "PublishMessage B rt TripEventCompleted
        \<lparr>am_OwnerID = td_Id d, am_Data = completed_payload trip\<rparr> w1 = (Returns None, w')"
      by (simp add: PublishTripCompleted_def)
    from rabbit.published_two [OF B p this] d show ?thesis by auto
  next
    case False
    then have "w' = w1" using run p by (auto simp: PublishTripCompleted_def split: option.splits if_splits)
    with rabbit.published [OF B p] False show ?thesis by (auto split: option.splits)
  qed
qed

text \<open>What a handled payment has done.\<close>

lemma payment_completes:
  assumes M: "mongo_docs M docs" "mongo_keeps M (sent_of tr)" and B: "broker_traces B tr"
    and pk: "pub_keeps (PublishMessage B rt) docs"
    and run: "payment_consumer (PublishMessage B rt) (NewMongoRepository M) d w = (Returns None, w')"
  shows "\<exists>m p k t b. read_event (dec_struct payment_status_update_fields) payment_status_update_zero d = Inr (m, p)
     \<and> ObjectIDFromHex (pu_TripID p) = Inr k \<and> docs w k = Some t
     \<and> docs w' = (docs w)(k \<mapsto> t\<lparr>tm_Status := ''completed''\<rparr>)
     \<and> marshal enc_amqp_message \<lparr>am_OwnerID = tm_UserID t, am_Data = completed_payload t\<rparr> = Inr b
     \<and> (case tm_Driver t of
          Some d \<Rightarrow> if td_Id d = '''' then sent_of tr w' = sent_of tr w @ [(TripEventCompleted, b)]
            else \<exists>b'. marshal enc_amqp_message \<lparr>am_OwnerID = td_Id d, am_Data = completed_payload t\<rparr> = Inr b'
              \<and> sent_of tr w' = sent_of tr w @ [(TripEventCompleted, b), (TripEventCompleted, b')]
        | None \<Rightarrow> sent_of tr w' = sent_of tr w @ [(TripEventCompleted, b)])"
proof -
  let ?repo = "NewMongoRepository M"
  obtain m p where p: "read_event (dec_struct payment_status_update_fields) payment_status_update_zero d = Inr (m, p)"
    using run by (auto simp: payment_consumer_def split: sum.splits)
  obtain c w1 where c: "svc_CompleteTrip ?repo (pu_TripID p) w = (c, w1)" by fastforce
  obtain x where x: "c = Returns x" using run c p by (cases c) (auto simp: payment_consumer_def)
  then obtain trip where t: "svc_CompleteTrip ?repo (pu_TripID p) w = (Returns (Inr trip), w1)"
    and e: "PublishTripCompleted (PublishMessage B rt) trip w1 = (Returns None, w')"
    using run c p by (cases x) (auto simp: payment_consumer_def)
  from mongo.complete_trip [OF M(1) t] obtain k t0 where
    k: "ObjectIDFromHex (pu_TripID p) = Inr k" "docs w k = Some t0" "trip = t0\<lparr>tm_Status := ''completed''\<rparr>"
      "docs w1 = (docs w)(k \<mapsto> trip)" by auto
  have "sent_of tr w1 = sent_of tr w"
    using t mongo_keepsD(1,2) [OF M(2)]
    by (fastforce simp: svc_CompleteTrip_def split: prod.splits sum.splits option.splits if_splits)
  moreover have "docs w' = docs w1"
    using e pub_keepsD [OF pk]
    by (fastforce simp: PublishTripCompleted_def bindo_Returns_iff split: option.splits if_splits)
  moreover have "completed_payload trip = completed_payload t0" by (simp add: k(3) completed_payload_def)
  ultimately show ?thesis
    using PublishTripCompleted_sent [OF B e] k p by (auto simp: k(3) split: option.splits if_splits)
qed

text \<open>
  C19: When the handling of a payment succeeds, the paid trip is completed with everything else
  kept, and the completion is sent once to the rider and once to the driver, if there is one.
\<close>

theorem paid_trip_completed:
  assumes M: "mongo_docs M docs" "mongo_keeps M (sent_of tr)" and B: "broker_traces B tr"
    and pk: "pub_keeps (PublishMessage B rt) docs"
    and run: "payment_consumer (PublishMessage B rt) (NewMongoRepository M) d w = (Returns None, w')"
  shows "\<exists>m p k t b. read_event (dec_struct payment_status_update_fields) payment_status_update_zero d = Inr (m, p)
     \<and> ObjectIDFromHex (pu_TripID p) = Inr k \<and> docs w k = Some t
     \<and> docs w' = (docs w)(k \<mapsto> t\<lparr>tm_Status := ''completed''\<rparr>)
     \<and> marshal enc_amqp_message \<lparr>am_OwnerID = tm_UserID t, am_Data = completed_payload t\<rparr> = Inr b
     \<and> (case tm_Driver t of
          Some d \<Rightarrow> if td_Id d = '''' then sent_of tr w' = sent_of tr w @ [(TripEventCompleted, b)]
            else \<exists>b'. marshal enc_amqp_message \<lparr>am_OwnerID = td_Id d, am_Data = completed_payload t\<rparr> = Inr b'
              \<and> sent_of tr w' = sent_of tr w @ [(TripEventCompleted, b), (TripEventCompleted, b')]
        | None \<Rightarrow> sent_of tr w' = sent_of tr w @ [(TripEventCompleted, b)])"
  by (rule payment_completes [OF assms])

definition sample_payment :: json where
  "sample_payment = JObj [(''tripID'', JStr sample_id), (''userID'', JStr ''u1''), (''driverID'', JStr ''d1'')]"

lemma sample_payment_read:
  "read_event (dec_struct payment_status_update_fields) payment_status_update_zero (event_delivery k ''u1'' sample_payment)
     = Inr (\<lparr>am_OwnerID = ''u1'', am_Data = RawJson sample_payment\<rparr>,
            \<lparr>pu_TripID = sample_id, pu_UserID = ''u1'', pu_DriverID = ''d1''\<rparr>)"
  by (rule read_event_delivery) (simp add: sample_payment_def codec_defs json_defs)

lemma sample_payment_done:
  "\<exists>w'. payment_consumer sim_publisher (NewMongoRepository sim_mongo)
     (event_delivery PaymentEventSuccess ''u1'' sample_payment) (trip_world accepted_trip) = (Returns None, w')"
proof -
  let ?t = "accepted_trip\<lparr>tm_Status := ''completed''\<rparr>"
  define w1 where "w1 = (trip_world accepted_trip)\<lparr>ts_docs := [sample_id \<mapsto> ?t]\<rparr>"
  have "set_trip ''completed'' None accepted_trip = ?t" by (simp add: set_trip_def accepted_trip_def)
  moreover have "?t \<noteq> accepted_trip" by (simp add: accepted_trip_def sample_trip_def)
  ultimately have u: "tr_UpdateTrip (NewMongoRepository sim_mongo) sample_id ''completed'' None (trip_world accepted_trip) = (None, w1)"
    using trip_world_update [OF trip_world_docs, of "''completed''" None accepted_trip] by (simp add: w1_def trip_world_def)
  have s: "tm_Status accepted_trip \<noteq> ''completed''" by (simp add: accepted_trip_def)
  have c: "svc_CompleteTrip (NewMongoRepository sim_mongo) sample_id (trip_world accepted_trip) = (Returns (Inr ?t), w1)"
    using s by (simp add: svc_CompleteTrip_def trip_world_get [OF trip_world_docs] u)
  have up: "si_up w1" by (simp add: w1_def trip_world_up)
  obtain w2 where p1: "sim_publisher TripEventCompleted \<lparr>am_OwnerID = tm_UserID ?t, am_Data = completed_payload ?t\<rparr> w1
      = (Returns None, w2)" and up2: "si_up w2"
    using sim_publisher_up [OF up, of "\<lparr>am_OwnerID = tm_UserID ?t, am_Data = completed_payload ?t\<rparr>"]
    by (auto simp: completed_payload_def)
  obtain w3 where p2: "sim_publisher TripEventCompleted \<lparr>am_OwnerID = td_Id sample_driver, am_Data = completed_payload ?t\<rparr> w2
      = (Returns None, w3)"
    using sim_publisher_up [OF up2, of "\<lparr>am_OwnerID = td_Id sample_driver, am_Data = completed_payload ?t\<rparr>"]
    by (auto simp: completed_payload_def)
  have d: "tm_Driver ?t = Some sample_driver" "td_Id sample_driver \<noteq> ''''" by (simp_all add: accepted_trip_def sample_driver_def)
  have "PublishTripCompleted sim_publisher ?t w1 = (Returns None, w3)"
    unfolding PublishTripCompleted_def p1 d(1) using d(2) p2 by simp
  then show ?thesis by (simp add: payment_consumer_def sample_payment_read c)
qed

theorem paid_trip_completed_witness:
  "\<exists>w' k. payment_consumer sim_publisher (NewMongoRepository sim_mongo)
       (event_delivery PaymentEventSuccess ''u1'' sample_payment) (trip_world accepted_trip) = (Returns None, w')
     \<and> map_option tm_Status (ts_docs w' k) = Some ''completed''"
proof -
  obtain w' where run: "payment_consumer sim_publisher (NewMongoRepository sim_mongo)
       (event_delivery PaymentEventSuccess ''u1'' sample_payment) (trip_world accepted_trip) = (Returns None, w')"
    using sample_payment_done by blast
  from paid_trip_completed [OF sim_mongo_docs sim_publisher_laws sim_publisher_docs run] obtain k t where
    "ts_docs w' = (ts_docs (trip_world accepted_trip))(k \<mapsto> t\<lparr>tm_Status := ''completed''\<rparr>)" by blast
  then have "map_option tm_Status (ts_docs w' k) = Some ''completed''" by simp
  with run show ?thesis by blast
qed

section \<open>Acceptances\<close>

text \<open>
  An acceptance cannot be retried. Once the trip is stored as accepted by the driver of the
  message, which is the state after an attempt whose events could not be published, every further
  attempt fails and sends nothing, so the rider is not told and no payment is requested.
\<close>

theorem acceptance_not_retryable:
  assumes M: "mongo_docs M docs" "mongo_keeps M (sent_of tr)"
    and k: "ObjectIDFromHex (dr_TripID p) = Inr k" "docs w k = Some t"
    and stored: "tm_Status t = ''accepted''" "tm_Driver t = Some (accepted_driver p)"
    and run: "handleTripAccepted pub (NewMongoRepository M) p w = (r, w')"
  shows "sent_of tr w' = sent_of tr w \<and> (\<exists>e. r = Returns (Some e))"
proof -
  let ?repo = "NewMongoRepository M"
  obtain g w1 where g: "tr_GetTripByID ?repo (dr_TripID p) w = (g, w1)" by fastforce
  have s1: "sent_of tr w1 = sent_of tr w" by (rule mongo_keepsD(1) [OF M(2) g])
  show ?thesis
  proof (cases "\<exists>t'. g = Inr (Some t')")
    case False
    then show ?thesis using run g s1 by (auto simp: handleTripAccepted_def split: sum.splits option.splits)
  next
    case True
    then have "docs w1 = docs w" using mongo.get_found [OF M(1)] g by auto
    with k(2) have t: "docs w1 k = Some t" by simp
    obtain u w2 where u: "tr_UpdateTrip ?repo (dr_TripID p) ''accepted'' (Some (accepted_driver p)) w1 = (u, w2)" by fastforce
    have "set_trip ''accepted'' (Some (accepted_driver p)) t = t" using stored by (simp add: set_trip_def)
    with mongo.update_same_fails [OF M(1) k(1) t] u obtain e where "u = Some e" by (cases u) auto
    then show ?thesis
      using run g True u s1 mongo_keepsD(2) [OF M(2) u] by (auto simp: handleTripAccepted_def)
  qed
qed

theorem acceptance_not_retryable_witness:
  "\<exists>r w'. handleTripAccepted sim_publisher (NewMongoRepository sim_mongo) sample_response (trip_world accepted_trip) = (r, w')
     \<and> sent_of si_events w' = [] \<and> (\<exists>e. r = Returns (Some e))"
proof -
  obtain r w' where run: "handleTripAccepted sim_publisher (NewMongoRepository sim_mongo) sample_response
      (trip_world accepted_trip) = (r, w')" by fastforce
  have p: "ObjectIDFromHex (dr_TripID sample_response) = Inr sample_id"
    using sample_id_ok by (simp add: sample_response_def)
  have "tm_Status accepted_trip = ''accepted''" "tm_Driver accepted_trip = Some (accepted_driver sample_response)"
    by (simp_all add: accepted_trip_def accepted_driver_def sample_response_def sample_driver_def)
  with acceptance_not_retryable [OF sim_mongo_docs sim_sent_keeps p trip_world_docs _ _ run] run
  show ?thesis by (auto simp: sent_of_def trip_world_up)
qed

section \<open>Declined trips\<close>

lemma handleTripDeclined_done:
  assumes M: "mongo_docs M docs" and run: "handleTripDeclined pub (NewMongoRepository M) i rider w = (Returns None, w')"
  obtains k t pt j w1 where "ObjectIDFromHex i = Inr k" "docs w k = Some t" "docs w1 = docs w"
    "tr_GetTripByID (NewMongoRepository M) i w = (Inr (Some t), w1)"
    "Trip_ToProto t = Returns pt" "marshal enc_trip_event_data (trip_event_of pt) = Inr j"
    "pub TripEventDriverNotInterested \<lparr>am_OwnerID = rider, am_Data = j\<rparr> w1 = (Returns None, w')"
proof -
  obtain t w1 where g: "tr_GetTripByID (NewMongoRepository M) i w = (Inr (Some t), w1)"
    using run by (auto simp: handleTripDeclined_def split: prod.splits sum.splits option.splits)
  from mongo.get_found [OF M g] obtain k where k: "ObjectIDFromHex i = Inr k" "docs w k = Some t" "docs w1 = docs w" by auto
  obtain pt where pt: "Trip_ToProto t = Returns pt"
    using run g by (auto simp: handleTripDeclined_def bindo_Returns_iff)
  obtain j where j: "marshal enc_trip_event_data (trip_event_of pt) = Inr j"
    using run g pt by (cases "marshal enc_trip_event_data (trip_event_of pt)") (auto simp: handleTripDeclined_def)
  show thesis using that [OF k g pt j] run g pt j by (simp add: handleTripDeclined_def)
qed

text \<open>
  After a decline the trip is offered again without its pick-up point: the one event that is
  sent carries latitude and longitude zero, whatever the route says, although the same trip's
  creation event carried the first point of the route.
\<close>

theorem declined_trip_loses_pickup:
  assumes M: "mongo_docs M docs" "mongo_keeps M (sent_of tr)" and B: "broker_traces B tr"
    and key: "d_RoutingKey d = DriverCmdTripDecline"
    and run: "driver_consumer (PublishMessage B rt) (NewMongoRepository M) d w = (Returns None, w')"
  shows "\<exists>m p k t pt j b. read_event (dec_struct driver_trip_response_fields) driver_trip_response_zero d = Inr (m, p)
     \<and> ObjectIDFromHex (dr_TripID p) = Inr k \<and> docs w k = Some t \<and> Trip_ToProto t = Returns pt
     \<and> sent_of tr w' = sent_of tr w @ [(TripEventDriverNotInterested, b)]
     \<and> marshal enc_amqp_message \<lparr>am_OwnerID = dr_RiderID p, am_Data = j\<rparr> = Inr b
     \<and> marshal enc_trip_event_data \<lparr>te_Trip = Some pt, te_PickupLat = F64 0, te_PickupLng = F64 0\<rparr> = Inr j
     \<and> (\<forall>fare route r rs x y zs ps. tm_RideFare t = Some fare \<and> fm_Route fare = Some route
          \<and> os_Routes route = r # rs \<and> os_Coordinates r = (x # y # zs) # ps
          \<longrightarrow> with_pickup t (trip_event_of pt) = Returns \<lparr>te_Trip = Some pt, te_PickupLat = y, te_PickupLng = x\<rparr>)"
proof -
  obtain m p where p: "read_event (dec_struct driver_trip_response_fields) driver_trip_response_zero d = Inr (m, p)"
    and h: "handleTripDeclined (PublishMessage B rt) (NewMongoRepository M) (dr_TripID p) (dr_RiderID p) w = (Returns None, w')"
    using run key by (auto simp: driver_consumer_def routing_key_defs split: sum.splits)
  obtain k t pt j w1 where k: "ObjectIDFromHex (dr_TripID p) = Inr k" "docs w k = Some t"
    and g: "tr_GetTripByID (NewMongoRepository M) (dr_TripID p) w = (Inr (Some t), w1)"
    and t: "Trip_ToProto t = Returns pt" "marshal enc_trip_event_data (trip_event_of pt) = Inr j"
    and q: "PublishMessage B rt TripEventDriverNotInterested \<lparr>am_OwnerID = dr_RiderID p, am_Data = j\<rparr> w1 = (Returns None, w')"
    by (rule handleTripDeclined_done [OF M(1) h])
  from rabbit.published [OF B q] mongo_keepsD(1) [OF M(2) g] obtain b where
    "marshal enc_amqp_message \<lparr>am_OwnerID = dr_RiderID p, am_Data = j\<rparr> = Inr b"
    "sent_of tr w' = sent_of tr w @ [(TripEventDriverNotInterested, b)]" by auto
  with p k t show ?thesis
    by (intro exI [of _ m] exI [of _ p] exI [of _ k] exI [of _ t] exI [of _ pt] exI [of _ j] exI [of _ b])
       (simp add: trip_event_of_def with_pickup_def)
qed

lemma sim_publisher_raw:
  "si_up w \<Longrightarrow> \<exists>w'. sim_publisher k \<lparr>am_OwnerID = u, am_Data = RawJson j\<rparr> w = (Returns None, w') \<and> si_up w'"
  by (rule sim_publisher_up) simp_all

lemma sample_event_marshals:
  "\<exists>t j. Trip_ToProto sample_trip = Returns t \<and> marshal enc_trip_event_data (trip_event_of t) = Inr (RawJson j)"
  using enc_f64.simps(1) [of 100]
  by (simp add: sample_trip_def Trip_ToProto_def OSRM_ToProto_def zero_route_def trip_event_of_def
        RideFare_ToProto_def marshal_def codec_defs json_defs enc_pb_trip_def enc_pb_ride_fare_def
        enc_pb_route_def enc_pb_geometry_def enc_pb_coordinate_def enc_trip_event_data_def)

theorem declined_trip_loses_pickup_witness:
  "\<exists>w' b. driver_consumer sim_publisher (NewMongoRepository sim_mongo)
       (event_delivery DriverCmdTripDecline ''d1'' sample_answer) (trip_world sample_trip) = (Returns None, w')
     \<and> sent_of si_events w' = [(TripEventDriverNotInterested, b)]"
proof -
  obtain t j where t: "Trip_ToProto sample_trip = Returns t" "marshal enc_trip_event_data (trip_event_of t) = Inr (RawJson j)"
    using sample_event_marshals by blast
  obtain w' where p: "sim_publisher TripEventDriverNotInterested \<lparr>am_OwnerID = ''u1'', am_Data = RawJson j\<rparr>
      (trip_world sample_trip) = (Returns None, w')"
    using sim_publisher_raw [OF trip_world_up(1)] by blast
  have "dr_TripID sample_response = sample_id" "dr_RiderID sample_response = ''u1''" by (simp_all add: sample_response_def)
  then have run: "driver_consumer sim_publisher (NewMongoRepository sim_mongo)
       (event_delivery DriverCmdTripDecline ''d1'' sample_answer) (trip_world sample_trip) = (Returns None, w')"
    by (simp add: driver_consumer_def sample_answer_read handleTripDeclined_def trip_world_get [OF trip_world_docs] t p)
       (simp add: routing_key_defs)
  have "sent_of si_events (trip_world sample_trip) = []" by (simp add: sent_of_def trip_world_up)
  with declined_trip_loses_pickup [OF sim_mongo_docs sim_publisher_laws event_delivery_key run] run
  show ?thesis by auto
qed

section \<open>Routes and coordinates\<close>

text \<open>
  A preview for which the routing service finds no route never succeeds: the error of the
  estimate is ignored, the rider's stored preview is replaced by one without fares, and the handler
  panics; only a failing Redis or JSON error keeps it from that.
\<close>

theorem empty_route_preview:
  assumes R: "redis_bytes R bv" and rte: "svc_GetRoute get p q w = (Inr route, w0)" "os_Routes route = []"
    and run: "grpc_PreviewTrip get M (NewRedisRideFareRepository R) u (Some p) (Some q) w = (r, w')"
  shows "(\<exists>e. r = Returns (Inl e))
     \<or> r = Panics \<and> (\<exists>b preview. bv w' (farePreviewPrefix @ u) = Some b \<and> fp_Fares preview = []
          \<and> unmarshal (dec_struct fare_preview_fields) fare_preview_zero b = Inr preview)"
proof -
  let ?p = "\<lparr>fp_UserID = u, fp_Route = Some route, fp_Fares = []\<rparr>"
  have "wire_preview ?p" by (simp add: wire_preview_def wire_osrm_def rte(2))
  then obtain j where j: "enc_fare_preview ?p = Some j" "dec_struct fare_preview_fields fare_preview_zero j = Some ?p"
    using fare_preview_roundtrip by blast
  obtain s w1 where s: "rd_set_bytes R (farePreviewPrefix @ u) (RawJson j) rideFareTTL w0 = (s, w1)" by fastforce
  have "svc_EstimatePackagePriceWithRoute route = Inl (ErrMsg ''no routes found'')"
    by (simp add: svc_EstimatePackagePriceWithRoute_def rte(2))
  with run s rte have r: "r = (case s of Some e \<Rightarrow> Returns (Inl (status_internal ''failed to generate the ride fares''
      (errorf_w ''failed to save fare preview'' e))) | None \<Rightarrow> Panics)" "w' = w1"
    by (auto simp: grpc_PreviewTrip_def svc_GenerateTripFares_def NewRedisRideFareRepository_def OSRM_ToProto_def
          redis_SaveFarePreview_def marshal_def j split: option.splits)
  show ?thesis
  proof (cases s)
    case None
    with s redis_bytesD(4) [OF R] have "bv w1 (farePreviewPrefix @ u) = Some (RawJson j)" by fastforce
    with r None j(2) show ?thesis by (intro disjI2 conjI exI [of _ "RawJson j"] exI [of _ ?p]) simp_all
  qed (simp add: r)
qed

definition no_route :: osrm_response where
  "no_route = \<lparr>os_Routes = []\<rparr>"

definition empty_get :: "tsim http_get" where
  "empty_get url w = (Inr (Inr (RawJson (JObj [(''routes'', JArr [])]))), w)"

theorem empty_route_preview_witness:
  "\<exists>r (w' :: tsim). grpc_PreviewTrip empty_get sim_mongo (NewRedisRideFareRepository sim_redis) ''u1''
       (Some coordinate_zero) (Some coordinate_zero) tsim0 = (r, w')
     \<and> ((\<exists>e. r = Returns (Inl e)) \<or> r = Panics \<and> si_bytes w' (farePreviewPrefix @ ''u1'') \<noteq> None)"
proof -
  obtain r w' where run: "grpc_PreviewTrip empty_get sim_mongo (NewRedisRideFareRepository sim_redis) ''u1''
       (Some coordinate_zero) (Some coordinate_zero) tsim0 = (r, w')" by fastforce
  have g: "svc_GetRoute empty_get coordinate_zero coordinate_zero tsim0 = (Inr no_route, tsim0)"
    by (simp add: svc_GetRoute_def empty_get_def osrm_response_fields_def osrm_response_zero_def json_defs no_route_def)
  have n: "os_Routes no_route = []" by (simp add: no_route_def)
  have R: "redis_bytes (sim_redis :: tsim redis) si_bytes"
    by (auto simp: redis_bytes_def sim_redis_def split: option.splits)
  from empty_route_preview [OF R g n run]
  have "(\<exists>e. r = Returns (Inl e)) \<or> r = Panics \<and> si_bytes w' (farePreviewPrefix @ ''u1'') \<noteq> None" by auto
  with run show ?thesis by (intro exI conjI)
qed

text \<open>
  The creation event reads the same coordinate in two ways: its pick-up point takes the first
  number as the longitude, its route (and the route the rider's client draws) as the latitude.
\<close>

theorem event_coordinates_disagree:
  assumes B: "broker_traces B tr" and run: "PublishTripCreated (PublishMessage B rt) t w = (Returns None, w')"
    and route: "tm_RideFare t = Some fare" "fm_Route fare = Some route" "os_Routes route = r # rs"
      "os_Coordinates r = (x # y # zs) # ps"
  shows "\<exists>ev pt gs j b. sent_of tr w' = sent_of tr w @ [(TripEventCreated, b)]
     \<and> marshal enc_amqp_message \<lparr>am_OwnerID = tm_UserID t, am_Data = j\<rparr> = Inr b \<and> marshal enc_trip_event_data ev = Inr j
     \<and> te_Trip ev = Some pt \<and> te_PickupLng ev = x \<and> te_PickupLat ev = y
     \<and> map_option rt_Geometry (pt_Route pt) =
         Some [Some \<lparr>ge_Coordinates = Some \<lparr>co_Latitude = x, co_Longitude = y\<rparr> # gs\<rparr>]"
proof -
  obtain pt ev j where pt: "Trip_ToProto t = Returns pt" "with_pickup t (trip_event_of pt) = Returns ev"
    "marshal enc_trip_event_data ev = Inr j"
    and p: "PublishMessage B rt TripEventCreated \<lparr>am_OwnerID = tm_UserID t, am_Data = j\<rparr> w = (Returns None, w')"
    by (rule PublishTripCreated_done [OF run])
  have ev: "ev = \<lparr>te_Trip = Some pt, te_PickupLat = y, te_PickupLng = x\<rparr>"
    using pt(2) route by (simp add: with_pickup_def trip_event_of_def)
  obtain gs where "map_option rt_Geometry (pt_Route pt) =
      Some [Some \<lparr>ge_Coordinates = Some \<lparr>co_Latitude = x, co_Longitude = y\<rparr> # gs\<rparr>]"
    using pt(1) route by (auto simp: Trip_ToProto_def OSRM_ToProto_def Let_def split: outcome.splits)
  moreover from rabbit.published [OF B p] obtain b where
    "marshal enc_amqp_message \<lparr>am_OwnerID = tm_UserID t, am_Data = j\<rparr> = Inr b"
    "sent_of tr w' = sent_of tr w @ [(TripEventCreated, b)]" by blast
  ultimately show ?thesis using pt(3)
    by (intro exI [of _ ev] exI [of _ pt] exI [of _ gs] exI [of _ j] exI [of _ b]) (simp add: ev)
qed

theorem event_coordinates_disagree_witness:
  "\<exists>w' b. PublishTripCreated sim_publisher sample_trip (trip_world sample_trip) = (Returns None, w')
     \<and> sent_of si_events w' = [(TripEventCreated, b)]"
proof -
  obtain w' where run: "PublishTripCreated sim_publisher sample_trip (trip_world sample_trip) = (Returns None, w')"
    using sample_event_sent [OF trip_world_up(1)] by blast
  have "tm_RideFare sample_trip = Some (the (tm_RideFare sample_trip))"
    "fm_Route (the (tm_RideFare sample_trip)) = Some zero_route"
    "os_Routes zero_route = hd (os_Routes zero_route) # []"
    "os_Coordinates (hd (os_Routes zero_route)) = (F64 0 # F64 0 # []) # []"
    by (simp_all add: sample_trip_def zero_route_def)
  from event_coordinates_disagree [OF sim_publisher_laws(2) run this] run
  show ?thesis by (auto simp: sent_of_def trip_world_up)
qed

end
