(* ===== verification/Http.thy ===== *)
theory Http
  imports Payloads External
begin

text \<open>
  HTTP as the gateways see it, and the small packages they share: \<open>shared/env\<close>,
  \<open>shared/util\<close>, \<open>shared/contracts/http.go\<close>. A request is what the handlers read of it:
  \<open>Header.Get\<close> and \<open>Query().Get\<close> (empty when missing), cookies, the peer's address, the body and
  the values the middlewares put into its context. A response is its status, body and cookies; a
  handler that writes nothing answers 200 with an empty body.
\<close>

section \<open>Requests and responses\<close>

record request =
  hq_Header :: "string \<Rightarrow> string"
  hq_Query :: "string \<Rightarrow> string"
  hq_Cookie :: "string \<rightharpoonup> string"
  hq_RemoteAddr :: string
  hq_Body :: "raw res"
  hq_Ctx :: "string \<rightharpoonup> string"

record cookie =
  ck_Name :: string
  ck_Value :: string
  ck_Path :: string
  ck_MaxAge :: int
  ck_Expires :: "int option"
  ck_HttpOnly :: bool
  ck_Secure :: bool
  ck_SameSite :: string

datatype reply_body = NoBody | TextBody string | JsonBody json

record response =
  hr_Status :: nat
  hr_Body :: reply_body
  hr_Cookies :: "cookie list"

type_synonym 'w http_handler = "request \<Rightarrow> 'w \<Rightarrow> response outcome \<times> 'w"

text \<open>\<open>http.Error\<close> and a handler that returns without writing.\<close>

definition http_error :: "string \<Rightarrow> nat \<Rightarrow> response" where
  "http_error msg code = \<lparr>hr_Status = code, hr_Body = TextBody msg, hr_Cookies = []\<rparr>"

definition no_reply :: response where
  "no_reply = \<lparr>hr_Status = 200, hr_Body = NoBody, hr_Cookies = []\<rparr>"

text \<open>\<open>http.SetCookie\<close> before the body is written.\<close>

definition with_cookie :: "cookie \<Rightarrow> response \<Rightarrow> response" where
  "with_cookie c r = r\<lparr>hr_Cookies := c # hr_Cookies r\<rparr>"

lemma http_error_simps [simp]:
  "hr_Status (http_error msg code) = code" "hr_Body (http_error msg code) = TextBody msg"
  "hr_Cookies (http_error msg code) = []"
  by (simp_all add: http_error_def)

text \<open>A value of the request's context, asserted to be a string.\<close>

definition ctx_string :: "request \<Rightarrow> string \<Rightarrow> string" where
  "ctx_string r key = (case hq_Ctx r key of None \<Rightarrow> '''' | Some v \<Rightarrow> v)"

section \<open>JSON replies\<close>

text \<open>
  \<open>respondWithJSON\<close> has written the status when the encoding fails; the body is then empty.
  \<open>Data\<close> comes with its encoding: \<open>None\<close> is nil and left out.
\<close>

definition respondWithJSON :: "nat \<Rightarrow> json option \<Rightarrow> response" where
  "respondWithJSON code payload = \<lparr>hr_Status = code,
     hr_Body = (case payload of None \<Rightarrow> NoBody | Some j \<Rightarrow> JsonBody j), hr_Cookies = []\<rparr>"

definition enc_error_response :: "string \<Rightarrow> string list \<Rightarrow> json option" where
  "enc_error_response message errors =
     enc_obj [mem_str ''status'' ''error'', mem_str ''message'' message,
              omit_list ''errors'' (\<lambda>s. Some (JStr s)) errors]"

definition enc_success_response :: "string \<Rightarrow> json option option \<Rightarrow> json option" where
  "enc_success_response message data =
     enc_obj [mem_str ''status'' ''success'', mem_str ''message'' message,
              (case data of None \<Rightarrow> Omit | Some j \<Rightarrow> Member ''data'' j)]"

definition RespondWithError :: "nat \<Rightarrow> string \<Rightarrow> string list \<Rightarrow> response" where
  "RespondWithError code message errors = respondWithJSON code (enc_error_response message errors)"

definition RespondWithSuccess :: "nat \<Rightarrow> string \<Rightarrow> json option option \<Rightarrow> response" where
  "RespondWithSuccess code message data = respondWithJSON code (enc_success_response message data)"

lemma respond_simps [simp]:
  "hr_Status (RespondWithError code message errors) = code" "hr_Cookies (RespondWithError code message errors) = []"
  "hr_Status (RespondWithSuccess code message data) = code" "hr_Cookies (RespondWithSuccess code message data) = []"
  by (simp_all add: RespondWithError_def RespondWithSuccess_def respondWithJSON_def)

text \<open>A failed rule of the validator: the field, the rule's tag and its parameter.\<close>

record field_error =
  fe_Field :: string
  fe_Tag :: string
  fe_Param :: string

definition FormatValidationError :: "field_error \<Rightarrow> string" where
  "FormatValidationError err =
     (if fe_Tag err = ''required'' then fe_Field err @ '' is required''
      else if fe_Tag err = ''min'' then
        fe_Field err @ '' must be at least '' @ fe_Param err @ '' characters long''
      else fe_Field err @ '' failed '' @ fe_Tag err @ '' validation'')"

definition GetRandomAvatar :: "int \<Rightarrow> string" where
  "GetRandomAvatar index = ''https://randomuser.me/api/portraits/lego/'' @ show_int index @ ''.jpg''"

section \<open>The environment\<close>

definition GetString :: "'w runtime \<Rightarrow> string \<Rightarrow> string \<Rightarrow> 'w \<Rightarrow> string" where
  "GetString rt key fallback w = (case run_env rt key w of None \<Rightarrow> fallback | Some val \<Rightarrow> val)"

text \<open>
  \<open>strconv.Atoi\<close>: an optional sign and decimal digits, within 64 bits. \<open>strconv.ParseBool\<close>.
\<close>

definition digit_value :: "char \<Rightarrow> nat option" where
  "digit_value c = map_of (zip ''0123456789'' [0..<10]) c"

fun read_digits :: "nat \<Rightarrow> string \<Rightarrow> nat option" where
  "read_digits acc [] = Some acc"
| "read_digits acc (c # cs) =
     (case digit_value c of None \<Rightarrow> None | Some d \<Rightarrow> read_digits (10 * acc + d) cs)"

definition Atoi :: "string \<Rightarrow> int option" where
  "Atoi s =
     (let neg = (has_prefix s ''-'');
          ds = (if neg \<or> has_prefix s ''+'' then tl s else s)
      in if ds = '''' then None
         else (case read_digits 0 ds of
                 None \<Rightarrow> None
               | Some n \<Rightarrow>
                   (let i = (if neg then - int n else int n)
                    in if - (2 ^ 63) \<le> i \<and> i < 2 ^ 63 then Some i else None)))"

definition ParseBool :: "string \<Rightarrow> bool option" where
  "ParseBool s =
     (if s \<in> {''1'', ''t'', ''T'', ''TRUE'', ''true'', ''True''} then Some True
      else if s \<in> {''0'', ''f'', ''F'', ''FALSE'', ''false'', ''False''} then Some False
      else None)"

definition GetInt :: "'w runtime \<Rightarrow> string \<Rightarrow> int \<Rightarrow> 'w \<Rightarrow> int" where
  "GetInt rt key fallback w =
     (case run_env rt key w of
        None \<Rightarrow> fallback
      | Some val \<Rightarrow> (case Atoi val of None \<Rightarrow> fallback | Some valAsInt \<Rightarrow> valAsInt))"

definition GetBool :: "'w runtime \<Rightarrow> string \<Rightarrow> bool \<Rightarrow> 'w \<Rightarrow> bool" where
  "GetBool rt key fallback w =
     (case run_env rt key w of
        None \<Rightarrow> fallback
      | Some val \<Rightarrow> (case ParseBool val of None \<Rightarrow> fallback | Some boolVal \<Rightarrow> boolVal))"

lemma digit_value_char: "digit_value (digit_char n) = Some (n mod 10)"
proof -
  have "map_of (zip ''0123456789'' [0..<10]) (''0123456789'' ! (n mod 10)) = Some ([0..<10] ! (n mod 10))"
    by (rule map_of_zip_nth) simp_all
  moreover have "n mod 10 < 10" by simp
  ultimately show ?thesis by (simp only: digit_value_def digit_char_def nth_upt add_0)
qed

lemma digit_value_sign: "digit_value (CHR ''-'') = None" "digit_value (CHR ''+'') = None"
  by (simp_all add: digit_value_def upt_rec_numeral)

lemma read_digits_append: "read_digits a (s @ t) = Option.bind (read_digits a s) (\<lambda>b. read_digits b t)"
  by (induction s arbitrary: a) (auto split: option.splits)

lemma read_show_nat: "read_digits 0 (show_nat n) = Some n"
proof (induction n rule: show_nat.induct)
  case (1 n)
  show ?case
  proof (cases "n < 10")
    case True
    then show ?thesis by (subst show_nat.simps) (simp add: digit_value_char)
  next
    case False
    then have "read_digits 0 (show_nat (n div 10)) = Some (n div 10)" using 1 by simp
    with False show ?thesis by (subst show_nat.simps) (simp add: read_digits_append digit_value_char)
  qed
qed

lemma show_nat_not_empty: "show_nat n \<noteq> ''''"
  by (subst show_nat.simps) simp

lemma show_nat_unsigned: "\<not> has_prefix (show_nat n) ''-''" "\<not> has_prefix (show_nat n) ''+''"
proof -
  have "\<exists>d cs. show_nat n = digit_char d # cs"
  proof (induction n rule: show_nat.induct)
    case (1 n)
    then show ?case by (subst show_nat.simps) (cases "n < 10"; auto)
  qed
  then obtain d cs where "show_nat n = digit_char d # cs" by blast
  moreover have "digit_char d \<noteq> CHR ''-''" "digit_char d \<noteq> CHR ''+''"
    using digit_value_char [of d] digit_value_sign by fastforce+
  ultimately show "\<not> has_prefix (show_nat n) ''-''" "\<not> has_prefix (show_nat n) ''+''" by simp_all
qed

lemma Atoi_show: "- (2 ^ 63) \<le> i \<Longrightarrow> i < 2 ^ 63 \<Longrightarrow> Atoi (show_int i) = Some i"
  using show_nat_unsigned [of "nat i"] show_nat_not_empty [of "nat i"] show_nat_not_empty [of "nat (- i)"]
  by (auto simp: Atoi_def show_int_def read_show_nat)

lemma Atoi_range: "Atoi s = Some i \<Longrightarrow> - (2 ^ 63) \<le> i \<and> i < 2 ^ 63"
  by (auto simp: Atoi_def Let_def split: option.splits if_splits)

end
