(* ===== verification/RateLimit.thy ===== *)
theory RateLimit
  imports Http Reference
begin

text \<open>
  The rate limiters of the two gateways (\<open>services/api-gateway/ratelimit.go\<close>,
  \<open>services/ws-gateway/ratelimit.go\<close>): the fixed-window counter in Redis, the keys, the
  client's address, and the gate that bounds a user's simultaneous WebSocket connections. The names
  of the second file start with \<open>ws_\<close>. A release function is a tag that says what it does.
\<close>

section \<open>The counter\<close>

text \<open>The Lua script, run atomically by Redis; an error inside ends it.\<close>

definition luaRateLimit :: "'w redis \<Rightarrow> string \<Rightarrow> int \<Rightarrow> 'w \<Rightarrow> int res \<times> 'w" where
  "luaRateLimit R key windowSecs =
     rd_script R (\<lambda>w. case rd_incr R key w of
        (Inl e, w1) \<Rightarrow> (Inl e, w1)
      | (Inr current, w1) \<Rightarrow>
          if current = 1 then
            (case rd_expire R key (seconds windowSecs) w1 of
               (Some e, w2) \<Rightarrow> (Inl e, w2)
             | (None, w2) \<Rightarrow> (Inr current, w2))
          else (Inr current, w1))"

definition Limit ::
  "'w redis \<Rightarrow> int \<Rightarrow> int \<Rightarrow> (request \<Rightarrow> string) \<Rightarrow> 'w http_handler \<Rightarrow> 'w http_handler" where
  "Limit R limit windowSecs keyFn next r w =
     (let key = keyFn r
      in if key = '''' then next r w
         else (case luaRateLimit R key windowSecs w of
                 (Inl e, w1) \<Rightarrow> next r w1
               | (Inr count, w1) \<Rightarrow>
                   if count > limit then (Returns (http_error ''rate limit exceeded'' 429), w1)
                   else next r w1))"

definition ctxKeyUserID :: string where "ctxKeyUserID = ''userID''"
definition ctxKeyToken :: string where "ctxKeyToken = ''token''"
definition ctxKeyName :: string where "ctxKeyName = ''name''"

lemmas ctx_key_defs = ctxKeyUserID_def ctxKeyToken_def ctxKeyName_def

definition userKey :: "string \<Rightarrow> request \<Rightarrow> string" where
  "userKey prefix r =
     (let userID = ctx_string r ctxKeyUserID
      in if userID = '''' then '''' else ''rl:'' @ prefix @ '':'' @ userID)"

text \<open>
  \<open>net.SplitHostPort\<close>: the part before the last colon, without its brackets; an address the
  function does not accept gives the empty host.
\<close>

definition SplitHostPort :: "string \<Rightarrow> string" where
  "SplitHostPort s =
     (let brackets = (\<lambda>t. CHR ''['' \<in> set t \<or> CHR '']'' \<in> set t);
          port = takeWhile (\<lambda>c. c \<noteq> CHR '':'') (rev s);
          rest = dropWhile (\<lambda>c. c \<noteq> CHR '':'') (rev s);
          h = rev (tl rest)
      in if rest = '''' then ''''
         else if has_prefix h ''['' then
           (if last h = CHR '']'' \<and> \<not> brackets (butlast (tl h)) \<and> \<not> brackets port then butlast (tl h) else '''')
         else if CHR '':'' \<in> set h \<or> brackets s then '''' else h)"

definition realIP :: "request \<Rightarrow> string" where
  "realIP r =
     (let fwd = hq_Header r ''X-Forwarded-For''
      in if fwd \<noteq> '''' then trim_space (hd (split_char (CHR '','') fwd))
         else SplitHostPort (hq_RemoteAddr r))"

definition ipKey :: "string \<Rightarrow> request \<Rightarrow> string" where
  "ipKey prefix r = ''rl:'' @ prefix @ '':'' @ realIP r"

section \<open>The gate of the API gateway\<close>

datatype release = NoRelease | Release

definition WsConnectionGate :: "'w redis \<Rightarrow> string \<Rightarrow> int \<Rightarrow> 'w \<Rightarrow> (bool \<times> release) \<times> 'w" where
  "WsConnectionGate R userID limit w =
     (let key = ''ws:conn:'' @ userID
      in case rd_incr R key w of
           (Inl e, w1) \<Rightarrow> ((True, NoRelease), w1)
         | (Inr count, w1) \<Rightarrow>
             if count > limit then
               (case rd_decr R key w1 of (_, w2) \<Rightarrow> ((False, NoRelease), w2))
             else ((True, Release), w1))"

definition release_gate :: "'w redis \<Rightarrow> string \<Rightarrow> release \<Rightarrow> 'w \<Rightarrow> 'w" where
  "release_gate R userID rel w =
     (case rel of NoRelease \<Rightarrow> w | Release \<Rightarrow> snd (rd_decr R (''ws:conn:'' @ userID) w))"

section \<open>The WebSocket gateway's copy\<close>

definition ws_luaRateLimit :: "'w redis \<Rightarrow> string \<Rightarrow> int \<Rightarrow> 'w \<Rightarrow> int res \<times> 'w" where
  "ws_luaRateLimit R key windowSecs =
     rd_script R (\<lambda>w. case rd_incr R key w of
        (Inl e, w1) \<Rightarrow> (Inl e, w1)
      | (Inr current, w1) \<Rightarrow>
          if current = 1 then
            (case rd_expire R key (seconds windowSecs) w1 of
               (Some e, w2) \<Rightarrow> (Inl e, w2)
             | (None, w2) \<Rightarrow> (Inr current, w2))
          else (Inr current, w1))"

definition ws_Limit ::
  "'w redis \<Rightarrow> int \<Rightarrow> int \<Rightarrow> (request \<Rightarrow> string) \<Rightarrow> 'w http_handler \<Rightarrow> 'w http_handler" where
  "ws_Limit R limit windowSecs keyFn next r w =
     (let key = keyFn r
      in if key = '''' then next r w
         else (case ws_luaRateLimit R key windowSecs w of
                 (Inl e, w1) \<Rightarrow> next r w1
               | (Inr count, w1) \<Rightarrow>
                   if count > limit then (Returns (http_error ''rate limit exceeded'' 429), w1)
                   else next r w1))"

definition ws_userKey :: "string \<Rightarrow> request \<Rightarrow> string" where
  "ws_userKey prefix r =
     (let userID = ctx_string r ctxKeyUserID
      in if userID = '''' then '''' else ''rl:'' @ prefix @ '':'' @ userID)"

definition ws_realIP :: "request \<Rightarrow> string" where
  "ws_realIP r =
     (let ip = hq_Header r ''X-Forwarded-For''
      in if ip \<noteq> '''' then hd (split_char (CHR '','') ip)
         else SplitHostPort (hq_RemoteAddr r))"

definition ws_ipKey :: "string \<Rightarrow> request \<Rightarrow> string" where
  "ws_ipKey prefix r = ''rl:'' @ prefix @ '':'' @ ws_realIP r"

definition wsConnectionGateTTLSeconds :: int where "wsConnectionGateTTLSeconds = 60"

definition gate_key :: "string \<Rightarrow> string" where
  "gate_key userID = ''ws:conns:'' @ userID"

definition ws_WsConnectionGate :: "'w redis \<Rightarrow> string \<Rightarrow> int \<Rightarrow> 'w \<Rightarrow> (bool \<times> release) \<times> 'w" where
  "ws_WsConnectionGate R userID maxConns w =
     (case ws_luaRateLimit R (gate_key userID) wsConnectionGateTTLSeconds w of
        (Inl e, w1) \<Rightarrow> ((True, NoRelease), w1)
      | (Inr count, w1) \<Rightarrow>
          if count > maxConns then ((False, NoRelease), w1) else ((True, Release), w1))"

definition ws_release_gate :: "'w redis \<Rightarrow> string \<Rightarrow> release \<Rightarrow> 'w \<Rightarrow> 'w" where
  "ws_release_gate R userID rel w =
     (case rel of
        NoRelease \<Rightarrow> w
      | Release \<Rightarrow>
          (case rd_decr R (gate_key userID) w of
             (Inl e, w1) \<Rightarrow> w1
           | (Inr remaining, w1) \<Rightarrow>
               if remaining \<le> 0 then snd (rd_del R (gate_key userID) w1) else w1))"

definition RefreshWsConnectionGate :: "'w redis \<Rightarrow> string \<Rightarrow> 'w \<Rightarrow> 'w" where
  "RefreshWsConnectionGate R userID w =
     snd (rd_expire R (gate_key userID) (seconds wsConnectionGateTTLSeconds) w)"

lemma ws_luaRateLimit_same: "ws_luaRateLimit = luaRateLimit"
  by (intro ext) (simp add: ws_luaRateLimit_def luaRateLimit_def)

lemma ws_Limit_same: "ws_Limit = Limit" "ws_userKey = userKey"
  by (intro ext; simp add: ws_Limit_def Limit_def ws_luaRateLimit_same ws_userKey_def userKey_def Let_def)+

section \<open>What is assumed of Redis\<close>

text \<open>
  Counters: \<open>ct w\<close> gives the value of a key, zero when it is missing. An increment or decrement
  that succeeds returns and stores the new value, a deletion that succeeds removes the key, a time to
  live does not change a value while it lasts, and a script that succeeds has run.
\<close>

definition redis_counters :: "'w redis \<Rightarrow> ('w \<Rightarrow> string \<Rightarrow> int) \<Rightarrow> bool" where
  "redis_counters R ct \<longleftrightarrow>
     (\<forall>k w n w'. rd_incr R k w = (Inr n, w') \<longrightarrow> n = ct w k + 1 \<and> ct w' = (ct w)(k := n))
   \<and> (\<forall>k w n w'. rd_decr R k w = (Inr n, w') \<longrightarrow> n = ct w k - 1 \<and> ct w' = (ct w)(k := n))
   \<and> (\<forall>k w w'. rd_del R k w = (None, w') \<longrightarrow> ct w' = (ct w)(k := 0))
   \<and> (\<forall>k t w r w'. rd_expire R k t w = (r, w') \<longrightarrow> ct w' = ct w)
   \<and> (\<forall>f w n w'. rd_script R f w = (Inr n, w') \<longrightarrow> f w = (Inr n, w'))"

lemma redis_countersD:
  assumes "redis_counters R ct"
  shows "rd_incr R k w = (Inr n, w') \<Longrightarrow> n = ct w k + 1 \<and> ct w' = (ct w)(k := n)"
    "rd_decr R k w = (Inr n, w') \<Longrightarrow> n = ct w k - 1 \<and> ct w' = (ct w)(k := n)"
    "rd_del R k w = (None, w') \<Longrightarrow> ct w' = (ct w)(k := 0)"
    "rd_expire R k t w = (r, w') \<Longrightarrow> ct w' = ct w"
    "rd_script R f w = (Inr n, w') \<Longrightarrow> f w = (Inr n, w')"
  using assms unfolding redis_counters_def by blast+

lemma sim_redis_counters: "redis_counters sim_redis si_counters"
  by (auto simp: redis_counters_def sim_redis_def)

lemma luaRateLimit_counts:
  assumes R: "redis_counters R ct" and run: "luaRateLimit R k secs w = (Inr n, w')"
  shows "n = ct w k + 1 \<and> ct w' = (ct w)(k := n)"
proof -
  from redis_countersD(5) [OF R run [unfolded luaRateLimit_def]]
  obtain w1 where i: "rd_incr R k w = (Inr n, w1)"
    and rest: "w' = w1 \<or> (\<exists>t. rd_expire R k t w1 = (None, w'))"
    by (auto split: prod.splits sum.splits if_splits option.splits)
  from redis_countersD(1) [OF R i] rest redis_countersD(4) [OF R] show ?thesis by auto
qed

section \<open>Windows\<close>

fun serve_all :: "'w http_handler \<Rightarrow> request list \<Rightarrow> 'w \<Rightarrow> response outcome list \<times> 'w" where
  "serve_all h [] w = ([], w)"
| "serve_all h (r # rs) w =
     (case h r w of (x, w1) \<Rightarrow> (case serve_all h rs w1 of (xs, w2) \<Rightarrow> (x # xs, w2)))"

abbreviation refused :: "response outcome" where
  "refused \<equiv> Returns (http_error ''rate limit exceeded'' 429)"

lemma Limit_window:
  assumes R: "redis_counters R ct" and key: "\<forall>r\<in>set rs. keyFn r = k" "k \<noteq> ''''"
    and up: "\<And>w. \<exists>n w'. luaRateLimit R k secs w = (Inr n, w')"
    and nx: "\<And>r w x w'. next r w = (x, w') \<Longrightarrow> x \<noteq> refused \<and> ct w' k = ct w k"
    and run: "serve_all (Limit R limit secs keyFn next) rs w = (xs, w')" and c: "0 \<le> ct w k"
  shows "int (length (filter (\<lambda>x. x \<noteq> refused) xs)) = min (max 0 (limit - ct w k)) (int (length rs))"
  using key(1) run c
proof (induction rs arbitrary: w xs)
  case (Cons r rs)
  obtain n w1 where l: "luaRateLimit R k secs w = (Inr n, w1)" using up by blast
  with luaRateLimit_counts [OF R l] have n: "n = ct w k + 1" "ct w1 k = ct w k + 1" by auto
  obtain x w2 where x: "Limit R limit secs keyFn next r w = (x, w2)" by fastforce
  obtain ys where ys: "serve_all (Limit R limit secs keyFn next) rs w2 = (ys, w')" "xs = x # ys"
    using Cons.prems(2) x by (auto split: prod.splits)
  have r: "keyFn r = k" using Cons.prems(1) by simp
  have ct: "ct w2 k = ct w k + 1" and pass: "x \<noteq> refused \<longleftrightarrow> ct w k < limit"
    using x l n key(2) r nx by (auto simp: Limit_def Let_def split: if_splits)
  have "int (length (filter (\<lambda>x. x \<noteq> refused) ys)) = min (max 0 (limit - ct w2 k)) (int (length rs))"
    using Cons.prems ct by (intro Cons.IH [OF _ ys(1)]) auto
  then show ?case using pass ct by (auto simp: ys(2) min_def max_def)
qed simp

text \<open>
  C21: In a window of a key that starts at zero, and while Redis answers, exactly the first
  \<open>limit\<close> requests reach the handler behind the limiter and every later one is answered with 429.
\<close>

theorem rate_limit_exact:
  assumes "redis_counters R ct" "\<forall>r\<in>set rs. keyFn r = k" "k \<noteq> ''''"
    and "\<forall>w. \<exists>n w'. luaRateLimit R k secs w = (Inr n, w')"
    and "\<forall>r w x w'. h r w = (x, w') \<longrightarrow> x \<noteq> refused \<and> ct w' k = ct w k"
    and "serve_all (Limit R limit secs keyFn h) rs w = (xs, w')" "ct w k = 0" "0 \<le> limit"
  shows "int (length (filter (\<lambda>x. x \<noteq> refused) xs)) = min limit (int (length rs))"
  using Limit_window [OF assms(1-3) _ _ assms(6)] assms(4,5,7,8) by simp

definition sample_request :: request where
  "sample_request = \<lparr>hq_Header = (\<lambda>_. ''''), hq_Query = (\<lambda>_. ''''), hq_Cookie = Map.empty,
     hq_RemoteAddr = ''10.0.0.7:4711'', hq_Body = Inr RawNil, hq_Ctx = [ctxKeyUserID \<mapsto> ''u1'']\<rparr>"

definition ok_handler :: "'w http_handler" where
  "ok_handler r w = (Returns no_reply, w)"

theorem rate_limit_exact_witness:
  "int (length (filter (\<lambda>x. x \<noteq> refused)
     (fst (serve_all (Limit sim_redis 5 60 (userKey ''trip:start'') ok_handler) (replicate 7 sample_request) sim0)))) = 5"
proof -
  let ?k = "''rl:trip:start:u1''"
  have k: "\<forall>r\<in>set (replicate 7 sample_request). userKey ''trip:start'' r = ?k"
    by (simp add: userKey_def sample_request_def ctx_string_def ctxKeyUserID_def)
  have up: "\<forall>w. \<exists>n w'. luaRateLimit sim_redis ?k 60 w = (Inr n, w')"
    by (simp add: luaRateLimit_def sim_redis_def)
  have ok: "\<forall>r (w :: sim) x w'. ok_handler r w = (x, w') \<longrightarrow> x \<noteq> refused \<and> si_counters w' ?k = si_counters w ?k"
    by (auto simp: ok_handler_def no_reply_def http_error_def)
  obtain xs w' where run: "serve_all (Limit sim_redis 5 60 (userKey ''trip:start'') ok_handler)
      (replicate 7 sample_request) sim0 = (xs, w')" by fastforce
  have "si_counters sim0 ?k = 0" by (simp add: sim0_def)
  with rate_limit_exact [where ct = si_counters and h = ok_handler and k = ?k, OF sim_redis_counters k _ up ok run] run
  show ?thesis by simp
qed

section \<open>The gate over time\<close>

text \<open>
  A user's attempts at the WebSocket gateway while Redis answers and the key lives: the connections
  that are open and the attempts that have been rejected so far.
\<close>

inductive gate_reach :: "'w redis \<Rightarrow> ('w \<Rightarrow> string \<Rightarrow> int) \<Rightarrow> string \<Rightarrow> int \<Rightarrow> 'w \<Rightarrow> nat \<Rightarrow> nat \<Rightarrow> bool"
  for R ct u mx where
    gate_start: "ct w (gate_key u) = 0 \<Longrightarrow> gate_reach R ct u mx w 0 0"
  | gate_open: "gate_reach R ct u mx w n rej \<Longrightarrow>
      ws_WsConnectionGate R u mx w = ((True, Release), w') \<Longrightarrow> gate_reach R ct u mx w' (n + 1) rej"
  | gate_reject: "gate_reach R ct u mx w n rej \<Longrightarrow>
      ws_WsConnectionGate R u mx w = ((False, NoRelease), w') \<Longrightarrow> gate_reach R ct u mx w' n (rej + 1)"
  | gate_close: "gate_reach R ct u mx w (n + 1) rej \<Longrightarrow> rd_decr R (gate_key u) w = (Inr m, w1) \<Longrightarrow>
      (m \<le> 0 \<Longrightarrow> rd_del R (gate_key u) w1 = (None, ws_release_gate R u Release w)) \<Longrightarrow>
      gate_reach R ct u mx (ws_release_gate R u Release w) n rej"
  | gate_refresh: "gate_reach R ct u mx w n rej \<Longrightarrow>
      gate_reach R ct u mx (RefreshWsConnectionGate R u w) n rej"

inductive_cases gate_reachE: "gate_reach R ct u mx w n rej"

lemma ws_gate_counts:
  assumes R: "redis_counters R ct" and run: "ws_WsConnectionGate R u mx w = ((a, rel), w')"
    and up: "\<exists>n. luaRateLimit R (gate_key u) wsConnectionGateTTLSeconds w = (Inr n, w')"
  shows "a = (ct w (gate_key u) < mx) \<and> rel = (if a then Release else NoRelease)
     \<and> ct w' (gate_key u) = ct w (gate_key u) + 1"
proof -
  obtain n where n: "luaRateLimit R (gate_key u) wsConnectionGateTTLSeconds w = (Inr n, w')" using up by blast
  from luaRateLimit_counts [OF R n] run n show ?thesis
    by (auto simp: ws_WsConnectionGate_def ws_luaRateLimit_same split: if_splits)
qed

lemma ws_gate_up:
  "ws_WsConnectionGate R u mx w = ((True, Release), w') \<Longrightarrow>
     \<exists>n. luaRateLimit R (gate_key u) wsConnectionGateTTLSeconds w = (Inr n, w')"
  "ws_WsConnectionGate R u mx w = ((False, NoRelease), w') \<Longrightarrow>
     \<exists>n. luaRateLimit R (gate_key u) wsConnectionGateTTLSeconds w = (Inr n, w')"
  by (auto simp: ws_WsConnectionGate_def ws_luaRateLimit_same split: prod.splits sum.splits if_splits)

lemma gate_reach_counter:
  assumes R: "redis_counters R ct" and "0 \<le> mx"
  shows "gate_reach R ct u mx w n rej \<Longrightarrow> ct w (gate_key u) = int n + int rej \<and> int n \<le> mx"
proof (induction rule: gate_reach.induct)
  case (gate_open w n rej w')
  with ws_gate_counts [OF R gate_open(2) ws_gate_up(1) [OF gate_open(2)]] show ?case by simp
next
  case (gate_reject w n rej w')
  with ws_gate_counts [OF R gate_reject(2) ws_gate_up(2) [OF gate_reject(2)]] show ?case by simp
next
  case (gate_close w n rej m w1)
  from redis_countersD(2) [OF R gate_close(2)] gate_close(4)
  have m: "m = int n + int rej" "ct w1 (gate_key u) = m" by auto
  show ?case
  proof (cases "m \<le> 0")
    case True
    with redis_countersD(3) [OF R gate_close(3)] m gate_close(4) show ?thesis by simp
  next
    case False
    then have "ws_release_gate R u Release w = w1" by (simp add: ws_release_gate_def gate_close(2))
    with m gate_close(4) show ?thesis by simp
  qed
next
  case (gate_refresh w n rej)
  obtain r w' where e: "rd_expire R (gate_key u) (seconds wsConnectionGateTTLSeconds) w = (r, w')" by fastforce
  with redis_countersD(4) [OF R e] gate_refresh(2) show ?case by (simp add: RefreshWsConnectionGate_def)
qed (use assms(2) in simp)

text \<open>
  C22: The gate of the WebSocket gateway never lets more than its limit through at a time, but a
  rejected attempt keeps the slot it counted: a new connection is let through exactly when the open
  connections and all attempts rejected so far are together below the limit, so after three
  rejections a user is locked out even with no connection open.
\<close>

theorem rejected_attempts_count:
  assumes "redis_counters R ct" "0 \<le> mx" "gate_reach R ct u mx w n rej"
    and "luaRateLimit R (gate_key u) wsConnectionGateTTLSeconds w = (Inr m, w1)"
    and "ws_WsConnectionGate R u mx w = ((allowed, rel), w')"
  shows "int n \<le> mx \<and> (allowed \<longleftrightarrow> int n + int rej < mx)"
proof -
  have "w' = w1" using assms(4,5) by (auto simp: ws_WsConnectionGate_def ws_luaRateLimit_same split: if_splits)
  with ws_gate_counts [OF assms(1,5)] gate_reach_counter [OF assms(1-3)] assms(4) show ?thesis by auto
qed

text \<open>The gate as the API gateway writes it gives the slot back.\<close>

lemma api_gate_counts:
  assumes R: "redis_counters R ct" and run: "WsConnectionGate R u limit w = ((a, rel), w')"
    and up: "rd_incr R (''ws:conn:'' @ u) w = (Inr n, w1)" "rd_decr R (''ws:conn:'' @ u) w1 = (Inr m, w2)"
  shows "a = (ct w (''ws:conn:'' @ u) < limit)
     \<and> ct w' (''ws:conn:'' @ u) = ct w (''ws:conn:'' @ u) + (if a then 1 else 0)"
  using run up redis_countersD(1) [OF R up(1)] redis_countersD(2) [OF R up(2)]
  by (auto simp: WsConnectionGate_def Let_def split: if_splits)

lemma sim_gate:
  "ws_WsConnectionGate sim_redis u mx s = (if mx \<le> si_counters s (gate_key u) then (False, NoRelease) else (True, Release),
     s\<lparr>si_counters := (si_counters s)(gate_key u := si_counters s (gate_key u) + 1)\<rparr>)"
  by (simp add: ws_WsConnectionGate_def ws_luaRateLimit_def sim_redis_def)

definition gate_world :: "int \<Rightarrow> sim" where
  "gate_world n = sim0\<lparr>si_counters := (\<lambda>_. 0)(gate_key ''u1'' := n)\<rparr>"

lemma gate_world_step:
  "ws_WsConnectionGate sim_redis ''u1'' mx (gate_world n) =
     (if mx \<le> n then (False, NoRelease) else (True, Release), gate_world (n + 1))"
  by (simp add: sim_gate gate_world_def)

lemma gate_world_release: "1 < n \<Longrightarrow> ws_release_gate sim_redis ''u1'' Release (gate_world n) = gate_world (n - 1)"
  by (simp add: ws_release_gate_def gate_world_def sim_redis_def)

lemma gate_world_reject:
  "gate_reach sim_redis si_counters ''u1'' 1 (gate_world (int k + 1)) 1 k"
proof (induction k)
  case 0
  have "gate_reach sim_redis si_counters ''u1'' 1 (gate_world 0) 0 0"
    by (rule gate_start) (simp add: gate_world_def)
  from gate_open [OF this] show ?case by (simp add: gate_world_step)
next
  case (Suc k)
  from gate_reject [OF Suc] show ?case by (simp add: gate_world_step add.commute)
qed

theorem rejected_attempts_count_witness:
  "fst (fst (ws_WsConnectionGate sim_redis ''u1'' 1 (gate_world 2))) = False
     \<and> gate_reach sim_redis si_counters ''u1'' 1 (gate_world 2) 0 2"
proof -
  have three: "gate_reach sim_redis si_counters ''u1'' 1 (gate_world 3) 1 2"
    using gate_world_reject [of 2] by simp
  have d: "rd_decr sim_redis (gate_key ''u1'') (gate_world 3) = (Inr 2, gate_world 2)"
    by (simp add: sim_redis_def gate_world_def)
  have r: "ws_release_gate sim_redis ''u1'' Release (gate_world 3) = gate_world 2"
    using gate_world_release [of 3] by simp
  have two: "gate_reach sim_redis si_counters ''u1'' 1 (gate_world 2) 0 2"
    using gate_close [of sim_redis si_counters "''u1''" 1 "gate_world 3" 0 2 2 "gate_world 2"] three d by (simp add: r)
  have l: "luaRateLimit sim_redis (gate_key ''u1'') wsConnectionGateTTLSeconds (gate_world 2) = (Inr 3, gate_world 3)"
    by (simp add: luaRateLimit_def sim_redis_def gate_world_def)
  have g: "ws_WsConnectionGate sim_redis ''u1'' 1 (gate_world 2) = ((False, NoRelease), gate_world 3)"
    by (simp add: gate_world_step)
  from rejected_attempts_count [OF sim_redis_counters _ two l g] two g show ?thesis by simp
qed

end
