(* ===== verification/WsGateway.thy ===== *)
theory WsGateway
  imports QueueConsumer RateLimit Publishing
begin

text \<open>
  The WebSocket gateway (\<open>services/ws-gateway\<close>): the frames riders and drivers send, the relay
  of trip chat, the life of a connection, and the gateway's own two consumers. The manager of the
  connections is passed explicitly; \<open>pub\<close> is \<open>PublishMessage\<close> of the broker client.
  Between two frames other goroutines of the gateway run, so a theorem about one frame holds for
  every manager and world it may find. The ping loop and the read deadline are in
  \<open>KeepAlive\<close>; a tick of the heartbeat is \<open>RefreshWsConnectionGate\<close>.
\<close>

section \<open>Frames\<close>

definition WSChatMessageSend :: string where "WSChatMessageSend = ''chat.message.send''"
definition WSChatMessageReceived :: string where "WSChatMessageReceived = ''chat.message.received''"

record ws_incoming =
  wi_Type :: string
  wi_Data :: raw

definition ws_incoming_fields :: "ws_incoming fields" where
  "ws_incoming_fields =
     [fld ''type'' wi_Type wi_Type_update dec_str, fld ''data'' wi_Data wi_Data_update dec_raw]"

abbreviation read_frame :: "raw \<Rightarrow> ws_incoming res" where
  "read_frame message \<equiv> unmarshal (dec_struct ws_incoming_fields) \<lparr>wi_Type = '''', wi_Data = RawNil\<rparr> message"

record trip_chat_message =
  mc_TripID :: string
  mc_MessageID :: string
  mc_Text :: string

definition trip_chat_message_fields :: "trip_chat_message fields" where
  "trip_chat_message_fields =
     [fld ''tripID'' mc_TripID mc_TripID_update dec_str,
      fld ''messageID'' mc_MessageID mc_MessageID_update dec_str,
      fld ''text'' mc_Text mc_Text_update dec_str]"

abbreviation read_chat :: "raw \<Rightarrow> trip_chat_message res" where
  "read_chat rawData \<equiv> unmarshal (dec_struct trip_chat_message_fields)
     \<lparr>mc_TripID = '''', mc_MessageID = '''', mc_Text = ''''\<rparr> rawData"

record trip_chat_received =
  mr_TripID :: string
  mr_RoomID :: string
  mr_SenderID :: string
  mr_MessageID :: string
  mr_Text :: string
  mr_SentAt :: int

definition enc_trip_chat_received :: "trip_chat_received \<Rightarrow> json option" where
  "enc_trip_chat_received c =
     enc_obj [mem_str ''tripID'' (mr_TripID c), mem_str ''roomID'' (mr_RoomID c),
              mem_str ''senderID'' (mr_SenderID c), omit_str ''messageID'' (mr_MessageID c),
              mem_str ''text'' (mr_Text c), Member ''sentAt'' (Some (JInt (mr_SentAt c)))]"

text \<open>The payloads of the control frames have one member each and are that member.\<close>

definition room_control_fields :: "string fields" where
  "room_control_fields = [fld ''roomID'' (\<lambda>s. s) (\<lambda>f. f) dec_str]"

definition topic_control_fields :: "string fields" where
  "topic_control_fields = [fld ''topic'' (\<lambda>s. s) (\<lambda>f. f) dec_str]"

text \<open>\<open>data, _ := json.Marshal(v)\<close>.\<close>

definition bytes_of :: "raw res \<Rightarrow> raw" where
  "bytes_of r = (case r of Inr b \<Rightarrow> b | Inl e \<Rightarrow> RawNil)"

section \<open>Trip chat\<close>

definition tripChatRoomID :: "string \<Rightarrow> string" where
  "tripChatRoomID tripID = (if tripID = '''' then '''' else ''trip:'' @ tripID @ '':chat'')"

definition chat_push :: "trip_chat_message \<Rightarrow> string \<Rightarrow> string \<Rightarrow> int \<Rightarrow> ws_message" where
  "chat_push payload senderID msgID sentAt =
     (let roomID = tripChatRoomID (mc_TripID payload)
      in \<lparr>ws_Type = WSChatMessageReceived, ws_Topic = '''', ws_RoomID = roomID,
          ws_Data = as_data (marshal enc_trip_chat_received
            \<lparr>mr_TripID = mc_TripID payload, mr_RoomID = roomID, mr_SenderID = senderID,
             mr_MessageID = msgID, mr_Text = mc_Text payload, mr_SentAt = sentAt\<rparr>)\<rparr>)"

definition chat_command :: "trip_chat_message \<Rightarrow> string \<Rightarrow> string \<Rightarrow> int \<Rightarrow> amqp_message" where
  "chat_command payload senderID msgID sentAt =
     \<lparr>am_OwnerID = senderID,
      am_Data = bytes_of (marshal enc_chat_message_data
        \<lparr>cm_MessageID = msgID, cm_TripID = mc_TripID payload, cm_SenderID = senderID,
         cm_Text = mc_Text payload, cm_SentAt = sentAt\<rparr>)\<rparr>"

text \<open>\<open>time.Now().Unix()\<close> and the identifier the client sent, or a fresh one.\<close>

definition unix_time :: "'w runtime \<Rightarrow> 'w \<Rightarrow> int \<times> 'w" where
  "unix_time rt w = (case run_now rt w of (ns, w1) \<Rightarrow> (ns div 1000000000, w1))"

definition or_fresh :: "'w runtime \<Rightarrow> string \<Rightarrow> 'w \<Rightarrow> string \<times> 'w" where
  "or_fresh rt i w = (if i = '''' then run_uuid rt w else (i, w))"

definition relayTripChatMessage ::
  "'w redis \<Rightarrow> 'w runtime \<Rightarrow> 'w publisher \<Rightarrow> string \<Rightarrow> raw \<Rightarrow> 'w \<Rightarrow> goerror option outcome \<times> 'w" where
  "relayTripChatMessage R rt pub senderID rawData w =
     (case read_chat rawData of
        Inl e \<Rightarrow> (Returns (Some e), w)
      | Inr payload \<Rightarrow>
          if mc_TripID payload = '''' \<or> mc_Text payload = '''' then (Returns None, w)
          else (case ResolveTripChatPeer R (mc_TripID payload) senderID w of
                  (Inl e, w1) \<Rightarrow> (Returns (Some e), w1)
                | (Inr peer, w1) \<Rightarrow>
                    (case or_fresh rt (mc_MessageID payload) w1 of (msgID, w2) \<Rightarrow>
                    (case unix_time rt w2 of (sentAt, w3) \<Rightarrow>
                    (case BroadcastToRoom R (tripChatRoomID (mc_TripID payload))
                            (chat_push payload senderID msgID sentAt) w3 of (_, w4) \<Rightarrow>
                       bindo (pub ChatCmdSend (chat_command payload senderID msgID sentAt) w4)
                         (\<lambda>_ w5. (Returns None, w5)))))))"

section \<open>Frames of riders and drivers\<close>

text \<open>
  A frame may start goroutines. A call that works on the world alone leaves the manager as it is.
\<close>

type_synonym 'w frame_result = "goroutine list outcome \<times> rcm \<times> 'w"

definition leaving :: "rcm \<Rightarrow> 'a outcome \<times> 'w \<Rightarrow> 'w frame_result" where
  "leaving rcm m = (case bindo m (\<lambda>_ w. (Returns [], w)) of (r, w) \<Rightarrow> (r, rcm, w))"

text \<open>The four control frames, which both handlers treat alike.\<close>

definition control_frame :: "'w redis \<Rightarrow> string \<Rightarrow> ws_incoming \<Rightarrow> rcm \<Rightarrow> 'w \<Rightarrow> 'w frame_result" where
  "control_frame R socketID msg rcm w =
     (let join = (\<lambda>fs. case unmarshal (dec_struct fs) '''' (wi_Data msg) of
                        Inl e \<Rightarrow> (Returns [], rcm, w)
                      | Inr roomID \<Rightarrow> (case JoinRoom R socketID roomID rcm w of
                                         (gs, rcm1, w1) \<Rightarrow> (Returns gs, rcm1, w1)));
          leave = (\<lambda>fs. case unmarshal (dec_struct fs) '''' (wi_Data msg) of
                         Inl e \<Rightarrow> (Returns [], rcm, w)
                       | Inr roomID \<Rightarrow> (case LeaveRoom R socketID roomID rcm w of
                                          (rcm1, w1) \<Rightarrow> (Returns [], rcm1, w1)))
      in if wi_Type msg = WSRoomJoin then join room_control_fields
         else if wi_Type msg = WSRoomLeave then leave room_control_fields
         else if wi_Type msg = WSTopicSubscribe then join topic_control_fields
         else if wi_Type msg = WSTopicUnsubscribe then leave topic_control_fields
         else (Returns [], rcm, w))"

definition rider_frame ::
  "'w redis \<Rightarrow> 'w runtime \<Rightarrow> 'w publisher \<Rightarrow> string \<Rightarrow> string \<Rightarrow> raw \<Rightarrow> rcm \<Rightarrow> 'w \<Rightarrow> 'w frame_result" where
  "rider_frame R rt pub socketID userID message rcm w =
     (case read_frame message of
        Inl e \<Rightarrow> (Returns [], rcm, w)
      | Inr msg \<Rightarrow>
          if wi_Type msg = WSChatMessageSend
          then leaving rcm (relayTripChatMessage R rt pub userID (wi_Data msg) w)
          else control_frame R socketID msg rcm w)"

record driver_conn =
  dv_SocketID :: string
  dv_UserID :: string
  dv_Name :: string
  dv_PackageSlug :: string

record frame_location =
  fl_Latitude :: float64
  fl_Longitude :: float64

text \<open>The anonymous struct with the only member \<open>location\<close> is its member.\<close>

definition frame_location_fields :: "frame_location fields" where
  "frame_location_fields =
     [fld ''location'' (\<lambda>l. l) (\<lambda>f. f)
        (dec_struct [fld ''latitude'' fl_Latitude fl_Latitude_update dec_f64,
                     fld ''longitude'' fl_Longitude fl_Longitude_update dec_f64])]"

record frontend_data =
  fd_TripID :: string
  fd_RiderID :: string

definition frontend_data_fields :: "frontend_data fields" where
  "frontend_data_fields =
     [fld ''tripID'' fd_TripID fd_TripID_update dec_str, fld ''riderID'' fd_RiderID fd_RiderID_update dec_str]"

abbreviation read_answer :: "raw \<Rightarrow> frontend_data res" where
  "read_answer data \<equiv> unmarshal (dec_struct frontend_data_fields) \<lparr>fd_TripID = '''', fd_RiderID = ''''\<rparr> data"

text \<open>The driver's answer, with the identity the middleware has authenticated.\<close>

definition enriched_answer :: "driver_conn \<Rightarrow> frontend_data \<Rightarrow> amqp_message" where
  "enriched_answer c a =
     \<lparr>am_OwnerID = dv_UserID c,
      am_Data = bytes_of (marshal enc_driver_trip_response
        \<lparr>dr_Driver = None, dr_TripID = fd_TripID a, dr_RiderID = fd_RiderID a, dr_DriverID = dv_UserID c,
         dr_DriverName = dv_Name c, dr_PackageSlug = dv_PackageSlug c\<rparr>)\<rparr>"

definition location_frame ::
  "'w publisher \<Rightarrow> driver_conn \<Rightarrow> raw \<Rightarrow> rcm \<Rightarrow> 'w \<Rightarrow> 'w frame_result" where
  "location_frame pub c data rcm w =
     (case unmarshal (dec_struct frame_location_fields) \<lparr>fl_Latitude = F64 0, fl_Longitude = F64 0\<rparr> data of
        Inl e \<Rightarrow> (Returns [], rcm, w)
      | Inr loc \<Rightarrow>
          leaving rcm (pub DriverCmdLocation
            \<lparr>am_OwnerID = dv_UserID c,
             am_Data = bytes_of (marshal enc_driver_location_update
               \<lparr>dl_PackageSlug = dv_PackageSlug c, dl_Latitude = fl_Latitude loc, dl_Longitude = fl_Longitude loc\<rparr>)\<rparr> w))"

text \<open>An accepting driver takes the trip's chat: the pair is stored and the socket joins the room.\<close>

definition take_chat :: "'w redis \<Rightarrow> driver_conn \<Rightarrow> frontend_data \<Rightarrow> rcm \<Rightarrow> 'w \<Rightarrow> goroutine list \<times> rcm \<times> 'w" where
  "take_chat R c a rcm w =
     (if fd_TripID a \<noteq> '''' \<and> fd_RiderID a \<noteq> '''' then
        (case SetTripChatPair R (fd_TripID a) (fd_RiderID a) (dv_UserID c) (hours 2) w of
           (_, w1) \<Rightarrow> JoinRoom R (dv_SocketID c) (tripChatRoomID (fd_TripID a)) rcm w1)
      else ([], rcm, w))"

definition accept_frame ::
  "'w redis \<Rightarrow> 'w publisher \<Rightarrow> driver_conn \<Rightarrow> raw \<Rightarrow> rcm \<Rightarrow> 'w \<Rightarrow> 'w frame_result" where
  "accept_frame R pub c data rcm w =
     (case read_answer data of
        Inl e \<Rightarrow> (Returns [], rcm, w)
      | Inr a \<Rightarrow>
          (case take_chat R c a rcm w of
             (gs, rcm1, w1) \<Rightarrow>
               (case bindo (pub DriverCmdTripAccept (enriched_answer c a) w1) (\<lambda>_ w2. (Returns gs, w2)) of
                  (r, w2) \<Rightarrow> (r, rcm1, w2))))"

definition decline_frame :: "'w publisher \<Rightarrow> driver_conn \<Rightarrow> raw \<Rightarrow> rcm \<Rightarrow> 'w \<Rightarrow> 'w frame_result" where
  "decline_frame pub c data rcm w =
     (case read_answer data of
        Inl e \<Rightarrow> (Returns [], rcm, w)
      | Inr a \<Rightarrow> leaving rcm (pub DriverCmdTripDecline (enriched_answer c a) w))"

definition driver_frame ::
  "'w redis \<Rightarrow> 'w runtime \<Rightarrow> 'w publisher \<Rightarrow> driver_conn \<Rightarrow> raw \<Rightarrow> rcm \<Rightarrow> 'w \<Rightarrow> 'w frame_result" where
  "driver_frame R rt pub c message rcm w =
     (case read_frame message of
        Inl e \<Rightarrow> (Returns [], rcm, w)
      | Inr msg \<Rightarrow>
          if wi_Type msg = DriverCmdLocation then location_frame pub c (wi_Data msg) rcm w
          else if wi_Type msg = DriverCmdTripAccept then accept_frame R pub c (wi_Data msg) rcm w
          else if wi_Type msg = DriverCmdTripDecline then decline_frame pub c (wi_Data msg) rcm w
          else if wi_Type msg = WSChatMessageSend
          then leaving rcm (relayTripChatMessage R rt pub (dv_UserID c) (wi_Data msg) w)
          else control_frame R (dv_SocketID c) msg rcm w)"

section \<open>Connections\<close>

text \<open>
  \<open>messages\<close> are the frames the connection delivers until a read fails. The deferred calls run
  when the loop ends and when it panics (the HTTP server recovers the panic), not when the process
  exits.
\<close>

fun frame_loop :: "(raw \<Rightarrow> rcm \<Rightarrow> 'w \<Rightarrow> 'w frame_result) \<Rightarrow> raw list \<Rightarrow> rcm \<Rightarrow> 'w \<Rightarrow> 'w frame_result" where
  "frame_loop step [] rcm w = (Returns [], rcm, w)"
| "frame_loop step (m # ms) rcm w =
     (case step m rcm w of
        (Returns gs, rcm1, w1) \<Rightarrow>
          (case frame_loop step ms rcm1 w1 of
             (Returns gs', rcm2, w2) \<Rightarrow> (Returns (gs @ gs'), rcm2, w2)
           | (r, rcm2, w2) \<Rightarrow> (r, rcm2, w2))
      | (r, rcm1, w1) \<Rightarrow> (r, rcm1, w1))"

definition deferred ::
  "(rcm \<Rightarrow> 'w \<Rightarrow> rcm \<times> 'w) \<Rightarrow> goroutine list \<Rightarrow> 'w frame_result \<Rightarrow> 'w frame_result" where
  "deferred cleanup gs m =
     (case m of
        (Exits, rcm, w) \<Rightarrow> (Exits, rcm, w)
      | (Panics, rcm, w) \<Rightarrow> (Panics, cleanup rcm w)
      | (Returns gs', rcm, w) \<Rightarrow> (Returns (gs @ gs'), cleanup rcm w))"

definition handleRidersWebSocket ::
  "'w redis \<Rightarrow> 'w runtime \<Rightarrow> 'w websocket \<Rightarrow> 'w publisher \<Rightarrow> wsconn res \<Rightarrow> request \<Rightarrow> raw list
     \<Rightarrow> rcm \<Rightarrow> 'w \<Rightarrow> 'w frame_result" where
  "handleRidersWebSocket R rt W pub upgraded r messages rcm w =
     (case upgraded of
        Inl e \<Rightarrow> (Returns [], rcm, w)
      | Inr conn \<Rightarrow>
          (let userID = ctx_string r ctxKeyUserID
           in case run_uuid rt w of
                (socketID, w1) \<Rightarrow>
                  (case ws_WsConnectionGate R userID 3 w1 of
                     ((allowed, release), w2) \<Rightarrow>
                       if \<not> allowed then (Returns [], rcm, wc_close W conn (wc_close W conn w2))
                       else (case rcm_Add R userID socketID conn rcm w2 of
                               (gs, rcm1, w3) \<Rightarrow>
                                 deferred (\<lambda>rcm w. case rcm_Remove R socketID rcm w of
                                    (rcm', w') \<Rightarrow> (rcm', wc_close W conn (ws_release_gate R userID release w')))
                                  gs (frame_loop (rider_frame R rt pub socketID userID) messages rcm1 w3)))))"

text \<open>
  A driver's connection unregisters the driver, unless another socket of the driver is there after
  the removal or after the grace period. \<open>others\<close> is what the rest of the gateway does while the
  handler sleeps, \<open>unregister\<close> the driver service's \<open>UnregisterDriver\<close>.
\<close>

definition driverReconnectGracePeriod :: duration where "driverReconnectGracePeriod = seconds 2"

definition driver_cleanup ::
  "'w redis \<Rightarrow> 'w runtime \<Rightarrow> (string \<Rightarrow> string \<Rightarrow> 'w \<Rightarrow> goerror option \<times> 'w) \<Rightarrow> (rcm \<Rightarrow> 'w \<Rightarrow> rcm \<times> 'w)
     \<Rightarrow> driver_conn \<Rightarrow> rcm \<Rightarrow> 'w \<Rightarrow> rcm \<times> 'w" where
  "driver_cleanup R rt unregister others c rcm w =
     (case rcm_Remove R (dv_SocketID c) rcm w of
        (rcm1, w1) \<Rightarrow>
          if HasLocalUser rcm1 (dv_UserID c) then (rcm1, w1)
          else (case others rcm1 (run_sleep rt driverReconnectGracePeriod w1) of
                  (rcm2, w2) \<Rightarrow>
                    if HasLocalUser rcm2 (dv_UserID c) then (rcm2, w2)
                    else (rcm2, snd (unregister (dv_UserID c) (dv_PackageSlug c) w2))))"

definition handleDriversWebSocket ::
  "'w redis \<Rightarrow> 'w runtime \<Rightarrow> 'w websocket \<Rightarrow> 'w publisher \<Rightarrow> (string \<Rightarrow> string \<Rightarrow> 'w \<Rightarrow> goerror option \<times> 'w)
     \<Rightarrow> (rcm \<Rightarrow> 'w \<Rightarrow> rcm \<times> 'w) \<Rightarrow> wsconn res \<Rightarrow> request \<Rightarrow> raw list \<Rightarrow> rcm \<Rightarrow> 'w \<Rightarrow> 'w frame_result" where
  "handleDriversWebSocket R rt W pub unregister others upgraded r messages rcm w =
     (case upgraded of
        Inl e \<Rightarrow> (Returns [], rcm, w)
      | Inr conn \<Rightarrow>
          (let userID = ctx_string r ctxKeyUserID; packageSlug = hq_Query r ''packageSlug''
           in if packageSlug = '''' then (Returns [], rcm, wc_close W conn w)
              else (case run_uuid rt w of
                (socketID, w1) \<Rightarrow>
                  (case ws_WsConnectionGate R userID 3 w1 of
                     ((allowed, release), w2) \<Rightarrow>
                       if \<not> allowed then (Returns [], rcm, wc_close W conn (wc_close W conn w2))
                       else (case rcm_Add R userID socketID conn rcm w2 of
                               (gs, rcm1, w3) \<Rightarrow>
                                 (let c = \<lparr>dv_SocketID = socketID, dv_UserID = userID,
                                           dv_Name = ctx_string r ctxKeyName, dv_PackageSlug = packageSlug\<rparr>
                                  in deferred (\<lambda>rcm w. case driver_cleanup R rt unregister others c rcm w of
                                       (rcm', w') \<Rightarrow> (rcm', wc_close W conn (ws_release_gate R userID release w')))
                                     gs (frame_loop (driver_frame R rt pub c) messages rcm1 w3)))))))"

section \<open>The gateway's consumers\<close>

definition trip_note :: "string \<Rightarrow> string \<Rightarrow> ws_message" where
  "trip_note kind tripID = \<lparr>ws_Type = kind, ws_Topic = ''trip:'' @ tripID, ws_RoomID = '''',
     ws_Data = RawJson (JObj [(''tripID'', JStr tripID)])\<rparr>"

definition leave_trip_rooms :: "'w redis \<Rightarrow> string \<Rightarrow> string \<Rightarrow> rcm \<Rightarrow> 'w \<Rightarrow> rcm \<times> 'w" where
  "leave_trip_rooms R tripID userID rcm w =
     (case LeaveUserFromRoom R userID (''trip:'' @ tripID) rcm w of
        (rcm1, w1) \<Rightarrow> LeaveUserFromRoom R userID (''trip:'' @ tripID @ '':chat'') rcm1 w1)"

definition tear_down :: "'w redis \<Rightarrow> string \<Rightarrow> string \<Rightarrow> string \<Rightarrow> rcm \<Rightarrow> 'w \<Rightarrow> rcm \<times> 'w" where
  "tear_down R tripID riderID driverID rcm w =
     (case ClearTripChatPair R tripID w of (_, w1) \<Rightarrow>
     (case leave_trip_rooms R tripID riderID rcm w1 of (rcm2, w2) \<Rightarrow>
        if driverID \<noteq> '''' then leave_trip_rooms R tripID driverID rcm2 w2 else (rcm2, w2)))"

definition cancelled_driver :: "'w redis \<Rightarrow> trip_cancelled_data \<Rightarrow> 'w \<Rightarrow> string \<times> 'w" where
  "cancelled_driver R payload w =
     (if tc_DriverID payload = '''' then
        (case GetActiveDriver R (tc_RiderID payload) w of
           (Inl e, w1) \<Rightarrow> ('''', w1)
         | (Inr resolvedDriverID, w1) \<Rightarrow> (resolvedDriverID, w1))
      else (tc_DriverID payload, w))"

definition cancel_handler ::
  "'w redis \<Rightarrow> 'w websocket \<Rightarrow> delivery \<Rightarrow> rcm \<Rightarrow> 'w \<Rightarrow> goerror option \<times> rcm \<times> 'w" where
  "cancel_handler R W d rcm w =
     (case read_event (dec_struct trip_cancelled_data_fields) trip_cancelled_data_zero d of
        Inl e \<Rightarrow> (Some e, rcm, w)
      | Inr (envelope, payload) \<Rightarrow>
          if tc_TripID payload = '''' \<or> tc_RiderID payload = '''' then (None, rcm, w)
          else
            (case cancelled_driver R payload w of (driverID, w1) \<Rightarrow>
             (let wsMsg = trip_note TripEventCancelled (tc_TripID payload)
              in case (if tc_DriverAccepted payload \<or> driverID \<noteq> ''''
                       then tear_down R (tc_TripID payload) (tc_RiderID payload) driverID rcm w1
                       else (rcm, w1)) of (rcm2, w2) \<Rightarrow>
                (case rcm_SendMessage R W (tc_RiderID payload) wsMsg rcm2 w2 of (_, rcm3, w3) \<Rightarrow>
                   if driverID \<noteq> '''' then
                     (case rcm_SendMessage R W driverID wsMsg rcm3 w3 of (_, rcm4, w4) \<Rightarrow> (None, rcm4, w4))
                   else (None, rcm3, w3)))))"

definition trip_id_fields :: "string fields" where
  "trip_id_fields = [fld ''tripID'' (\<lambda>s. s) (\<lambda>f. f) dec_str]"

definition payment_success_handler ::
  "'w redis \<Rightarrow> 'w websocket \<Rightarrow> delivery \<Rightarrow> rcm \<Rightarrow> 'w \<Rightarrow> goerror option \<times> rcm \<times> 'w" where
  "payment_success_handler R W d rcm w =
     (case read_event (dec_struct trip_id_fields) '''' d of
        Inl e \<Rightarrow> (Some e, rcm, w)
      | Inr (envelope, tripID) \<Rightarrow>
          if tripID = '''' \<or> am_OwnerID envelope = '''' then (None, rcm, w)
          else
            (case ClearTripChatPair R tripID w of (_, w1) \<Rightarrow>
            (case leave_trip_rooms R tripID (am_OwnerID envelope) rcm w1 of (rcm2, w2) \<Rightarrow>
            (case rcm_SendMessage R W (am_OwnerID envelope) (trip_note TripEventCompleted tripID) rcm2 w2 of
               (_, rcm3, w3) \<Rightarrow> (None, rcm3, w3)))))"

text \<open>The consumers \<open>main\<close> starts, before it serves requests; a failure ends the process.\<close>

definition globalQueues :: "string list" where
  "globalQueues = [NotifyTripCreatedQueue, NotifyDriverNoDriversFoundQueue, NotifyDriverAssignQueue,
     NotifyPaymentSessionCreatedQueue, NotifyRiderDriverLocationQueue, ChatEventDeliveredQueue,
     DriverCmdTripRequestQueue]"

fun start_consumers :: "'w broker \<Rightarrow> string list \<Rightarrow> 'w \<Rightarrow> unit outcome \<times> 'w" where
  "start_consumers B [] w = (Returns (), w)"
| "start_consumers B (q # qs) w =
     (case ConsumeMessages B q w of
        (Some e, w1) \<Rightarrow> (Exits, w1)
      | (None, w1) \<Rightarrow> start_consumers B qs w1)"

definition start_gateway :: "'w broker \<Rightarrow> 'w \<Rightarrow> unit outcome \<times> 'w" where
  "start_gateway B w = start_consumers B (globalQueues @ [NotifyTripCancelledQueue, NotifyTripCompletedQueue]) w"

end
