(* ===== verification/WsGateway_Facts.thy ===== *)
theory WsGateway_Facts
  imports WsGateway
begin

text \<open>
  What the WebSocket gateway promises: who can speak in a trip's chat, what a connection leaves
  behind, what a cancellation tears down; and two things it does not prevent, strangers reading a
  chat and a driver taking over a chat by an accept frame.
\<close>

section \<open>Effects outside the store\<close>

text \<open>
  Commands of Redis that do not touch the string store, and writes to sockets, leave \<open>f\<close> alone.
\<close>

definition redis_signals :: "'w redis \<Rightarrow> ('w \<Rightarrow> 'a) \<Rightarrow> bool" where
  "redis_signals R f \<longleftrightarrow>
     (\<forall>c b w r w'. rd_publish R c b w = (r, w') \<longrightarrow> f w' = f w)
   \<and> (\<forall>c w s w'. rd_subscribe R c w = (s, w') \<longrightarrow> f w' = f w)
   \<and> (\<forall>s w. f (rd_unsubscribe R s w) = f w)
   \<and> (\<forall>k n b w r w'. rd_xadd R k n b w = (r, w') \<longrightarrow> f w' = f w)
   \<and> (\<forall>k t w r w'. rd_expire R k t w = (r, w') \<longrightarrow> f w' = f w)"

definition sockets_keep :: "'w websocket \<Rightarrow> ('w \<Rightarrow> 'a) \<Rightarrow> bool" where
  "sockets_keep W f \<longleftrightarrow>
     (\<forall>c m w r w'. wc_write_json W c m w = (r, w') \<longrightarrow> f w' = f w) \<and> (\<forall>c w. f (wc_close W c w) = f w)"

lemma redis_signalsD:
  assumes "redis_signals R f"
  shows "rd_publish R c b w = (r, w') \<Longrightarrow> f w' = f w" "rd_subscribe R c w = (s, w') \<Longrightarrow> f w' = f w"
    "f (rd_unsubscribe R s w) = f w" "rd_xadd R k n b w = (e, w') \<Longrightarrow> f w' = f w"
    "rd_expire R k t w = (e, w') \<Longrightarrow> f w' = f w"
  using assms unfolding redis_signals_def by simp_all

lemma sim_signals:
  "(\<And>s x. f (s\<lparr>si_channel := x\<rparr>) = f s) \<Longrightarrow> (\<And>s x. f (s\<lparr>si_subs := x\<rparr>) = f s)
     \<Longrightarrow> (\<And>s x. f (s\<lparr>si_streams := x\<rparr>) = f s) \<Longrightarrow> redis_signals sim_redis f"
  by (auto simp: redis_signals_def sim_redis_def)

lemma sim_sockets_keep: "(\<And>s x. f (s\<lparr>si_writes := x\<rparr>) = f s) \<Longrightarrow> sockets_keep sim_websocket f"
  by (auto simp: sockets_keep_def sim_websocket_def)

lemma JoinRoom_keeps:
  assumes "redis_signals R f" "JoinRoom R s r rcm w = (gs, rcm', w')"
  shows "f w' = f w"
  using assms(2) by (auto simp: JoinRoom_def Let_def redis_signalsD [OF assms(1)] split: option.splits prod.splits)

lemma LeaveRoom_keeps:
  assumes "redis_signals R f" "LeaveRoom R s r rcm w = (rcm', w')"
  shows "f w' = f w"
  using assms(2)
  by (auto simp: LeaveRoom_def drop_from_room_def Let_def redis_signalsD [OF assms(1)] split: option.splits if_splits)

lemma SendMessage_world:
  assumes R: "redis_signals R f" and W: "sockets_keep W f"
    and run: "rcm_SendMessage R W u m rcm w = (e, rcm', w')"
  shows "f w' = f w"
proof -
  obtain e1 cm w1 where s: "cm_SendMessage W u m (localCM rcm) w = (e1, cm, w1)" by (metis prod_cases3)
  have "f w1 = f w" by (rule SendMessage_keeps [of W f, OF _ _ s]) (use W in \<open>auto simp: sockets_keep_def\<close>)
  with run s show ?thesis
    by (auto simp: rcm_SendMessage_def persistUserMessage_def Let_def
        split: option.splits sum.splits prod.splits if_splits dest!: redis_signalsD(1,4,5) [OF R])
qed

section \<open>Rooms a user has left\<close>

lemma LeaveRoom_rooms:
  assumes "LeaveRoom R s r rcm w = (rcm', w')"
  shows "map_set (roomSockets rcm') q =
           (if q = r then set_delete s (map_set (roomSockets rcm) r) else map_set (roomSockets rcm) q)"
  using map_set_drop [OF assms [unfolded LeaveRoom_def Let_def]] by (auto split: option.splits)

lemma leave_all_facts:
  "leave_all R ss r rcm w = (rcm', w') \<Longrightarrow>
     localCM rcm' = localCM rcm \<and> (redis_signals R f \<longrightarrow> f w' = f w)
   \<and> set (map_set (roomSockets rcm') q) = set (map_set (roomSockets rcm) q) - (if q = r then set ss else {})"
proof (induction ss arbitrary: rcm w)
  case (Cons s ss)
  obtain rcm1 w1 where l: "LeaveRoom R s r rcm w = (rcm1, w1)" by fastforce
  from Cons.IH [of rcm1 w1] Cons.prems l LeaveRoom_fields [OF l] LeaveRoom_rooms [OF l, of q] LeaveRoom_keeps [OF _ l, of f]
  show ?case by auto
qed simp

lemma LeaveUser_facts:
  assumes "LeaveUserFromRoom R u r rcm w = (rcm', w')"
  shows "localCM rcm' = localCM rcm" "redis_signals R f \<Longrightarrow> f w' = f w"
    "set (map_set (roomSockets rcm') q) \<subseteq> set (map_set (roomSockets rcm) q)"
    "u \<noteq> '''' \<Longrightarrow> r \<noteq> '''' \<Longrightarrow>
       set (map_set (roomSockets rcm') r) \<inter> set (map_set (byUser (localCM rcm)) u) = {}"
    "q \<noteq> r \<Longrightarrow> set (map_set (roomSockets rcm') q) = set (map_set (roomSockets rcm) q)"
  using assms leave_all_facts [of R "map_set (byUser (localCM rcm)) u" r rcm w rcm' w' f q]
    leave_all_facts [of R "map_set (byUser (localCM rcm)) u" r rcm w rcm' w' f r]
  by (auto simp: LeaveUserFromRoom_def split: if_splits)

definition trip_rooms :: "string \<Rightarrow> string set" where
  "trip_rooms tripID = {''trip:'' @ tripID, tripChatRoomID tripID}"

text \<open>The sockets of \<open>u\<close> that \<open>cm\<close> knows are in neither room of the trip.\<close>

definition out_of_trip :: "connection_manager \<Rightarrow> string \<Rightarrow> string \<Rightarrow> rcm \<Rightarrow> bool" where
  "out_of_trip cm tripID u rcm \<longleftrightarrow>
     (\<forall>r\<in>trip_rooms tripID.
        set (map_set (roomSockets rcm) r) \<inter> set (map_set (byUser cm) u) = {})"

lemma out_of_trip_mono:
  assumes "out_of_trip cm t u rcm" "\<And>q. set (map_set (roomSockets rcm') q) \<subseteq> set (map_set (roomSockets rcm) q)"
  shows "out_of_trip cm t u rcm'"
  using assms unfolding out_of_trip_def by fast

lemma leave_trip_facts:
  assumes run: "leave_trip_rooms R t u rcm w = (rcm', w')"
  shows "localCM rcm' = localCM rcm" "redis_signals R f \<Longrightarrow> f w' = f w"
    "set (map_set (roomSockets rcm') q) \<subseteq> set (map_set (roomSockets rcm) q)"
    "u \<noteq> '''' \<Longrightarrow> t \<noteq> '''' \<Longrightarrow> out_of_trip (localCM rcm) t u rcm'"
    "t \<noteq> '''' \<Longrightarrow> q \<notin> trip_rooms t \<Longrightarrow> set (map_set (roomSockets rcm') q) = set (map_set (roomSockets rcm) q)"
proof -
  obtain rcm1 w1 where a: "LeaveUserFromRoom R u (''trip:'' @ t) rcm w = (rcm1, w1)" by fastforce
  with run have b: "LeaveUserFromRoom R u (''trip:'' @ t @ '':chat'') rcm1 w1 = (rcm', w')"
    by (simp add: leave_trip_rooms_def)
  show "localCM rcm' = localCM rcm" using LeaveUser_facts(1) [OF a] LeaveUser_facts(1) [OF b] by simp
  show "redis_signals R f \<Longrightarrow> f w' = f w" using LeaveUser_facts(2) [OF a, of f] LeaveUser_facts(2) [OF b, of f] by simp
  show "set (map_set (roomSockets rcm') q) \<subseteq> set (map_set (roomSockets rcm) q)"
    using LeaveUser_facts(3) [OF a] LeaveUser_facts(3) [OF b] by fast
  show "t \<noteq> '''' \<Longrightarrow> q \<notin> trip_rooms t \<Longrightarrow> set (map_set (roomSockets rcm') q) = set (map_set (roomSockets rcm) q)"
    using LeaveUser_facts(5) [OF a, of q] LeaveUser_facts(5) [OF b, of q] by (simp add: trip_rooms_def tripChatRoomID_def)
  assume "u \<noteq> ''''" "t \<noteq> ''''"
  then show "out_of_trip (localCM rcm) t u rcm'"
    using LeaveUser_facts(4) [OF a] LeaveUser_facts(4) [OF b] LeaveUser_facts(1) [OF a]
      LeaveUser_facts(3) [OF b, of "''trip:'' @ t"]
    by (auto simp: out_of_trip_def trip_rooms_def tripChatRoomID_def)
qed

lemma SendMessage_rooms:
  "rcm_SendMessage R W u m rcm w = (e, rcm', w') \<Longrightarrow> roomSockets rcm' = roomSockets rcm"
  by (auto simp: rcm_SendMessage_def persistUserMessage_def Let_def
      split: option.splits sum.splits prod.splits if_splits)


lemma tear_down_facts:
  assumes run: "tear_down R t rider driver rcm w = (rcm', w')" and ids: "t \<noteq> ''''" "rider \<noteq> ''''"
  shows "out_of_trip (localCM rcm) t rider rcm'" "driver \<noteq> '''' \<Longrightarrow> out_of_trip (localCM rcm) t driver rcm'"
    "q \<notin> trip_rooms t \<Longrightarrow> set (map_set (roomSockets rcm') q) = set (map_set (roomSockets rcm) q)"
    "redis_signals R f \<Longrightarrow> f w' = f (snd (ClearTripChatPair R t w))"
proof -
  obtain e w1 where c: "ClearTripChatPair R t w = (e, w1)" by fastforce
  obtain rcm2 w2 where l: "leave_trip_rooms R t rider rcm w1 = (rcm2, w2)" by fastforce
  note F = leave_trip_facts [OF l]
  have two: "if driver \<noteq> '''' then leave_trip_rooms R t driver rcm2 w2 = (rcm', w') else rcm' = rcm2 \<and> w' = w2"
    using run c l by (auto simp: tear_down_def)
  show "driver \<noteq> '''' \<Longrightarrow> out_of_trip (localCM rcm) t driver rcm'"
    using two leave_trip_facts(4) [of R t driver rcm2 w2 rcm' w'] F(1) ids by simp
  show "out_of_trip (localCM rcm) t rider rcm'"
    using two F(4) [OF ids(2,1)] leave_trip_facts(3) [of R t driver rcm2 w2 rcm' w']
    by (auto split: if_splits intro: out_of_trip_mono)
  show "q \<notin> trip_rooms t \<Longrightarrow> set (map_set (roomSockets rcm') q) = set (map_set (roomSockets rcm) q)"
    using two F(5) [OF ids(1)] leave_trip_facts(5) [of R t driver rcm2 w2 rcm' w'] ids(1)
    by (auto split: if_splits)
  show "redis_signals R f \<Longrightarrow> f w' = f (snd (ClearTripChatPair R t w))"
    using two F(2) [of f] leave_trip_facts(2) [of R t driver rcm2 w2 rcm' w' f] c by (auto split: if_splits)
qed

section \<open>Speaking in a chat\<close>

text \<open>
  What the relay needs of its surroundings: Redis appends a publication to the channels' history
  \<open>ch\<close> and does not touch what was sent to the broker, reads and clocks touch neither, and
  the broker does not touch the channels.
\<close>

definition relay_world ::
  "'w redis \<Rightarrow> 'w runtime \<Rightarrow> 'w publisher \<Rightarrow> ('w \<Rightarrow> (string \<times> raw) list) \<Rightarrow> ('w \<Rightarrow> 'a) \<Rightarrow> bool" where
  "relay_world R rt pub ch sent \<longleftrightarrow>
     (\<forall>ks w r w'. rd_mget R ks w = (r, w') \<longrightarrow> ch w' = ch w \<and> sent w' = sent w)
   \<and> (\<forall>c b w n w'. rd_publish R c b w = (Inr n, w') \<longrightarrow> ch w' = ch w @ [(c, b)])
   \<and> (\<forall>c b w e w'. rd_publish R c b w = (Inl e, w') \<longrightarrow> ch w' = ch w)
   \<and> (\<forall>c b w r w'. rd_publish R c b w = (r, w') \<longrightarrow> sent w' = sent w)
   \<and> runtime_quiet rt ch \<and> runtime_quiet rt sent \<and> pub_keeps pub ch"

lemma relay_worldD:
  assumes "relay_world R rt pub ch sent"
  shows "rd_mget R ks w = (r, w1) \<Longrightarrow> ch w1 = ch w \<and> sent w1 = sent w"
    "rd_publish R c b w = (Inr n, w1) \<Longrightarrow> ch w1 = ch w @ [(c, b)]"
    "rd_publish R c b w = (Inl e, w1) \<Longrightarrow> ch w1 = ch w"
    "rd_publish R c b w = (r2, w1) \<Longrightarrow> sent w1 = sent w"
    "or_fresh rt i w = (i', w1) \<Longrightarrow> ch w1 = ch w \<and> sent w1 = sent w"
    "unix_time rt w = (tm, w1) \<Longrightarrow> ch w1 = ch w \<and> sent w1 = sent w"
    "pub k m w = (r3, w1) \<Longrightarrow> ch w1 = ch w"
  using assms runtime_quietD [of rt ch] runtime_quietD [of rt sent]
  by (auto simp: relay_world_def or_fresh_def unix_time_def pub_keeps_def split: if_splits prod.splits)

lemma relay_peer:
  assumes "relay_world R rt pub ch sent" "ResolveTripChatPeer R t u w = (r, w')"
  shows "ch w' = ch w \<and> sent w' = sent w"
  using assms(2) relay_worldD(1) [OF assms(1)]
  by (auto simp: ResolveTripChatPeer_def split: if_splits prod.splits sum.splits option.splits)

text \<open>The push can be encoded, so it is broadcast unless Redis refuses it.\<close>

lemma chat_push_json: "\<exists>j. marshal enc_ws_message (chat_push p u i n) = Inr (RawJson j)
   \<and> read_ws (RawJson j) = Inr (chat_push p u i n)"
  by (rule ws_message_roundtrip [where d = "the (enc_trip_chat_received
        \<lparr>mr_TripID = mc_TripID p, mr_RoomID = tripChatRoomID (mc_TripID p), mr_SenderID = u,
         mr_MessageID = i, mr_Text = mc_Text p, mr_SentAt = n\<rparr>)"])
     (auto simp: chat_push_def Let_def enc_trip_chat_received_def as_data_def json_defs)

lemma Broadcast_channel:
  assumes "relay_world R rt pub ch sent" "BroadcastToRoom R room (chat_push p u i n) w = (e, w')"
  shows "sent w' = sent w"
    "ch w' = ch w \<or> (\<exists>b. read_ws b = Inr (chat_push p u i n) \<and> ch w' = ch w @ [(room_channel room, b)])"
proof -
  obtain j where j: "marshal enc_ws_message (chat_push p u i n) = Inr (RawJson j)"
    "read_ws (RawJson j) = Inr (chat_push p u i n)" using chat_push_json by blast
  obtain r w1 where b: "rd_publish R (room_channel room) (RawJson j) w = (r, w1)" by fastforce
  have w': "w' = w1" using assms(2) j b by (auto simp: BroadcastToRoom_def split: sum.splits)
  show "sent w' = sent w" using relay_worldD(4) [OF assms(1) b] w' by simp
  show "ch w' = ch w \<or> (\<exists>b. read_ws b = Inr (chat_push p u i n) \<and> ch w' = ch w @ [(room_channel room, b)])"
  proof (cases r)
    case (Inl e)
    then show ?thesis using relay_worldD(3) [OF assms(1) b [unfolded Inl]] w' by simp
  next
    case (Inr k)
    then show ?thesis using relay_worldD(2) [OF assms(1) b [unfolded Inr]] w' j by blast
  qed
qed

text \<open>The time a frame is stamped with: read after its sender's peer and its identifier.\<close>

definition frame_time :: "'w redis \<Rightarrow> 'w runtime \<Rightarrow> string \<Rightarrow> raw \<Rightarrow> 'w \<Rightarrow> int" where
  "frame_time R rt u rawData w =
     (case read_chat rawData of
        Inl e \<Rightarrow> 0
      | Inr p \<Rightarrow> fst (unix_time rt (snd (or_fresh rt (mc_MessageID p) (snd (ResolveTripChatPeer R (mc_TripID p) u w))))))"

text \<open>A member's message, step by step.\<close>

lemma relay_member:
  assumes R: "redis_strings R kv" and S: "relay_world R rt pub ch sent"
    and run: "relayTripChatMessage R rt pub u rawData w = (r, w')"
  shows "ch w' = ch w \<and> sent w' = sent w
     \<or> (\<exists>payload peer i n w4 x. read_chat rawData = Inr payload \<and> mc_Text payload \<noteq> ''''
          \<and> chat_peer (kv w) (mc_TripID payload) u = Inr peer
          \<and> (mc_MessageID payload \<noteq> '''' \<longrightarrow> i = mc_MessageID payload)
          \<and> n = frame_time R rt u rawData w
          \<and> (ch w4 = ch w \<or> (\<exists>b. read_ws b = Inr (chat_push payload u i n)
               \<and> ch w4 = ch w @ [(room_channel (tripChatRoomID (mc_TripID payload)), b)]))
          \<and> sent w4 = sent w \<and> pub ChatCmdSend (chat_command payload u i n) w4 = (x, w'))"
proof (cases "read_chat rawData")
  case (Inl e)
  then show ?thesis using run by (simp add: relayTripChatMessage_def)
next
  case (Inr p)
  show ?thesis
  proof (cases "mc_TripID p = '''' \<or> mc_Text p = ''''")
    case True
    then show ?thesis using run Inr by (simp add: relayTripChatMessage_def)
  next
    case False
    obtain res w1 where q: "ResolveTripChatPeer R (mc_TripID p) u w = (res, w1)" by fastforce
    note keep1 = relay_peer [OF S q]
    show ?thesis
    proof (cases res)
      case (Inl e)
      then show ?thesis using run Inr False q keep1 by (simp add: relayTripChatMessage_def)
    next
      case (Inr peer)
      obtain i w2 where i: "or_fresh rt (mc_MessageID p) w1 = (i, w2)" by fastforce
      obtain n w3 where n: "unix_time rt w2 = (n, w3)" by fastforce
      obtain e w4 where b: "BroadcastToRoom R (tripChatRoomID (mc_TripID p)) (chat_push p u i n) w3 = (e, w4)" by fastforce
      obtain x w5 where x: "pub ChatCmdSend (chat_command p u i n) w4 = (x, w5)" by fastforce
      have "w5 = w'" using run \<open>read_chat rawData = Inr p\<close> False q Inr i n b x
        by (cases x) (simp_all add: relayTripChatMessage_def)
      moreover have "u \<noteq> ''''" using q Inr by (auto simp: ResolveTripChatPeer_def split: if_splits)
      with ResolveTripChatPeer_store [OF R q] False Inr have "chat_peer (kv w) (mc_TripID p) u = Inr peer" by auto
      moreover have "mc_MessageID p \<noteq> '''' \<longrightarrow> i = mc_MessageID p" using i by (auto simp: or_fresh_def)
      moreover have "ch w3 = ch w \<and> sent w3 = sent w"
        using keep1 relay_worldD(5) [OF S i] relay_worldD(6) [OF S n] by simp
      moreover have "n = frame_time R rt u rawData w"
        using \<open>read_chat rawData = Inr p\<close> q i n by (simp add: frame_time_def del: unmarshal_Inr_iff)
      ultimately show ?thesis
        using Broadcast_channel [OF S b] False \<open>read_chat rawData = Inr p\<close> x by metis
    qed
  qed
qed

section \<open>Who can speak\<close>

text \<open>
  C23: Only the rider and the driver stored for a trip can speak in its chat: unless the
  authenticated sender has a peer in the trip, nothing reaches the room or the chat service. What
  does reach them is one message, the same for both, under the authenticated sender's identity, with
  the client's own message identifier when it sent one.
\<close>

theorem chat_relay_authorised:
  assumes "redis_strings R kv" "broker_traces B tr" "relay_world R rt (PublishMessage B rt) ch (sent_of tr)"
    and "relayTripChatMessage R rt (PublishMessage B rt) u rawData w = (r, w')"
  shows "ch w' = ch w \<and> sent_of tr w' = sent_of tr w
     \<or> (\<exists>payload peer i n. read_chat rawData = Inr payload \<and> mc_Text payload \<noteq> ''''
          \<and> chat_peer (kv w) (mc_TripID payload) u = Inr peer
          \<and> (mc_MessageID payload \<noteq> '''' \<longrightarrow> i = mc_MessageID payload)
          \<and> (ch w' = ch w \<or> (\<exists>b. read_ws b = Inr (chat_push payload u i n)
               \<and> ch w' = ch w @ [(room_channel (tripChatRoomID (mc_TripID payload)), b)]))
          \<and> (sent_of tr w' = sent_of tr w \<or> (\<exists>b. marshal enc_amqp_message (chat_command payload u i n) = Inr b
               \<and> sent_of tr w' = sent_of tr w @ [(ChatCmdSend, b)])))"
proof -
  have keep: "PublishMessage B rt ChatCmdSend m v = (x, v') \<Longrightarrow> ch v' = ch v" for m v x v'
    by (rule relay_worldD(7) [OF assms(3)])
  from relay_member [OF assms(1,3,4)] show ?thesis
    by (elim disjE exE conjE; metis rabbit.sent_grows [OF assms(2)] keep)
qed

definition chat_world :: sim where
  "chat_world = sim0\<lparr>si_kv := [tripChatRiderKey ''t1'' \<mapsto> ''r1'', tripChatDriverKey ''t1'' \<mapsto> ''d1'']\<rparr>"

definition chat_frame :: raw where
  "chat_frame = RawJson (JObj [(''tripID'', JStr ''t1''), (''text'', JStr ''hello''), (''messageID'', JStr ''m1'')])"

abbreviation sim_publish :: "sim publisher" where
  "sim_publish \<equiv> PublishMessage sim_broker sim_runtime"

lemma sim_relay_world:
  "relay_world sim_redis sim_runtime sim_publish si_channel (sent_of si_events)"
  by (auto simp: relay_world_def sim_redis_def sent_of_def intro!: sim_pub_keeps)

definition chat_payload :: trip_chat_message where
  "chat_payload = \<lparr>mc_TripID = ''t1'', mc_MessageID = ''m1'', mc_Text = ''hello''\<rparr>"

lemma read_chat_frame: "read_chat chat_frame = Inr chat_payload"
  by (simp add: chat_frame_def chat_payload_def trip_chat_message_fields_def json_defs)

lemma sim_resolve: "ResolveTripChatPeer sim_redis ''t1'' ''d1'' chat_world = (Inr ''r1'', chat_world)"
  by (simp add: ResolveTripChatPeer_def chat_world_def sim_redis_def chat_key_defs)

lemma sample_relay:
  "\<exists>r w' e. relayTripChatMessage sim_redis sim_runtime (PublishMessage sim_broker sim_runtime) ''d1'' chat_frame chat_world
     = (r, w') \<and> si_channel w' \<noteq> si_channel chat_world
     \<and> marshal enc_amqp_message (chat_command chat_payload ''d1'' ''m1'' 0) = Inr e \<and> sent_of si_events w' = [(ChatCmdSend, e)]"
proof -
  let ?w = "chat_world\<lparr>si_clock := 1\<rparr>"
  obtain j where j: "marshal enc_ws_message (chat_push chat_payload ''d1'' ''m1'' 0) = Inr (RawJson j)"
    using chat_push_json by blast
  then have b: "BroadcastToRoom sim_redis (tripChatRoomID ''t1'') (chat_push chat_payload ''d1'' ''m1'' 0) ?w =
      (None, ?w\<lparr>si_channel := [(room_channel (tripChatRoomID ''t1''), RawJson j)]\<rparr>)" (is "_ = (_, ?v)")
    by (simp add: BroadcastToRoom_def sim_redis_def chat_world_def sim0_def)
  obtain e where e: "marshal enc_amqp_message (chat_command chat_payload ''d1'' ''m1'' 0) = Inr e"
    by (fastforce simp: chat_command_def bytes_of_def enc_chat_message_data_def enc_amqp_message_def json_defs)
  have u: "unix_time sim_runtime chat_world = (0, ?w)"
    by (simp add: unix_time_def sim_runtime_def chat_world_def sim0_def)
  have ids: "mc_TripID chat_payload = ''t1''" "mc_Text chat_payload = ''hello''" "mc_MessageID chat_payload = ''m1''"
    by (simp_all add: chat_payload_def)
  have up: "si_up ?v" by (simp add: chat_world_def sim0_def)
  have "relayTripChatMessage sim_redis sim_runtime (PublishMessage sim_broker sim_runtime) ''d1'' chat_frame chat_world =
      (Returns None, snd (PublishMessage sim_broker sim_runtime ChatCmdSend (chat_command chat_payload ''d1'' ''m1'' 0) ?v))"
    using b u sim_publish_up [OF up e, of ChatCmdSend]
    by (simp add: relayTripChatMessage_def read_chat_frame or_fresh_def ids sim_resolve)
  moreover have "si_channel (snd (PublishMessage sim_broker sim_runtime ChatCmdSend
      (chat_command chat_payload ''d1'' ''m1'' 0) ?v)) \<noteq> si_channel chat_world"
    unfolding sim_publish_up [OF up e] by (simp add: record_event_def chat_world_def sim0_def)
  moreover have "sent_of si_events (snd (PublishMessage sim_broker sim_runtime ChatCmdSend
      (chat_command chat_payload ''d1'' ''m1'' 0) ?v)) = [(ChatCmdSend, e)]"
    unfolding sim_publish_up [OF up e]
    by (simp add: record_event_def chat_world_def sim0_def sent_of_def envelope_of_def json_publishing_def envelope_publishing_def)
  ultimately show ?thesis using e by blast
qed

theorem chat_relay_authorised_witness:
  "\<exists>(w' :: sim) peer i n b. chat_peer (si_kv chat_world) ''t1'' ''d1'' = Inr peer
     \<and> read_ws b = Inr (chat_push chat_payload ''d1'' i n)
     \<and> si_channel w' = si_channel chat_world @ [(room_channel (tripChatRoomID ''t1''), b)]"
proof -
  obtain r w' where run: "relayTripChatMessage sim_redis sim_runtime (PublishMessage sim_broker sim_runtime)
      ''d1'' chat_frame chat_world = (r, w')" and moved: "si_channel w' \<noteq> si_channel chat_world"
    using sample_relay by blast
  have t: "mc_TripID chat_payload = ''t1''" by (simp add: chat_payload_def)
  from chat_relay_authorised [OF sim_redis_strings sim_broker_traces sim_relay_world run, unfolded read_chat_frame] moved
  obtain payload peer i n b where "Inr chat_payload = (Inr payload :: trip_chat_message res)"
    "chat_peer (si_kv chat_world) (mc_TripID payload) ''d1'' = Inr peer" "read_ws b = Inr (chat_push payload ''d1'' i n)"
    "si_channel w' = si_channel chat_world @ [(room_channel (tripChatRoomID (mc_TripID payload)), b)]"
    by blast
  with t show ?thesis by (metis sum.inject(2))
qed

section \<open>Listening to a chat\<close>

lemma deliver_writes:
  assumes W: "socket_writes W out"
  shows "deliver_to_sockets W ss m rcm w = (rcm', w') \<Longrightarrow>
     (\<exists>rest. out w' = out w @ rest)
   \<and> (s \<in> set ss \<and> bySocket (localCM rcm) s = Some rec \<longrightarrow>
        (\<exists>pre ok post. out w' = out w @ pre @ (cr_conn rec, m, ok) # post))"
proof (induction ss arbitrary: rcm w)
  case (Cons x ss)
  obtain e cm w1 where x: "cm_SendToSocket W x m (localCM rcm) w = (e, cm, w1)" by (metis prod_cases3)
  define rcm1 where "rcm1 = rcm\<lparr>localCM := cm\<rparr>"
  have step: "(\<exists>rest. out w1 = out w @ rest) \<and> (x \<noteq> s \<longrightarrow> bySocket cm s = bySocket (localCM rcm) s)
      \<and> (\<forall>r. bySocket (localCM rcm) x = Some r \<longrightarrow> (\<exists>ok. out w1 = out w @ [(cr_conn r, m, ok)]))"
  proof (cases "bySocket (localCM rcm) x")
    case None
    then show ?thesis using x by (simp add: cm_SendToSocket_def)
  next
    case (Some r)
    obtain e2 w2 where wr: "wc_write_json W (cr_conn r) m w = (e2, w2)" by fastforce
    show ?thesis
      using x Some wr socket_writesD(1) [OF W wr] socket_writesD(2) [OF W]
      by (cases e2) (auto simp: cm_SendToSocket_def bySocket_Remove)
  qed
  have rest: "deliver_to_sockets W ss m rcm1 w1 = (rcm', w')" using Cons.prems x by (simp add: rcm1_def)
  note IH = Cons.IH [OF rest]
  show ?case
  proof (intro conjI impI)
    from step IH obtain a b where "out w1 = out w @ a" "out w' = out w1 @ b" by blast
    then show "\<exists>rest. out w' = out w @ rest" by simp
    assume s: "s \<in> set (x # ss) \<and> bySocket (localCM rcm) s = Some rec"
    show "\<exists>pre ok post. out w' = out w @ pre @ (cr_conn rec, m, ok) # post"
    proof (cases "x = s")
      case True
      with step s obtain ok where "out w1 = out w @ [(cr_conn rec, m, ok)]" by blast
      with \<open>out w' = out w1 @ b\<close> show ?thesis by (metis append.assoc append_Cons append_Nil)
    next
      case False
      with IH step s obtain pre ok post where "out w' = out w1 @ pre @ (cr_conn rec, m, ok) # post"
        by (auto simp: rcm1_def)
      with \<open>out w1 = out w @ a\<close> show ?thesis by (metis append.assoc)
    qed
  qed
qed simp

lemma JoinRoom_member:
  "JoinRoom R s r rcm w = (gs, rcm', w') \<Longrightarrow> s \<in> set (map_set (roomSockets rcm') r) \<and> localCM rcm' = localCM rcm"
  by (auto simp: JoinRoom_def Let_def split: option.splits prod.splits)

section \<open>What a connection leaves behind\<close>

text \<open>
  Frames change the manager only through the rooms of their own socket.
\<close>

definition own_rooms_only :: "string \<Rightarrow> rcm \<Rightarrow> rcm \<Rightarrow> bool" where
  "own_rooms_only s rcm rcm' \<longleftrightarrow>
     localCM rcm' = localCM rcm \<and> userSubs rcm' = userSubs rcm \<and> (room_inv rcm \<longrightarrow> room_inv rcm')
   \<and> (\<forall>q. set (map_set (roomSockets rcm') q) - {s} = set (map_set (roomSockets rcm) q) - {s})"

lemma own_rooms_refl [simp]: "own_rooms_only s rcm rcm"
  by (simp add: own_rooms_only_def)

lemma own_rooms_trans: "own_rooms_only s a b \<Longrightarrow> own_rooms_only s b c \<Longrightarrow> own_rooms_only s a c"
  by (simp add: own_rooms_only_def)

lemma own_rooms_join:
  assumes "JoinRoom R s r rcm w = (gs, rcm', w')"
  shows "own_rooms_only s rcm rcm'"
proof -
  have "set (map_set (roomSockets rcm') q) - {s} = set (map_set (roomSockets rcm) q) - {s}" for q
    using assms by (cases "q = r") (auto simp: JoinRoom_def Let_def split: option.splits prod.splits)
  then show ?thesis
    using JoinRoom_fields [OF assms] room_inv_Join [OF _ assms] by (simp add: own_rooms_only_def)
qed

lemma own_rooms_leave:
  assumes "LeaveRoom R s r rcm w = (rcm', w')"
  shows "own_rooms_only s rcm rcm'"
  using LeaveRoom_fields [OF assms] room_inv_Leave [OF _ assms] LeaveRoom_rooms [OF assms]
  by (auto simp: own_rooms_only_def)

lemma own_rooms_control: "control_frame R s msg rcm w = (res, rcm', w') \<Longrightarrow> own_rooms_only s rcm rcm'"
  unfolding control_frame_def Let_def
  by (auto split: if_splits sum.splits prod.splits intro: own_rooms_join own_rooms_leave)

lemma leaving_rcm: "leaving rcm m = (res, rcm', w') \<Longrightarrow> rcm' = rcm"
  by (auto simp: leaving_def split: prod.splits)

lemma own_rooms_rider:
  assumes "rider_frame R rt pub s u message rcm w = (res, rcm', w')"
  shows "own_rooms_only s rcm rcm'"
  using assms unfolding rider_frame_def
  by (auto split: if_splits sum.splits dest: leaving_rcm intro: own_rooms_control)

lemma own_rooms_driver:
  assumes "driver_frame R rt pub c message rcm w = (res, rcm', w')"
  shows "own_rooms_only (dv_SocketID c) rcm rcm'"
proof (cases "read_frame message")
  case (Inl e)
  then show ?thesis using assms by (simp add: driver_frame_def)
next
  case (Inr msg)
  have take: "take_chat R c a rcm w = (gs, rcm1, w1) \<Longrightarrow> own_rooms_only (dv_SocketID c) rcm rcm1" for a gs rcm1 w1
    by (auto simp: take_chat_def split: if_splits prod.splits intro: own_rooms_join)
  have accept: "accept_frame R pub c (wi_Data msg) rcm w = (res, rcm', w') \<Longrightarrow> own_rooms_only (dv_SocketID c) rcm rcm'"
    unfolding accept_frame_def by (auto split: sum.splits prod.splits intro: take)
  show ?thesis
    using assms Inr accept unfolding driver_frame_def location_frame_def decline_frame_def
    by (auto split: if_splits sum.splits dest: leaving_rcm intro: own_rooms_control)
qed

lemma own_rooms_loop:
  assumes step: "\<And>m rcm w res rcm' w'. step m rcm w = (res, rcm', w') \<Longrightarrow> own_rooms_only s rcm rcm'"
  shows "frame_loop step ms rcm w = (res, rcm', w') \<Longrightarrow> own_rooms_only s rcm rcm'"
proof (induction ms arbitrary: rcm w res rcm' w')
  case (Cons m ms)
  obtain r1 rcm1 w1 where s: "step m rcm w = (r1, rcm1, w1)" by (metis prod_cases3)
  obtain r2 rcm2 w2 where l: "frame_loop step ms rcm1 w1 = (r2, rcm2, w2)" by (metis prod_cases3)
  have "rcm' = rcm1 \<or> rcm' = rcm2" using Cons.prems s l by (cases r1; cases r2) auto
  then show ?case using step [OF s] own_rooms_trans [OF step [OF s] Cons.IH [OF l]] by blast
qed simp

lemma drop_from_rooms_others:
  "drop_from_rooms R s qs rcm w = (rcm', w') \<Longrightarrow>
     set (map_set (roomSockets rcm') q) - {s} = set (map_set (roomSockets rcm) q) - {s}"
proof (induction qs arbitrary: rcm w)
  case (Cons r qs)
  obtain rcm1 w1 where d: "drop_from_room R s r rcm w = (rcm1, w1)" by fastforce
  from Cons.IH [of rcm1 w1] Cons.prems d map_set_drop [OF d, of q] show ?case by auto
qed simp

lemma remove_socket_others:
  assumes "remove_socket_state R s u rcm w = (rcm', w')"
  shows "set (map_set (roomSockets rcm') q) - {s} = set (map_set (roomSockets rcm) q) - {s}"
    "map_set (socketRooms rcm') s = []"
proof -
  obtain rcm1 w1 where d: "drop_from_rooms R s (map_set (socketRooms rcm) s) rcm w = (rcm1, w1)" by fastforce
  have "roomSockets rcm' = roomSockets rcm1 \<and> map_set (socketRooms rcm') s = []"
    using assms d by (auto simp: remove_socket_state_def Let_def split: option.splits if_splits)
  then show "set (map_set (roomSockets rcm') q) - {s} = set (map_set (roomSockets rcm) q) - {s}"
    "map_set (socketRooms rcm') s = []" using drop_from_rooms_others [OF d] by simp_all
qed

text \<open>A socket that is added, lives in rooms of its own and is removed.\<close>

lemma add_remove:
  assumes inv: "cm_inv (localCM rcm)" "room_inv rcm" and fresh: "owner (localCM rcm) s = None" "map_set (socketRooms rcm) s = []"
    and u: "u \<noteq> ''''" and add: "rcm_Add R u s conn rcm w = (gs, rcm1, w1)"
    and own: "own_rooms_only s rcm1 rcm2" and rem: "rcm_Remove R s rcm2 w2 = (rcm3, w3)"
  shows "owner (localCM rcm3) = owner (localCM rcm)" "room_inv rcm3"
    "set (map_set (roomSockets rcm3) q) = set (map_set (roomSockets rcm) q)"
    "\<not> cm_HasUser (localCM rcm) u \<Longrightarrow> userSubs rcm3 = (userSubs rcm)(u := None)"
proof -
  let ?cm = "cm_Add s u conn (localCM rcm)"
  obtain gs1 where as: "add_user_sub R u (rcm\<lparr>localCM := ?cm\<rparr>) w = (gs1, rcm1, w1)"
    using add by (auto simp: rcm_Add_def split: prod.splits)
  have l1: "localCM rcm1 = ?cm" "room_inv rcm1" and rs: "roomSockets rcm1 = roomSockets rcm"
    using add_user_sub_fields(1,2) [OF as] inv(2) as by (auto simp: add_user_sub_def split: option.splits prod.splits)
  have l2: "localCM rcm2 = ?cm" "userSubs rcm2 = userSubs rcm1" "room_inv rcm2"
    using own l1 by (simp_all add: own_rooms_only_def)
  obtain v cm where c: "cm_Remove s ?cm = (v, cm)" by fastforce
  have v: "v = u" and ow: "owner cm = owner (localCM rcm)" and ci: "cm_inv cm"
    using fst_Remove [of s ?cm] owner_Remove [of s ?cm] cm_inv_Remove [OF cm_inv_Add [OF inv(1) fresh(1)], of s u conn] fresh(1)
    by (auto simp: c owner_Add)
  have rm: "remove_socket_state R s u (rcm2\<lparr>localCM := cm\<rparr>) w2 = (rcm3, w3)"
    using rem l2 c v by (simp add: rcm_Remove_def)
  have l3: "localCM rcm3 = cm" using remove_socket_state_localCM [OF rm] by simp
  show "owner (localCM rcm3) = owner (localCM rcm)" by (simp add: l3 ow)
  show ri: "room_inv rcm3" by (rule room_inv_remove [OF _ rm]) (simp add: l2)
  have hu: "cm_HasUser cm u = cm_HasUser (localCM rcm) u"
    by (simp add: cm_HasUser_iff [OF ci] cm_HasUser_iff [OF inv(1)] ow)
  have "v' \<noteq> u \<Longrightarrow> userSubs rcm1 v' = userSubs rcm v'" for v' using add_user_sub_fields(4) [OF as] by simp
  then show "\<not> cm_HasUser (localCM rcm) u \<Longrightarrow> userSubs rcm3 = (userSubs rcm)(u := None)"
    using remove_socket_state_userSubs [OF rm] u l2(2) hu by (auto simp: fun_eq_iff)
  have "s \<notin> set (map_set (roomSockets rcm3) q)" "s \<notin> set (map_set (roomSockets rcm) q)"
    using ri inv(2) remove_socket_others(2) [OF rm] fresh(2) unfolding room_inv_def by simp_all
  moreover have "set (map_set (roomSockets rcm3) q) - {s} = set (map_set (roomSockets rcm) q) - {s}"
    using remove_socket_others(1) [OF rm] own rs by (simp add: own_rooms_only_def)
  ultimately show "set (map_set (roomSockets rcm3) q) = set (map_set (roomSockets rcm) q)" by blast
qed

section \<open>Who can listen, and who leaves\<close>

text \<open>
  C24: Reading a chat is not guarded: whoever sends a join frame with the room's name, member of the
  trip or not, is written every message the room gets from then on.
\<close>

theorem stranger_reads_chat:
  assumes "socket_writes W out" "read_frame message = Inr \<lparr>wi_Type = WSRoomJoin, wi_Data = data\<rparr>"
    and "unmarshal (dec_struct room_control_fields) '''' data = Inr room"
    and "rider_frame R rt pub s u message rcm w = (res, rcm1, w1)" "bySocket (localCM rcm) s = Some rec"
    and "read_ws b = Inr m" "room_subscription_step W room b rcm1 v = (rcm2, v')"
  shows "\<exists>pre ok post. out v' = out v @ pre @ (cr_conn rec, m, ok) # post"
proof -
  have "WSRoomJoin \<noteq> WSChatMessageSend" by (simp add: ws_type_defs WSChatMessageSend_def)
  then obtain gs where "JoinRoom R s room rcm w = (gs, rcm1, w1)"
    using assms(2-4) by (auto simp: rider_frame_def control_frame_def Let_def simp del: unmarshal_Inr_iff split: prod.splits)
  from JoinRoom_member [OF this] have "s \<in> set (map_set (roomSockets rcm1) room)" "bySocket (localCM rcm1) s = Some rec"
    using assms(5) by simp_all
  moreover have "deliver_to_sockets W (map_set (roomSockets rcm1) room) m rcm1 v = (rcm2, v')"
    using assms(6,7) by (simp add: room_subscription_step_def deliverToRoomLocally_def del: unmarshal_Inr_iff)
  ultimately show ?thesis using deliver_writes [OF assms(1)] by blast
qed

definition join_frame :: "string \<Rightarrow> raw" where
  "join_frame room = RawJson (JObj [(''type'', JStr WSRoomJoin), (''data'', JObj [(''roomID'', JStr room)])])"

lemma read_join_frame:
  "read_frame (join_frame room) = Inr \<lparr>wi_Type = WSRoomJoin, wi_Data = RawJson (JObj [(''roomID'', JStr room)])\<rparr>"
  "unmarshal (dec_struct room_control_fields) '''' (RawJson (JObj [(''roomID'', JStr room)])) = Inr room"
  by (simp_all add: join_frame_def ws_incoming_fields_def room_control_fields_def json_defs)

definition stranger_node :: rcm where
  "stranger_node = NewRedisConnectionManager\<lparr>localCM := cm_Add ''s9'' ''x9'' 9 NewConnectionManager\<rparr>"

theorem stranger_reads_chat_witness:
  "\<exists>(v' :: sim) pre ok post. chat_peer (si_kv chat_world) ''t1'' ''x9'' = Inl ErrTripChatUnauthorized
     \<and> si_writes v' = pre @ (9, chat_push chat_payload ''d1'' ''m1'' 0, ok) # post"
proof -
  obtain j where j: "read_ws (RawJson j) = Inr (chat_push chat_payload ''d1'' ''m1'' 0)" using chat_push_json by blast
  obtain res rcm1 w1 where f: "rider_frame sim_redis sim_runtime sim_publish ''s9'' ''x9'' (join_frame (tripChatRoomID ''t1''))
      stranger_node chat_world = (res, rcm1, w1)" by (metis prod_cases3)
  obtain rcm2 v' where r: "room_subscription_step sim_websocket (tripChatRoomID ''t1'') (RawJson j) rcm1 w1 = (rcm2, v')"
    by fastforce
  have s: "bySocket (localCM stranger_node) ''s9'' = Some \<lparr>cr_conn = 9, cr_userID = ''x9''\<rparr>"
    by (simp add: stranger_node_def cm_Add_def)
  have "chat_peer (si_kv chat_world) ''t1'' ''x9'' = Inl ErrTripChatUnauthorized"
    by (simp add: chat_peer_def chat_world_def key_simps)
  moreover from stranger_reads_chat [OF sim_websocket_writes read_join_frame f s j r]
  obtain pre ok post where "si_writes v' = si_writes w1 @ pre @ (9, chat_push chat_payload ''d1'' ''m1'' 0, ok) # post"
    by auto
  ultimately show ?thesis by (metis append.assoc)
qed

text \<open>
  An accept frame takes the chat over: whoever sends one for a trip, assigned to it or not,
  becomes the rider's peer, sits in the room, and the driver who was the peer is refused.
\<close>

theorem accept_frame_takes_pair:
  assumes "redis_strings R kv" "redis_signals R kv" "pub_keeps pub kv"
    and "read_frame message = Inr \<lparr>wi_Type = DriverCmdTripAccept, wi_Data = data\<rparr>" "read_answer data = Inr a"
    and "fst (SetTripChatPair R (fd_TripID a) (fd_RiderID a) (dv_UserID c) (hours 2) w) = None"
    and "driver_frame R rt pub c message rcm w = (res, rcm', w')"
  shows "chat_peer (kv w') (fd_TripID a) (fd_RiderID a) = Inr (dv_UserID c)
       \<and> dv_SocketID c \<in> set (map_set (roomSockets rcm') (tripChatRoomID (fd_TripID a)))
       \<and> (other \<noteq> fd_RiderID a \<and> other \<noteq> dv_UserID c \<longrightarrow>
            chat_peer (kv w') (fd_TripID a) other = Inl ErrTripChatUnauthorized)"
proof -
  obtain w1 where s: "SetTripChatPair R (fd_TripID a) (fd_RiderID a) (dv_UserID c) (hours 2) w = (None, w1)"
    using assms(6) by (metis prod.collapse)
  note S = SetTripChatPair_store [OF assms(1) s]
  obtain gs rcm2 w2 where j: "JoinRoom R (dv_SocketID c) (tripChatRoomID (fd_TripID a)) rcm w1 = (gs, rcm2, w2)"
    by (metis prod_cases3)
  obtain x w3 where p: "pub DriverCmdTripAccept (enriched_answer c a) w2 = (x, w3)" by fastforce
  have "driver_frame R rt pub c message rcm w = accept_frame R pub c data rcm w"
    using assms(4) by (simp add: driver_frame_def routing_key_defs del: unmarshal_Inr_iff)
  with assms(5,7) s j p S(2,3) have "rcm' = rcm2" "w' = w3"
    by (cases x; simp add: accept_frame_def take_chat_def del: unmarshal_Inr_iff)+
  moreover have "kv w3 = (kv w)(tripChatRiderKey (fd_TripID a) \<mapsto> fd_RiderID a, tripChatDriverKey (fd_TripID a) \<mapsto> dv_UserID c)"
    using S(1) JoinRoom_keeps [OF assms(2) j] pub_keepsD [OF assms(3) p] by simp
  ultimately show ?thesis using JoinRoom_member [OF j] S(3,4) by (simp add: chat_peer_def key_simps)
qed

definition accept_message :: raw where
  "accept_message = RawJson (JObj [(''type'', JStr DriverCmdTripAccept),
     (''data'', JObj [(''tripID'', JStr ''t1''), (''riderID'', JStr ''r1'')])])"

definition other_driver :: driver_conn where
  "other_driver = \<lparr>dv_SocketID = ''s2'', dv_UserID = ''d2'', dv_Name = ''Eve'', dv_PackageSlug = ''van''\<rparr>"

lemma sim_kv_laws: "redis_signals sim_redis si_kv" "sockets_keep sim_websocket si_kv" "pub_keeps sim_publish si_kv"
  by (auto intro: sim_signals sim_sockets_keep sim_pub_keeps)

theorem accept_frame_takes_pair_witness:
  "\<exists>(w' :: sim). chat_peer (si_kv chat_world) ''t1'' ''r1'' = Inr ''d1'' \<and> chat_peer (si_kv w') ''t1'' ''r1'' = Inr ''d2''
     \<and> chat_peer (si_kv w') ''t1'' ''d1'' = Inl ErrTripChatUnauthorized"
proof -
  let ?data = "RawJson (JObj [(''tripID'', JStr ''t1''), (''riderID'', JStr ''r1'')])"
  have f: "read_frame accept_message = Inr \<lparr>wi_Type = DriverCmdTripAccept, wi_Data = ?data\<rparr>"
    by (simp add: accept_message_def ws_incoming_fields_def json_defs)
  have a: "read_answer ?data = Inr \<lparr>fd_TripID = ''t1'', fd_RiderID = ''r1''\<rparr>"
    by (simp add: frontend_data_fields_def json_defs)
  have s: "fst (SetTripChatPair sim_redis (fd_TripID \<lparr>fd_TripID = ''t1'', fd_RiderID = ''r1''\<rparr>)
      (fd_RiderID \<lparr>fd_TripID = ''t1'', fd_RiderID = ''r1''\<rparr>) (dv_UserID other_driver) (hours 2) chat_world) = None"
    by (simp add: SetTripChatPair_def sim_redis_def other_driver_def)
  obtain res rcm' w' where run: "driver_frame sim_redis sim_runtime sim_publish other_driver accept_message
      NewRedisConnectionManager chat_world = (res, rcm', w')" by (metis prod_cases3)
  have "chat_peer (si_kv chat_world) ''t1'' ''r1'' = Inr ''d1''" by (simp add: chat_peer_def chat_world_def key_simps)
  with accept_frame_takes_pair [OF sim_redis_strings sim_kv_laws(1,3) f a s run, of "''d1''"]
  show ?thesis by (auto simp: other_driver_def)
qed

lemma trip_torn_down:
  assumes "redis_strings R kv" "redis_signals R kv" "sockets_keep W kv"
    and "read_event (dec_struct trip_cancelled_data_fields) trip_cancelled_data_zero d = Inr (env, p)"
    and "tc_TripID p \<noteq> ''''" "tc_RiderID p \<noteq> ''''" "cancelled_driver R p w = (driver, w1)"
    and "tc_DriverAccepted p \<or> driver \<noteq> ''''" "ClearTripChatPair R (tc_TripID p) w1 = (None, w2)"
    and "cancel_handler R W d rcm w = (e, rcm', w')"
  shows "e = None" "out_of_trip (localCM rcm) (tc_TripID p) (tc_RiderID p) rcm'"
    "driver \<noteq> '''' \<Longrightarrow> out_of_trip (localCM rcm) (tc_TripID p) driver rcm'"
    "q \<notin> trip_rooms (tc_TripID p) \<Longrightarrow> set (map_set (roomSockets rcm') q) = set (map_set (roomSockets rcm) q)"
    "kv w' = kv w2"
proof -
  let ?t = "tc_TripID p" and ?m = "trip_note TripEventCancelled (tc_TripID p)"
  obtain rcm2 w3 where t: "tear_down R ?t (tc_RiderID p) driver rcm w1 = (rcm2, w3)" by fastforce
  obtain e3 rcm3 w4 where s: "rcm_SendMessage R W (tc_RiderID p) ?m rcm2 w3 = (e3, rcm3, w4)" by (metis prod_cases3)
  obtain e4 rcm4 w5 where s2: "rcm_SendMessage R W driver ?m rcm3 w4 = (e4, rcm4, w5)" by (metis prod_cases3)
  have h: "e = None" "(rcm', w') = (rcm3, w4) \<or> (rcm', w') = (rcm4, w5)"
    using assms(4-8,10) t s s2 by (auto simp: cancel_handler_def Let_def split: if_splits)
  then have rooms: "roomSockets rcm' = roomSockets rcm2" and kv: "kv w' = kv w3"
    using SendMessage_rooms [OF s] SendMessage_rooms [OF s2] SendMessage_world [OF assms(2,3) s]
      SendMessage_world [OF assms(2,3) s2] by auto
  note T = tear_down_facts [OF t assms(5,6)]
  have "kv w3 = kv w2" using T(4) [OF assms(2)] assms(9) by simp
  then show "kv w' = kv w2" using kv by simp
  show "e = None" "out_of_trip (localCM rcm) ?t (tc_RiderID p) rcm'"
    "driver \<noteq> '''' \<Longrightarrow> out_of_trip (localCM rcm) ?t driver rcm'"
    "q \<notin> trip_rooms ?t \<Longrightarrow> set (map_set (roomSockets rcm') q) = set (map_set (roomSockets rcm) q)"
    using h(1) T(1-3) by (auto simp: out_of_trip_def rooms)
qed

text \<open>
  A cancellation of an accepted trip ends its streams, also when the event does not name the
  driver and the pair in Redis does: no socket the gateway knew for the rider or the driver is in
  the trip's rooms any more, no other room changes, and nobody has a peer in the trip. Failures to
  notify change nothing of this, and the delivery is acknowledged.
\<close>

theorem cancelled_trip_torn_down:
  assumes "redis_strings R kv" "redis_signals R kv" "sockets_keep W kv"
    and "read_event (dec_struct trip_cancelled_data_fields) trip_cancelled_data_zero d = Inr (env, p)"
    and "tc_TripID p \<noteq> ''''" "tc_RiderID p \<noteq> ''''" "cancelled_driver R p w = (driver, w1)"
    and "tc_DriverAccepted p \<or> driver \<noteq> ''''" "ClearTripChatPair R (tc_TripID p) w1 = (None, w2)"
    and "cancel_handler R W d rcm w = (e, rcm', w')"
  shows "e = None \<and> out_of_trip (localCM rcm) (tc_TripID p) (tc_RiderID p) rcm'
       \<and> (driver \<noteq> '''' \<longrightarrow> out_of_trip (localCM rcm) (tc_TripID p) driver rcm')
       \<and> (q \<notin> trip_rooms (tc_TripID p) \<longrightarrow> set (map_set (roomSockets rcm') q) = set (map_set (roomSockets rcm) q))
       \<and> chat_peer (kv w') (tc_TripID p) u = Inl ErrTripChatPairNotFound"
  using trip_torn_down [OF assms] ClearTripChatPair_store [OF assms(1,9)] by (auto simp: chat_peer_def)

definition trip_node :: rcm where
  "trip_node = NewRedisConnectionManager\<lparr>localCM := cm_Add ''s1'' ''r1'' 1 NewConnectionManager,
     roomSockets := [tripChatRoomID ''t1'' \<mapsto> [''s1'']], socketRooms := [''s1'' \<mapsto> [tripChatRoomID ''t1'']]\<rparr>"

definition cancel_json :: json where
  "cancel_json = JObj [(''tripID'', JStr ''t1''), (''riderID'', JStr ''r1''), (''driverID'', JStr ''d1''),
     (''driverAccepted'', JBool True)]"

theorem cancelled_trip_torn_down_witness:
  "\<exists>(rcm' :: rcm) (w' :: sim). ''s1'' \<in> set (map_set (roomSockets trip_node) (tripChatRoomID ''t1''))
     \<and> ''s1'' \<notin> set (map_set (roomSockets rcm') (tripChatRoomID ''t1''))
     \<and> chat_peer (si_kv w') ''t1'' ''r1'' = Inl ErrTripChatPairNotFound"
proof -
  let ?p = "\<lparr>tc_TripID = ''t1'', tc_RiderID = ''r1'', tc_DriverID = ''d1'', tc_DriverAccepted = True\<rparr>"
  let ?d = "event_delivery TripEventCancelled ''r1'' cancel_json"
  have r: "read_event (dec_struct trip_cancelled_data_fields) trip_cancelled_data_zero ?d =
      Inr (\<lparr>am_OwnerID = ''r1'', am_Data = RawJson cancel_json\<rparr>, ?p)"
    by (rule read_event_delivery) (simp add: cancel_json_def codec_defs json_defs)
  have ids: "tc_TripID ?p \<noteq> ''''" "tc_RiderID ?p \<noteq> ''''" by simp_all
  have c: "cancelled_driver sim_redis ?p chat_world = (''d1'', chat_world)" by (simp add: cancelled_driver_def)
  have acc: "tc_DriverAccepted ?p \<or> ''d1'' \<noteq> ''''" by simp
  obtain w2 where cl: "ClearTripChatPair sim_redis (tc_TripID ?p) chat_world = (None, w2)"
    by (simp add: ClearTripChatPair_def sim_redis_def Let_def)
  obtain e rcm' w' where run: "cancel_handler sim_redis sim_websocket ?d trip_node chat_world = (e, rcm', w')"
    by (metis prod_cases3)
  from cancelled_trip_torn_down [OF sim_redis_strings sim_kv_laws(1,2) r ids c acc cl run]
  have "out_of_trip (localCM trip_node) ''t1'' ''r1'' rcm'" "chat_peer (si_kv w') ''t1'' ''r1'' = Inl ErrTripChatPairNotFound"
    by auto
  moreover from this(1) have "''s1'' \<notin> set (map_set (roomSockets rcm') (tripChatRoomID ''t1''))"
    by (simp add: out_of_trip_def trip_rooms_def trip_node_def cm_Add_def)
  moreover have "''s1'' \<in> set (map_set (roomSockets trip_node) (tripChatRoomID ''t1''))"
    by (simp add: trip_node_def map_set_def)
  ultimately show ?thesis by blast
qed


definition rider_request :: request where
  "rider_request = sample_request\<lparr>hq_Ctx := [ctxKeyUserID \<mapsto> ''r1'']\<rparr>"


end
