(* ===== verification/Tokens.thy ===== *)
theory Tokens
  imports RateLimit
begin

text \<open>
  JSON web tokens: the login service's \<open>pkg/token/jwt.go\<close>, which issues them, and the two
  gateways' \<open>middleware.go\<close>, which check them. The JWT library is a parameter: signing with
  HS256, and parsing with a key function that is given the method named in the token's header;
  a successful parse has checked the signature, the registered claims and the expiry, and gives the
  claims.
\<close>

section \<open>The library\<close>

record 'w jwt =
  jw_sign :: "string \<Rightarrow> json \<Rightarrow> string res"
  jw_parse :: "string \<Rightarrow> (string \<Rightarrow> string res) \<Rightarrow> 'w \<Rightarrow> json res \<times> 'w"

text \<open>The methods of type \<open>*jwt.SigningMethodHMAC\<close>.\<close>

definition hmac_methods :: "string list" where
  "hmac_methods = [''HS256'', ''HS384'', ''HS512'']"

text \<open>The time as seconds, as \<open>NumericDate\<close> writes it.\<close>

definition numeric_date :: "int \<Rightarrow> int" where
  "numeric_date ns = ns div 1000000000"

section \<open>The token manager\<close>

record token_manager =
  secretKey :: string
  accessTokenExpiry :: duration
  refreshTokenExpiry :: duration

definition NewManager :: "string \<Rightarrow> duration \<Rightarrow> duration \<Rightarrow> token_manager" where
  "NewManager key accessExpiry refreshExpiry =
     \<lparr>secretKey = key, accessTokenExpiry = accessExpiry, refreshTokenExpiry = refreshExpiry\<rparr>"

text \<open>The claims without the registered ones, which only the library reads.\<close>

record access_claims =
  ac_UserID :: string
  ac_Name :: string
  ac_Email :: string
  ac_Role :: string

definition access_claims_fields :: "access_claims fields" where
  "access_claims_fields =
     [fld ''user_id'' ac_UserID ac_UserID_update dec_str, fld ''name'' ac_Name ac_Name_update dec_str,
      fld ''email'' ac_Email ac_Email_update dec_str, fld ''role'' ac_Role ac_Role_update dec_str]"

definition enc_access_claims :: "access_claims \<Rightarrow> int \<Rightarrow> int \<Rightarrow> json option" where
  "enc_access_claims c expiresAt issuedAt =
     enc_obj [mem_str ''user_id'' (ac_UserID c), mem_str ''name'' (ac_Name c), mem_str ''email'' (ac_Email c),
              mem_str ''role'' (ac_Role c), Member ''exp'' (Some (JInt expiresAt)), Member ''iat'' (Some (JInt issuedAt))]"

text \<open>\<open>RefreshClaims\<close> has one field, the user's identifier.\<close>

definition refresh_claims_fields :: "string fields" where
  "refresh_claims_fields = [fld ''user_id'' (\<lambda>s. s) (\<lambda>f. f) dec_str]"

definition enc_refresh_claims :: "string \<Rightarrow> int \<Rightarrow> int \<Rightarrow> json option" where
  "enc_refresh_claims userID expiresAt issuedAt =
     enc_obj [mem_str ''user_id'' userID, Member ''exp'' (Some (JInt expiresAt)),
              Member ''iat'' (Some (JInt issuedAt))]"

definition signed_token :: "'w jwt \<Rightarrow> token_manager \<Rightarrow> json option \<Rightarrow> string res" where
  "signed_token J mgr claims = (case claims of None \<Rightarrow> Inl ErrJson | Some j \<Rightarrow> jw_sign J (secretKey mgr) j)"

definition GenerateAccessToken ::
  "'w jwt \<Rightarrow> 'w runtime \<Rightarrow> token_manager \<Rightarrow> string \<Rightarrow> string \<Rightarrow> string \<Rightarrow> string \<Rightarrow> 'w \<Rightarrow> string res \<times> 'w" where
  "GenerateAccessToken J rt mgr userID name email role w =
     (case run_now rt w of (t1, w1) \<Rightarrow>
     (case run_now rt w1 of (t2, w2) \<Rightarrow>
        (signed_token J mgr (enc_access_claims
           \<lparr>ac_UserID = userID, ac_Name = name, ac_Email = email, ac_Role = role\<rparr>
           (numeric_date (t1 + sint (accessTokenExpiry mgr))) (numeric_date t2)), w2)))"

definition GenerateRefreshToken ::
  "'w jwt \<Rightarrow> 'w runtime \<Rightarrow> token_manager \<Rightarrow> string \<Rightarrow> 'w \<Rightarrow> string res \<times> 'w" where
  "GenerateRefreshToken J rt mgr userID w =
     (case run_now rt w of (t1, w1) \<Rightarrow>
     (case run_now rt w1 of (t2, w2) \<Rightarrow>
        (signed_token J mgr (enc_refresh_claims userID
           (numeric_date (t1 + sint (refreshTokenExpiry mgr))) (numeric_date t2)), w2)))"

definition hmac_key :: "token_manager \<Rightarrow> string \<Rightarrow> string res" where
  "hmac_key mgr alg =
     (if alg \<notin> set hmac_methods then Inl (ErrMsg (''unexpected signing method: '' @ alg))
      else Inr (secretKey mgr))"

definition ValidateAccessToken :: "'w jwt \<Rightarrow> token_manager \<Rightarrow> string \<Rightarrow> 'w \<Rightarrow> access_claims res \<times> 'w" where
  "ValidateAccessToken J mgr tokenStr w =
     (case jw_parse J tokenStr (hmac_key mgr) w of
        (Inl e, w1) \<Rightarrow> (Inl e, w1)
      | (Inr j, w1) \<Rightarrow>
          (unmarshal (dec_struct access_claims_fields)
             \<lparr>ac_UserID = '''', ac_Name = '''', ac_Email = '''', ac_Role = ''''\<rparr> (RawJson j), w1))"

definition ValidateRefreshToken :: "'w jwt \<Rightarrow> token_manager \<Rightarrow> string \<Rightarrow> 'w \<Rightarrow> string res \<times> 'w" where
  "ValidateRefreshToken J mgr tokenStr w =
     (case jw_parse J tokenStr (hmac_key mgr) w of
        (Inl e, w1) \<Rightarrow> (Inl e, w1)
      | (Inr j, w1) \<Rightarrow> (unmarshal (dec_struct refresh_claims_fields) '''' (RawJson j), w1))"

section \<open>The gateways' middleware\<close>

text \<open>\<open>jwt.MapClaims\<close>: the claim under a key, when it is a string.\<close>

definition map_claim :: "json \<Rightarrow> string \<Rightarrow> string" where
  "map_claim j k =
     (case j of
        JObj kvs \<Rightarrow> (case map_of (rev kvs) k of Some (JStr s) \<Rightarrow> s | _ \<Rightarrow> '''')
      | _ \<Rightarrow> '''')"

definition jwt_secret :: "'w runtime \<Rightarrow> 'w \<Rightarrow> string" where
  "jwt_secret rt w = GetString rt ''JWT_SECRET'' ''change-me-in-production'' w"

definition request_token :: "request \<Rightarrow> string" where
  "request_token r =
     (let auth = hq_Header r ''Authorization'';
          tokenStr = (if has_prefix auth ''Bearer '' then trim_prefix auth ''Bearer '' else '''')
      in if tokenStr = '''' then hq_Query r ''token'' else tokenStr)"

definition gateway_key :: "string \<Rightarrow> string \<Rightarrow> string res" where
  "gateway_key secret alg =
     (if alg \<notin> set hmac_methods then Inl (ErrMsg ''signature is invalid'') else Inr secret)"

text \<open>The secret is read when the middleware is built.\<close>

definition wsAuthMiddleware :: "'w jwt \<Rightarrow> string \<Rightarrow> 'w http_handler \<Rightarrow> 'w http_handler" where
  "wsAuthMiddleware J secret next r w =
     (let tokenStr = request_token r
      in if tokenStr = '''' then (Returns (http_error ''missing token'' 401), w)
         else (case jw_parse J tokenStr (gateway_key secret) w of
                 (Inl e, w1) \<Rightarrow> (Returns (http_error ''invalid or expired token'' 401), w1)
               | (Inr claims, w1) \<Rightarrow>
                   (let userID = map_claim claims ''user_id''
                    in if userID = '''' then (Returns (http_error ''invalid token claims'' 401), w1)
                       else next (r\<lparr>hq_Ctx := (hq_Ctx r)(ctxKeyUserID \<mapsto> userID, ctxKeyToken \<mapsto> tokenStr,
                              ctxKeyName \<mapsto> map_claim claims ''name'')\<rparr>) w1)))"

text \<open>The WebSocket gateway's copy.\<close>

definition ws_wsAuthMiddleware :: "'w jwt \<Rightarrow> string \<Rightarrow> 'w http_handler \<Rightarrow> 'w http_handler" where
  "ws_wsAuthMiddleware J secret next r w =
     (let auth = hq_Header r ''Authorization'';
          header = (if has_prefix auth ''Bearer '' then trim_prefix auth ''Bearer '' else '''');
          tokenStr = (if header = '''' then hq_Query r ''token'' else header)
      in if tokenStr = '''' then (Returns (http_error ''missing token'' 401), w)
         else (case jw_parse J tokenStr (gateway_key secret) w of
                 (Inl e, w1) \<Rightarrow> (Returns (http_error ''invalid or expired token'' 401), w1)
               | (Inr claims, w1) \<Rightarrow>
                   (let userID = map_claim claims ''user_id''
                    in if userID = '''' then (Returns (http_error ''invalid token claims'' 401), w1)
                       else next (r\<lparr>hq_Ctx := (hq_Ctx r)(ctxKeyUserID \<mapsto> userID, ctxKeyToken \<mapsto> tokenStr,
                              ctxKeyName \<mapsto> map_claim claims ''name'')\<rparr>) w1)))"

lemma middleware_same: "ws_wsAuthMiddleware = wsAuthMiddleware"
  by (intro ext) (simp add: ws_wsAuthMiddleware_def wsAuthMiddleware_def request_token_def Let_def)

section \<open>What is assumed of the library\<close>

text \<open>
  \<open>at w\<close> is the time of a world in seconds. A token signed with a key is accepted, with the claims
  that were signed, by a parse whose key function gives that key for HS256, before the expiry the
  claims name.
\<close>

definition jwt_laws :: "'w jwt \<Rightarrow> ('w \<Rightarrow> int) \<Rightarrow> bool" where
  "jwt_laws J clk \<longleftrightarrow>
     (\<forall>k kvs t kf w e. jw_sign J k (JObj kvs) = Inr t \<and> kf ''HS256'' = Inr k
        \<and> map_of kvs ''exp'' = Some (JInt e) \<and> clk w < e \<longrightarrow>
        t \<noteq> '''' \<and> (\<exists>w'. jw_parse J t kf w = (Inr (JObj kvs), w')))"

lemma jwt_lawsD:
  assumes "jwt_laws J clk" "jw_sign J k (JObj kvs) = Inr t" "kf ''HS256'' = Inr k"
    and "map_of kvs ''exp'' = Some (JInt e)" "clk w < e"
  shows "t \<noteq> ''''" "\<exists>w'. jw_parse J t kf w = (Inr (JObj kvs), w')"
  using assms unfolding jwt_laws_def by blast+

text \<open>What the two kinds of tokens hold, and that they are accepted.\<close>

definition access_json :: "string \<Rightarrow> string \<Rightarrow> string \<Rightarrow> string \<Rightarrow> int \<Rightarrow> int \<Rightarrow> json" where
  "access_json u n em ro e i = JObj [(''user_id'', JStr u), (''name'', JStr n), (''email'', JStr em),
     (''role'', JStr ro), (''exp'', JInt e), (''iat'', JInt i)]"

definition refresh_json :: "string \<Rightarrow> int \<Rightarrow> int \<Rightarrow> json" where
  "refresh_json u e i = JObj [(''user_id'', JStr u), (''exp'', JInt e), (''iat'', JInt i)]"

lemma GenerateAccessToken_signs:
  "GenerateAccessToken J rt mgr u n em ro w =
     (case run_now rt w of (t1, w1) \<Rightarrow> (case run_now rt w1 of (t2, w2) \<Rightarrow>
        (jw_sign J (secretKey mgr) (access_json u n em ro (numeric_date (t1 + sint (accessTokenExpiry mgr)))
           (numeric_date t2)), w2)))"
  by (simp add: GenerateAccessToken_def signed_token_def enc_access_claims_def mem_str_def access_json_def split: prod.splits)

lemma GenerateRefreshToken_signs:
  "GenerateRefreshToken J rt mgr u w =
     (case run_now rt w of (t1, w1) \<Rightarrow> (case run_now rt w1 of (t2, w2) \<Rightarrow>
        (jw_sign J (secretKey mgr) (refresh_json u (numeric_date (t1 + sint (refreshTokenExpiry mgr)))
           (numeric_date t2)), w2)))"
  by (simp add: GenerateRefreshToken_def signed_token_def enc_refresh_claims_def mem_str_def refresh_json_def split: prod.splits)

lemma access_token_parsed:
  assumes "jwt_laws J clk" "GenerateAccessToken J rt mgr u n em ro w0 = (Inr t, w1)"
    and "kf ''HS256'' = Inr (secretKey mgr)" "clk w < numeric_date (fst (run_now rt w0) + sint (accessTokenExpiry mgr))"
  shows "t \<noteq> '''' \<and> (\<exists>e i w'. jw_parse J t kf w = (Inr (access_json u n em ro e i), w'))"
proof -
  obtain t1 v t2 where "run_now rt w0 = (t1, v)" and s: "jw_sign J (secretKey mgr)
      (access_json u n em ro (numeric_date (t1 + sint (accessTokenExpiry mgr))) t2) = Inr t"
    using assms(2) by (auto simp: GenerateAccessToken_signs split: prod.splits)
  with assms(4) have "clk w < numeric_date (t1 + sint (accessTokenExpiry mgr))" by simp
  with assms(1,3) s show ?thesis unfolding jwt_laws_def access_json_def by fastforce
qed

lemma refresh_token_parsed:
  assumes "jwt_laws J clk" "GenerateRefreshToken J rt mgr u w0 = (Inr t, w1)"
    and "kf ''HS256'' = Inr (secretKey mgr)" "clk w < numeric_date (fst (run_now rt w0) + sint (refreshTokenExpiry mgr))"
  shows "t \<noteq> '''' \<and> (\<exists>e i w'. jw_parse J t kf w = (Inr (refresh_json u e i), w'))"
proof -
  obtain t1 v t2 where "run_now rt w0 = (t1, v)" and s: "jw_sign J (secretKey mgr)
      (refresh_json u (numeric_date (t1 + sint (refreshTokenExpiry mgr))) t2) = Inr t"
    using assms(2) by (auto simp: GenerateRefreshToken_signs split: prod.splits)
  with assms(4) have "clk w < numeric_date (t1 + sint (refreshTokenExpiry mgr))" by simp
  with assms(1,3) s show ?thesis unfolding jwt_laws_def refresh_json_def by fastforce
qed

lemma keys_agree: "hmac_key mgr ''HS256'' = Inr (secretKey mgr)" "gateway_key s ''HS256'' = Inr s"
  by (simp_all add: hmac_key_def gateway_key_def hmac_methods_def)

lemma bearer_token:
  "hq_Header r ''Authorization'' = ''Bearer '' @ t \<Longrightarrow> t \<noteq> '''' \<Longrightarrow> request_token r = t"
  by (simp add: request_token_def Let_def trim_prefix_def)

lemma middleware_admits:
  assumes "hq_Header r ''Authorization'' = ''Bearer '' @ t" "t \<noteq> ''''" "map_claim claims ''user_id'' = u" "u \<noteq> ''''"
    and "jw_parse J t (gateway_key secret) w = (Inr claims, w')"
  shows "\<exists>r'. wsAuthMiddleware J secret h r w = h r' w' \<and> ctx_string r' ctxKeyUserID = u
       \<and> ctx_string r' ctxKeyName = map_claim claims ''name'' \<and> ctx_string r' ctxKeyToken = t"
  using bearer_token [OF assms(1,2)] assms(2-5)
  by (intro exI conjI) (auto simp: wsAuthMiddleware_def ctx_string_def ctx_key_defs)

text \<open>A library with a table of tokens: each with its key and its claims.\<close>

definition sim_jwt :: "(string \<times> string \<times> json) list \<Rightarrow> 'w jwt" where
  "sim_jwt tokens = \<lparr>
     jw_sign = (\<lambda>k j. case find (\<lambda>(t, k', j'). k' = k \<and> j' = j) tokens of
        None \<Rightarrow> Inl (ErrMsg ''no token'') | Some (t, _) \<Rightarrow> Inr t),
     jw_parse = (\<lambda>t kf w. case map_of tokens t of
        None \<Rightarrow> (Inl (ErrMsg ''token is malformed''), w)
      | Some (k, j) \<Rightarrow> (if kf ''HS256'' = Inr k then Inr j else Inl (ErrMsg ''signature is invalid''), w))\<rparr>"

lemma find_elem: "find P xs = Some x \<Longrightarrow> x \<in> set xs \<and> P x"
  by (induction xs) (auto split: if_splits)

lemma sim_jwt_laws:
  assumes "distinct (map fst tokens)" "'''' \<notin> fst ` set tokens"
  shows "jwt_laws (sim_jwt tokens) clk"
proof -
  have H: "t \<noteq> '''' \<and> (\<exists>w'. jw_parse (sim_jwt tokens) t kf w = (Inr j, w'))"
    if s: "jw_sign (sim_jwt tokens) k j = Inr t" and k: "kf ''HS256'' = Inr k" for k j t kf w
  proof -
    from s obtain x where f: "find (\<lambda>(t, k', j'). k' = k \<and> j' = j) tokens = Some x" "fst x = t"
      by (auto simp: sim_jwt_def split: option.splits)
    obtain t' k' j' where x: "x = (t', k', j')" by (cases x)
    with find_elem [OF f(1)] f(2) have m: "(t, k, j) \<in> set tokens" by auto
    have e: "map_of tokens t = Some (k, j)" using assms(1) m by simp
    from m have "t \<in> fst ` set tokens" by force
    with assms(2) have "t \<noteq> ''''" by blast
    with e k show ?thesis by (simp add: sim_jwt_def)
  qed
  show ?thesis unfolding jwt_laws_def by (intro allI impI, elim conjE) (rule H)
qed

section \<open>Properties\<close>

text \<open>
  C27: An access token the login service has issued opens both gateways for exactly that user until
  it expires: with the same secret on both sides, a request that carries it as a bearer token is
  handed on with the user's identifier and name in its context.
\<close>

theorem access_token_admits:
  assumes "jwt_laws J clk" "GenerateAccessToken J rt mgr u n em ro w0 = (Inr t, w1)" "u \<noteq> ''''"
    and "clk w < numeric_date (fst (run_now rt w0) + sint (accessTokenExpiry mgr))"
    and "hq_Header r ''Authorization'' = ''Bearer '' @ t"
  shows "\<exists>r' w'. wsAuthMiddleware J (secretKey mgr) h r w = h r' w' \<and> ws_wsAuthMiddleware J (secretKey mgr) h r w = h r' w'
       \<and> ctx_string r' ctxKeyUserID = u \<and> ctx_string r' ctxKeyName = n \<and> ctx_string r' ctxKeyToken = t"
proof -
  from access_token_parsed [where clk = clk and w = w and kf = "gateway_key (secretKey mgr)", OF assms(1,2) keys_agree(2) assms(4)] obtain e i w' where
    "t \<noteq> ''''" "jw_parse J t (gateway_key (secretKey mgr)) w = (Inr (access_json u n em ro e i), w')" by blast
  from middleware_admits [OF assms(5) this(1) _ assms(3) this(2), of h] show ?thesis
    unfolding middleware_same by (auto simp: access_json_def map_claim_def)
qed

definition demo_manager :: token_manager where
  "demo_manager = NewManager ''s3cret'' (minutes 15) (hours 168)"

definition demo_tokens :: "(string \<times> string \<times> json) list" where
  "demo_tokens = [(''tok-a'', ''s3cret'', access_json ''u1'' ''Ann'' ''ann@x.org'' ''rider'' 900 0),
     (''tok-r'', ''s3cret'', refresh_json ''u1'' 604800 0)]"

lemma demo_jwt_laws: "jwt_laws (sim_jwt demo_tokens) clk"
  by (rule sim_jwt_laws) (simp_all add: demo_tokens_def)

lemma demo_times: "sint (minutes 15) = 900000000000" "sint (hours 168) = 604800000000000"
  by (simp_all add: minutes_def hours_def sint_seconds)

lemma demo_generate:
  "GenerateAccessToken (sim_jwt demo_tokens) sim_runtime demo_manager ''u1'' ''Ann'' ''ann@x.org'' ''rider'' sim0
     = (Inr ''tok-a'', sim0\<lparr>si_clock := 2\<rparr>)"
  "GenerateRefreshToken (sim_jwt demo_tokens) sim_runtime demo_manager ''u1'' sim0 = (Inr ''tok-r'', sim0\<lparr>si_clock := 2\<rparr>)"
  by (simp_all add: GenerateAccessToken_signs GenerateRefreshToken_signs sim_runtime_def sim0_def demo_manager_def
      NewManager_def demo_times numeric_date_def sim_jwt_def demo_tokens_def access_json_def refresh_json_def)

definition bearer_request :: "string \<Rightarrow> request" where
  "bearer_request t = sample_request\<lparr>hq_Header := (\<lambda>_. '''')(''Authorization'' := ''Bearer '' @ t)\<rparr>"

theorem access_token_admits_witness:
  "fst (wsAuthMiddleware (sim_jwt demo_tokens) ''s3cret'' (\<lambda>r w. (Returns (http_error (ctx_string r ctxKeyUserID) 200), w))
      (bearer_request ''tok-a'') (sim0\<lparr>si_clock := 5\<rparr>)) = Returns (http_error ''u1'' 200)"
proof -
  have c: "si_clock (sim0\<lparr>si_clock := 5\<rparr>) < numeric_date (fst (run_now sim_runtime sim0) + sint (accessTokenExpiry demo_manager))"
    by (simp add: sim_runtime_def sim0_def demo_manager_def NewManager_def demo_times numeric_date_def)
  have k: "secretKey demo_manager = ''s3cret''" by (simp add: demo_manager_def NewManager_def)
  have b: "hq_Header (bearer_request ''tok-a'') ''Authorization'' = ''Bearer '' @ ''tok-a''"
    by (simp add: bearer_request_def)
  from access_token_admits [where clk = si_clock and w = "sim0\<lparr>si_clock := 5\<rparr>", OF demo_jwt_laws demo_generate(1) _ c b,
      of "\<lambda>r w. (Returns (http_error (ctx_string r ctxKeyUserID) 200), w)", unfolded k]
  show ?thesis by auto
qed

text \<open>
  The two kinds of tokens are not told apart: a refresh token opens the gateways like an access
  token, for its seven days instead of fifteen minutes, and an access token is accepted for a
  refresh.
\<close>

theorem tokens_interchangeable:
  assumes "jwt_laws J clk" "GenerateRefreshToken J rt mgr u w0 = (Inr t, w1)" "u \<noteq> ''''"
    and "clk w < numeric_date (fst (run_now rt w0) + sint (refreshTokenExpiry mgr))"
    and "hq_Header r ''Authorization'' = ''Bearer '' @ t"
    and "GenerateAccessToken J rt mgr u n em ro w0 = (Inr a, w2)"
    and "clk v < numeric_date (fst (run_now rt w0) + sint (accessTokenExpiry mgr))"
  shows "(\<exists>r' w'. wsAuthMiddleware J (secretKey mgr) h r w = h r' w' \<and> ctx_string r' ctxKeyUserID = u)
       \<and> fst (ValidateRefreshToken J mgr a v) = Inr u"
proof -
  from refresh_token_parsed [where clk = clk and w = w and kf = "gateway_key (secretKey mgr)", OF assms(1,2) keys_agree(2) assms(4)] obtain e i w' where
    "t \<noteq> ''''" "jw_parse J t (gateway_key (secretKey mgr)) w = (Inr (refresh_json u e i), w')" by blast
  from middleware_admits [OF assms(5) this(1) _ assms(3) this(2), of h]
  have "\<exists>r' w'. wsAuthMiddleware J (secretKey mgr) h r w = h r' w' \<and> ctx_string r' ctxKeyUserID = u"
    by (auto simp: refresh_json_def map_claim_def)
  moreover from access_token_parsed [where clk = clk and w = v and kf = "hmac_key mgr", OF assms(1,6) keys_agree(1) assms(7)]
  have "fst (ValidateRefreshToken J mgr a v) = Inr u"
    by (auto simp: ValidateRefreshToken_def access_json_def refresh_claims_fields_def json_defs)
  ultimately show ?thesis by blast
qed

theorem tokens_interchangeable_witness:
  "fst (ValidateRefreshToken (sim_jwt demo_tokens) demo_manager ''tok-a'' sim0) = Inr ''u1''"
proof -
  have c: "si_clock sim0 < numeric_date (fst (run_now sim_runtime sim0) + sint (refreshTokenExpiry demo_manager))"
    "si_clock sim0 < numeric_date (fst (run_now sim_runtime sim0) + sint (accessTokenExpiry demo_manager))"
    by (simp_all add: sim_runtime_def sim0_def demo_manager_def NewManager_def demo_times numeric_date_def)
  have b: "hq_Header (bearer_request ''tok-r'') ''Authorization'' = ''Bearer '' @ ''tok-r''"
    by (simp add: bearer_request_def)
  from tokens_interchangeable [where clk = si_clock and w = sim0 and v = sim0, OF demo_jwt_laws demo_generate(2) _ c(1) b demo_generate(1) c(2)] show ?thesis by simp
qed

end
