(* ===== verification/Login.thy ===== *)
theory Login
  imports Tokens
begin

text \<open>
  The login service (\<open>services/login-service\<close>): users, the repository over PostgreSQL, the
  authentication service, its gRPC handlers and the migrations. PostgreSQL is given by its tables,
  which the SQL statements of \<open>postgres_user.go\<close> are translated to functions on, and by what a
  statement needs of the server: a connection that may fail, fresh identifiers, the time and the
  texts that are UUIDs. The constraints are those of \<open>migrations/\<close>. Passwords are hashed by a
  parameter (bcrypt); spans are left out.
\<close>

section \<open>Users and the repository\<close>

record user =
  us_ID :: string
  us_Email :: string
  us_PasswordHash :: string
  us_Name :: string
  us_PhoneNumber :: string
  us_Role :: string
  us_CreatedAt :: int
  us_UpdatedAt :: int

text \<open>\<open>Create\<close> fills in the identifier and the times of the user it is given.\<close>

record 'w user_repo =
  ur_Create :: "user \<Rightarrow> 'w \<Rightarrow> user res \<times> 'w"
  ur_GetByEmail :: "string \<Rightarrow> 'w \<Rightarrow> user res \<times> 'w"
  ur_GetByID :: "string \<Rightarrow> 'w \<Rightarrow> user res \<times> 'w"
  ur_GetByGoogleSub :: "string \<Rightarrow> 'w \<Rightarrow> user res \<times> 'w"
  ur_LinkGoogleIdentity :: "string \<Rightarrow> string \<Rightarrow> string \<Rightarrow> bool \<Rightarrow> 'w \<Rightarrow> goerror option \<times> 'w"

record user_row =
  uw_id :: string
  uw_email :: string
  uw_password_hash :: "string option"
  uw_name :: string
  uw_phone_number :: "string option"
  uw_role :: "string option"
  uw_created_at :: int
  uw_updated_at :: int

record identity_row =
  iw_user_id :: string
  iw_provider :: string
  iw_provider_subject :: string
  iw_avatar_url :: string
  iw_email_verified :: bool

record login_tables =
  lt_users :: "user_row list"
  lt_identities :: "identity_row list"

record 'w postgres =
  pg_conn :: "'w \<Rightarrow> goerror option \<times> 'w"
  pg_tables :: "'w \<Rightarrow> login_tables"
  pg_write :: "login_tables \<Rightarrow> 'w \<Rightarrow> 'w"
  pg_uuid :: "'w \<Rightarrow> string \<times> 'w"
  pg_time :: "'w \<Rightarrow> int \<times> 'w"
  pg_is_uuid :: "string \<Rightarrow> bool"

definition pg_error :: "string \<Rightarrow> goerror" where
  "pg_error s = ErrMsg (''pq: '' @ s)"

definition coalesce :: "'a option \<Rightarrow> 'a \<Rightarrow> 'a" where
  "coalesce x d = (case x of None \<Rightarrow> d | Some y \<Rightarrow> y)"

definition postgres_Create :: "'w postgres \<Rightarrow> user \<Rightarrow> 'w \<Rightarrow> user res \<times> 'w" where
  "postgres_Create P u w =
     (case pg_conn P w of
        (Some e, w1) \<Rightarrow> (Inl e, w1)
      | (None, w1) \<Rightarrow>
          (case pg_uuid P w1 of (i, w2) \<Rightarrow>
          (case pg_time P w2 of (t, w3) \<Rightarrow>
             (let T = pg_tables P w3;
                  row = \<lparr>uw_id = i, uw_email = us_Email u, uw_password_hash = Some (us_PasswordHash u),
                         uw_name = us_Name u, uw_phone_number = Some (us_PhoneNumber u),
                         uw_role = Some (us_Role u), uw_created_at = t, uw_updated_at = t\<rparr>
              in if length (us_Email u) > 255 \<or> length (us_PasswordHash u) > 255 \<or> length (us_Name u) > 255
                   \<or> length (us_PhoneNumber u) > 50 \<or> length (us_Role u) > 32
                 then (Inl (pg_error ''value too long for type character varying''), w3)
                 else if list_ex (\<lambda>r. uw_email r = us_Email u \<or> uw_id r = i) (lt_users T)
                 then (Inl (pg_error ''duplicate key value violates unique constraint''), w3)
                 else (Inr (u\<lparr>us_ID := i, us_CreatedAt := t, us_UpdatedAt := t\<rparr>),
                       pg_write P (T\<lparr>lt_users := lt_users T @ [row]\<rparr>) w3)))))"

definition scan_user :: "user_row \<Rightarrow> user" where
  "scan_user r = \<lparr>us_ID = uw_id r, us_Email = uw_email r, us_PasswordHash = coalesce (uw_password_hash r) '''',
     us_Name = uw_name r, us_PhoneNumber = coalesce (uw_phone_number r) '''', us_Role = coalesce (uw_role r) ''rider'',
     us_CreatedAt = uw_created_at r, us_UpdatedAt = uw_updated_at r\<rparr>"

text \<open>\<open>QueryRow(...).Scan\<close> of the first row a condition selects.\<close>

definition query_user ::
  "'w postgres \<Rightarrow> (login_tables \<Rightarrow> user_row \<Rightarrow> bool) \<Rightarrow> 'w \<Rightarrow> user res \<times> 'w" where
  "query_user P cond w =
     (case pg_conn P w of
        (Some e, w1) \<Rightarrow> (Inl e, w1)
      | (None, w1) \<Rightarrow>
          (case find (cond (pg_tables P w1)) (lt_users (pg_tables P w1)) of
             None \<Rightarrow> (Inl SqlNoRows, w1)
           | Some r \<Rightarrow> (Inr (scan_user r), w1)))"

definition postgres_GetByEmail :: "'w postgres \<Rightarrow> string \<Rightarrow> 'w \<Rightarrow> user res \<times> 'w" where
  "postgres_GetByEmail P email w = query_user P (\<lambda>T r. uw_email r = email) w"

definition postgres_GetByID :: "'w postgres \<Rightarrow> string \<Rightarrow> 'w \<Rightarrow> user res \<times> 'w" where
  "postgres_GetByID P i w =
     (if pg_is_uuid P i then query_user P (\<lambda>T r. uw_id r = i) w
      else (case pg_conn P w of
              (Some e, w1) \<Rightarrow> (Inl e, w1)
            | (None, w1) \<Rightarrow> (Inl (pg_error ''invalid input syntax for type uuid''), w1)))"

definition google_row :: "string \<Rightarrow> identity_row \<Rightarrow> bool" where
  "google_row sub ui \<longleftrightarrow> iw_provider ui = ''google'' \<and> iw_provider_subject ui = sub"

definition postgres_GetByGoogleSub :: "'w postgres \<Rightarrow> string \<Rightarrow> 'w \<Rightarrow> user res \<times> 'w" where
  "postgres_GetByGoogleSub P googleSub w =
     query_user P (\<lambda>T u. list_ex (\<lambda>ui. iw_user_id ui = uw_id u \<and> google_row googleSub ui) (lt_identities T)) w"

text \<open>The upsert: \<open>(user_id, provider)\<close> is the conflict target, \<open>(provider, subject)\<close> is unique too.\<close>

definition is_google_of :: "string \<Rightarrow> identity_row \<Rightarrow> bool" where
  "is_google_of userID ui \<longleftrightarrow> iw_user_id ui = userID \<and> iw_provider ui = ''google''"

definition postgres_LinkGoogleIdentity ::
  "'w postgres \<Rightarrow> string \<Rightarrow> string \<Rightarrow> string \<Rightarrow> bool \<Rightarrow> 'w \<Rightarrow> goerror option \<times> 'w" where
  "postgres_LinkGoogleIdentity P userID googleSub avatarURL emailVerified w =
     (case pg_conn P w of
        (Some e, w1) \<Rightarrow> (Some e, w1)
      | (None, w1) \<Rightarrow>
          (let T = pg_tables P w1; ids = lt_identities T;
               new = \<lparr>iw_user_id = userID, iw_provider = ''google'', iw_provider_subject = googleSub,
                      iw_avatar_url = avatarURL, iw_email_verified = emailVerified\<rparr>
           in if \<not> pg_is_uuid P userID then (Some (pg_error ''invalid input syntax for type uuid''), w1)
              else if length googleSub > 255 then (Some (pg_error ''value too long for type character varying''), w1)
              else if \<not> list_ex (\<lambda>r. uw_id r = userID) (lt_users T)
              then (Some (pg_error ''violates foreign key constraint''), w1)
              else if list_ex (\<lambda>ui. google_row googleSub ui \<and> iw_user_id ui \<noteq> userID) ids
              then (Some (pg_error ''duplicate key value violates unique constraint''), w1)
              else (None, pg_write P (T\<lparr>lt_identities :=
                      (if list_ex (is_google_of userID) ids
                       then map (\<lambda>ui. if is_google_of userID ui then new else ui) ids
                       else ids @ [new])\<rparr>) w1)))"

definition NewPostgresUserRepository :: "'w postgres \<Rightarrow> 'w user_repo" where
  "NewPostgresUserRepository P = \<lparr>ur_Create = postgres_Create P, ur_GetByEmail = postgres_GetByEmail P,
     ur_GetByID = postgres_GetByID P, ur_GetByGoogleSub = postgres_GetByGoogleSub P,
     ur_LinkGoogleIdentity = postgres_LinkGoogleIdentity P\<rparr>"

section \<open>The authentication service\<close>

record 'w bcrypt =
  bc_hash :: "string \<Rightarrow> 'w \<Rightarrow> string res \<times> 'w"
  bc_compare :: "string \<Rightarrow> string \<Rightarrow> goerror option"

record 'w auth_service =
  au_repo :: "'w user_repo"
  au_tokenManager :: token_manager
  au_jwt :: "'w jwt"
  au_bcrypt :: "'w bcrypt"
  au_runtime :: "'w runtime"

definition defaultRole :: string where "defaultRole = ''rider''"

definition normalizeRole :: "string \<Rightarrow> string" where
  "normalizeRole r =
     (let role = to_lower (trim_space r)
      in if role \<noteq> ''driver'' \<and> role \<noteq> ''rider'' then defaultRole else role)"

definition normalize_email :: "string \<Rightarrow> string" where
  "normalize_email email = to_lower (trim_space email)"

type_synonym auth_reply = "user \<times> string \<times> string"

text \<open>The tokens for a user, at the end of every method; \<open>refreshID\<close> names the refresh token's user.\<close>

definition issue_tokens :: "'w auth_service \<Rightarrow> user \<Rightarrow> string \<Rightarrow> 'w \<Rightarrow> auth_reply res \<times> 'w" where
  "issue_tokens S u refreshID w =
     (case GenerateAccessToken (au_jwt S) (au_runtime S) (au_tokenManager S) (us_ID u) (us_Name u) (us_Email u) (us_Role u) w of
        (Inl e, w1) \<Rightarrow> (Inl (errorf_w ''failed to generate access token'' e), w1)
      | (Inr accessToken, w1) \<Rightarrow>
          (case GenerateRefreshToken (au_jwt S) (au_runtime S) (au_tokenManager S) refreshID w1 of
             (Inl e, w2) \<Rightarrow> (Inl (errorf_w ''failed to generate refresh token'' e), w2)
           | (Inr refreshToken, w2) \<Rightarrow> (Inr (u, accessToken, refreshToken), w2)))"

definition new_user :: "string \<Rightarrow> string \<Rightarrow> string \<Rightarrow> string \<Rightarrow> string \<Rightarrow> user" where
  "new_user email hash name phoneNumber role = \<lparr>us_ID = '''', us_Email = email, us_PasswordHash = hash,
     us_Name = name, us_PhoneNumber = phoneNumber, us_Role = role, us_CreatedAt = 0, us_UpdatedAt = 0\<rparr>"

definition auth_Signup ::
  "'w auth_service \<Rightarrow> string \<Rightarrow> string \<Rightarrow> string \<Rightarrow> string \<Rightarrow> string \<Rightarrow> 'w \<Rightarrow> auth_reply res \<times> 'w" where
  "auth_Signup S rawEmail password name phoneNumber rawRole w =
     (let email = normalize_email rawEmail; role = normalizeRole rawRole
      in case ur_GetByEmail (au_repo S) email w of
           (Inr _, w1) \<Rightarrow> (Inl ErrEmailAlreadyExists, w1)
         | (Inl err, w1) \<Rightarrow>
             if \<not> errors_is err SqlNoRows then (Inl (errorf_w ''failed to check existing user'' err), w1)
             else (case bc_hash (au_bcrypt S) password w1 of
                     (Inl e, w2) \<Rightarrow> (Inl (errorf_w ''failed to hash password'' e), w2)
                   | (Inr hashedPassword, w2) \<Rightarrow>
                       (case ur_Create (au_repo S) (new_user email hashedPassword name phoneNumber role) w2 of
                          (Inl e, w3) \<Rightarrow> (Inl (errorf_w ''failed to create user'' e), w3)
                        | (Inr u, w3) \<Rightarrow> issue_tokens S u (us_ID u) w3)))"

definition auth_Login :: "'w auth_service \<Rightarrow> string \<Rightarrow> string \<Rightarrow> 'w \<Rightarrow> auth_reply res \<times> 'w" where
  "auth_Login S rawEmail password w =
     (case ur_GetByEmail (au_repo S) (normalize_email rawEmail) w of
        (Inl err, w1) \<Rightarrow>
          (Inl (if errors_is err SqlNoRows then ErrInvalidCredentials else errorf_w ''failed to get user'' err), w1)
      | (Inr u, w1) \<Rightarrow>
          (case bc_compare (au_bcrypt S) (us_PasswordHash u) password of
             Some e \<Rightarrow> (Inl ErrInvalidCredentials, w1)
           | None \<Rightarrow> issue_tokens S u (us_ID u) w1))"

definition auth_RefreshToken :: "'w auth_service \<Rightarrow> string \<Rightarrow> 'w \<Rightarrow> auth_reply res \<times> 'w" where
  "auth_RefreshToken S refreshTokenStr w =
     (case ValidateRefreshToken (au_jwt S) (au_tokenManager S) refreshTokenStr w of
        (Inl e, w1) \<Rightarrow> (Inl ErrInvalidToken, w1)
      | (Inr userID, w1) \<Rightarrow>
          (case ur_GetByID (au_repo S) userID w1 of
             (Inl err, w2) \<Rightarrow>
               (Inl (if errors_is err SqlNoRows then ErrInvalidToken else errorf_w ''failed to get user for refresh'' err), w2)
           | (Inr u, w2) \<Rightarrow> issue_tokens S u userID w2))"

section \<open>Google accounts\<close>

record google_token_info =
  gi_Aud :: string
  gi_Sub :: string
  gi_Email :: string
  gi_EmailVerified :: string
  gi_Name :: string
  gi_Picture :: string

definition google_token_info_zero :: google_token_info where
  "google_token_info_zero = \<lparr>gi_Aud = '''', gi_Sub = '''', gi_Email = '''', gi_EmailVerified = '''',
     gi_Name = '''', gi_Picture = ''''\<rparr>"

definition google_token_info_fields :: "google_token_info fields" where
  "google_token_info_fields =
     [fld ''aud'' gi_Aud gi_Aud_update dec_str, fld ''sub'' gi_Sub gi_Sub_update dec_str,
      fld ''email'' gi_Email gi_Email_update dec_str,
      fld ''email_verified'' gi_EmailVerified gi_EmailVerified_update dec_str,
      fld ''name'' gi_Name gi_Name_update dec_str, fld ''picture'' gi_Picture gi_Picture_update dec_str]"

record google_claims =
  gc_Aud :: string
  gc_Sub :: string
  gc_Email :: string
  gc_EmailVerified :: bool
  gc_Name :: string
  gc_Picture :: string

text \<open>\<open>url.QueryEscape\<close> on bytes.\<close>

definition hex_upper :: "nat \<Rightarrow> char" where
  "hex_upper n = ''0123456789ABCDEF'' ! (n mod 16)"

definition escape_char :: "char \<Rightarrow> string" where
  "escape_char c =
     (let n = (of_char c :: nat)
      in if 48 \<le> n \<and> n \<le> 57 \<or> 65 \<le> n \<and> n \<le> 90 \<or> 97 \<le> n \<and> n \<le> 122 \<or> c \<in> set ''-_.~'' then [c]
         else if c = CHR '' '' then ''+''
         else [CHR ''%'', hex_upper (n div 16), hex_upper n])"

definition query_escape :: "string \<Rightarrow> string" where
  "query_escape s = concat (map escape_char s)"

text \<open>\<open>fetch\<close> is the HTTP client's GET: the status and the body, which is read as one JSON value.\<close>

definition validateGoogleIDToken ::
  "(string \<Rightarrow> 'w \<Rightarrow> (nat \<times> raw) res \<times> 'w) \<Rightarrow> string \<Rightarrow> 'w \<Rightarrow> google_claims res \<times> 'w" where
  "validateGoogleIDToken fetch idToken w =
     (case fetch (''https://oauth2.googleapis.com/tokeninfo?id_token='' @ query_escape idToken) w of
        (Inl e, w1) \<Rightarrow> (Inl e, w1)
      | (Inr (code, body), w1) \<Rightarrow>
          if code \<noteq> 200 then (Inl (ErrMsg (''google token validation failed with status '' @ show_nat code)), w1)
          else (case unmarshal (dec_struct google_token_info_fields) google_token_info_zero body of
                  Inl e \<Rightarrow> (Inl e, w1)
                | Inr tokenInfo \<Rightarrow>
                    (Inr \<lparr>gc_Aud = gi_Aud tokenInfo, gc_Sub = gi_Sub tokenInfo, gc_Email = gi_Email tokenInfo,
                          gc_EmailVerified = (to_lower (gi_EmailVerified tokenInfo) = ''true''),
                          gc_Name = gi_Name tokenInfo, gc_Picture = gi_Picture tokenInfo\<rparr>, w1)))"

text \<open>
  The user of a Google account: found by its subject, else by its e-mail address and then linked,
  else created and linked; linked users are read again.
\<close>

definition link_and_reload ::
  "'w auth_service \<Rightarrow> string \<Rightarrow> string \<Rightarrow> string \<Rightarrow> string \<Rightarrow> bool \<Rightarrow> string \<Rightarrow> 'w \<Rightarrow> user res \<times> 'w" where
  "link_and_reload S linkError reloadError userID googleSub emailVerified avatarURL w =
     (case ur_LinkGoogleIdentity (au_repo S) userID googleSub avatarURL emailVerified w of
        (Some e, w1) \<Rightarrow> (Inl (errorf_w linkError e), w1)
      | (None, w1) \<Rightarrow>
          (case ur_GetByID (au_repo S) userID w1 of
             (Inl e, w2) \<Rightarrow> (Inl (errorf_w reloadError e), w2)
           | (Inr u, w2) \<Rightarrow> (Inr u, w2)))"

definition google_user ::
  "'w auth_service \<Rightarrow> string \<Rightarrow> string \<Rightarrow> string \<Rightarrow> string \<Rightarrow> bool \<Rightarrow> string \<Rightarrow> 'w \<Rightarrow> user res \<times> 'w" where
  "google_user S email googleSub name avatarURL emailVerified roleHint w =
     (case ur_GetByGoogleSub (au_repo S) googleSub w of
        (Inr u, w1) \<Rightarrow> (Inr u, w1)
      | (Inl err, w1) \<Rightarrow>
          if \<not> errors_is err SqlNoRows then (Inl (errorf_w ''failed to fetch user by google sub'' err), w1)
          else (case ur_GetByEmail (au_repo S) email w1 of
            (Inr u, w2) \<Rightarrow>
              link_and_reload S ''failed to link google identity'' ''failed to reload linked user''
                (us_ID u) googleSub emailVerified avatarURL w2
          | (Inl err2, w2) \<Rightarrow>
              if \<not> errors_is err2 SqlNoRows then (Inl (errorf_w ''failed to fetch user by email'' err2), w2)
              else
                (let nm = (if name = '''' then hd (split_char (CHR ''@'') email) else name)
                 in case ur_Create (au_repo S) (new_user email '''' nm '''' roleHint) w2 of
                      (Inl e, w3) \<Rightarrow> (Inl (errorf_w ''failed to create google user'' e), w3)
                    | (Inr u, w3) \<Rightarrow>
                        link_and_reload S ''failed to create google identity link''
                          ''failed to reload created google user'' (us_ID u) googleSub emailVerified avatarURL w3)))"

definition auth_GoogleAuth ::
  "'w auth_service \<Rightarrow> (string \<Rightarrow> 'w \<Rightarrow> (nat \<times> raw) res \<times> 'w) \<Rightarrow> string \<Rightarrow> string \<Rightarrow> 'w \<Rightarrow> auth_reply res \<times> 'w" where
  "auth_GoogleAuth S fetch googleIDToken rawRoleHint w =
     (let audience = GetString (au_runtime S) ''GOOGLE_CLIENT_ID'' '''' w
      in if audience = '''' then (Inl (ErrMsg ''GOOGLE_CLIENT_ID is required''), w)
         else (case validateGoogleIDToken fetch googleIDToken w of
                 (Inl e, w1) \<Rightarrow> (Inl ErrInvalidCredentials, w1)
               | (Inr googleClaims, w1) \<Rightarrow>
                   if gc_Aud googleClaims \<noteq> audience then (Inl ErrInvalidCredentials, w1)
                   else
                     (let email = normalize_email (gc_Email googleClaims); googleSub = trim_space (gc_Sub googleClaims)
                      in if email = '''' \<or> googleSub = '''' \<or> \<not> gc_EmailVerified googleClaims
                         then (Inl ErrInvalidCredentials, w1)
                         else (case google_user S email googleSub (trim_space (gc_Name googleClaims))
                                      (trim_space (gc_Picture googleClaims)) (gc_EmailVerified googleClaims)
                                      (normalizeRole rawRoleHint) w1 of
                                 (Inl e, w2) \<Rightarrow> (Inl e, w2)
                               | (Inr u, w2) \<Rightarrow> issue_tokens S u (us_ID u) w2))))"

section \<open>The gRPC handlers\<close>

record pb_user =
  pu_Id :: string
  pu_Email :: string
  pu_Name :: string
  pu_PhoneNumber :: string
  pu_Role :: string

record signup_request =
  sr_Email :: string
  sr_Password :: string
  sr_Name :: string
  sr_PhoneNumber :: string
  sr_Role :: string

text \<open>The four responses have the same fields.\<close>

record auth_response =
  ar_AccessToken :: string
  ar_RefreshToken :: string
  ar_User :: pb_user

definition auth_response_of :: "auth_reply \<Rightarrow> auth_response" where
  "auth_response_of reply =
     (case reply of (u, accessToken, refreshToken) \<Rightarrow>
        \<lparr>ar_AccessToken = accessToken, ar_RefreshToken = refreshToken,
         ar_User = \<lparr>pu_Id = us_ID u, pu_Email = us_Email u, pu_Name = us_Name u,
                    pu_PhoneNumber = us_PhoneNumber u, pu_Role = us_Role u\<rparr>\<rparr>)"

text \<open>An error is compared with the one sentinel a method knows, by \<open>switch\<close>, not by \<open>errors.Is\<close>.\<close>

definition auth_status :: "goerror \<Rightarrow> grpc_code \<times> string \<Rightarrow> string \<Rightarrow> auth_reply res \<Rightarrow> auth_response res" where
  "auth_status sentinel known other r =
     (case r of
        Inl e \<Rightarrow> Inl (if e = sentinel then GrpcStatus (fst known) (snd known) else GrpcStatus Internal other)
      | Inr reply \<Rightarrow> Inr (auth_response_of reply))"

definition grpc_Signup :: "'w auth_service \<Rightarrow> signup_request \<Rightarrow> 'w \<Rightarrow> auth_response res \<times> 'w" where
  "grpc_Signup S req w =
     (if sr_Email req = '''' \<or> sr_Password req = '''' \<or> sr_Name req = ''''
      then (Inl (GrpcStatus InvalidArgument ''email, password, and name are required''), w)
      else if length (sr_Password req) < 8
      then (Inl (GrpcStatus InvalidArgument ''password must be at least 8 characters''), w)
      else (case auth_Signup S (sr_Email req) (sr_Password req) (sr_Name req) (sr_PhoneNumber req) (sr_Role req) w of
              (r, w1) \<Rightarrow> (auth_status ErrEmailAlreadyExists (AlreadyExists, ''email already registered'')
                            ''failed to create account'' r, w1)))"

definition grpc_Login :: "'w auth_service \<Rightarrow> string \<Rightarrow> string \<Rightarrow> 'w \<Rightarrow> auth_response res \<times> 'w" where
  "grpc_Login S email password w =
     (if email = '''' \<or> password = ''''
      then (Inl (GrpcStatus InvalidArgument ''email and password are required''), w)
      else (case auth_Login S email password w of
              (r, w1) \<Rightarrow> (auth_status ErrInvalidCredentials (Unauthenticated, ''invalid email or password'')
                            ''failed to login'' r, w1)))"

definition grpc_RefreshToken :: "'w auth_service \<Rightarrow> string \<Rightarrow> 'w \<Rightarrow> auth_response res \<times> 'w" where
  "grpc_RefreshToken S refreshToken w =
     (if refreshToken = '''' then (Inl (GrpcStatus InvalidArgument ''refresh token is required''), w)
      else (case auth_RefreshToken S refreshToken w of
              (r, w1) \<Rightarrow> (auth_status ErrInvalidToken (Unauthenticated, ''invalid or expired refresh token'')
                            ''failed to refresh token'' r, w1)))"

definition grpc_GoogleAuth ::
  "'w auth_service \<Rightarrow> (string \<Rightarrow> 'w \<Rightarrow> (nat \<times> raw) res \<times> 'w) \<Rightarrow> string \<Rightarrow> string \<Rightarrow> 'w \<Rightarrow> auth_response res \<times> 'w" where
  "grpc_GoogleAuth S fetch idToken role w =
     (if idToken = '''' then (Inl (GrpcStatus InvalidArgument ''id token is required''), w)
      else (case auth_GoogleAuth S fetch idToken role w of
              (r, w1) \<Rightarrow> (auth_status ErrInvalidCredentials (Unauthenticated, ''invalid google token'')
                            ''failed to authenticate with google'' r, w1)))"

end
