(* ===== verification/Login_Facts.thy ===== *)
theory Login_Facts
  imports Login
begin

text \<open>
  What the login service promises: a user who signed up can log in with the same address and
  password, a login needs the stored password, tokens name the stored user, and every user in the
  table has a normalised, unique address and one of the two roles, whatever requests are served.
\<close>

section \<open>Normal forms\<close>

lemma is_space_lower [simp]: "is_space (lower_char c) = is_space c"
proof (cases c)
  case (Char b0 b1 b2 b3 b4 b5 b6 b7)
  then show ?thesis by (cases b0; cases b1; cases b2; cases b3; cases b4; cases b5; cases b6; cases b7)
    (simp_all add: is_space_def)
qed

lemma to_lower_rev: "rev (to_lower s) = to_lower (rev s)"
  by (simp add: to_lower_def rev_map)

lemma drop_space_lower: "dropWhile is_space (to_lower s) = to_lower (dropWhile is_space s)"
  by (induction s) (auto simp: to_lower_def)

lemma trim_lower: "trim_space (to_lower s) = to_lower (trim_space s)"
  by (simp add: trim_space_def drop_space_lower to_lower_rev)

lemma normalize_idem [simp]: "normalize_email (normalize_email s) = normalize_email s"
  by (simp add: normalize_email_def trim_lower)

lemma normalizeRole_values: "normalizeRole r \<in> {''rider'', ''driver''}"
  by (simp add: normalizeRole_def defaultRole_def Let_def)

section \<open>The repository's contract\<close>

text \<open>
  What the service relies on: a created user is appended, with an address and an identifier nobody
  had; reads find users of the table; only a creation changes the users. \<open>ok\<close> is what the
  provider needs of the database.
\<close>

locale user_store =
  fixes repo :: "'w user_repo" and users :: "'w \<Rightarrow> user list" and ok :: bool
  assumes created: "ok \<Longrightarrow> ur_Create repo u w = (Inr u', w') \<Longrightarrow>
      us_Email u' = us_Email u \<and> us_Role u' = us_Role u \<and> us_PasswordHash u' = us_PasswordHash u
    \<and> users w' = users w @ [u'] \<and> us_Email u \<notin> us_Email ` set (users w) \<and> us_ID u' \<notin> us_ID ` set (users w)"
    and not_created: "ok \<Longrightarrow> ur_Create repo u w = (Inl e, w') \<Longrightarrow> users w' = users w"
    and by_email: "ok \<Longrightarrow> ur_GetByEmail repo a w = (r, w') \<Longrightarrow>
      users w' = users w \<and> (\<forall>u. r = Inr u \<longrightarrow> u \<in> set (users w) \<and> us_Email u = a)
    \<and> (\<forall>e. r = Inl e \<and> errors_is e SqlNoRows \<longrightarrow> a \<notin> us_Email ` set (users w))"
    and by_id: "ok \<Longrightarrow> ur_GetByID repo i w = (r, w') \<Longrightarrow>
      users w' = users w \<and> (\<forall>u. r = Inr u \<longrightarrow> u \<in> set (users w) \<and> us_ID u = i)"
    and by_google: "ok \<Longrightarrow> ur_GetByGoogleSub repo s w = (r, w') \<Longrightarrow>
      users w' = users w \<and> (\<forall>u. r = Inr u \<longrightarrow> u \<in> set (users w))"
    and linked: "ok \<Longrightarrow> ur_LinkGoogleIdentity repo i s a v w = (x, w') \<Longrightarrow> users w' = users w"
begin

text \<open>The users before and after a request: the same, or one more, in good order and new.\<close>

definition grown :: "'w \<Rightarrow> 'w \<Rightarrow> bool" where
  "grown w w' \<longleftrightarrow> users w' = users w
     \<or> (\<exists>u. users w' = users w @ [u] \<and> normalize_email (us_Email u) = us_Email u
          \<and> us_Role u \<in> {''rider'', ''driver''}
          \<and> us_Email u \<notin> us_Email ` set (users w) \<and> us_ID u \<notin> us_ID ` set (users w))"

lemma created_grown:
  assumes ok "ur_Create repo (new_user email h n ph ro) w = (r, w')"
    and "normalize_email email = email" "ro \<in> {''rider'', ''driver''}"
  shows "grown w w'"
proof (cases r)
  case (Inl e)
  then show ?thesis using not_created [OF assms(1)] assms(2) by (simp add: grown_def)
next
  case (Inr u')
  from created [OF assms(1) assms(2) [unfolded Inr]] assms(3,4) show ?thesis
    by (auto simp: grown_def new_user_def)
qed

lemma link_users:
  assumes ok "au_repo S = repo" "link_and_reload S x y i s v a w = (r, w')"
  shows "users w' = users w \<and> (\<forall>u. r = Inr u \<longrightarrow> u \<in> set (users w) \<and> us_ID u = i)"
proof -
  obtain l w1 where l: "ur_LinkGoogleIdentity repo i s a v w = (l, w1)" by fastforce
  obtain q w2 where q: "ur_GetByID repo i w1 = (q, w2)" by fastforce
  from assms(3) l q linked [OF assms(1) l] by_id [OF assms(1) q] show ?thesis
    by (cases l; cases q) (auto simp: link_and_reload_def assms(2))
qed

lemma google_created_grown:
  assumes o: ok and repo: "au_repo S = repo" and run: "google_user S email sub n a v ro w = (r, w')"
    and g: "ur_GetByGoogleSub repo sub w = (Inl e, w1)" "errors_is e SqlNoRows"
    and m: "ur_GetByEmail repo email w1 = (Inl e2, w2)"
    and nf: "normalize_email email = email" "ro \<in> {''rider'', ''driver''}"
  shows "grown w2 w' \<and> (\<forall>u. r = Inr u \<longrightarrow> u \<in> set (users w'))"
proof -
  let ?nm = "if n = '''' then hd (split_char (CHR ''@'') email) else n"
  obtain c w3 where c: "ur_Create repo (new_user email '''' ?nm '''' ro) w2 = (c, w3)" by fastforce
  have cg: "grown w2 w3" by (rule created_grown [OF o c nf])
  show ?thesis
  proof (cases "errors_is e2 SqlNoRows \<and> (\<exists>u. c = Inr u)")
    case False
    have "w' = w2 \<and> r \<noteq> Inr u \<or> w' = w3 \<and> r \<noteq> Inr u" for u
      using run g m c False by (cases c) (auto simp: google_user_def repo Let_def split: if_splits)
    then show ?thesis using cg by (auto simp: grown_def)
  next
    case True
    then obtain u where u: "c = Inr u" by blast
    then have "link_and_reload S ''failed to create google identity link''
        ''failed to reload created google user'' (us_ID u) sub v a w3 = (r, w')"
      using run g m c True by (simp add: google_user_def repo Let_def)
    from link_users [OF o repo this] cg show ?thesis by (auto simp: grown_def)
  qed
qed

lemma google_grown:
  assumes o: ok and repo: "au_repo S = repo" and run: "google_user S email sub n a v ro w = (r, w')"
    and nf: "normalize_email email = email" "ro \<in> {''rider'', ''driver''}"
  shows "grown w w' \<and> (\<forall>u. r = Inr u \<longrightarrow> u \<in> set (users w'))"
proof -
  obtain g w1 where g: "ur_GetByGoogleSub repo sub w = (g, w1)" by fastforce
  obtain m w2 where m: "ur_GetByEmail repo email w1 = (m, w2)" by fastforce
  note G = by_google [OF o g] and M = by_email [OF o m]
  show ?thesis
  proof (cases g)
    case (Inr u)
    then show ?thesis using run g G by (auto simp: google_user_def repo grown_def)
  next
    case (Inl e)
    show ?thesis
    proof (cases "errors_is e SqlNoRows")
      case False
      then show ?thesis using run g G Inl by (auto simp: google_user_def repo grown_def)
    next
      case True
      show ?thesis
      proof (cases m)
        case (Inr u)
        then have "link_and_reload S ''failed to link google identity'' ''failed to reload linked user'' (us_ID u) sub v a w2 = (r, w')"
          using run g m Inl True by (simp add: google_user_def repo)
        from link_users [OF o repo this] G M show ?thesis by (auto simp: grown_def)
      next
        case (Inl e2)
        from google_created_grown [OF o repo run _ True m [unfolded this] nf] g \<open>g = Inl e\<close> G M
        show ?thesis by (auto simp: grown_def)
      qed
    qed
  qed
qed

end

text \<open>Hashing, Google, the clock and the token library leave \<open>f\<close> alone.\<close>

definition auth_quiet ::
  "'w auth_service \<Rightarrow> (string \<Rightarrow> 'w \<Rightarrow> (nat \<times> raw) res \<times> 'w) \<Rightarrow> ('w \<Rightarrow> 'a) \<Rightarrow> bool" where
  "auth_quiet S fetch f \<longleftrightarrow>
     (\<forall>p w r w'. bc_hash (au_bcrypt S) p w = (r, w') \<longrightarrow> f w' = f w)
   \<and> (\<forall>u w r w'. fetch u w = (r, w') \<longrightarrow> f w' = f w)
   \<and> (\<forall>t kf w r w'. jw_parse (au_jwt S) t kf w = (r, w') \<longrightarrow> f w' = f w)
   \<and> runtime_quiet (au_runtime S) f"

lemma auth_quiet_image: "auth_quiet S fetch f \<Longrightarrow> auth_quiet S fetch (\<lambda>w. g (f w))"
  by (simp add: auth_quiet_def runtime_quiet_def)

lemma auth_quietD:
  assumes "auth_quiet S fetch f"
  shows "bc_hash (au_bcrypt S) p w = (r1, w') \<Longrightarrow> f w' = f w" "fetch u w = (r2, w') \<Longrightarrow> f w' = f w"
    "jw_parse (au_jwt S) t kf w = (r3, w') \<Longrightarrow> f w' = f w" "run_now (au_runtime S) w = (n, w') \<Longrightarrow> f w' = f w"
  using assms runtime_quietD(1) [of "au_runtime S" f] unfolding auth_quiet_def by blast+

lemma issue_keeps:
  assumes q: "auth_quiet S fetch f" and run: "issue_tokens S u i w = (r, w')"
  shows "f w' = f w" "r = Inr (v, a, t) \<Longrightarrow> v = u"
proof -
  have a: "GenerateAccessToken (au_jwt S) (au_runtime S) m x n e ro v = (s, v') \<Longrightarrow> f v' = f v" for m x n e ro v s v'
    by (auto simp: GenerateAccessToken_def auth_quietD(4) [OF q] split: prod.splits)
  have r: "GenerateRefreshToken (au_jwt S) (au_runtime S) m x v = (s, v') \<Longrightarrow> f v' = f v" for m x v s v'
    by (auto simp: GenerateRefreshToken_def auth_quietD(4) [OF q] split: prod.splits)
  show "f w' = f w" "r = Inr (v, a, t) \<Longrightarrow> v = u"
    using run by (auto simp: issue_tokens_def a r split: prod.splits sum.splits)
qed

lemma validated_keeps:
  assumes q: "auth_quiet S fetch f" and run: "ValidateRefreshToken (au_jwt S) m t w = (r, w')"
  shows "f w' = f w"
  using run by (auto simp: ValidateRefreshToken_def auth_quietD(3) [OF q] split: prod.splits sum.splits)

lemma google_validated_keeps:
  assumes q: "auth_quiet S fetch f" and run: "validateGoogleIDToken fetch t w = (r, w')"
  shows "f w' = f w"
  using run by (auto simp: validateGoogleIDToken_def auth_quietD(2) [OF q] split: prod.splits sum.splits if_splits)

context user_store begin

lemma grown_after: "grown w v \<Longrightarrow> users u = users w \<Longrightarrow> users v' = users v \<Longrightarrow> grown u v'"
  by (simp add: grown_def)

lemma signup_grown:
  assumes o: ok and S: "au_repo S = repo" and q: "auth_quiet S fetch users"
    and run: "auth_Signup S em pw n ph ro w = (r, w')"
  shows "grown w w'"
proof -
  obtain m w1 where m: "ur_GetByEmail repo (normalize_email em) w = (m, w1)" by fastforce
  obtain h w2 where h: "bc_hash (au_bcrypt S) pw w1 = (h, w2)" by fastforce
  have u1: "users w1 = users w" using by_email [OF o m] by simp
  have u2: "users w2 = users w1" by (rule auth_quietD(1) [OF q h])
  show ?thesis
  proof (cases "(\<exists>e. m = Inl e \<and> errors_is e SqlNoRows) \<and> (\<exists>x. h = Inr x)")
    case False
    then have "w' = w1 \<or> w' = w2"
      using run m h by (cases m; cases h) (auto simp: auth_Signup_def S Let_def split: if_splits)
    then show ?thesis using u1 u2 by (auto simp: grown_def)
  next
    case True
    then obtain x where x: "h = Inr x" by blast
    obtain c w3 where c: "ur_Create repo (new_user (normalize_email em) x n ph (normalizeRole ro)) w2 = (c, w3)" by fastforce
    have g: "grown w2 w3" by (rule created_grown [OF o c normalize_idem normalizeRole_values])
    have "w' = w3 \<or> (\<exists>u. issue_tokens S u (us_ID u) w3 = (r, w'))"
      using run m h x c True by (cases c) (auto simp: auth_Signup_def S Let_def)
    then have "users w' = users w3" using issue_keeps(1) [OF q] by blast
    with grown_after [OF g, of w w'] u1 u2 show ?thesis by simp
  qed
qed

lemma login_users:
  assumes o: ok and S: "au_repo S = repo" and q: "auth_quiet S fetch users"
    and run: "auth_Login S em pw w = (r, w')"
  shows "users w' = users w"
    "r = Inr (u, a, t) \<Longrightarrow> u \<in> set (users w) \<and> us_Email u = normalize_email em
        \<and> bc_compare (au_bcrypt S) (us_PasswordHash u) pw = None
        \<and> (\<exists>w1. issue_tokens S u (us_ID u) w1 = (r, w'))"
proof -
  obtain m w1 where m: "ur_GetByEmail repo (normalize_email em) w = (m, w1)" by fastforce
  note M = by_email [OF o m]
  show "users w' = users w"
    using run m M issue_keeps(1) [OF q] by (auto simp: auth_Login_def S split: sum.splits option.splits)
  assume r: "r = Inr (u, a, t)"
  then obtain v where v: "m = Inr v" "bc_compare (au_bcrypt S) (us_PasswordHash v) pw = None"
    "issue_tokens S v (us_ID v) w1 = (r, w')"
    using run m by (auto simp: auth_Login_def S split: sum.splits option.splits)
  with issue_keeps(2) [OF q v(3) r] M show "u \<in> set (users w) \<and> us_Email u = normalize_email em
        \<and> bc_compare (au_bcrypt S) (us_PasswordHash u) pw = None
        \<and> (\<exists>w1. issue_tokens S u (us_ID u) w1 = (r, w'))" by auto
qed

lemma refresh_users:
  assumes o: ok and S: "au_repo S = repo" and q: "auth_quiet S fetch users"
    and run: "auth_RefreshToken S t w = (r, w')"
  shows "users w' = users w"
proof -
  obtain c w1 where c: "ValidateRefreshToken (au_jwt S) (au_tokenManager S) t w = (c, w1)" by fastforce
  show ?thesis
    using run c validated_keeps [OF q c] by_id [OF o] issue_keeps(1) [OF q]
    by (auto simp: auth_RefreshToken_def S split: sum.splits prod.splits)
qed

lemma google_auth_grown:
  assumes o: ok and S: "au_repo S = repo" and q: "auth_quiet S fetch users"
    and run: "auth_GoogleAuth S fetch t ro w = (r, w')"
  shows "grown w w'"
proof -
  obtain c w1 where c: "validateGoogleIDToken fetch t w = (c, w1)" by fastforce
  have u1: "users w1 = users w" by (rule google_validated_keeps [OF q c])
  show ?thesis
  proof (cases "w' = w \<or> w' = w1")
    case True
    then show ?thesis using u1 by (auto simp: grown_def)
  next
    case False
    then obtain g where g: "c = Inr g" using run c by (auto simp: auth_GoogleAuth_def Let_def split: sum.splits if_splits)
    let ?em = "normalize_email (gc_Email g)"
    obtain x w2 where x: "google_user S ?em (trim_space (gc_Sub g)) (trim_space (gc_Name g)) (trim_space (gc_Picture g))
        (gc_EmailVerified g) (normalizeRole ro) w1 = (x, w2)" by fastforce
    have "w' = w2 \<or> (\<exists>u. issue_tokens S u (us_ID u) w2 = (r, w'))"
      using run c g x False by (auto simp: auth_GoogleAuth_def Let_def split: sum.splits if_splits)
    then have "users w' = users w2" using issue_keeps(1) [OF q] by blast
    with grown_after [OF conjunct1 [OF google_grown [OF o S x normalize_idem normalizeRole_values]], of w w'] u1
    show ?thesis by simp
  qed
qed

end

section \<open>PostgreSQL provides the repository\<close>

text \<open>
  The tables change only by a write; a failing connection reports something else than an empty
  result.
\<close>

definition pg_laws :: "'w postgres \<Rightarrow> bool" where
  "pg_laws P \<longleftrightarrow>
     (\<forall>w r w'. pg_conn P w = (r, w') \<longrightarrow> pg_tables P w' = pg_tables P w \<and> (\<forall>e. r = Some e \<longrightarrow> \<not> errors_is e SqlNoRows))
   \<and> (\<forall>w i w'. pg_uuid P w = (i, w') \<longrightarrow> pg_tables P w' = pg_tables P w)
   \<and> (\<forall>w t w'. pg_time P w = (t, w') \<longrightarrow> pg_tables P w' = pg_tables P w)
   \<and> (\<forall>T w. pg_tables P (pg_write P T w) = T)"

lemma pg_lawsD:
  assumes "pg_laws P"
  shows "pg_conn P w = (r, w') \<Longrightarrow> pg_tables P w' = pg_tables P w" "pg_conn P w = (Some e, w') \<Longrightarrow> \<not> errors_is e SqlNoRows"
    "pg_uuid P w = (i, w') \<Longrightarrow> pg_tables P w' = pg_tables P w" "pg_time P w = (t, w') \<Longrightarrow> pg_tables P w' = pg_tables P w"
    "pg_tables P (pg_write P T w) = T"
  using assms unfolding pg_laws_def by blast+

definition pg_users :: "'w postgres \<Rightarrow> 'w \<Rightarrow> user list" where
  "pg_users P w = map scan_user (lt_users (pg_tables P w))"

lemma pg_users_image: "us_Email ` set (pg_users P w) = uw_email ` set (lt_users (pg_tables P w))"
  "us_ID ` set (pg_users P w) = uw_id ` set (lt_users (pg_tables P w))"
  by (auto simp: pg_users_def scan_user_def image_image)

lemma scan_simps [simp]: "us_ID (scan_user r) = uw_id r" "us_Email (scan_user r) = uw_email r"
  by (simp_all add: scan_user_def)

lemma postgres_Create_done:
  assumes P: "pg_laws P" and run: "postgres_Create P u w = (Inr u', w')"
  shows "us_Email u' = us_Email u \<and> us_Role u' = us_Role u \<and> us_PasswordHash u' = us_PasswordHash u
    \<and> pg_users P w' = pg_users P w @ [u'] \<and> us_Email u \<notin> us_Email ` set (pg_users P w)
    \<and> us_ID u' \<notin> us_ID ` set (pg_users P w)"
    "lt_identities (pg_tables P w') = lt_identities (pg_tables P w)"
proof -
  obtain w1 where w1: "pg_conn P w = (None, w1)"
    using run by (auto simp: postgres_Create_def split: prod.splits option.splits)
  obtain i w2 where w2: "pg_uuid P w1 = (i, w2)" by fastforce
  obtain t w3 where w3: "pg_time P w2 = (t, w3)" by fastforce
  have T: "pg_tables P w3 = pg_tables P w"
    using pg_lawsD(1,3,4) [OF P] w1 w2 w3 by metis
  let ?row = "\<lparr>uw_id = i, uw_email = us_Email u, uw_password_hash = Some (us_PasswordHash u),
     uw_name = us_Name u, uw_phone_number = Some (us_PhoneNumber u), uw_role = Some (us_Role u),
     uw_created_at = t, uw_updated_at = t\<rparr>"
  have r: "u' = u\<lparr>us_ID := i, us_CreatedAt := t, us_UpdatedAt := t\<rparr>"
    "w' = pg_write P ((pg_tables P w)\<lparr>lt_users := lt_users (pg_tables P w) @ [?row]\<rparr>) w3"
    "\<not> list_ex (\<lambda>r. uw_email r = us_Email u \<or> uw_id r = i) (lt_users (pg_tables P w))"
    using run w1 w2 w3 T by (simp_all add: postgres_Create_def Let_def split: if_splits)
  have "scan_user ?row = u'" by (simp add: scan_user_def coalesce_def r(1))
  then show "us_Email u' = us_Email u \<and> us_Role u' = us_Role u \<and> us_PasswordHash u' = us_PasswordHash u
    \<and> pg_users P w' = pg_users P w @ [u'] \<and> us_Email u \<notin> us_Email ` set (pg_users P w)
    \<and> us_ID u' \<notin> us_ID ` set (pg_users P w)"
    using r(3) unfolding pg_users_image by (auto simp: pg_users_def r(1,2) pg_lawsD(5) [OF P] list_ex_iff)
  show "lt_identities (pg_tables P w') = lt_identities (pg_tables P w)"
    by (simp add: r(2) pg_lawsD(5) [OF P])
qed

lemma postgres_Create_failed:
  assumes P: "pg_laws P" and run: "postgres_Create P u w = (Inl e, w')"
  shows "pg_tables P w' = pg_tables P w"
proof -
  obtain c w1 where w1: "pg_conn P w = (c, w1)" by fastforce
  obtain i w2 where w2: "pg_uuid P w1 = (i, w2)" by fastforce
  obtain t w3 where w3: "pg_time P w2 = (t, w3)" by fastforce
  have "w' = w1 \<or> w' = w3" using run w1 w2 w3
    by (cases c) (auto simp: postgres_Create_def Let_def split: if_splits)
  then show ?thesis using pg_lawsD(1) [OF P w1] pg_lawsD(3) [OF P w2] pg_lawsD(4) [OF P w3] by auto
qed

lemma find_none: "find P xs = None \<Longrightarrow> x \<in> set xs \<Longrightarrow> \<not> P x"
  by (induction xs) (auto split: if_splits)

lemma query_user_facts:
  assumes P: "pg_laws P" and run: "query_user P cond w = (r, w')"
  shows "pg_tables P w' = pg_tables P w"
    "r = Inr u \<Longrightarrow> \<exists>row\<in>set (lt_users (pg_tables P w)). u = scan_user row \<and> cond (pg_tables P w) row"
    "r = Inl e \<Longrightarrow> errors_is e SqlNoRows \<Longrightarrow> \<forall>row\<in>set (lt_users (pg_tables P w)). \<not> cond (pg_tables P w) row"
proof -
  obtain c w1 where w1: "pg_conn P w = (c, w1)" by fastforce
  note D = pg_lawsD(1) [OF P w1]
  show "pg_tables P w' = pg_tables P w"
    using run w1 D by (auto simp: query_user_def split: option.splits)
  show "r = Inr u \<Longrightarrow> \<exists>row\<in>set (lt_users (pg_tables P w)). u = scan_user row \<and> cond (pg_tables P w) row"
    using run w1 D by (auto simp: query_user_def split: option.splits dest: find_elem)
  show "r = Inl e \<Longrightarrow> errors_is e SqlNoRows \<Longrightarrow> \<forall>row\<in>set (lt_users (pg_tables P w)). \<not> cond (pg_tables P w) row"
    using run w1 D pg_lawsD(2) [OF P] by (auto simp: query_user_def split: option.splits dest: find_none)
qed

lemma postgres_GetByID_facts:
  assumes P: "pg_laws P" and run: "postgres_GetByID P i w = (r, w')"
  shows "pg_tables P w' = pg_tables P w" "r = Inr u \<Longrightarrow> u \<in> set (pg_users P w) \<and> us_ID u = i"
  using run query_user_facts(1,2) [OF P, of "\<lambda>T r. uw_id r = i"] pg_lawsD(1) [OF P]
  by (auto simp: postgres_GetByID_def pg_users_def split: if_splits prod.splits option.splits) fastforce+

lemma postgres_Link_users:
  assumes P: "pg_laws P" and run: "postgres_LinkGoogleIdentity P i s a v w = (x, w')"
  shows "lt_users (pg_tables P w') = lt_users (pg_tables P w)"
  using run pg_lawsD(1,5) [OF P]
  by (auto simp: postgres_LinkGoogleIdentity_def Let_def split: if_splits prod.splits option.splits)

interpretation pg: user_store "NewPostgresUserRepository P" "pg_users P" "pg_laws P" for P
proof unfold_locales
  fix u u' w w' assume "pg_laws P" "ur_Create (NewPostgresUserRepository P) u w = (Inr u', w')"
  then show "us_Email u' = us_Email u \<and> us_Role u' = us_Role u \<and> us_PasswordHash u' = us_PasswordHash u
    \<and> pg_users P w' = pg_users P w @ [u'] \<and> us_Email u \<notin> us_Email ` set (pg_users P w)
    \<and> us_ID u' \<notin> us_ID ` set (pg_users P w)"
    using postgres_Create_done(1) by (simp add: NewPostgresUserRepository_def)
next
  fix u w e w' assume "pg_laws P" "ur_Create (NewPostgresUserRepository P) u w = (Inl e, w')"
  then show "pg_users P w' = pg_users P w"
    using postgres_Create_failed [of P u w e w'] by (simp add: NewPostgresUserRepository_def pg_users_def)
next
  fix a w r w' assume P: "pg_laws P" and "ur_GetByEmail (NewPostgresUserRepository P) a w = (r, w')"
  then have "query_user P (\<lambda>T r. uw_email r = a) w = (r, w')"
    by (simp add: NewPostgresUserRepository_def postgres_GetByEmail_def)
  note Q = query_user_facts [OF P this]
  show "pg_users P w' = pg_users P w \<and> (\<forall>u. r = Inr u \<longrightarrow> u \<in> set (pg_users P w) \<and> us_Email u = a)
      \<and> (\<forall>e. r = Inl e \<and> errors_is e SqlNoRows \<longrightarrow> a \<notin> us_Email ` set (pg_users P w))"
    unfolding pg_users_image using Q(1) Q(2) Q(3) by (fastforce simp: pg_users_def)
next
  fix i w r w' assume "pg_laws P" "ur_GetByID (NewPostgresUserRepository P) i w = (r, w')"
  then show "pg_users P w' = pg_users P w \<and> (\<forall>u. r = Inr u \<longrightarrow> u \<in> set (pg_users P w) \<and> us_ID u = i)"
    using postgres_GetByID_facts by (fastforce simp: NewPostgresUserRepository_def pg_users_def)
next
  fix s w r w' assume P: "pg_laws P" and "ur_GetByGoogleSub (NewPostgresUserRepository P) s w = (r, w')"
  then have "query_user P (\<lambda>T u. list_ex (\<lambda>ui. iw_user_id ui = uw_id u \<and> google_row s ui) (lt_identities T)) w = (r, w')"
    by (simp add: NewPostgresUserRepository_def postgres_GetByGoogleSub_def)
  note Q = query_user_facts [OF P this]
  show "pg_users P w' = pg_users P w \<and> (\<forall>u. r = Inr u \<longrightarrow> u \<in> set (pg_users P w))"
    using Q(1) Q(2) by (fastforce simp: pg_users_def)
next
  fix i s a v w x w' assume "pg_laws P" "ur_LinkGoogleIdentity (NewPostgresUserRepository P) i s a v w = (x, w')"
  then show "pg_users P w' = pg_users P w"
    using postgres_Link_users by (fastforce simp: NewPostgresUserRepository_def pg_users_def)
qed

section \<open>The service over time\<close>

text \<open>Any sequence of requests, with anything in between that leaves the tables alone.\<close>

inductive auth_step ::
  "'w auth_service \<Rightarrow> (string \<Rightarrow> 'w \<Rightarrow> (nat \<times> raw) res \<times> 'w) \<Rightarrow> 'w postgres \<Rightarrow> 'w \<Rightarrow> 'w \<Rightarrow> bool"
  for S fetch P where
    step_signup: "grpc_Signup S req w = (r, w') \<Longrightarrow> auth_step S fetch P w w'"
  | step_login: "grpc_Login S em pw w = (r, w') \<Longrightarrow> auth_step S fetch P w w'"
  | step_refresh: "grpc_RefreshToken S t w = (r, w') \<Longrightarrow> auth_step S fetch P w w'"
  | step_google: "grpc_GoogleAuth S fetch t ro w = (r, w') \<Longrightarrow> auth_step S fetch P w w'"
  | step_other: "pg_tables P w' = pg_tables P w \<Longrightarrow> auth_step S fetch P w w'"

inductive_cases auth_stepE: "auth_step S fetch P w w'"

definition good_users :: "user list \<Rightarrow> bool" where
  "good_users us \<longleftrightarrow> distinct (map us_Email us) \<and> distinct (map us_ID us)
     \<and> (\<forall>u\<in>set us. normalize_email (us_Email u) = us_Email u \<and> us_Role u \<in> {''rider'', ''driver''})"

lemma auth_step_grown:
  assumes P: "pg_laws P" and q: "auth_quiet S fetch (pg_tables P)" and S: "au_repo S = NewPostgresUserRepository P"
    and step: "auth_step S fetch P w w'"
  shows "pg.grown P w w'"
proof -
  have qu: "auth_quiet S fetch (pg_users P)"
    unfolding pg_users_def using auth_quiet_image [OF q, of "\<lambda>T. map scan_user (lt_users T)"] by simp
  have same: "pg_users P v = pg_users P w \<Longrightarrow> pg.grown P w v" for v by (simp add: pg.grown_def)
  from step show ?thesis
  proof (cases rule: auth_step.cases)
    case (step_signup req r)
    then show ?thesis using pg.signup_grown [OF P S qu] same
      by (auto simp: grpc_Signup_def split: if_splits prod.splits)
  next
    case (step_login em pw r)
    then show ?thesis using pg.login_users(1) [OF P S qu] same
      by (auto simp: grpc_Login_def split: if_splits prod.splits)
  next
    case (step_refresh t r)
    then show ?thesis using pg.refresh_users [OF P S qu] same
      by (auto simp: grpc_RefreshToken_def split: if_splits prod.splits)
  next
    case (step_google t ro r)
    then show ?thesis using pg.google_auth_grown [OF P S qu] same
      by (auto simp: grpc_GoogleAuth_def split: if_splits prod.splits)
  next
    case step_other
    then show ?thesis using same by (simp add: pg_users_def)
  qed
qed

lemma good_users_grown: "good_users (pg_users P w) \<Longrightarrow> pg.grown P w w' \<Longrightarrow> good_users (pg_users P w')"
  by (auto simp: pg.grown_def good_users_def)

section \<open>Properties\<close>

text \<open>
  C28: Whatever requests the service has served, starting from tables in good order, every stored
  user has a normalised address that no other user has, an identifier of its own, and the role rider
  or driver.
\<close>

theorem users_stay_good:
  assumes "pg_laws P" "auth_quiet S fetch (pg_tables P)" "au_repo S = NewPostgresUserRepository P"
    and "(auth_step S fetch P)\<^sup>*\<^sup>* w w'" "good_users (pg_users P w)"
  shows "good_users (pg_users P w')"
  using assms(4)
proof (induction rule: rtranclp_induct)
  case (step y z)
  show ?case by (rule good_users_grown [OF step(3) auth_step_grown [OF assms(1-3) step(2)]])
qed (rule assms(5))

record login_sim = sim +
  ls_tables :: login_tables

definition sim_postgres :: "login_sim postgres" where
  "sim_postgres = \<lparr>pg_conn = (\<lambda>s. (if_up s, s)), pg_tables = ls_tables, pg_write = (\<lambda>T s. s\<lparr>ls_tables := T\<rparr>),
     pg_uuid = (\<lambda>s. (''u0'', s)), pg_time = (\<lambda>s. (si_clock s, s)),
     pg_is_uuid = (\<lambda>i. True)\<rparr>"

definition sim_bcrypt :: "'w bcrypt" where
  "sim_bcrypt = \<lparr>bc_hash = (\<lambda>p w. (Inr (''h:'' @ p), w)),
     bc_compare = (\<lambda>h p. if h = ''h:'' @ p then None else Some (ErrMsg ''hashedPassword is not the hash of the given password''))\<rparr>"

definition sim_auth :: "login_sim auth_service" where
  "sim_auth = \<lparr>au_repo = NewPostgresUserRepository sim_postgres, au_tokenManager = demo_manager,
     au_jwt = (sim_jwt [])\<lparr>jw_sign := \<lambda>k j. Inr ''token''\<rparr>, au_bcrypt = sim_bcrypt, au_runtime = sim_runtime\<rparr>"

definition login_world :: login_sim where
  "login_world = sim.extend sim0 \<lparr>ls_tables = \<lparr>lt_users = [], lt_identities = []\<rparr>\<rparr>"

definition no_google :: "string \<Rightarrow> 'w \<Rightarrow> (nat \<times> raw) res \<times> 'w" where
  "no_google url w = (Inl (ErrMsg ''no such host''), w)"

lemma sim_postgres_laws: "pg_laws sim_postgres"
  by (auto simp: pg_laws_def sim_postgres_def if_up_def down_def)

lemma sim_auth_quiet: "auth_quiet sim_auth no_google (pg_tables sim_postgres)"
  by (auto simp: auth_quiet_def sim_auth_def sim_postgres_def sim_bcrypt_def no_google_def sim_jwt_def runtime_quiet_def
      sim_runtime_def split: option.splits)

lemma sim_auth_repo: "au_repo sim_auth = NewPostgresUserRepository sim_postgres"
  by (simp add: sim_auth_def)

lemma login_world_users: "pg_users sim_postgres login_world = []"
  by (simp add: pg_users_def sim_postgres_def login_world_def sim.extend_def)

definition ann :: user where
  "ann = \<lparr>us_ID = ''u0'', us_Email = ''ann@x.org'', us_PasswordHash = ''h:password1'', us_Name = ''Ann'',
     us_PhoneNumber = ''1'', us_Role = ''driver'', us_CreatedAt = 0, us_UpdatedAt = 0\<rparr>"

lemma ann_normal: "normalize_email '' Ann@X.org '' = ''ann@x.org''" "normalize_email ''ann@x.org'' = ''ann@x.org''"
  "normalizeRole ''Driver'' = ''driver''"
  by (simp_all add: normalize_email_def normalizeRole_def trim_space_def to_lower_def is_space_def)

lemma sim_issue: "issue_tokens sim_auth u i w = (Inr (u, ''token'', ''token''), w\<lparr>si_clock := si_clock w + 4\<rparr>)"
  by (simp add: issue_tokens_def GenerateAccessToken_signs GenerateRefreshToken_signs sim_auth_def sim_runtime_def)

lemma ann_get: "ur_GetByEmail (au_repo sim_auth) ''ann@x.org'' login_world = (Inl SqlNoRows, login_world)"
  by (simp add: sim_auth_repo NewPostgresUserRepository_def postgres_GetByEmail_def query_user_def sim_postgres_def
      login_world_def sim.extend_def if_up_def sim0_def)

lemma ann_hash: "bc_hash (au_bcrypt sim_auth) ''password1'' w = (Inr ''h:password1'', w)"
  by (simp add: sim_auth_def sim_bcrypt_def)

lemma login_world_pg:
  "pg_conn sim_postgres login_world = (None, login_world)" "pg_time sim_postgres login_world = (0, login_world)"
  "pg_tables sim_postgres login_world = \<lparr>lt_users = [], lt_identities = []\<rparr>"
  "pg_write sim_postgres T s = s\<lparr>ls_tables := T\<rparr>"
  by (simp_all add: sim_postgres_def login_world_def sim.extend_def if_up_def sim0_def)

definition ann_row :: user_row where
  "ann_row = \<lparr>uw_id = ''u0'', uw_email = ''ann@x.org'', uw_password_hash = Some ''h:password1'', uw_name = ''Ann'',
     uw_phone_number = Some ''1'', uw_role = Some ''driver'', uw_created_at = 0, uw_updated_at = 0\<rparr>"

lemma ann_create:
  "ur_Create (au_repo sim_auth) (new_user ''ann@x.org'' ''h:password1'' ''Ann'' ''1'' ''driver'') login_world
     = (Inr ann, login_world\<lparr>ls_tables := \<lparr>lt_users = [ann_row], lt_identities = []\<rparr>\<rparr>)"
proof -
  have "pg_uuid sim_postgres login_world = (''u0'', login_world)" by (simp add: sim_postgres_def)
  then show ?thesis
    unfolding sim_auth_repo
    by (simp add: NewPostgresUserRepository_def postgres_Create_def login_world_pg new_user_def ann_def ann_row_def)
qed

lemma ann_signup:
  "\<exists>w1. auth_Signup sim_auth '' Ann@X.org '' ''password1'' ''Ann'' ''1'' ''Driver'' login_world
     = (Inr (ann, ''token'', ''token''), w1) \<and> pg_users sim_postgres w1 = [ann]"
proof -
  have "auth_Signup sim_auth '' Ann@X.org '' ''password1'' ''Ann'' ''1'' ''Driver'' login_world
     = issue_tokens sim_auth ann (us_ID ann) (login_world\<lparr>ls_tables := \<lparr>lt_users = [ann_row], lt_identities = []\<rparr>\<rparr>)"
    by (simp add: auth_Signup_def ann_normal ann_get ann_hash ann_create)
  moreover have "scan_user ann_row = ann" by (simp add: scan_user_def ann_row_def ann_def coalesce_def)
  ultimately show ?thesis by (simp add: sim_issue pg_users_def sim_postgres_def)
qed

theorem users_stay_good_witness:
  "\<exists>w'. (auth_step sim_auth no_google sim_postgres)\<^sup>*\<^sup>* login_world w' \<and> pg_users sim_postgres w' = [ann]
     \<and> good_users (pg_users sim_postgres w')"
proof -
  obtain w1 where s: "auth_Signup sim_auth '' Ann@X.org '' ''password1'' ''Ann'' ''1'' ''Driver'' login_world
      = (Inr (ann, ''token'', ''token''), w1)" and u: "pg_users sim_postgres w1 = [ann]" using ann_signup by blast
  let ?req = "\<lparr>sr_Email = '' Ann@X.org '', sr_Password = ''password1'', sr_Name = ''Ann'', sr_PhoneNumber = ''1'',
     sr_Role = ''Driver''\<rparr>"
  have "\<exists>r. grpc_Signup sim_auth ?req login_world = (r, w1)" by (simp add: grpc_Signup_def s)
  then have "auth_step sim_auth no_google sim_postgres login_world w1" by (blast intro: step_signup)
  then have r: "(auth_step sim_auth no_google sim_postgres)\<^sup>*\<^sup>* login_world w1" by blast
  have "good_users (pg_users sim_postgres login_world)" by (simp add: login_world_users good_users_def)
  from users_stay_good [OF sim_postgres_laws sim_auth_quiet sim_auth_repo r this] r u show ?thesis by blast
qed

text \<open>A signup puts its user at the end of the table; a user at the end is found by the address.\<close>

lemma signup_done:
  assumes "pg_laws P" "auth_quiet S fetch (pg_tables P)" "au_repo S = NewPostgresUserRepository P"
    and "auth_Signup S em pw n ph ro w = (Inr (u, a, t), w1)"
  obtains us v v1 where "pg_users P w1 = us @ [u]" "us_Email u = normalize_email em" "us_Email u \<notin> us_Email ` set us"
    "bc_hash (au_bcrypt S) pw v = (Inr (us_PasswordHash u), v1)"
proof -
  let ?e = "normalize_email em"
  have qu: "auth_quiet S fetch (pg_users P)"
    unfolding pg_users_def using auth_quiet_image [OF assms(2), of "\<lambda>T. map scan_user (lt_users T)"] by simp
  obtain x v where x: "ur_GetByEmail (au_repo S) ?e w = (Inl x, v)" "errors_is x SqlNoRows"
    using assms(4) by (auto simp: auth_Signup_def Let_def split: sum.splits prod.splits if_splits)
  obtain h v1 where h: "bc_hash (au_bcrypt S) pw v = (Inr h, v1)"
    using assms(4) x by (auto simp: auth_Signup_def Let_def split: sum.splits prod.splits)
  obtain u0 v2 where c: "ur_Create (au_repo S) (new_user ?e h n ph (normalizeRole ro)) v1 = (Inr u0, v2)"
    and i: "issue_tokens S u0 (us_ID u0) v2 = (Inr (u, a, t), w1)"
    using assms(4) x h by (auto simp: auth_Signup_def Let_def split: sum.splits prod.splits)
  have "u0 = u" using issue_keeps(2) [OF qu i] by simp
  with pg.created [OF assms(1) c [unfolded assms(3)]]
  have u: "us_Email u = ?e" "us_PasswordHash u = h" "pg_users P v2 = pg_users P v1 @ [u]"
    "?e \<notin> us_Email ` set (pg_users P v1)" by (simp_all add: new_user_def)
  have "pg_users P w1 = pg_users P v1 @ [u]" using issue_keeps(1) [OF qu i] u(3) by simp
  from that [OF this u(1) _ h [folded u(2)]] u(1,4) show thesis by simp
qed

lemma GetByEmail_last:
  assumes "pg_laws P" "pg_users P w = us @ [u]" "us_Email u \<notin> us_Email ` set us" "pg_conn P w = (g, v)"
  shows "ur_GetByEmail (NewPostgresUserRepository P) (us_Email u) w = (case g of None \<Rightarrow> (Inr u, v) | Some e \<Rightarrow> (Inl e, v))"
proof -
  have T: "pg_tables P v = pg_tables P w" by (rule pg_lawsD(1) [OF assms(1,4)])
  obtain rows row where rows: "lt_users (pg_tables P w) = rows @ [row]" "scan_user row = u" "map scan_user rows = us"
    using assms(2) by (auto simp: pg_users_def map_eq_append_conv)
  have "uw_email r \<noteq> us_Email u" if "r \<in> set rows" for r
    using assms(3) that rows(3) by (metis image_eqI list.set_map scan_simps(2))
  moreover have "uw_email row = us_Email u" using rows(2) by auto
  ultimately have "find (\<lambda>r. uw_email r = us_Email u) (rows @ [row]) = Some row"
    by (induction rows) auto
  with assms(4) rows(1,2) T show ?thesis
    by (auto simp: NewPostgresUserRepository_def postgres_GetByEmail_def query_user_def split: option.splits)
qed

text \<open>
  C29: Who has signed up can log in: with any spelling of the address that normalises to the same,
  and the same password, while the tables are as the signup left them, the login finds that user
  and, when the database and the token library answer, issues tokens for it; the answer is never
  that the credentials are wrong. A second signup with the address is refused.
\<close>

theorem signup_then_login:
  assumes "pg_laws P" "auth_quiet S fetch (pg_tables P)" "au_repo S = NewPostgresUserRepository P"
    and "\<forall>w h w'. bc_hash (au_bcrypt S) pw w = (Inr h, w') \<longrightarrow> bc_compare (au_bcrypt S) h pw = None"
    and "good_users (pg_users P w)" "auth_Signup S em pw n ph ro w = (Inr (u, a, t), w1)"
    and "pg_tables P w2 = pg_tables P w1" "normalize_email em' = normalize_email em"
  shows "fst (auth_Login S em' pw w2) \<noteq> Inl ErrInvalidCredentials
       \<and> (\<forall>u' a' t'. fst (auth_Login S em' pw w2) = Inr (u', a', t') \<longrightarrow> u' = u)
       \<and> (fst (pg_conn P w2) = None \<and> (\<forall>j. \<exists>x. jw_sign (au_jwt S) (secretKey (au_tokenManager S)) j = Inr x)
            \<longrightarrow> (\<exists>a' t'. fst (auth_Login S em' pw w2) = Inr (u, a', t')))
       \<and> (fst (pg_conn P w2) = None \<longrightarrow> fst (auth_Signup S em' pw' n' ph' ro' w2) = Inl ErrEmailAlreadyExists)"
proof -
  obtain us v v1 where u: "pg_users P w1 = us @ [u]" "us_Email u = normalize_email em" "us_Email u \<notin> us_Email ` set us"
    "bc_hash (au_bcrypt S) pw v = (Inr (us_PasswordHash u), v1)"
    by (rule signup_done [OF assms(1-3,6)])
  have users: "pg_users P w2 = us @ [u]" using assms(7) u(1) by (simp add: pg_users_def)
  obtain g v3 where g: "pg_conn P w2 = (g, v3)" by fastforce
  have get: "ur_GetByEmail (au_repo S) (normalize_email em) w2 = (case g of None \<Rightarrow> (Inr u, v3) | Some e \<Rightarrow> (Inl e, v3))"
    using GetByEmail_last [OF assms(1) users u(3) g] by (simp add: assms(3) u(2))
  have cmp: "bc_compare (au_bcrypt S) (us_PasswordHash u) pw = None" using assms(4) u(4) by blast
  have signs: "(\<forall>j. \<exists>x. jw_sign (au_jwt S) (secretKey (au_tokenManager S)) j = Inr x) \<Longrightarrow>
      \<exists>a' t'. fst (issue_tokens S u i v) = Inr (u, a', t')" for i v
    by (simp add: issue_tokens_def GenerateAccessToken_signs GenerateRefreshToken_signs split: prod.splits sum.splits)
       (metis Inl_Inr_False)
  have no_cred: "fst (issue_tokens S u i v) \<noteq> Inl ErrInvalidCredentials" for i v
    by (auto simp: issue_tokens_def split: prod.splits sum.splits)
  have same: "fst (issue_tokens S u i v) = Inr (u', a', t') \<Longrightarrow> u' = u" for i v u' a' t'
    using issue_keeps(2) [OF assms(2)] by (metis prod.collapse)
  show ?thesis
  proof (cases g)
    case None
    then have "auth_Login S em' pw w2 = issue_tokens S u (us_ID u) v3"
      using get cmp by (simp add: auth_Login_def assms(8))
    moreover have "fst (auth_Signup S em' pw' n' ph' ro' w2) = Inl ErrEmailAlreadyExists"
      using get None by (simp add: auth_Signup_def assms(8))
    ultimately show ?thesis using no_cred same signs by metis
  next
    case (Some e)
    then have "\<not> errors_is e SqlNoRows" using pg_lawsD(2) [OF assms(1)] g by blast
    then show ?thesis using get Some g by (simp add: auth_Login_def assms(8))
  qed
qed

theorem signup_then_login_witness:
  "\<exists>w1 a t. fst (auth_Login sim_auth ''ann@x.org'' ''password1'' w1) = Inr (ann, a, t)
     \<and> fst (auth_Signup sim_auth ''ann@x.org'' ''password2'' ''Eve'' '''' '''' w1) = Inl ErrEmailAlreadyExists"
proof -
  obtain w1 where s: "auth_Signup sim_auth '' Ann@X.org '' ''password1'' ''Ann'' ''1'' ''Driver'' login_world
      = (Inr (ann, ''token'', ''token''), w1)" and u: "pg_users sim_postgres w1 = [ann]" using ann_signup by blast
  let ?w = "w1\<lparr>si_up := True\<rparr>"
  have h: "\<forall>w h w'. bc_hash (au_bcrypt sim_auth) ''password1'' w = (Inr h, w')
      \<longrightarrow> bc_compare (au_bcrypt sim_auth) h ''password1'' = None"
    by (simp add: sim_auth_def sim_bcrypt_def)
  have g: "good_users (pg_users sim_postgres login_world)" by (simp add: login_world_users good_users_def)
  have t: "pg_tables sim_postgres ?w = pg_tables sim_postgres w1" by (simp add: sim_postgres_def)
  have n: "normalize_email ''ann@x.org'' = normalize_email '' Ann@X.org ''" by (simp only: ann_normal)
  have c: "fst (pg_conn sim_postgres ?w) = None" by (simp add: sim_postgres_def if_up_def)
  have j: "\<forall>j. \<exists>x. jw_sign (au_jwt sim_auth) (secretKey (au_tokenManager sim_auth)) j = Inr x" by (simp add: sim_auth_def)
  from signup_then_login [OF sim_postgres_laws sim_auth_quiet sim_auth_repo h g s t n] c j
  obtain a' t' where l: "fst (auth_Login sim_auth ''ann@x.org'' ''password1'' ?w) = Inr (ann, a', t')"
    and d: "fst (auth_Signup sim_auth ''ann@x.org'' ''password2'' ''Eve'' '''' '''' ?w) = Inl ErrEmailAlreadyExists" by blast
  from l d show ?thesis by blast
qed

end
