(* ===== verification/Migrations.thy ===== *)
theory Migrations
  imports External "HOL-Library.List_Lexorder" "HOL-Library.Char_ord"
begin

text \<open>
  \<open>services/login-service/pkg/migrate/migrate.go\<close>: the files of a directory that end in
  \<open>.up.sql\<close>, in the order of their names, each applied once in a transaction that also records
  it. The database and the directory are parameters.
\<close>

record 'w migration_db =
  md_create_table :: "'w \<Rightarrow> goerror option \<times> 'w"
  md_read_dir :: "string \<Rightarrow> 'w \<Rightarrow> string list res \<times> 'w"
  md_read_file :: "string \<Rightarrow> 'w \<Rightarrow> string res \<times> 'w"
  md_applied :: "string \<Rightarrow> 'w \<Rightarrow> bool res \<times> 'w"
  md_begin :: "'w \<Rightarrow> goerror option \<times> 'w"
  md_exec :: "string \<Rightarrow> 'w \<Rightarrow> goerror option \<times> 'w"
  md_insert :: "string \<Rightarrow> 'w \<Rightarrow> goerror option \<times> 'w"
  md_rollback :: "'w \<Rightarrow> 'w"
  md_commit :: "'w \<Rightarrow> goerror option \<times> 'w"

definition up_suffix :: string where "up_suffix = ''.up.sql''"

definition has_suffix :: "string \<Rightarrow> string \<Rightarrow> bool" where
  "has_suffix s p = has_prefix (rev s) (rev p)"

definition trim_suffix :: "string \<Rightarrow> string \<Rightarrow> string" where
  "trim_suffix s p = (if has_suffix s p then take (length s - length p) s else s)"

definition upMigrations :: "string list \<Rightarrow> string list" where
  "upMigrations files = sort (filter (\<lambda>f. has_suffix f up_suffix) files)"

text \<open>
  One migration: \<open>filepath.Join\<close> of the directory and a name is taken to be the path with a
  slash. An error ends the run.
\<close>

definition apply_migration :: "'w migration_db \<Rightarrow> string \<Rightarrow> string \<Rightarrow> 'w \<Rightarrow> goerror option \<times> 'w" where
  "apply_migration D dir migration w =
     (let version = trim_suffix migration up_suffix
      in case md_applied D version w of
           (Inl e, w1) \<Rightarrow> (Some (errorf_w (''failed to check migration '' @ version) e), w1)
         | (Inr True, w1) \<Rightarrow> (None, w1)
         | (Inr False, w1) \<Rightarrow>
             (case md_read_file D (dir @ ''/'' @ migration) w1 of
                (Inl e, w2) \<Rightarrow> (Some (errorf_w (''failed to read migration file '' @ migration) e), w2)
              | (Inr content, w2) \<Rightarrow>
                  (case md_begin D w2 of
                     (Some e, w3) \<Rightarrow> (Some (errorf_w (''failed to begin transaction for '' @ version) e), w3)
                   | (None, w3) \<Rightarrow>
                       (case md_exec D content w3 of
                          (Some e, w4) \<Rightarrow> (Some (errorf_w (''failed to execute migration '' @ version) e), md_rollback D w4)
                        | (None, w4) \<Rightarrow>
                            (case md_insert D version w4 of
                               (Some e, w5) \<Rightarrow> (Some (errorf_w (''failed to record migration '' @ version) e), md_rollback D w5)
                             | (None, w5) \<Rightarrow>
                                 (case md_commit D w5 of
                                    (Some e, w6) \<Rightarrow> (Some (errorf_w (''failed to commit migration '' @ version) e), w6)
                                  | (None, w6) \<Rightarrow> (None, w6)))))))"

fun apply_migrations :: "'w migration_db \<Rightarrow> string \<Rightarrow> string list \<Rightarrow> 'w \<Rightarrow> goerror option \<times> 'w" where
  "apply_migrations D dir [] w = (None, w)"
| "apply_migrations D dir (m # ms) w =
     (case apply_migration D dir m w of
        (Some e, w1) \<Rightarrow> (Some e, w1)
      | (None, w1) \<Rightarrow> apply_migrations D dir ms w1)"

definition RunMigrations :: "'w migration_db \<Rightarrow> string \<Rightarrow> 'w \<Rightarrow> goerror option \<times> 'w" where
  "RunMigrations D migrationsDir w =
     (case md_create_table D w of
        (Some e, w1) \<Rightarrow> (Some (errorf_w ''failed to create migrations table'' e), w1)
      | (None, w1) \<Rightarrow>
          (case md_read_dir D migrationsDir w1 of
             (Inl e, w2) \<Rightarrow> (Some (errorf_w ''failed to read migrations directory'' e), w2)
           | (Inr files, w2) \<Rightarrow> apply_migrations D migrationsDir (upMigrations files) w2))"

text \<open>The files of the repository, in the order in which they are applied.\<close>

lemma migration_order:
  "upMigrations [''003_refactor_identity_and_add_role.up.sql'', ''001_create_users_table.down.sql'',
      ''002_add_google_auth_columns.up.sql'', ''001_create_users_table.up.sql'']
   = [''001_create_users_table.up.sql'', ''002_add_google_auth_columns.up.sql'',
      ''003_refactor_identity_and_add_role.up.sql'']"
  by code_simp

text \<open>
  The history of the versions recorded in \<open>schema_migrations\<close>: an insert of a version happens in a
  transaction, which counts when it is committed; a version is applied when it is in the history.
\<close>

definition migration_laws :: "'w migration_db \<Rightarrow> ('w \<Rightarrow> string list) \<Rightarrow> ('w \<Rightarrow> string list) \<Rightarrow> bool" where
  "migration_laws D hist pend \<longleftrightarrow>
     (\<forall>w r w'. md_create_table D w = (r, w') \<longrightarrow> hist w' = hist w)
   \<and> (\<forall>d w r w'. md_read_dir D d w = (r, w') \<longrightarrow> hist w' = hist w)
   \<and> (\<forall>p w r w'. md_read_file D p w = (r, w') \<longrightarrow> hist w' = hist w)
   \<and> (\<forall>v w r w'. md_applied D v w = (r, w') \<longrightarrow> hist w' = hist w \<and> (\<forall>b. r = Inr b \<longrightarrow> b = (v \<in> set (hist w))))
   \<and> (\<forall>w r w'. md_begin D w = (r, w') \<longrightarrow> hist w' = hist w \<and> (r = None \<longrightarrow> pend w' = []))
   \<and> (\<forall>c w r w'. md_exec D c w = (r, w') \<longrightarrow> hist w' = hist w \<and> pend w' = pend w)
   \<and> (\<forall>v w r w'. md_insert D v w = (r, w') \<longrightarrow> hist w' = hist w \<and> (r = None \<longrightarrow> pend w' = pend w @ [v]))
   \<and> (\<forall>w. hist (md_rollback D w) = hist w)
   \<and> (\<forall>w r w'. md_commit D w = (r, w') \<longrightarrow> hist w' = (if r = None then hist w @ pend w else hist w))"

lemma migration_lawsD:
  assumes "migration_laws D hist pend"
  shows "md_create_table D w = (r1, w') \<Longrightarrow> hist w' = hist w" "md_read_dir D d w = (r2, w') \<Longrightarrow> hist w' = hist w"
    "md_read_file D p w = (r3, w') \<Longrightarrow> hist w' = hist w"
    "md_applied D v w = (r4, w') \<Longrightarrow> hist w' = hist w" "md_applied D v w = (Inr b, w') \<Longrightarrow> b = (v \<in> set (hist w))"
    "md_begin D w = (r1, w') \<Longrightarrow> hist w' = hist w" "md_begin D w = (None, w') \<Longrightarrow> pend w' = []"
    "md_exec D c w = (r1, w') \<Longrightarrow> hist w' = hist w \<and> pend w' = pend w"
    "md_insert D v w = (r1, w') \<Longrightarrow> hist w' = hist w" "md_insert D v w = (None, w') \<Longrightarrow> pend w' = pend w @ [v]"
    "hist (md_rollback D w) = hist w" "md_commit D w = (r1, w') \<Longrightarrow> hist w' = (if r1 = None then hist w @ pend w else hist w)"
  using assms unfolding migration_laws_def by simp_all

lemma apply_migration_hist:
  assumes L: "migration_laws D hist pend" and run: "apply_migration D dir m w = (r, w')"
  shows "hist w' = (if r = None \<and> trim_suffix m up_suffix \<notin> set (hist w) then hist w @ [trim_suffix m up_suffix] else hist w)"
proof -
  note D = migration_lawsD [OF L]
  let ?v = "trim_suffix m up_suffix"
  obtain a w1 where a: "md_applied D ?v w = (a, w1)" by fastforce
  have h1: "hist w1 = hist w" by (rule D(4) [OF a])
  show ?thesis
  proof (cases "a = Inr False")
    case False
    then have "w' = w1 \<and> (r = None \<longrightarrow> a = Inr True)"
      using run a by (auto simp: apply_migration_def Let_def split: sum.splits bool.splits)
    then show ?thesis using h1 D(5) a by auto
  next
    case True
    then have new: "?v \<notin> set (hist w)" using D(5) a by auto
    obtain c w2 where c: "md_read_file D (dir @ ''/'' @ m) w1 = (c, w2)" by fastforce
    have h2: "hist w2 = hist w" using D(3) [OF c] h1 by simp
    obtain b w3 where b: "md_begin D w2 = (b, w3)" by fastforce
    have h3: "hist w3 = hist w" using D(6) [OF b] h2 by simp
    show ?thesis
    proof (cases "(\<exists>t. c = Inr t) \<and> b = None")
      case False
      then have "r \<noteq> None \<and> (w' = w2 \<or> w' = w3)"
        using run a True c b by (cases c; cases b) (auto simp: apply_migration_def Let_def)
      then show ?thesis using h2 h3 by auto
    next
      case True
      then obtain t where t: "c = Inr t" "b = None" by blast
      obtain e w4 where e: "md_exec D t w3 = (e, w4)" by fastforce
      have h4: "hist w4 = hist w" "pend w4 = []" using D(8) [OF e] D(7) b t(2) h3 by auto
      obtain i w5 where i: "md_insert D ?v w4 = (i, w5)" by fastforce
      have h5: "hist w5 = hist w" using D(9) [OF i] h4 by simp
      obtain k w6 where k: "md_commit D w5 = (k, w6)" by fastforce
      have h6: "hist w6 = (if k = None then hist w5 @ pend w5 else hist w5)" by (rule D(12) [OF k])
      show ?thesis
        using run a \<open>a = Inr False\<close> c b t e i k h4 h5 h6 new D(10) D(11)
        by (cases e; cases i; cases k) (auto simp: apply_migration_def Let_def)
    qed
  qed
qed

text \<open>
  A run that succeeds has every version of the directory in the history, the new ones appended in
  the order of the names and once each; a second run adds nothing.
\<close>

lemma apply_migrations_hist:
  assumes L: "migration_laws D hist pend"
  shows "apply_migrations D dir ms w = (None, w') \<Longrightarrow> distinct (hist w) \<Longrightarrow>
     \<exists>new. hist w' = hist w @ new \<and> distinct (hist w')
         \<and> set new = set (map (\<lambda>m. trim_suffix m up_suffix) ms) - set (hist w)"
proof (induction ms arbitrary: w)
  case (Cons m ms)
  obtain r w1 where a: "apply_migration D dir m w = (r, w1)" by fastforce
  with Cons.prems have r: "r = None" and rest: "apply_migrations D dir ms w1 = (None, w')"
    by (auto split: option.splits)
  let ?v = "trim_suffix m up_suffix"
  have h1: "hist w1 = (if ?v \<notin> set (hist w) then hist w @ [?v] else hist w)"
    using apply_migration_hist [OF L a] r by simp
  then have "distinct (hist w1)" using Cons.prems(2) by simp
  from Cons.IH [OF rest this] obtain new where n: "hist w' = hist w1 @ new" "distinct (hist w')"
    "set new = set (map (\<lambda>m. trim_suffix m up_suffix) ms) - set (hist w1)" by blast
  show ?case
  proof (cases "?v \<in> set (hist w)")
    case True
    then show ?thesis using n h1 by auto
  next
    case False
    then have "hist w' = hist w @ (?v # new)" "set (?v # new) = set (map (\<lambda>m. trim_suffix m up_suffix) (m # ms)) - set (hist w)"
      using n h1 by auto
    then show ?thesis using n(2) by blast
  qed
qed simp

end
