(* ===== verification/DriverService.thy ===== *)
theory DriverService
  imports WsGateway_Facts
begin

text \<open>
  The driver service (\<open>services/driver-service\<close>): the index of the drivers' positions in Redis, the
  search for a driver, the pairs of rider and driver of a trip, the three consumers and the gRPC
  handlers. Its keys are built by functions of its own, which have to agree with those of the
  gateways (\<open>rcm.go\<close>); their names start with \<open>ds_\<close>.
\<close>

section \<open>The service\<close>

definition driverGeoKeyPrefix :: string where "driverGeoKeyPrefix = ''drivers:geo:''"
definition searchRadiusKM :: float64 where "searchRadiusKM = F64 15"
definition searchCount :: nat where "searchCount = 10"
definition activeDriverTTL :: duration where "activeDriverTTL = hours 2"
definition activeRiderTTL :: duration where "activeRiderTTL = hours 2"

definition UpdateDriverLocation ::
  "'w redis \<Rightarrow> string \<Rightarrow> string \<Rightarrow> float64 \<Rightarrow> float64 \<Rightarrow> 'w \<Rightarrow> goerror option \<times> 'w" where
  "UpdateDriverLocation R driverId packageSlug lat lng w =
     rd_geo_add R (driverGeoKeyPrefix @ packageSlug) driverId lng lat w"

definition RemoveDriverFromGeo :: "'w redis \<Rightarrow> string \<Rightarrow> string \<Rightarrow> 'w \<Rightarrow> 'w" where
  "RemoveDriverFromGeo R driverId packageSlug w =
     snd (rd_zrem R (driverGeoKeyPrefix @ packageSlug) driverId w)"

text \<open>The loop over the candidates; one whose subscribers cannot be counted is skipped.\<close>

fun online_drivers :: "'w redis \<Rightarrow> string list \<Rightarrow> 'w \<Rightarrow> string list \<times> 'w" where
  "online_drivers R [] w = ([], w)"
| "online_drivers R (d # ds) w =
     (case rd_num_sub R (''user:'' @ d @ '':events'') w of
        (Inl e, w1) \<Rightarrow> online_drivers R ds w1
      | (Inr numSub, w1) \<Rightarrow>
          (case online_drivers R ds w1 of
             (ids, w2) \<Rightarrow>
               (if (case numSub (''user:'' @ d @ '':events'') of None \<Rightarrow> False | Some count \<Rightarrow> count > 0)
                then d # ids else ids, w2)))"

definition FindAvailableDrivers :: "'w redis \<Rightarrow> string \<Rightarrow> float64 \<Rightarrow> float64 \<Rightarrow> 'w \<Rightarrow> string list \<times> 'w" where
  "FindAvailableDrivers R packageType pickupLat pickupLng w =
     (case rd_geo_search R (driverGeoKeyPrefix @ packageType) pickupLng pickupLat searchRadiusKM searchCount w of
        (Inl e, w1) \<Rightarrow> ([], w1)
      | (Inr results, w1) \<Rightarrow> if length results = 0 then ([], w1) else online_drivers R results w1)"

definition ds_activeRiderKey :: "string \<Rightarrow> string" where
  "ds_activeRiderKey driverID = ''driver:'' @ driverID @ '':active_rider''"
definition ds_activeDriverKey :: "string \<Rightarrow> string" where
  "ds_activeDriverKey riderID = ''rider:'' @ riderID @ '':active_driver''"
definition ds_tripChatRiderKey :: "string \<Rightarrow> string" where
  "ds_tripChatRiderKey tripID = ''trip:'' @ tripID @ '':chat:rider''"
definition ds_tripChatDriverKey :: "string \<Rightarrow> string" where
  "ds_tripChatDriverKey tripID = ''trip:'' @ tripID @ '':chat:driver''"

lemma ds_keys_agree [key_simps]:
  "ds_activeRiderKey = activeRiderKey" "ds_activeDriverKey = activeDriverKey"
  "ds_tripChatRiderKey = tripChatRiderKey" "ds_tripChatDriverKey = tripChatDriverKey"
  by (auto simp: fun_eq_iff chat_key_defs ds_activeRiderKey_def ds_activeDriverKey_def ds_tripChatRiderKey_def
      ds_tripChatDriverKey_def)

definition ds_SetActiveRider :: "'w redis \<Rightarrow> string \<Rightarrow> string \<Rightarrow> 'w \<Rightarrow> goerror option \<times> 'w" where
  "ds_SetActiveRider R driverID riderID w = rd_set R (ds_activeRiderKey driverID) riderID activeRiderTTL w"

definition ds_GetActiveRider :: "'w redis \<Rightarrow> string \<Rightarrow> 'w \<Rightarrow> string res \<times> 'w" where
  "ds_GetActiveRider R driverID w = rd_get R (ds_activeRiderKey driverID) w"

definition ds_SetTripChatPair :: "'w redis \<Rightarrow> string \<Rightarrow> string \<Rightarrow> string \<Rightarrow> 'w \<Rightarrow> goerror option \<times> 'w" where
  "ds_SetTripChatPair R tripID riderID driverID w =
     rd_exec R ([CmdSet (ds_activeRiderKey driverID) riderID activeRiderTTL,
                 CmdSet (ds_activeDriverKey riderID) driverID activeDriverTTL]
       @ (if tripID \<noteq> '''' then [CmdSet (ds_tripChatRiderKey tripID) riderID activeRiderTTL,
                                CmdSet (ds_tripChatDriverKey tripID) driverID activeRiderTTL] else [])) w"

definition ds_ClearActiveRider :: "'w redis \<Rightarrow> string \<Rightarrow> 'w \<Rightarrow> 'w" where
  "ds_ClearActiveRider R driverID w = snd (rd_del R (ds_activeRiderKey driverID) w)"

section \<open>Plates\<close>

definition plate_letters :: string where "plate_letters = ''ABCDEFGHIJKLMNOPQRSTUVWXYZ''"

fun random_letters :: "'w runtime \<Rightarrow> nat \<Rightarrow> string \<Rightarrow> 'w \<Rightarrow> string \<times> 'w" where
  "random_letters rt 0 plate w = (plate, w)"
| "random_letters rt (Suc n) plate w =
     (case run_rand rt (length plate_letters) w of
        (i, w1) \<Rightarrow> random_letters rt n (plate @ [plate_letters ! i]) w1)"

definition GenerateRandomPlate :: "'w runtime \<Rightarrow> 'w \<Rightarrow> string \<times> 'w" where
  "GenerateRandomPlate rt w = random_letters rt 3 '''' w"

definition PredefinedRoutes :: "(rat \<times> rat) list list" where
  "PredefinedRoutes =
    [[(129550 / 10000, 777010 / 10000), (129585 / 10000, 777072 / 10000), (129610 / 10000, 777120 / 10000),
      (129635 / 10000, 777185 / 10000)],
     [(129300 / 10000, 776780 / 10000), (129350 / 10000, 776855 / 10000), (129400 / 10000, 776910 / 10000),
      (129445 / 10000, 776965 / 10000), (129500 / 10000, 777020 / 10000)],
     [(129240 / 10000, 776785 / 10000), (129265 / 10000, 776830 / 10000), (129300 / 10000, 776875 / 10000),
      (129330 / 10000, 776920 / 10000), (129360 / 10000, 776965 / 10000), (129385 / 10000, 777010 / 10000)],
     [(129355 / 10000, 777100 / 10000), (129380 / 10000, 777145 / 10000), (129420 / 10000, 777190 / 10000),
      (129450 / 10000, 777235 / 10000), (129480 / 10000, 777280 / 10000)]]"

section \<open>Consumers\<close>

text \<open>A nil trip or a nil fare in the payload is dereferenced.\<close>

definition handleAndNotifyDrivers ::
  "'w redis \<Rightarrow> 'w runtime \<Rightarrow> 'w publisher \<Rightarrow> trip_event_data \<Rightarrow> 'w \<Rightarrow> goerror option outcome \<times> 'w" where
  "handleAndNotifyDrivers R rt pub payload w =
     (case te_Trip payload of
        None \<Rightarrow> (Panics, w)
      | Some trip \<Rightarrow>
          (case pt_SelectedFare trip of
             None \<Rightarrow> (Panics, w)
           | Some fare \<Rightarrow>
               (case FindAvailableDrivers R (rf_PackageSlug fare) (te_PickupLat payload) (te_PickupLng payload) w of
                  (suitableIDs, w1) \<Rightarrow>
                    (case marshal enc_trip_event_data payload of
                       Inl e \<Rightarrow> (Returns (Some e), w1)
                     | Inr marshalledEvent \<Rightarrow>
                         if length suitableIDs = 0 then
                           pub TripEventNoDriversFound \<lparr>am_OwnerID = pt_UserID trip, am_Data = marshalledEvent\<rparr> w1
                         else (case run_rand rt (length suitableIDs) w1 of
                                 (randomIndex, w2) \<Rightarrow>
                                   pub DriverCmdTripRequest
                                     \<lparr>am_OwnerID = suitableIDs ! randomIndex, am_Data = marshalledEvent\<rparr> w2)))))"

definition trip_consumer :: "'w redis \<Rightarrow> 'w runtime \<Rightarrow> 'w publisher \<Rightarrow> 'w handler" where
  "trip_consumer R rt pub d w =
     (case read_event (dec_struct trip_event_data_fields) trip_event_data_zero d of
        Inl e \<Rightarrow> (Returns (Some e), w)
      | Inr (tripEvent, payload) \<Rightarrow>
          if d_RoutingKey d \<in> {TripEventCreated, TripEventDriverNotInterested}
          then handleAndNotifyDrivers R rt pub payload w
          else (Returns None, w))"

definition location_consumer :: "'w redis \<Rightarrow> 'w publisher \<Rightarrow> 'w handler" where
  "location_consumer R pub d w =
     (case read_event (dec_struct driver_location_update_fields) driver_location_update_zero d of
        Inl e \<Rightarrow> (Returns (Some e), w)
      | Inr (message, payload) \<Rightarrow>
          (case UpdateDriverLocation R (am_OwnerID message) (dl_PackageSlug payload) (dl_Latitude payload) (dl_Longitude payload) w of
             (Some e, w1) \<Rightarrow> (Returns (Some e), w1)
           | (None, w1) \<Rightarrow>
               (case ds_GetActiveRider R (am_OwnerID message) w1 of
                  (Inl e, w2) \<Rightarrow> (Returns None, w2)
                | (Inr riderID, w2) \<Rightarrow>
                    pub DriverEventLocation
                      \<lparr>am_OwnerID = riderID,
                       am_Data = bytes_of (marshal enc_driver_location_event
                         \<lparr>de_Latitude = dl_Latitude payload, de_Longitude = dl_Longitude payload\<rparr>)\<rparr> w2)))"

record trip_assigned =
  ta_ID :: string
  ta_UserID :: string
  ta_DriverID :: string

definition trip_assigned_fields :: "trip_assigned fields" where
  "trip_assigned_fields =
     [fld ''id'' ta_ID ta_ID_update dec_str, fld ''userID'' ta_UserID ta_UserID_update dec_str,
      fld ''driver'' ta_DriverID ta_DriverID_update (dec_struct [fld ''id'' (\<lambda>s. s) (\<lambda>f. f) dec_str])]"

definition trip_assigned_consumer :: "'w redis \<Rightarrow> 'w handler" where
  "trip_assigned_consumer R d w =
     (if d_RoutingKey d \<noteq> TripEventDriverAssigned then (Returns None, w)
      else (case read_event (dec_struct trip_assigned_fields) \<lparr>ta_ID = '''', ta_UserID = '''', ta_DriverID = ''''\<rparr> d of
              Inl e \<Rightarrow> (Returns (Some e), w)
            | Inr (envelope, payload) \<Rightarrow>
                if ta_DriverID payload = '''' \<or> ta_UserID payload = '''' then (Returns None, w)
                else (case ds_SetTripChatPair R (ta_ID payload) (ta_UserID payload) (ta_DriverID payload) w of
                        (e, w1) \<Rightarrow> (Returns e, w1))))"

section \<open>gRPC\<close>

text \<open>\<open>UnregisterDriver\<close> answers with the driver's identifier; the location of a request may be nil.\<close>

definition grpc_UnregisterDriver :: "'w redis \<Rightarrow> string \<Rightarrow> string \<Rightarrow> 'w \<Rightarrow> string res \<times> 'w" where
  "grpc_UnregisterDriver R driverID packageSlug w =
     (Inr driverID, RemoveDriverFromGeo R driverID packageSlug w)"

definition grpc_UpdateLocation ::
  "'w redis \<Rightarrow> string \<Rightarrow> string \<Rightarrow> pbd_location option \<Rightarrow> 'w \<Rightarrow> goerror option \<times> 'w" where
  "grpc_UpdateLocation R driverID packageSlug loc w =
     (case loc of
        None \<Rightarrow> (Some (GrpcStatus InvalidArgument ''location is required''), w)
      | Some l \<Rightarrow>
          (case UpdateDriverLocation R driverID packageSlug (lo_Latitude l) (lo_Longitude l) w of
             (Some e, w1) \<Rightarrow>
               (Some (GrpcStatus Internal (''failed to update driver location: '' @ err_string e)), w1)
           | (None, w1) \<Rightarrow> (None, w1)))"

section \<open>Facts\<close>

text \<open>
  What a search needs of Redis: \<open>near\<close> are the members a search gives, \<open>listeners\<close> the subscribers of a
  channel; the commands of the service do not touch what was sent.
\<close>

definition geo_laws ::
  "'w redis \<Rightarrow> ('w \<Rightarrow> string \<Rightarrow> float64 \<Rightarrow> float64 \<Rightarrow> string list) \<Rightarrow> ('w \<Rightarrow> string \<Rightarrow> int) \<Rightarrow> ('w \<Rightarrow> 'a) \<Rightarrow> bool" where
  "geo_laws R near listeners sent \<longleftrightarrow>
     (\<forall>k x y r n w res w'. rd_geo_search R k x y r n w = (res, w') \<longrightarrow>
        (\<forall>ds. res = Inr ds \<longrightarrow> set ds \<subseteq> set (near w k x y)) \<and> listeners w' = listeners w \<and> sent w' = sent w)
   \<and> (\<forall>c w res w'. rd_num_sub R c w = (res, w') \<longrightarrow>
        (\<forall>m i. res = Inr m \<and> m c = Some i \<longrightarrow> i = listeners w c) \<and> listeners w' = listeners w \<and> sent w' = sent w)"

lemma geo_lawsD:
  assumes "geo_laws R near listeners sent"
  shows "rd_geo_search R k x y r n w = (Inr ds, w') \<Longrightarrow> set ds \<subseteq> set (near w k x y)"
    "rd_geo_search R k x y r n w = (res, w') \<Longrightarrow> listeners w' = listeners w \<and> sent w' = sent w"
    "rd_num_sub R c w = (Inr m, w') \<Longrightarrow> m c = Some i \<Longrightarrow> i = listeners w c"
    "rd_num_sub R c w = (res2, w') \<Longrightarrow> listeners w' = listeners w \<and> sent w' = sent w"
  using assms unfolding geo_laws_def by simp_all

lemma online_drivers_facts:
  assumes L: "geo_laws R near listeners sent"
  shows "online_drivers R ds w = (ids, w') \<Longrightarrow> set ids \<subseteq> {d \<in> set ds. listeners w (user_channel d) > 0}
     \<and> listeners w' = listeners w \<and> sent w' = sent w"
proof (induction ds arbitrary: w ids w')
  case (Cons d ds)
  obtain res w1 where n: "rd_num_sub R (''user:'' @ d @ '':events'') w = (res, w1)" by fastforce
  note D = geo_lawsD(3,4) [OF L, of "''user:'' @ d @ '':events''" w]
  obtain ids1 w2 where od: "online_drivers R ds w1 = (ids1, w2)" by fastforce
  from Cons.IH [OF od] Cons.prems n od D [unfolded n] show ?case
    by (cases res) (auto simp: user_channel_def split: option.splits if_splits)
qed simp

lemma FindAvailableDrivers_facts:
  assumes L: "geo_laws R near listeners sent" and run: "FindAvailableDrivers R p lat lng w = (ids, w')"
  shows "set ids \<subseteq> {d \<in> set (near w (driverGeoKeyPrefix @ p) lng lat). listeners w (user_channel d) > 0}
     \<and> sent w' = sent w"
proof -
  obtain res w1 where s: "rd_geo_search R (driverGeoKeyPrefix @ p) lng lat searchRadiusKM searchCount w = (res, w1)" by fastforce
  note S = geo_lawsD(2) [OF L s]
  show ?thesis
  proof (cases "\<exists>ds. res = Inr ds \<and> ds \<noteq> []")
    case False
    then show ?thesis using run s S by (cases res) (auto simp: FindAvailableDrivers_def)
  next
    case True
    then obtain ds where ds: "res = Inr ds" "ds \<noteq> []" by blast
    then have "online_drivers R ds w1 = (ids, w')" using run s by (simp add: FindAvailableDrivers_def)
    from online_drivers_facts [OF L this] geo_lawsD(1) [OF L s [unfolded ds(1)]] S show ?thesis by auto
  qed
qed

lemma ds_SetTripChatPair_store:
  assumes "redis_strings R kv" "ds_SetTripChatPair R t r d w = (None, w')" "t \<noteq> ''''"
  shows "kv w' = (kv w)(activeRiderKey d \<mapsto> r, activeDriverKey r \<mapsto> d, tripChatRiderKey t \<mapsto> r, tripChatDriverKey t \<mapsto> d)"
  using redis_execD [OF assms(1) assms(2) [unfolded ds_SetTripChatPair_def]] assms(3) by (simp add: key_simps)

section \<open>Offers\<close>

definition rand_bounded :: "'w runtime \<Rightarrow> bool" where
  "rand_bounded rt \<longleftrightarrow> (\<forall>n w i w'. 0 < n \<and> run_rand rt n w = (i, w') \<longrightarrow> i < n)"

lemma offer_done:
  assumes L: "geo_laws R near listeners (sent_of tr)" and B: "broker_traces B tr"
    and rt: "runtime_quiet rt (sent_of tr)" "rand_bounded rt"
    and run: "handleAndNotifyDrivers R rt (PublishMessage B rt) p w = (Returns None, w')"
  obtains trip fare k owner j b where "te_Trip p = Some trip" "pt_SelectedFare trip = Some fare"
    "marshal enc_trip_event_data p = Inr j" "sent_of tr w' = sent_of tr w @ [(k, b)]"
    "marshal enc_amqp_message \<lparr>am_OwnerID = owner, am_Data = j\<rparr> = Inr b"
    "k = TripEventNoDriversFound \<and> owner = pt_UserID trip
     \<or> k = DriverCmdTripRequest \<and> listeners w (user_channel owner) > 0
       \<and> owner \<in> set (near w (driverGeoKeyPrefix @ rf_PackageSlug fare) (te_PickupLng p) (te_PickupLat p))"
proof -
  obtain trip fare where tf: "te_Trip p = Some trip" "pt_SelectedFare trip = Some fare"
    using run by (auto simp: handleAndNotifyDrivers_def split: option.splits)
  obtain ids w1 where f: "FindAvailableDrivers R (rf_PackageSlug fare) (te_PickupLat p) (te_PickupLng p) w = (ids, w1)"
    by fastforce
  note F = FindAvailableDrivers_facts [OF L f]
  obtain j where j: "marshal enc_trip_event_data p = Inr j"
    using run tf f by (cases "marshal enc_trip_event_data p") (simp_all add: handleAndNotifyDrivers_def)
  show thesis
  proof (cases "ids = []")
    case True
    then have "PublishMessage B rt TripEventNoDriversFound \<lparr>am_OwnerID = pt_UserID trip, am_Data = j\<rparr> w1 = (Returns None, w')"
      using run tf f j by (simp add: handleAndNotifyDrivers_def)
    from rabbit.published [OF B this] F that [OF tf j] show thesis by auto
  next
    case False
    obtain i w2 where i: "run_rand rt (length ids) w1 = (i, w2)" by fastforce
    then have "PublishMessage B rt DriverCmdTripRequest \<lparr>am_OwnerID = ids ! i, am_Data = j\<rparr> w2 = (Returns None, w')"
      using run tf f j False by (simp add: handleAndNotifyDrivers_def)
    from rabbit.published [OF B this] obtain b where
      b: "marshal enc_amqp_message \<lparr>am_OwnerID = ids ! i, am_Data = j\<rparr> = Inr b"
      "sent_of tr w' = sent_of tr w2 @ [(DriverCmdTripRequest, b)]" by blast
    have "sent_of tr w2 = sent_of tr w" using F runtime_quietD(5) [OF rt(1) i] by simp
    moreover have "i < length ids" using rt(2) i False unfolding rand_bounded_def by blast
    then have "ids ! i \<in> set ids" by simp
    ultimately show thesis using b F by (intro that [OF tf j _ b(1)]) auto
  qed
qed


definition geo_redis :: "sim redis" where
  "geo_redis = sim_redis\<lparr>rd_geo_search := (\<lambda>k x y r n s. (Inr [''d1'', ''d2''], s))\<rparr>"

definition geo_world :: sim where
  "geo_world = sim0\<lparr>si_subs := [''user:d2:events'']\<rparr>"

lemma geo_redis_laws:
  "geo_laws geo_redis (\<lambda>w k x y. [''d1'', ''d2'']) (\<lambda>s c. int (count_list (si_subs s) c)) (sent_of si_events)"
  by (auto simp: geo_laws_def geo_redis_def sim_redis_def split: if_splits)

definition offer_trip :: pb_trip where
  "offer_trip = pb_trip_zero\<lparr>pt_UserID := ''u1'', pt_SelectedFare := Some pb_ride_fare_zero\<rparr>"

definition offer_event :: trip_event_data where
  "offer_event = \<lparr>te_Trip = Some offer_trip, te_PickupLat = F64 0, te_PickupLng = F64 0\<rparr>"

lemma offer_event_json:
  obtains j where "marshal enc_trip_event_data offer_event = Inr (RawJson j)"
    "read_event (dec_struct trip_event_data_fields) trip_event_data_zero (event_delivery TripEventCreated ''u1'' j)
       = Inr (\<lparr>am_OwnerID = ''u1'', am_Data = RawJson j\<rparr>, offer_event)"
proof -
  have "wire_trip_event offer_event"
    by (simp add: wire_trip_event_def offer_event_def wire_trip_def offer_trip_def pb_trip_zero_def pb_ride_fare_zero_def
        del: wire_f64.simps)
  then obtain j where "enc_trip_event_data offer_event = Some j"
    "dec_struct trip_event_data_fields trip_event_data_zero j = Some offer_event" using trip_event_roundtrip by blast
  then show thesis by (intro that [OF _ read_event_delivery]) (simp_all add: marshal_def)
qed

lemma geo_search_run: "FindAvailableDrivers geo_redis s x y geo_world = ([''d2''], geo_world)"
  by (simp add: FindAvailableDrivers_def geo_redis_def sim_redis_def geo_world_def sim0_def)


section \<open>Pairs\<close>

text \<open>The abstract view of the keys both services use: the rider and the driver of each trip's chat.\<close>

definition chat_pairs :: "(string \<rightharpoonup> string) \<Rightarrow> string \<rightharpoonup> string \<times> string" where
  "chat_pairs m t =
     (case (m (tripChatRiderKey t), m (tripChatDriverKey t)) of
        (Some r, Some d) \<Rightarrow> if r = '''' \<or> d = '''' then None else Some (r, d)
      | _ \<Rightarrow> None)"

definition pair_peer :: "(string \<times> string) option \<Rightarrow> string \<Rightarrow> string res" where
  "pair_peer p u =
     (case p of None \<Rightarrow> Inl ErrTripChatPairNotFound
      | Some (r, d) \<Rightarrow> if u = r then Inr d else if u = d then Inr r else Inl ErrTripChatUnauthorized)"

lemma chat_peer_pairs: "chat_peer m t u = pair_peer (chat_pairs m t) u"
  by (simp add: chat_peer_def chat_pairs_def pair_peer_def split: option.split)

lemma chat_pairs_set:
  assumes "redis_strings R kv" "ds_SetTripChatPair R t r d w = (None, w')" "t \<noteq> ''''" "r \<noteq> ''''" "d \<noteq> ''''"
  shows "chat_pairs (kv w') = (chat_pairs (kv w))(t \<mapsto> (r, d))"
  by (rule ext) (use assms(4,5) in \<open>auto simp: ds_SetTripChatPair_store [OF assms(1-3)] chat_pairs_def key_simps
    split: option.split\<close>)

lemma chat_pairs_clear:
  assumes "redis_strings R kv" "ClearTripChatPair R t w = (None, w')"
  shows "chat_pairs (kv w') = (chat_pairs (kv w))(t := None)"
proof
  fix t'
  show "chat_pairs (kv w') t' = ((chat_pairs (kv w))(t := None)) t'"
    unfolding ClearTripChatPair_store(1) [OF assms] by (cases "t' = t") (auto simp: chat_pairs_def key_simps)
qed

text \<open>
  C31: The driver service and the gateways implement one table of chat pairs, the first with keys of
  its own: handling the assignment of a driver to a trip sets the trip's entry and no other, a
  gateway then answers by that entry who is whose peer and finds the rider's driver, and when the
  gateway clears the pair the entry is gone, no other is, and no key of the ride is left.
\<close>

theorem assigned_pair_meets_gateway:
  assumes R: "redis_strings R kv" and key: "d_RoutingKey d = TripEventDriverAssigned"
    and ev: "read_event (dec_struct trip_assigned_fields) \<lparr>ta_ID = '''', ta_UserID = '''', ta_DriverID = ''''\<rparr> d
       = Inr (m, \<lparr>ta_ID = t, ta_UserID = rider, ta_DriverID = driver\<rparr>)"
    and ids: "t \<noteq> ''''" "rider \<noteq> ''''" "driver \<noteq> ''''"
    and run: "trip_assigned_consumer R d w = (Returns None, w')"
  shows "chat_pairs (kv w') = (chat_pairs (kv w))(t \<mapsto> (rider, driver))
     \<and> (\<forall>u res v. u \<noteq> '''' \<and> ResolveTripChatPeer R t u w' = (res, v) \<longrightarrow>
          (\<exists>e v'. rd_mget R [tripChatRiderKey t, tripChatDriverKey t] w' = (Inl e, v') \<and> res = Inl e)
        \<or> res = pair_peer (Some (rider, driver)) u \<and> kv v = kv w')
     \<and> (\<forall>dr v. GetActiveDriver R rider w' = (Inr dr, v) \<longrightarrow> dr = driver)
     \<and> (\<forall>v. ClearTripChatPair R t w' = (None, v) \<longrightarrow> chat_pairs (kv v) = (chat_pairs (kv w'))(t := None)
          \<and> (\<forall>k \<in> {tripChatRiderKey t, tripChatDriverKey t, activeDriverKey rider, activeRiderKey driver}. kv v k = None))"
proof -
  have s: "ds_SetTripChatPair R t rider driver w = (None, w')"
    using run key ev ids by (auto simp: trip_assigned_consumer_def split: prod.splits)
  note kv = ds_SetTripChatPair_store [OF R s ids(1)]
  note pairs = chat_pairs_set [OF R s ids]
  have peer: "u \<noteq> '''' \<and> ResolveTripChatPeer R t u w' = (res, v) \<longrightarrow>
      (\<exists>e v'. rd_mget R [tripChatRiderKey t, tripChatDriverKey t] w' = (Inl e, v') \<and> res = Inl e)
    \<or> res = pair_peer (Some (rider, driver)) u \<and> kv v = kv w'" for u res v
    using ResolveTripChatPeer_store [OF R _ ids(1), of u w' res v] by (auto simp: chat_peer_pairs pairs)
  have active: "GetActiveDriver R rider w' = (Inr dr, v) \<longrightarrow> dr = driver" for dr v
    using redis_getD(1) [OF R, of "activeDriverKey rider" w' dr v]
      redis_get_nilD(1) [OF R, of "activeDriverKey rider" w' v] ids
    by (auto simp: GetActiveDriver_def kv key_simps split: prod.splits sum.splits if_splits)
  have gone: "kv v k = None" if "ClearTripChatPair R t w' = (None, v)"
    "k \<in> {tripChatRiderKey t, tripChatDriverKey t, activeDriverKey rider, activeRiderKey driver}" for v k
    using that(2) ids unfolding ClearTripChatPair_store(1) [OF R that(1)] by (auto simp: kv key_simps)
  have cleared: "ClearTripChatPair R t w' = (None, v) \<longrightarrow> chat_pairs (kv v) = (chat_pairs (kv w'))(t := None)
      \<and> (\<forall>k \<in> {tripChatRiderKey t, tripChatDriverKey t, activeDriverKey rider, activeRiderKey driver}. kv v k = None)" for v
    by (intro impI conjI ballI) (rule chat_pairs_clear [OF R], assumption, rule gone)
  show ?thesis by (intro conjI allI) (rule pairs, rule peer, rule active, rule cleared)
qed

definition assigned_json :: json where
  "assigned_json = JObj [(''id'', JStr ''t1''), (''userID'', JStr ''r1''), (''driver'', JObj [(''id'', JStr ''d1'')])]"

lemma assigned_read:
  "read_event (dec_struct trip_assigned_fields) \<lparr>ta_ID = '''', ta_UserID = '''', ta_DriverID = ''''\<rparr>
     (event_delivery TripEventDriverAssigned ''r1'' assigned_json)
   = Inr (\<lparr>am_OwnerID = ''r1'', am_Data = RawJson assigned_json\<rparr>,
          \<lparr>ta_ID = ''t1'', ta_UserID = ''r1'', ta_DriverID = ''d1''\<rparr>)"
  by (rule read_event_delivery) (simp add: assigned_json_def trip_assigned_fields_def json_defs)

theorem assigned_pair_meets_gateway_witness:
  "\<exists>w' :: sim. trip_assigned_consumer sim_redis (event_delivery TripEventDriverAssigned ''r1'' assigned_json) sim0 = (Returns None, w')
     \<and> chat_peer (si_kv w') ''t1'' ''r1'' = Inr ''d1'' \<and> chat_peer (si_kv w') ''t1'' ''d1'' = Inr ''r1''
     \<and> chat_peer (si_kv w') ''t1'' ''x9'' = Inl ErrTripChatUnauthorized"
proof -
  obtain w' where "ds_SetTripChatPair sim_redis ''t1'' ''r1'' ''d1'' sim0 = (None, w')"
    by (simp add: ds_SetTripChatPair_def sim_redis_def)
  then have run: "trip_assigned_consumer sim_redis (event_delivery TripEventDriverAssigned ''r1'' assigned_json) sim0 = (Returns None, w')"
    by (simp add: trip_assigned_consumer_def assigned_read)
  from assigned_pair_meets_gateway [OF sim_redis_strings event_delivery_key assigned_read _ _ _ run] run
  show ?thesis by (simp add: chat_peer_pairs pair_peer_def)
qed

end
