(* ===== verification/Payment.thy ===== *)
theory Payment
  imports Publishing
begin

text \<open>
  The payment service (\<open>services/payment-service\<close>): the session store in Redis, the client of
  Stripe, the service that keeps a trip to one Checkout session, and the consumer of payment
  requests. The Stripe library is a parameter: \<open>session.New\<close> takes the parameters of a
  session and answers with its identifier. So is the conversion to \<open>int64\<close> of a float outside
  its range.
\<close>

section \<open>Data and interfaces\<close>

record payment_config =
  pc_StripeSecretKey :: string
  pc_StripeWebhookSecret :: string
  pc_Currency :: string
  pc_SuccessURL :: string
  pc_CancelURL :: string

record payment_intent =
  pi_ID :: string
  pi_TripID :: string
  pi_UserID :: string
  pi_DriverID :: string
  pi_Amount :: "64 word"
  pi_Currency :: string
  pi_StripeSessionID :: string
  pi_CreatedAt :: "int option"

type_synonym 'w payment_processor = "64 word \<Rightarrow> string \<Rightarrow> (string \<rightharpoonup> string) \<Rightarrow> 'w \<Rightarrow> string res \<times> 'w"

record 'w session_store =
  ss_Get :: "string \<Rightarrow> 'w \<Rightarrow> string res \<times> 'w"
  ss_Set :: "string \<Rightarrow> string \<Rightarrow> 'w \<Rightarrow> goerror option \<times> 'w"

section \<open>Session store\<close>

definition sessionTTL :: duration where "sessionTTL = hours 24"

definition session_key :: "string \<Rightarrow> string" where
  "session_key tripID = ''payment:session:'' @ tripID"

definition session_Get :: "'w redis \<Rightarrow> string \<Rightarrow> 'w \<Rightarrow> string res \<times> 'w" where
  "session_Get R tripID w =
     (case rd_get R (session_key tripID) w of
        (Inl e, w1) \<Rightarrow> if e = RedisNil then (Inr '''', w1) else (Inl e, w1)
      | (Inr val, w1) \<Rightarrow> (Inr val, w1))"

definition session_Set :: "'w redis \<Rightarrow> string \<Rightarrow> string \<Rightarrow> 'w \<Rightarrow> goerror option \<times> 'w" where
  "session_Set R tripID sessionID w = rd_set R (session_key tripID) sessionID sessionTTL w"

definition NewSessionStore :: "'w redis \<Rightarrow> 'w session_store" where
  "NewSessionStore R = \<lparr>ss_Get = session_Get R, ss_Set = session_Set R\<rparr>"

section \<open>Stripe\<close>

record line_item =
  li_Currency :: string
  li_Name :: string
  li_UnitAmount :: "64 word"
  li_Quantity :: "64 word"

record checkout_params =
  cp_SuccessURL :: string
  cp_CancelURL :: string
  cp_Metadata :: "string \<rightharpoonup> string"
  cp_LineItems :: "line_item list"
  cp_Mode :: string

type_synonym 'w checkout = "checkout_params \<Rightarrow> 'w \<Rightarrow> string res \<times> 'w"

definition checkout_of :: "payment_config \<Rightarrow> 64 word \<Rightarrow> string \<Rightarrow> (string \<rightharpoonup> string) \<Rightarrow> checkout_params" where
  "checkout_of config amount currency metadata =
     \<lparr>cp_SuccessURL = pc_SuccessURL config, cp_CancelURL = pc_CancelURL config, cp_Metadata = metadata,
      cp_LineItems = [\<lparr>li_Currency = currency, li_Name = ''Ride Payment'', li_UnitAmount = amount, li_Quantity = 1\<rparr>],
      cp_Mode = ''payment''\<rparr>"

definition stripe_CreatePaymentSession :: "'w checkout \<Rightarrow> payment_config \<Rightarrow> 'w payment_processor" where
  "stripe_CreatePaymentSession new config amount currency metadata w =
     (case new (checkout_of config amount currency metadata) w of
        (Inl e, w1) \<Rightarrow> (Inl (errorf_w ''failed to create a payment session on stripe'' e), w1)
      | (Inr sessionID, w1) \<Rightarrow> (Inr sessionID, w1))"

section \<open>Service\<close>

text \<open>A session that cannot be written to the store is logged and used all the same.\<close>

definition payment_metadata :: "string \<Rightarrow> string \<Rightarrow> string \<Rightarrow> (string \<rightharpoonup> string)" where
  "payment_metadata tripID userID driverID = [''trip_id'' \<mapsto> tripID, ''user_id'' \<mapsto> userID, ''driver_id'' \<mapsto> driverID]"

definition CreatePaymentSession ::
  "'w runtime \<Rightarrow> 'w payment_processor \<Rightarrow> 'w session_store \<Rightarrow> string \<Rightarrow> string \<Rightarrow> string \<Rightarrow> 64 word \<Rightarrow> string \<Rightarrow> 'w
     \<Rightarrow> payment_intent res \<times> 'w" where
  "CreatePaymentSession rt processor store tripID userID driverID amount currency w =
     (case ss_Get store tripID w of
        (Inl e, w1) \<Rightarrow> (Inl (errorf_w ''failed to check session store'' e), w1)
      | (Inr existing, w1) \<Rightarrow>
          if existing \<noteq> '''' then
            (Inr \<lparr>pi_ID = '''', pi_TripID = tripID, pi_UserID = userID, pi_DriverID = driverID, pi_Amount = amount,
               pi_Currency = currency, pi_StripeSessionID = existing, pi_CreatedAt = None\<rparr>, w1)
          else
            (case processor amount currency (payment_metadata tripID userID driverID) w1 of
               (Inl e, w2) \<Rightarrow> (Inl (errorf_w ''failed to create payment session'' e), w2)
             | (Inr sessionID, w2) \<Rightarrow>
                 (case ss_Set store tripID sessionID w2 of
                    (e, w3) \<Rightarrow>
                      (case run_uuid rt w3 of
                         (i, w4) \<Rightarrow>
                           (case run_now rt w4 of
                              (now, w5) \<Rightarrow>
                                (Inr \<lparr>pi_ID = i, pi_TripID = tripID, pi_UserID = userID, pi_DriverID = driverID,
                                   pi_Amount = amount, pi_Currency = currency, pi_StripeSessionID = sessionID,
                                   pi_CreatedAt = Some now\<rparr>, w5))))))"

section \<open>Consumer\<close>

definition int64_of_f64 :: "(float64 \<Rightarrow> 64 word) \<Rightarrow> float64 \<Rightarrow> 64 word" where
  "int64_of_f64 conv x = (case f64_to_int64 x of Some n \<Rightarrow> word_of_int n | None \<Rightarrow> conv x)"

definition session_created :: "string \<Rightarrow> payment_intent \<Rightarrow> payment_session_created" where
  "session_created tripID paymentSession =
     \<lparr>ps_TripID = tripID, ps_SessionID = pi_StripeSessionID paymentSession,
      ps_Amount = f64_div (f64_of_int (sint (pi_Amount paymentSession))) (F64 100),
      ps_Currency = pi_Currency paymentSession\<rparr>"

definition pay_handleTripAccepted ::
  "'w runtime \<Rightarrow> (float64 \<Rightarrow> 64 word) \<Rightarrow> 'w payment_processor \<Rightarrow> 'w session_store \<Rightarrow> 'w publisher
     \<Rightarrow> payment_trip_response \<Rightarrow> 'w \<Rightarrow> goerror option outcome \<times> 'w" where
  "pay_handleTripAccepted rt conv processor store pub payload w =
     (case CreatePaymentSession rt processor store (pr_TripID payload) (pr_UserID payload) (pr_DriverID payload)
             (int64_of_f64 conv (pr_Amount payload)) (pr_Currency payload) w of
        (Inl e, w1) \<Rightarrow> (Returns (Some e), w1)
      | (Inr paymentSession, w1) \<Rightarrow>
          (case marshal enc_payment_session_created (session_created (pr_TripID payload) paymentSession) of
             Inl e \<Rightarrow> (Returns (Some e), w1)
           | Inr payloadBytes \<Rightarrow>
               pub PaymentEventSessionCreated \<lparr>am_OwnerID = pr_UserID payload, am_Data = payloadBytes\<rparr> w1))"

definition pay_consumer ::
  "'w runtime \<Rightarrow> (float64 \<Rightarrow> 64 word) \<Rightarrow> 'w payment_processor \<Rightarrow> 'w session_store \<Rightarrow> 'w publisher \<Rightarrow> 'w handler" where
  "pay_consumer rt conv processor store pub d w =
     (case read_event (dec_struct payment_trip_response_fields) payment_trip_response_zero d of
        Inl e \<Rightarrow> (Returns (Some e), w)
      | Inr (message, payload) \<Rightarrow>
          if d_RoutingKey d = PaymentCmdCreateSession
          then pay_handleTripAccepted rt conv processor store pub payload w
          else (Returns None, w))"

section \<open>Facts\<close>

text \<open>
  What the service needs of its store: \<open>has\<close> are the sessions it knows. A call that returns an
  error says nothing about what was stored.
\<close>

locale session_storage =
  fixes store :: "'w session_store" and has :: "'w \<Rightarrow> string \<rightharpoonup> string" and ok :: bool
  assumes get: "ok \<Longrightarrow> ss_Get store t w = (Inr s, w') \<Longrightarrow>
      has w' = has w \<and> s = (case has w t of None \<Rightarrow> '''' | Some s \<Rightarrow> s)"
    and put: "ok \<Longrightarrow> ss_Set store t s w = (None, w') \<Longrightarrow> has w' = (has w)(t \<mapsto> s)"
begin

lemma created:
  assumes ok "CreatePaymentSession rt pr store t u d a c w = (Inr intent, w')"
  obtains "has w t = Some (pi_StripeSessionID intent)" "has w' = has w" "pi_StripeSessionID intent \<noteq> ''''"
      "ss_Get store t w = (Inr (pi_StripeSessionID intent), w')" "pi_Amount intent = a" "pi_Currency intent = c"
    | w1 w2 e w3 w4 i n where "has w t = None \<or> has w t = Some ''''"
      "ss_Get store t w = (Inr '''', w1)" "has w1 = has w"
      "pr a c (payment_metadata t u d) w1 = (Inr (pi_StripeSessionID intent), w2)"
      "ss_Set store t (pi_StripeSessionID intent) w2 = (e, w3)" "run_uuid rt w3 = (i, w4)" "run_now rt w4 = (n, w')"
      "pi_Amount intent = a" "pi_Currency intent = c"
proof -
  obtain s w1 where g: "ss_Get store t w = (Inr s, w1)"
    using assms(2) by (auto simp: CreatePaymentSession_def split: prod.splits sum.splits)
  note G = get [OF assms(1) g]
  show thesis
  proof (cases "s = ''''")
    case False
    then show thesis using that(1) assms(2) g G
      by (auto simp: CreatePaymentSession_def split: option.splits)
  next
    case True
    with assms(2) g obtain x w2 e w3 i w4 n where "pr a c (payment_metadata t u d) w1 = (Inr x, w2)"
      "ss_Set store t x w2 = (e, w3)" "run_uuid rt w3 = (i, w4)" "run_now rt w4 = (n, w')"
      "pi_StripeSessionID intent = x" "pi_Amount intent = a" "pi_Currency intent = c"
      by (auto simp: CreatePaymentSession_def split: prod.splits sum.splits)
    with that(2) G g True show thesis by (auto split: option.splits)
  qed
qed

end

lemma session_key_inj [simp]: "session_key t = session_key t' \<longleftrightarrow> t = t'"
  by (simp add: session_key_def)

interpretation sessions: session_storage "NewSessionStore R" "\<lambda>w t. kv w (session_key t)" "redis_strings R kv" for R kv
proof
  fix t w s w'
  assume R: "redis_strings R kv" and "ss_Get (NewSessionStore R) t w = (Inr s, w')"
  then show "(\<lambda>t. kv w' (session_key t)) = (\<lambda>t. kv w (session_key t))
      \<and> s = (case kv w (session_key t) of None \<Rightarrow> '''' | Some s \<Rightarrow> s)"
    using redis_getD [OF R] redis_get_nilD [OF R]
    by (auto simp: NewSessionStore_def session_Get_def split: prod.splits sum.splits if_splits)
next
  fix t s w w'
  assume R: "redis_strings R kv" and "ss_Set (NewSessionStore R) t s w = (None, w')"
  then show "(\<lambda>t. kv w' (session_key t)) = (\<lambda>t. kv w (session_key t))(t \<mapsto> s)"
    using redis_setD [OF R] by (auto simp: NewSessionStore_def session_Set_def fun_eq_iff)
qed

section \<open>One session for a trip\<close>

text \<open>
  \<open>calls\<close> is what was asked of Stripe, with its answers. The other systems leave it alone, and
  Stripe, the clock and the broker leave the store alone.
\<close>

definition pay_world ::
  "'w redis \<Rightarrow> 'w runtime \<Rightarrow> 'w checkout \<Rightarrow> 'w publisher \<Rightarrow> ('w \<Rightarrow> string \<rightharpoonup> string) \<Rightarrow> ('w \<Rightarrow> (string \<times> raw) list)
     \<Rightarrow> ('w \<Rightarrow> (checkout_params \<times> string res) list) \<Rightarrow> bool" where
  "pay_world R rt new pub kv sent calls \<longleftrightarrow>
     (\<forall>k w r w'. rd_get R k w = (r, w') \<longrightarrow> sent w' = sent w \<and> calls w' = calls w \<and> kv w' = kv w)
   \<and> (\<forall>k v t w r w'. rd_set R k v t w = (r, w') \<longrightarrow> sent w' = sent w \<and> calls w' = calls w)
   \<and> (\<forall>p w r w'. new p w = (r, w') \<longrightarrow> sent w' = sent w \<and> calls w' = calls w @ [(p, r)] \<and> kv w' = kv w)
   \<and> runtime_quiet rt sent \<and> runtime_quiet rt calls \<and> runtime_quiet rt kv
   \<and> pub_keeps pub calls \<and> pub_keeps pub kv"

lemma pay_worldD:
  assumes "pay_world R rt new pub kv sent calls"
  shows "rd_get R k w = (r1, w') \<Longrightarrow> sent w' = sent w \<and> calls w' = calls w \<and> kv w' = kv w"
    "rd_set R k v t w = (r2, w') \<Longrightarrow> sent w' = sent w \<and> calls w' = calls w"
    "new p w = (r3, w') \<Longrightarrow> sent w' = sent w \<and> calls w' = calls w @ [(p, r3)] \<and> kv w' = kv w"
    "runtime_quiet rt sent" "runtime_quiet rt calls" "runtime_quiet rt kv"
    "pub key m w = (x, w') \<Longrightarrow> calls w' = calls w" "pub key m w = (x, w') \<Longrightarrow> kv w' = kv w"
  using assms unfolding pay_world_def pub_keeps_def by simp_all

lemma store_get_world:
  assumes "pay_world R rt new pub kv sent calls" "ss_Get (NewSessionStore R) t w = (r, w')"
  shows "sent w' = sent w \<and> calls w' = calls w \<and> kv w' = kv w"
proof -
  obtain x where "rd_get R (session_key t) w = (x, w')"
    using assms(2) by (auto simp: NewSessionStore_def session_Get_def split: prod.splits sum.splits if_splits)
  from pay_worldD(1) [OF assms(1) this] show ?thesis .
qed

lemma stripe_new:
  assumes "pay_world R rt new pub kv sent calls" "stripe_CreatePaymentSession new cfg a c md w = (Inr sid, w')"
  shows "sent w' = sent w \<and> calls w' = calls w @ [(checkout_of cfg a c md, Inr sid)] \<and> kv w' = kv w"
proof -
  have "new (checkout_of cfg a c md) w = (Inr sid, w')"
    using assms(2) by (auto simp: stripe_CreatePaymentSession_def split: prod.splits sum.splits)
  from pay_worldD(3) [OF assms(1) this] show ?thesis .
qed

lemma session_made:
  assumes S: "pay_world R rt new pub kv sent calls" and R: "redis_strings R kv"
    and run: "CreatePaymentSession rt (stripe_CreatePaymentSession new cfg) (NewSessionStore R) t u d a c w = (Inr intent, w')"
  shows "sent w' = sent w \<and> pi_Amount intent = a \<and> pi_Currency intent = c
     \<and> (if kv w (session_key t) = None \<or> kv w (session_key t) = Some ''''
        then calls w' = calls w @ [(checkout_of cfg a c (payment_metadata t u d), Inr (pi_StripeSessionID intent))]
          \<and> (\<exists>e v v'. rd_set R (session_key t) (pi_StripeSessionID intent) sessionTTL v = (e, v')
               \<and> (e = None \<longrightarrow> kv w' = (kv w)(session_key t \<mapsto> pi_StripeSessionID intent)))
        else kv w (session_key t) = Some (pi_StripeSessionID intent) \<and> calls w' = calls w \<and> kv w' = kv w)"
  using R run
proof (cases rule: sessions.created)
  case 1
  with store_get_world [OF S 1(4)] show ?thesis by auto
next
  case (2 w1 w2 e w3 w4 i n)
  note Q = pay_worldD(4-6) [OF S]
  have set: "rd_set R (session_key t) (pi_StripeSessionID intent) sessionTTL w2 = (e, w3)"
    using 2(5) by (simp add: NewSessionStore_def session_Set_def)
  have tail: "sent w' = sent w3" "calls w' = calls w3" "kv w' = kv w3"
    using runtime_quietD(1,2) [OF Q(1)] runtime_quietD(1,2) [OF Q(2)] runtime_quietD(1,2) [OF Q(3)] 2(6,7) by metis+
  have s: "sent w' = sent w" "calls w' = calls w @ [(checkout_of cfg a c (payment_metadata t u d), Inr (pi_StripeSessionID intent))]"
    using store_get_world [OF S 2(2)] stripe_new [OF S 2(4)] pay_worldD(2) [OF S set] tail by simp_all
  have "kv w2 = kv w" using store_get_world [OF S 2(2)] stripe_new [OF S 2(4)] by simp
  then have "e = None \<longrightarrow> kv w' = (kv w)(session_key t \<mapsto> pi_StripeSessionID intent)"
    using redis_setD [OF R] set tail(3) by auto
  with s set 2(1,8,9) show ?thesis by auto
qed

text \<open>What a handled request has done.\<close>

lemma payment_handled:
  assumes S: "pay_world R rt new (PublishMessage B rt) kv (sent_of tr) calls"
    and R: "redis_strings R kv" and B: "broker_traces B tr" and key: "d_RoutingKey d = PaymentCmdCreateSession"
    and run: "pay_consumer rt conv (stripe_CreatePaymentSession new cfg) (NewSessionStore R) (PublishMessage B rt) d w
       = (Returns None, w')"
  shows "\<exists>m p t a sid j b. read_event (dec_struct payment_trip_response_fields) payment_trip_response_zero d = Inr (m, p)
     \<and> t = pr_TripID p \<and> a = int64_of_f64 conv (pr_Amount p)
     \<and> sent_of tr w' = sent_of tr w @ [(PaymentEventSessionCreated, b)]
     \<and> marshal enc_amqp_message \<lparr>am_OwnerID = pr_UserID p, am_Data = j\<rparr> = Inr b
     \<and> marshal enc_payment_session_created \<lparr>ps_TripID = t, ps_SessionID = sid,
          ps_Amount = f64_div (f64_of_int (sint a)) (F64 100), ps_Currency = pr_Currency p\<rparr> = Inr j
     \<and> (if kv w (session_key t) = None \<or> kv w (session_key t) = Some ''''
        then calls w' = calls w @ [(checkout_of cfg a (pr_Currency p) (payment_metadata t (pr_UserID p) (pr_DriverID p)), Inr sid)]
          \<and> (\<exists>e v v'. rd_set R (session_key t) sid sessionTTL v = (e, v')
               \<and> (e = None \<longrightarrow> kv w' = (kv w)(session_key t \<mapsto> sid)))
        else kv w (session_key t) = Some sid \<and> calls w' = calls w \<and> kv w' = kv w)"
proof -
  obtain m p where p: "read_event (dec_struct payment_trip_response_fields) payment_trip_response_zero d = Inr (m, p)"
    and h: "pay_handleTripAccepted rt conv (stripe_CreatePaymentSession new cfg) (NewSessionStore R) (PublishMessage B rt) p w
       = (Returns None, w')"
    using run key by (auto simp: pay_consumer_def split: sum.splits)
  let ?a = "int64_of_f64 conv (pr_Amount p)"
  obtain intent w1 where c: "CreatePaymentSession rt (stripe_CreatePaymentSession new cfg) (NewSessionStore R) (pr_TripID p)
      (pr_UserID p) (pr_DriverID p) ?a (pr_Currency p) w = (Inr intent, w1)"
    using h by (auto simp: pay_handleTripAccepted_def split: prod.splits sum.splits)
  obtain j where j: "marshal enc_payment_session_created (session_created (pr_TripID p) intent) = Inr j"
    and q: "PublishMessage B rt PaymentEventSessionCreated \<lparr>am_OwnerID = pr_UserID p, am_Data = j\<rparr> w1 = (Returns None, w')"
    using h c by (cases "marshal enc_payment_session_created (session_created (pr_TripID p) intent)")
      (simp_all add: pay_handleTripAccepted_def)
  obtain b where b: "marshal enc_amqp_message \<lparr>am_OwnerID = pr_UserID p, am_Data = j\<rparr> = Inr b"
    "sent_of tr w' = sent_of tr w1 @ [(PaymentEventSessionCreated, b)]" using rabbit.published [OF B q] by blast
  note k = pay_worldD(7,8) [OF S q]
  note M = session_made [OF S R c, folded k]
  have "sent_of tr w' = sent_of tr w @ [(PaymentEventSessionCreated, b)]" using M b(2) by simp
  moreover have "marshal enc_payment_session_created \<lparr>ps_TripID = pr_TripID p, ps_SessionID = pi_StripeSessionID intent,
      ps_Amount = f64_div (f64_of_int (sint ?a)) (F64 100), ps_Currency = pr_Currency p\<rparr> = Inr j"
    using M j by (simp add: session_created_def)
  ultimately show ?thesis using p b(1) M [THEN conjunct2, THEN conjunct2, THEN conjunct2]
    by (intro exI conjI) (rule refl | assumption)+
qed

text \<open>
  C32: A payment request that is handled tells the rider of one session for the trip, with the
  amount in the currency's main unit. If the store has a session for the trip it is that one, and
  Stripe is not called; otherwise Stripe is called once, for the requested amount in cents with the
  trip's metadata, and its session is stored, unless the write of the store fails.
\<close>

theorem payment_session_once:
  assumes S: "pay_world R rt new (PublishMessage B rt) kv (sent_of tr) calls"
    and R: "redis_strings R kv" and B: "broker_traces B tr" and key: "d_RoutingKey d = PaymentCmdCreateSession"
    and run: "pay_consumer rt conv (stripe_CreatePaymentSession new cfg) (NewSessionStore R) (PublishMessage B rt) d w
       = (Returns None, w')"
  shows "\<exists>m p t a sid j b. read_event (dec_struct payment_trip_response_fields) payment_trip_response_zero d = Inr (m, p)
     \<and> t = pr_TripID p \<and> a = int64_of_f64 conv (pr_Amount p)
     \<and> sent_of tr w' = sent_of tr w @ [(PaymentEventSessionCreated, b)]
     \<and> marshal enc_amqp_message \<lparr>am_OwnerID = pr_UserID p, am_Data = j\<rparr> = Inr b
     \<and> marshal enc_payment_session_created \<lparr>ps_TripID = t, ps_SessionID = sid,
          ps_Amount = f64_div (f64_of_int (sint a)) (F64 100), ps_Currency = pr_Currency p\<rparr> = Inr j
     \<and> (if kv w (session_key t) = None \<or> kv w (session_key t) = Some ''''
        then calls w' = calls w @ [(checkout_of cfg a (pr_Currency p) (payment_metadata t (pr_UserID p) (pr_DriverID p)), Inr sid)]
          \<and> (\<exists>e v v'. rd_set R (session_key t) sid sessionTTL v = (e, v')
               \<and> (e = None \<longrightarrow> kv w' = (kv w)(session_key t \<mapsto> sid)))
        else kv w (session_key t) = Some sid \<and> calls w' = calls w \<and> kv w' = kv w)"
  by (rule payment_handled [OF assms])

record pay_sim = sim +
  sm_calls :: "(checkout_params \<times> string res) list"

definition pay_sim0 :: pay_sim where
  "pay_sim0 = sim.extend sim0 \<lparr>sm_calls = []\<rparr>"

definition sim_checkout :: "pay_sim checkout" where
  "sim_checkout p w = (Inr ''cs_1'', w\<lparr>sm_calls := sm_calls w @ [(p, Inr ''cs_1'')]\<rparr>)"

abbreviation pay_publish :: "pay_sim publisher" where
  "pay_publish \<equiv> PublishMessage sim_broker sim_runtime"

lemma pay_sim_world: "pay_world sim_redis sim_runtime sim_checkout pay_publish si_kv (sent_of si_events) sm_calls"
  by (auto simp: pay_world_def sim_redis_def sent_of_def sim_checkout_def intro!: sim_pub_keeps)

definition pay_config :: payment_config where
  "pay_config = \<lparr>pc_StripeSecretKey = '''', pc_StripeWebhookSecret = '''', pc_Currency = '''', pc_SuccessURL = '''', pc_CancelURL = ''''\<rparr>"

definition pay_request :: payment_trip_response where
  "pay_request = \<lparr>pr_TripID = ''t1'', pr_UserID = ''u1'', pr_DriverID = ''d1'', pr_Amount = F64 1500, pr_Currency = ''USD''\<rparr>"

abbreviation sim_pay :: "pay_sim handler" where
  "sim_pay \<equiv> pay_consumer sim_runtime (\<lambda>x. 0) (stripe_CreatePaymentSession sim_checkout pay_config) (NewSessionStore sim_redis) pay_publish"

lemma floats_1500: "f64_to_int64 (F64 1500) = Some 1500" "f64_div (f64_of_int 1500) (F64 100) = F64 15" "wire_f64 (F64 15)" "wire_f64 (F64 1500)"
  using f64_round_nat [of 1500] f64_round_nat [of 15] by (simp_all add: truncate_rat_def f64_of_int_def)

lemma pay_request_json:
  obtains j where "\<And>k. read_event (dec_struct payment_trip_response_fields) payment_trip_response_zero (event_delivery k ''u1'' j)
       = Inr (\<lparr>am_OwnerID = ''u1'', am_Data = RawJson j\<rparr>, pay_request)"
proof -
  obtain j where "dec_struct payment_trip_response_fields payment_trip_response_zero j = Some pay_request"
    using payment_trip_response_roundtrip [of pay_request] floats_1500 by (auto simp: pay_request_def simp del: wire_f64.simps)
  then show thesis by (intro that read_event_delivery)
qed

lemma pay_published:
  assumes "wire_f64 (ps_Amount (session_created t i))" "si_up w"
  shows "\<exists>w' j. marshal enc_payment_session_created (session_created t i) = Inr j
     \<and> pay_publish PaymentEventSessionCreated \<lparr>am_OwnerID = u, am_Data = j\<rparr> w = (Returns None, w') \<and> si_up w'"
proof -
  from payment_session_created_roundtrip [OF assms(1)] obtain j where
    j: "marshal enc_payment_session_created (session_created t i) = Inr (RawJson j)" by (auto simp: marshal_def)
  obtain b where "marshal enc_amqp_message \<lparr>am_OwnerID = u, am_Data = RawJson j\<rparr> = Inr b"
    by (simp add: marshal_amqp_message)
  from sim_publish_up [OF assms(2) this] j assms(2) show ?thesis by (auto simp: record_event_def)
qed

lemma pay_handled:
  assumes p: "read_event (dec_struct payment_trip_response_fields) payment_trip_response_zero d = Inr (m, p)"
    and key: "d_RoutingKey d = PaymentCmdCreateSession" and up: "si_up w"
    and a: "int64_of_f64 (\<lambda>x. 0) (pr_Amount p) = a" "wire_f64 (f64_div (f64_of_int (sint a)) (F64 100))"
  obtains w' where "sim_pay d w = (Returns None, w')" "si_up w'"
     "si_kv w (session_key (pr_TripID p)) = None \<longrightarrow> si_kv w' (session_key (pr_TripID p)) = Some ''cs_1''"
proof -
  let ?k = "session_key (pr_TripID p)"
  have "\<exists>i w1. CreatePaymentSession sim_runtime (stripe_CreatePaymentSession sim_checkout pay_config) (NewSessionStore sim_redis)
      (pr_TripID p) (pr_UserID p) (pr_DriverID p) a (pr_Currency p) w = (Inr i, w1) \<and> pi_Amount i = a \<and> si_up w1
    \<and> (si_kv w ?k = None \<longrightarrow> si_kv w1 ?k = Some ''cs_1'')"
    using up by (auto simp: CreatePaymentSession_def NewSessionStore_def session_Get_def session_Set_def sim_redis_def
        stripe_CreatePaymentSession_def sim_checkout_def sim_runtime_def split: option.splits)
  then obtain i w1 where c: "CreatePaymentSession sim_runtime (stripe_CreatePaymentSession sim_checkout pay_config) (NewSessionStore sim_redis)
      (pr_TripID p) (pr_UserID p) (pr_DriverID p) a (pr_Currency p) w = (Inr i, w1)" "pi_Amount i = a" "si_up w1"
    "si_kv w ?k = None \<longrightarrow> si_kv w1 ?k = Some ''cs_1''" by (elim exE conjE)
  have "wire_f64 (ps_Amount (session_created (pr_TripID p) i))" using a(2) c(2) by (simp add: session_created_def)
  from pay_published [OF this c(3)] obtain w' j where
    q: "marshal enc_payment_session_created (session_created (pr_TripID p) i) = Inr j"
    "pay_publish PaymentEventSessionCreated \<lparr>am_OwnerID = pr_UserID p, am_Data = j\<rparr> w1 = (Returns None, w')" "si_up w'" by blast
  have "sim_pay d w = (Returns None, w')"
    using c(1) q(1,2) by (simp add: pay_consumer_def p key pay_handleTripAccepted_def a(1))
  moreover have "si_kv w' = si_kv w1" by (rule pay_worldD(8) [OF pay_sim_world q(2)])
  ultimately show thesis using q(3) c(4) that by simp
qed

text \<open>The same request delivered twice.\<close>

theorem payment_session_once_witness:
  "\<exists>j w1 w2 p sid b b'. sim_pay (event_delivery PaymentCmdCreateSession ''u1'' j) pay_sim0 = (Returns None, w1)
     \<and> sim_pay (event_delivery PaymentCmdCreateSession ''u1'' j) w1 = (Returns None, w2)
     \<and> sm_calls w2 = [(p, Inr sid)] \<and> si_kv w2 (session_key ''t1'') = Some sid
     \<and> sent_of si_events w2 = [(PaymentEventSessionCreated, b), (PaymentEventSessionCreated, b')]"
proof -
  obtain j where j: "\<And>k. read_event (dec_struct payment_trip_response_fields) payment_trip_response_zero (event_delivery k ''u1'' j)
       = Inr (\<lparr>am_OwnerID = ''u1'', am_Data = RawJson j\<rparr>, pay_request)" by (rule pay_request_json) blast
  let ?d = "event_delivery PaymentCmdCreateSession ''u1'' j"
  have "si_up pay_sim0" by (simp add: pay_sim0_def sim.defs sim0_def)
  have a: "int64_of_f64 (\<lambda>x. 0) (pr_Amount pay_request) = 1500" "wire_f64 (f64_div (f64_of_int (sint (1500 :: 64 word))) (F64 100))"
    using floats_1500 by (simp_all add: int64_of_f64_def pay_request_def del: f64_to_int64.simps)
  note handled = pay_handled [OF j event_delivery_key _ a]
  obtain w1 where r1: "sim_pay ?d pay_sim0 = (Returns None, w1)" and up: "si_up w1"
    and kv: "si_kv pay_sim0 (session_key ''t1'') = None \<longrightarrow> si_kv w1 (session_key ''t1'') = Some ''cs_1''"
    by (rule handled [OF \<open>si_up pay_sim0\<close>]) (simp add: pay_request_def)
  obtain w2 where r2: "sim_pay ?d w1 = (Returns None, w2)" by (rule handled [OF up])
  have z: "sm_calls pay_sim0 = []" "si_kv pay_sim0 = Map.empty" "sent_of si_events pay_sim0 = []"
    by (simp_all add: pay_sim0_def sim.defs pay_sim.defs sim0_def sent_of_def)
  have t: "pr_TripID pay_request = ''t1''" by (simp add: pay_request_def)
  note P = payment_session_once [OF pay_sim_world sim_redis_strings sim_broker_traces event_delivery_key]
  have set: "rd_set sim_redis k s ttl v = (e, v') \<Longrightarrow> e = None" for k s ttl e and v v' :: pay_sim
    by (simp add: sim_redis_def)
  from P [OF r1] obtain p sid b where 1: "sm_calls w1 = [(p, Inr sid)]" "si_kv w1 (session_key ''t1'') = Some sid"
    "sent_of si_events w1 = [(PaymentEventSessionCreated, b)]"
    unfolding j z by (auto simp: t dest: set)
  have "si_kv w1 (session_key ''t1'') = Some ''cs_1''" using kv by (simp add: z(2))
  with P [OF r2] obtain b' where "sm_calls w2 = sm_calls w1" "si_kv w2 = si_kv w1"
    "sent_of si_events w2 = sent_of si_events w1 @ [(PaymentEventSessionCreated, b')]"
    unfolding j by (auto simp: t)
  with 1 r1 r2 show ?thesis
    by (intro exI [of _ j] exI [of _ w1] exI [of _ w2] exI [of _ p] exI [of _ sid] exI [of _ b] exI [of _ b']) simp
qed

end
