(* ===== verification/Chat.thy ===== *)
theory Chat
  imports WsGateway_Facts
begin

text \<open>
  The chat service (\<open>services/chat-service\<close>): the repository of messages in MongoDB, the service,
  the publisher of receipts and the consumer, which settles its deliveries itself instead of using
  \<open>ConsumeMessages\<close>. The MongoDB collection is a parameter: inserting a document, finding the
  documents of a trip (a document that cannot be decoded is \<open>None\<close>, the cursor may end with an
  error), setting the flag of a document, creating the index.
\<close>

section \<open>Repository\<close>

record message =
  ms_ID :: string
  ms_TripID :: string
  ms_SenderID :: string
  ms_Text :: string
  ms_SentAt :: int
  ms_Delivered :: bool

record 'w chat_collection =
  cl_create_index :: "(string \<times> int) list \<Rightarrow> 'w \<Rightarrow> goerror option \<times> 'w"
  cl_insert :: "message \<Rightarrow> 'w \<Rightarrow> goerror option \<times> 'w"
  cl_find_trip :: "string \<Rightarrow> string \<times> int \<Rightarrow> int \<Rightarrow> 'w \<Rightarrow> (message option list \<times> goerror option) res \<times> 'w"
  cl_set_delivered :: "string \<Rightarrow> 'w \<Rightarrow> goerror option \<times> 'w"

record 'w message_repo =
  mr_Save :: "message \<Rightarrow> 'w \<Rightarrow> goerror option \<times> 'w"
  mr_GetByTripID :: "string \<Rightarrow> int \<Rightarrow> 'w \<Rightarrow> (message list \<times> goerror option) \<times> 'w"
  mr_MarkDelivered :: "string \<Rightarrow> 'w \<Rightarrow> goerror option \<times> 'w"

definition chat_Save :: "'w chat_collection \<Rightarrow> message \<Rightarrow> 'w \<Rightarrow> goerror option \<times> 'w" where
  "chat_Save col msg w = cl_insert col msg w"

fun decoded :: "message option list \<Rightarrow> message list" where
  "decoded [] = []"
| "decoded (None # docs) = decoded docs"
| "decoded (Some doc # docs) = doc # decoded docs"

definition chat_GetByTripID ::
  "'w chat_collection \<Rightarrow> string \<Rightarrow> int \<Rightarrow> 'w \<Rightarrow> (message list \<times> goerror option) \<times> 'w" where
  "chat_GetByTripID col tripID limit w =
     (case cl_find_trip col tripID (''sentAt'', - 1) (if limit \<le> 0 then 50 else limit) w of
        (Inl e, w1) \<Rightarrow> (([], Some e), w1)
      | (Inr (docs, err), w1) \<Rightarrow> ((decoded docs, err), w1))"

definition chat_MarkDelivered :: "'w chat_collection \<Rightarrow> string \<Rightarrow> 'w \<Rightarrow> goerror option \<times> 'w" where
  "chat_MarkDelivered col messageID w = cl_set_delivered col messageID w"

text \<open>An index that cannot be created is ignored.\<close>

definition NewMongoMessageRepository :: "'w chat_collection \<Rightarrow> 'w \<Rightarrow> 'w message_repo \<times> 'w" where
  "NewMongoMessageRepository col w =
     (\<lparr>mr_Save = chat_Save col, mr_GetByTripID = chat_GetByTripID col, mr_MarkDelivered = chat_MarkDelivered col\<rparr>,
      snd (cl_create_index col [(''tripID'', 1), (''sentAt'', - 1)] w))"

section \<open>Publisher and service\<close>

definition PublishDelivered :: "'w publisher \<Rightarrow> string \<Rightarrow> string \<Rightarrow> 'w \<Rightarrow> goerror option outcome \<times> 'w" where
  "PublishDelivered pub messageID tripID w =
     (case marshal enc_chat_delivered_data \<lparr>cd_MessageID = messageID, cd_TripID = tripID\<rparr> of
        Inl e \<Rightarrow> (Returns (Some e), w)
      | Inr data \<Rightarrow> pub ChatEventDelivered \<lparr>am_OwnerID = tripID, am_Data = data\<rparr> w)"

text \<open>A receipt that cannot be published is logged.\<close>

definition HandleIncoming :: "'w message_repo \<Rightarrow> 'w publisher \<Rightarrow> message \<Rightarrow> 'w \<Rightarrow> goerror option outcome \<times> 'w" where
  "HandleIncoming repo pub msg w =
     (case mr_Save repo msg w of
        (Some e, w1) \<Rightarrow> (Returns (Some e), w1)
      | (None, w1) \<Rightarrow> bindo (PublishDelivered pub (ms_ID msg) (ms_TripID msg) w1) (\<lambda>_ w2. (Returns None, w2)))"

definition GetHistory :: "'w message_repo \<Rightarrow> string \<Rightarrow> int \<Rightarrow> 'w \<Rightarrow> (message list \<times> goerror option) \<times> 'w" where
  "GetHistory repo tripID limit w = mr_GetByTripID repo tripID limit w"

section \<open>Consumer\<close>

definition message_of :: "chat_message_data \<Rightarrow> message" where
  "message_of data = \<lparr>ms_ID = cm_MessageID data, ms_TripID = cm_TripID data, ms_SenderID = cm_SenderID data,
     ms_Text = cm_Text data, ms_SentAt = cm_SentAt data, ms_Delivered = False\<rparr>"

definition handleMessage :: "'w message_repo \<Rightarrow> 'w publisher \<Rightarrow> 'w handler" where
  "handleMessage repo pub d w =
     (case read_event (dec_struct chat_message_data_fields) chat_message_data_zero d of
        Inl e \<Rightarrow> (Returns (Some e), w)
      | Inr (amqpMsg, data) \<Rightarrow> HandleIncoming repo pub (message_of data) w)"

text \<open>One turn of the consumer's loop: the error with which the delivery went back, if it did.\<close>

definition chat_turn ::
  "'w broker \<Rightarrow> 'w message_repo \<Rightarrow> 'w publisher \<Rightarrow> delivery \<Rightarrow> 'w \<Rightarrow> goerror option outcome \<times> 'w" where
  "chat_turn B repo pub d w =
     bindo (handleMessage repo pub d w) (\<lambda>err w1.
       case err of
         Some e \<Rightarrow> (case bk_nack B (d_Tag d) True w1 of (_, w2) \<Rightarrow> (Returns (Some e), w2))
       | None \<Rightarrow> (case bk_ack B (d_Tag d) w1 of (_, w2) \<Rightarrow> (Returns None, w2)))"

fun chat_loop ::
  "'w broker \<Rightarrow> 'w message_repo \<Rightarrow> 'w publisher \<Rightarrow> delivery list \<Rightarrow> 'w \<Rightarrow> unit outcome \<times> 'w" where
  "chat_loop B repo pub [] w = (Returns (), w)"
| "chat_loop B repo pub (d # ds) w =
     bindo (chat_turn B repo pub d w) (\<lambda>_ w1. chat_loop B repo pub ds w1)"

definition chat_Start :: "'w broker \<Rightarrow> 'w \<Rightarrow> goerror option \<times> 'w" where
  "chat_Start B w = bk_consume B (rq_Channel (bk_client B w)) ChatCmdSendQueue ''chat-service-consumer'' w"

section \<open>Deliveries that come back\<close>

text \<open>
  The queue and the world. The broker gives the consumer any delivery of the queue (the consumer
  sets no prefetch limit); one that is given back stays in the queue. Others add deliveries and
  change the world, but never remove a stored message.
\<close>

inductive chat_step ::
  "'w broker \<Rightarrow> 'w message_repo \<Rightarrow> 'w publisher \<Rightarrow> ('w \<Rightarrow> string set) \<Rightarrow> delivery list \<times> 'w \<Rightarrow> delivery list \<times> 'w \<Rightarrow> bool"
  for B repo pub ids where
  handled: "chat_turn B repo pub d w = (Returns None, w') \<Longrightarrow>
     chat_step B repo pub ids (ds @ d # es, w) (ds @ es, w')"
| requeued: "chat_turn B repo pub d w = (Returns (Some e), w') \<Longrightarrow>
     chat_step B repo pub ids (ds @ d # es, w) (ds @ d # es, w')"
| others: "ids w \<subseteq> ids w' \<Longrightarrow> chat_step B repo pub ids (ds, w) (ds @ es, w')"

text \<open>
  What is assumed of the collection: \<open>ids\<close> are the identifiers of its documents, which are
  unique; an insertion that reports no error has happened, one that reports an error may have. It
  has no part in the broker's history \<open>tr\<close>, and the broker has none in the collection.
\<close>

definition collection_laws :: "'w chat_collection \<Rightarrow> 'w broker \<Rightarrow> 'w publisher \<Rightarrow> ('w \<Rightarrow> string set) \<Rightarrow> ('w \<Rightarrow> 'a) \<Rightarrow> bool" where
  "collection_laws col B pub ids tr \<longleftrightarrow>
     (\<forall>m w r w'. cl_insert col m w = (r, w') \<longrightarrow> tr w' = tr w
        \<and> (if ms_ID m \<in> ids w then r \<noteq> None \<and> ids w' = ids w
           else ids w' = insert (ms_ID m) (ids w) \<or> r \<noteq> None \<and> ids w' = ids w))
   \<and> (\<forall>t w r w'. bk_ack B t w = (r, w') \<longrightarrow> ids w' = ids w)
   \<and> (\<forall>t q w r w'. bk_nack B t q w = (r, w') \<longrightarrow> ids w' = ids w)
   \<and> pub_keeps pub ids"

lemma collection_lawsD:
  assumes "collection_laws col B pub ids tr"
  shows "cl_insert col m w = (r, w') \<Longrightarrow> ms_ID m \<in> ids w \<Longrightarrow> r \<noteq> None \<and> ids w' = ids w \<and> tr w' = tr w"
    "cl_insert col m w = (r, w') \<Longrightarrow> ids w \<subseteq> ids w' \<and> (r = None \<longrightarrow> ms_ID m \<in> ids w')"
    "bk_ack B t w = (r, w') \<Longrightarrow> ids w' = ids w" "bk_nack B t q w = (r, w') \<Longrightarrow> ids w' = ids w"
    "pub k a w = (x, w') \<Longrightarrow> ids w' = ids w"
proof -
  show "cl_insert col m w = (r, w') \<Longrightarrow> ms_ID m \<in> ids w \<Longrightarrow> r \<noteq> None \<and> ids w' = ids w \<and> tr w' = tr w"
    using assms unfolding collection_laws_def by metis
  show "cl_insert col m w = (r, w') \<Longrightarrow> ids w \<subseteq> ids w' \<and> (r = None \<longrightarrow> ms_ID m \<in> ids w')"
    using assms unfolding collection_laws_def by (metis insertI1 subset_insertI order_refl)
qed (use assms in \<open>unfold collection_laws_def pub_keeps_def, blast+\<close>)

definition poison :: "('w \<Rightarrow> string set) \<Rightarrow> delivery \<Rightarrow> 'w \<Rightarrow> bool" where
  "poison ids d w \<longleftrightarrow>
     (case read_event (dec_struct chat_message_data_fields) chat_message_data_zero d of
        Inl e \<Rightarrow> True
      | Inr (m, data) \<Rightarrow> cm_MessageID data \<in> ids w)"

lemma poison_mono: "poison ids d w \<Longrightarrow> ids w \<subseteq> ids w' \<Longrightarrow> poison ids d w'"
  by (auto simp: poison_def split: sum.splits)

abbreviation chat_repo :: "'w chat_collection \<Rightarrow> 'w \<Rightarrow> 'w message_repo" where
  "chat_repo col w \<equiv> fst (NewMongoMessageRepository col w)"

lemma repo_Save [simp]: "mr_Save (chat_repo col w) m v = cl_insert col m v"
  by (simp add: NewMongoMessageRepository_def chat_Save_def)

lemma HandleIncoming_grows:
  assumes L: "collection_laws col B pub ids tr" and run: "HandleIncoming (chat_repo col w0) pub m w = (r, w')"
  shows "ids w \<subseteq> ids w'"
proof -
  obtain e w1 where i: "cl_insert col m w = (e, w1)" by fastforce
  obtain x w2 where p: "PublishDelivered pub (ms_ID m) (ms_TripID m) w1 = (x, w2)" by fastforce
  have "ids w2 = ids w1"
    using p collection_lawsD(5) [OF L] by (auto simp: PublishDelivered_def split: sum.splits)
  with i p run collection_lawsD(2) [OF L i] show ?thesis
    by (cases e; cases x) (auto simp: HandleIncoming_def)
qed

lemma chat_turn_grows:
  assumes L: "collection_laws col B pub ids tr" and run: "chat_turn B (chat_repo col w0) pub d w = (r, w')"
  shows "ids w \<subseteq> ids w'"
proof -
  obtain x w1 where h: "handleMessage (chat_repo col w0) pub d w = (x, w1)" by fastforce
  then have "ids w \<subseteq> ids w1"
    by (cases "read_event (dec_struct chat_message_data_fields) chat_message_data_zero d")
      (auto simp: handleMessage_def dest!: HandleIncoming_grows [OF L])
  moreover have "ids w' = ids w1"
  proof (cases x)
    case (Returns e)
    then show ?thesis using run h collection_lawsD(3,4) [OF L]
      by (cases e) (auto simp: chat_turn_def split: prod.splits)
  qed (use run h in \<open>simp_all add: chat_turn_def\<close>)
  ultimately show ?thesis by simp
qed

lemma poison_turn:
  assumes L: "collection_laws col B pub ids tr" and B: "broker_traces B tr" and p: "poison ids d w"
  shows "\<exists>e w'. chat_turn B (chat_repo col w0) pub d w = (Returns (Some e), w') \<and> ids w' = ids w
     \<and> tr w' = tr w @ [Settled (d_Tag d) (Nacked True)]"
proof -
  have "\<exists>e w1. handleMessage (chat_repo col w0) pub d w = (Returns (Some e), w1) \<and> ids w1 = ids w \<and> tr w1 = tr w"
  proof (cases "read_event (dec_struct chat_message_data_fields) chat_message_data_zero d")
    case (Inl e)
    then show ?thesis by (simp add: handleMessage_def)
  next
    case (Inr x)
    then obtain m data where x: "read_event (dec_struct chat_message_data_fields) chat_message_data_zero d = Inr (m, data)"
      by (cases x) simp
    obtain r w1 where i: "cl_insert col (message_of data) w = (r, w1)" by fastforce
    have "ms_ID (message_of data) \<in> ids w" using p x by (simp add: poison_def message_of_def)
    from collection_lawsD(1) [OF L i this] x i show ?thesis by (auto simp: handleMessage_def HandleIncoming_def)
  qed
  then obtain e w1 where h: "handleMessage (chat_repo col w0) pub d w = (Returns (Some e), w1)" "ids w1 = ids w" "tr w1 = tr w"
    by blast
  obtain r w2 where n: "bk_nack B (d_Tag d) True w1 = (r, w2)" by fastforce
  show ?thesis using h n collection_lawsD(4) [OF L n] broker_traceD(11) [OF B n] by (simp add: chat_turn_def)
qed

text \<open>
  C33: A chat message that cannot be read, or whose identifier is stored already, never leaves the
  queue: after any run of the chat service it is still there, and each time it is handled it is
  given back to the queue, with nothing stored, nothing sent and no way to the dead letters.
\<close>

theorem chat_poison_stays:
  assumes L: "collection_laws col B (PublishMessage B rt) ids tr" and B: "broker_traces B tr"
    and reach: "(chat_step B (chat_repo col w0) (PublishMessage B rt) ids)\<^sup>*\<^sup>* (q, w) (q', w')"
    and d: "d \<in> set q" "poison ids d w"
  shows "d \<in> set q' \<and> (\<exists>e w''. chat_turn B (chat_repo col w0) (PublishMessage B rt) d w' = (Returns (Some e), w'')
     \<and> ids w'' = ids w' \<and> tr w'' = tr w' @ [Settled (d_Tag d) (Nacked True)])"
proof -
  have "d \<in> set (fst s') \<and> poison ids d (snd s')"
    if "(chat_step B (chat_repo col w0) (PublishMessage B rt) ids)\<^sup>*\<^sup>* s s'" "d \<in> set (fst s)" "poison ids d (snd s)" for s s'
    using that
  proof (induction rule: rtranclp_induct)
    case (step s1 s2)
    from step.hyps(2) step.IH [OF step.prems] show ?case
    proof (cases rule: chat_step.cases)
      case (handled d' w1 w2 ds es)
      with step.IH [OF step.prems] poison_turn [OF L B, of d w1 w0] chat_turn_grows [OF L handled(3)]
      show ?thesis by (auto intro: poison_mono)
    next
      case (requeued d' w1 e w2 ds es)
      with step.IH [OF step.prems] chat_turn_grows [OF L requeued(3)] show ?thesis by (auto intro: poison_mono)
    next
      case (others w1 w2 ds es)
      with step.IH [OF step.prems] show ?thesis by (auto intro: poison_mono)
    qed
  qed simp_all
  from this [OF reach] d poison_turn [OF L B, of d w' w0] show ?thesis by auto
qed

text \<open>A collection of the reference world; the documents of a trip are found newest first.\<close>

record chat_sim = sim +
  cs_docs :: "message list"

definition sim_collection :: "chat_sim chat_collection" where
  "sim_collection = \<lparr>cl_create_index = (\<lambda>k w. (None, w)),
     cl_insert = (\<lambda>m w. if ms_ID m \<in> ms_ID ` set (cs_docs w) then (Some (ErrMsg ''E11000 duplicate key''), w)
                       else (None, w\<lparr>cs_docs := m # cs_docs w\<rparr>)),
     cl_find_trip = (\<lambda>t k n w. (Inr (map Some (take (nat n) (filter (\<lambda>m. ms_TripID m = t) (cs_docs w))), None), w)),
     cl_set_delivered = (\<lambda>i w. (None, w\<lparr>cs_docs := map (\<lambda>m. if ms_ID m = i then m\<lparr>ms_Delivered := True\<rparr> else m) (cs_docs w)\<rparr>))\<rparr>"

definition chat_sim0 :: chat_sim where
  "chat_sim0 = sim.extend sim0 \<lparr>cs_docs = []\<rparr>"

abbreviation chat_ids :: "chat_sim \<Rightarrow> string set" where
  "chat_ids w \<equiv> ms_ID ` set (cs_docs w)"

abbreviation chat_publish :: "chat_sim publisher" where
  "chat_publish \<equiv> PublishMessage sim_broker sim_runtime"

lemma sim_collection_laws: "collection_laws sim_collection (sim_broker :: chat_sim broker) chat_publish chat_ids si_events"
proof -
  have "pub_keeps chat_publish chat_ids" by (rule sim_pub_keeps) simp_all
  moreover have "bk_ack (sim_broker :: chat_sim broker) t w = (r, w') \<Longrightarrow> chat_ids w' = chat_ids w"
    "bk_nack (sim_broker :: chat_sim broker) t q w = (r, w') \<Longrightarrow> chat_ids w' = chat_ids w" for t q w r w'
    by (auto simp: sim_broker_def record_event_def)
  ultimately show ?thesis
    by (auto simp: collection_laws_def sim_collection_def split: if_splits)
qed

definition hello :: chat_message_data where
  "hello = \<lparr>cm_MessageID = ''m1'', cm_TripID = ''t1'', cm_SenderID = ''d1'', cm_Text = ''hello'', cm_SentAt = 0\<rparr>"

lemma sample_turn:
  assumes r: "read_event (dec_struct chat_message_data_fields) chat_message_data_zero d = Inr (m, hello)"
  shows "\<exists>w1. chat_turn (sim_broker :: chat_sim broker) (chat_repo sim_collection chat_sim0) chat_publish d chat_sim0 = (Returns None, w1)
     \<and> chat_ids w1 = {''m1''}"
proof -
  define v where "v = chat_sim0\<lparr>cs_docs := [message_of hello]\<rparr>"
  have up: "si_up v" by (simp add: v_def chat_sim0_def sim.defs sim0_def)
  obtain b c where "marshal enc_chat_delivered_data \<lparr>cd_MessageID = ''m1'', cd_TripID = ''t1''\<rparr> = Inr (RawJson b)"
    "marshal enc_amqp_message \<lparr>am_OwnerID = ''t1'', am_Data = RawJson b\<rparr> = Inr c"
    by (simp add: codec_defs json_defs)
  with sim_publish_up [OF up] obtain w where p: "PublishDelivered chat_publish ''m1'' ''t1'' v = (Returns None, w)"
    by (simp add: PublishDelivered_def)
  have ins: "cl_insert sim_collection (message_of hello) chat_sim0 = (None, v)"
    by (simp add: sim_collection_def chat_sim0_def sim.defs chat_sim.defs v_def)
  have ids: "ms_ID (message_of hello) = ''m1''" "ms_TripID (message_of hello) = ''t1''"
    by (simp_all add: message_of_def hello_def)
  obtain x w1 where a: "bk_ack sim_broker (d_Tag d) w = (x, w1)" by fastforce
  have "chat_turn sim_broker (chat_repo sim_collection chat_sim0) chat_publish d chat_sim0 = (Returns None, w1)"
    by (simp add: chat_turn_def handleMessage_def r HandleIncoming_def ins ids p a)
  moreover have "chat_ids w1 = chat_ids v"
    using p a sim_collection_laws collection_lawsD(3,5) [OF sim_collection_laws] by (auto simp: PublishDelivered_def split: sum.splits)
  ultimately show ?thesis by (simp add: v_def message_of_def hello_def)
qed

text \<open>The same client identifier sent twice: the first message is stored, the second one stays.\<close>

theorem chat_poison_stays_witness:
  "\<exists>d w1. chat_turn (sim_broker :: chat_sim broker) (chat_repo sim_collection chat_sim0) chat_publish d chat_sim0 = (Returns None, w1)
     \<and> chat_step sim_broker (chat_repo sim_collection chat_sim0) chat_publish chat_ids ([d, d], chat_sim0) ([d], w1)
     \<and> (\<exists>e w''. chat_turn sim_broker (chat_repo sim_collection chat_sim0) chat_publish d w1 = (Returns (Some e), w'')
          \<and> si_events w'' = si_events w1 @ [Settled (d_Tag d) (Nacked True)])"
proof -
  let ?repo = "chat_repo sim_collection chat_sim0"
  obtain j where "dec_struct chat_message_data_fields chat_message_data_zero j = Some hello"
    using chat_message_roundtrip [of hello] by (auto simp: hello_def)
  note r = read_event_delivery [where dec = "dec_struct chat_message_data_fields", OF this, of ChatCmdSend "''d1''"]
  let ?d = "event_delivery ChatCmdSend ''d1'' j"
  obtain w1 where t: "chat_turn sim_broker ?repo chat_publish ?d chat_sim0 = (Returns None, w1)" and i: "chat_ids w1 = {''m1''}"
    using sample_turn [OF r] by blast
  have h: "chat_step sim_broker ?repo chat_publish chat_ids ([?d, ?d], chat_sim0) ([?d], w1)"
    using chat_step.handled [where d = ?d and ds = "[]" and es = "[?d]", OF t] by simp
  have "poison chat_ids ?d w1" by (simp add: poison_def r i hello_def)
  from chat_poison_stays [OF sim_collection_laws sim_broker_traces rtranclp.rtrancl_refl _ this, of "[?d]" chat_sim0] t h
  show ?thesis by auto
qed

end
