(* ===== verification/Net.thy ===== *)
theory Net
  imports RateLimit
begin

text \<open>
  What the API gateway uses of Go's packages \<open>net\<close> and \<open>net/netip\<close>: parsing an address and a
  range in CIDR notation, masks, and membership. An address is its 4 or 16 bytes.
\<close>

unbundle bit_operations_syntax

type_synonym ip = "8 word list"

section \<open>Addresses\<close>

definition parse_octet :: "string \<Rightarrow> 8 word option" where
  "parse_octet s =
     (if s = '''' \<or> (hd s = CHR ''0'' \<and> s \<noteq> ''0'') then None
      else (case read_digits 0 s of None \<Rightarrow> None
            | Some n \<Rightarrow> if n \<le> 255 then Some (word_of_nat n) else None))"

definition parse_IPv4 :: "string \<Rightarrow> ip option" where
  "parse_IPv4 s =
     (let fields = split_char (CHR ''.'') s
      in if length fields = 4 then those (map parse_octet fields) else None)"

definition hex_value :: "char \<Rightarrow> nat option" where
  "hex_value c = map_of (zip ''0123456789abcdefABCDEF'' ([0..<16] @ [10..<16])) c"

fun read_hex :: "nat \<Rightarrow> string \<Rightarrow> nat option" where
  "read_hex acc [] = Some acc"
| "read_hex acc (c # cs) = (case hex_value c of None \<Rightarrow> None | Some d \<Rightarrow> read_hex (16 * acc + d) cs)"

definition parse_group :: "string \<Rightarrow> ip option" where
  "parse_group s =
     (if s = '''' \<or> length s > 4 then None
      else map_option (\<lambda>n. [word_of_nat (n div 256), word_of_nat (n mod 256)]) (read_hex 0 s))"

text \<open>The fields between single colons; the last one may be an IPv4 address.\<close>

fun parse_groups :: "string list \<Rightarrow> ip option" where
  "parse_groups [] = Some []"
| "parse_groups [s] = (if CHR ''.'' \<in> set s then parse_IPv4 s else parse_group s)"
| "parse_groups (s # ss) =
     (case parse_group s of None \<Rightarrow> None | Some bs \<Rightarrow> map_option ((@) bs) (parse_groups ss))"

fun split_ellipsis :: "string \<Rightarrow> (string \<times> string) option" where
  "split_ellipsis [] = None"
| "split_ellipsis [c] = None"
| "split_ellipsis (c # d # cs) =
     (if c = CHR '':'' \<and> d = CHR '':'' then Some ([], cs)
      else map_option (\<lambda>(l, r). (c # l, r)) (split_ellipsis (d # cs)))"

definition fields_of :: "string \<Rightarrow> string list" where
  "fields_of s = (if s = '''' then [] else split_char (CHR '':'') s)"

definition parse_IPv6 :: "string \<Rightarrow> ip option" where
  "parse_IPv6 s =
     (case split_ellipsis s of
        None \<Rightarrow> (case parse_groups (fields_of s) of
                  Some bs \<Rightarrow> if length bs = 16 then Some bs else None | None \<Rightarrow> None)
      | Some (l, r) \<Rightarrow>
          if CHR ''.'' \<in> set l then None
          else (case (parse_groups (fields_of l), parse_groups (fields_of r)) of
                  (Some a, Some b) \<Rightarrow> if length a + length b < 16
                     then Some (a @ replicate (16 - (length a + length b)) 0 @ b) else None
                | _ \<Rightarrow> None))"

text \<open>\<open>netip.ParseAddr\<close> of an address without a zone; its first separator tells which kind it is.\<close>

definition ParseAddr :: "string \<Rightarrow> ip option" where
  "ParseAddr s =
     (case dropWhile (\<lambda>c. c \<notin> {CHR ''.'', CHR '':'', CHR ''%''}) s of
        [] \<Rightarrow> None
      | c # cs \<Rightarrow> if c = CHR ''.'' then parse_IPv4 s else if c = CHR '':'' then parse_IPv6 s else None)"

definition v4InV6Prefix :: ip where
  "v4InV6Prefix = replicate 10 0 @ [255, 255]"

definition As16 :: "ip \<Rightarrow> ip" where
  "As16 bs = (if length bs = 4 then v4InV6Prefix @ bs else bs)"

definition ParseIP :: "string \<Rightarrow> ip option" where
  "ParseIP s = map_option As16 (ParseAddr s)"

definition To4 :: "ip \<Rightarrow> ip option" where
  "To4 ip = (if length ip = 4 then Some ip
     else if length ip = 16 \<and> take 12 ip = v4InV6Prefix then Some (drop 12 ip) else None)"

section \<open>Ranges\<close>

fun CIDRMask :: "nat \<Rightarrow> nat \<Rightarrow> ip" where
  "CIDRMask ones 0 = []"
| "CIDRMask ones (Suc l) =
     (if ones \<ge> 8 then 255 # CIDRMask (ones - 8) l else NOT (drop_bit ones 255) # CIDRMask 0 l)"

definition masked :: "ip \<Rightarrow> ip \<Rightarrow> ip" where
  "masked ip m = map2 (AND) ip m"

record ip_net =
  in_IP :: ip
  in_Mask :: ip

definition dtoi :: "string \<Rightarrow> nat option" where
  "dtoi s = (if s = '''' then None
     else (case read_digits 0 s of None \<Rightarrow> None | Some n \<Rightarrow> if n < 16777215 then Some n else None))"

definition ParseCIDR :: "string \<Rightarrow> ip_net option" where
  "ParseCIDR s =
     (case dropWhile (\<lambda>c. c \<noteq> CHR ''/'') s of
        [] \<Rightarrow> None
      | _ # ones \<Rightarrow>
          (case (ParseAddr (takeWhile (\<lambda>c. c \<noteq> CHR ''/'') s), dtoi ones) of
             (Some addr, Some n) \<Rightarrow>
               if n \<le> 8 * length addr
               then Some \<lparr>in_IP = masked addr (CIDRMask n (length addr)), in_Mask = CIDRMask n (length addr)\<rparr>
               else None
           | _ \<Rightarrow> None))"

definition networkNumberAndMask :: "ip_net \<Rightarrow> (ip \<times> ip) option" where
  "networkNumberAndMask n =
     (let ip = (case To4 (in_IP n) of Some ip4 \<Rightarrow> ip4 | None \<Rightarrow> in_IP n); m = in_Mask n
      in if To4 (in_IP n) = None \<and> length ip \<noteq> 16 then None
         else if length m = 4 then (if length ip \<noteq> 4 then None else Some (ip, m))
         else if length m = 16 then Some (ip, if length ip = 4 then drop 12 m else m)
         else None)"

definition Contains :: "ip_net \<Rightarrow> ip \<Rightarrow> bool" where
  "Contains n ip =
     (case networkNumberAndMask n of
        None \<Rightarrow> ip = []
      | Some (nn, m) \<Rightarrow>
          (let x = (case To4 ip of Some ip4 \<Rightarrow> ip4 | None \<Rightarrow> ip)
           in length x = length nn \<and> masked nn m = masked x m))"

section \<open>Membership is a common prefix\<close>

text \<open>The reference: the bits of an address, the most significant first.\<close>

definition byte_bits :: "8 word \<Rightarrow> bool list" where
  "byte_bits b = map (bit b) (rev [0..<8])"

definition ip_bits :: "ip \<Rightarrow> bool list" where
  "ip_bits bs = concat (map byte_bits bs)"

definition v4_range :: "ip \<Rightarrow> nat \<Rightarrow> ip_net" where
  "v4_range a n = \<lparr>in_IP = masked a (CIDRMask n 4), in_Mask = CIDRMask n 4\<rparr>"

lemma length_byte_bits [simp]: "length (byte_bits b) = 8"
  by (simp add: byte_bits_def)

lemma byte_bits_inj: "byte_bits a = byte_bits b \<longleftrightarrow> a = b"
proof
  assume "byte_bits a = byte_bits b"
  then have "\<forall>i<8. bit a i = bit b i" by (auto simp: byte_bits_def)
  then show "a = b" by (intro bit_word_eqI) auto
qed simp

lemma mask_byte_eq:
  fixes a b :: "8 word"
  assumes "n < 8"
  shows "a AND NOT (drop_bit n 255) = b AND NOT (drop_bit n 255) \<longleftrightarrow> take n (byte_bits a) = take n (byte_bits b)"
proof -
  have m: "bit (NOT (drop_bit n 255) :: 8 word) i \<longleftrightarrow> 8 - n \<le> i" if "i < 8" for i
  proof -
    have e: "(255 :: 8 word) = - 1" by simp
    show ?thesis using that assms unfolding e by (auto simp: bit_not_iff bit_drop_bit_eq bit_mask_iff)
  qed
  have "a AND NOT (drop_bit n 255) = b AND NOT (drop_bit n 255) \<longleftrightarrow> (\<forall>i<8. 8 - n \<le> i \<longrightarrow> bit a i = bit b i)"
    by (auto simp: bit_eq_iff bit_and_iff m)
  also have "\<dots> \<longleftrightarrow> (\<forall>j<n. bit a (7 - j) = bit b (7 - j))"
  proof safe
    fix j assume *: "\<forall>i<8. 8 - n \<le> i \<longrightarrow> bit a i = bit b i" "j < n"
    then show "bit a (7 - j) \<Longrightarrow> bit b (7 - j)" "bit b (7 - j) \<Longrightarrow> bit a (7 - j)"
      using assms by (auto dest: spec [of _ "7 - j"])
  next
    fix i assume *: "\<forall>j<n. bit a (7 - j) = bit b (7 - j)" "i < 8" "8 - n \<le> i"
    then have "7 - i < n" "7 - (7 - i) = i" using assms by auto
    with *(1) show "bit a i \<Longrightarrow> bit b i" "bit b i \<Longrightarrow> bit a i" by metis+
  qed
  also have "\<dots> \<longleftrightarrow> take n (byte_bits a) = take n (byte_bits b)"
    using assms by (auto simp: byte_bits_def list_eq_iff_nth_eq rev_nth)
  finally show ?thesis .
qed

lemma masked_eq:
  "length a = l \<Longrightarrow> length b = l \<Longrightarrow> n \<le> 8 * l \<Longrightarrow>
     masked a (CIDRMask n l) = masked b (CIDRMask n l) \<longleftrightarrow> take n (ip_bits a) = take n (ip_bits b)"
proof (induction l arbitrary: a b n)
  case (Suc l)
  then obtain x a' y b' where ab: "a = x # a'" "b = y # b'" "length a' = l" "length b' = l" by (metis length_Suc_conv)
  have w: "(255 :: 8 word) = - 1" by simp
  show ?case
  proof (cases "8 \<le> n")
    case True
    then have "take n (ip_bits (z # c)) = byte_bits z @ take (n - 8) (ip_bits c)" for z c by (simp add: ip_bits_def)
    with True Suc.IH [of a' b' "n - 8"] Suc.prems ab show ?thesis
      by (simp add: masked_def byte_bits_inj w)
  next
    case False
    then have "take n (ip_bits (z # c)) = take n (byte_bits z)" for z c by (simp add: ip_bits_def)
    with False Suc.IH [of a' b' 0] ab mask_byte_eq [of n x y] show ?thesis by (simp add: masked_def)
  qed
qed (simp add: masked_def)

lemma length_CIDRMask [simp]: "length (CIDRMask n l) = l"
  by (induction n l rule: CIDRMask.induct) simp_all

lemma length_masked [simp]: "length (masked a m) = min (length a) (length m)"
  by (simp add: masked_def)

lemma masked_twice: "length a = length m \<Longrightarrow> masked (masked a m) m = masked a m"
  by (induction a m rule: list_induct2) (auto simp: masked_def and.assoc)

lemma Contains_v4:
  assumes "length a = 4" "n \<le> 32"
  shows "Contains (v4_range a n) ip \<longleftrightarrow> (\<exists>x. To4 ip = Some x \<and> take n (ip_bits x) = take n (ip_bits a))"
proof -
  have nn: "networkNumberAndMask (v4_range a n) = Some (masked a (CIDRMask n 4), CIDRMask n 4)"
    using assms by (simp add: networkNumberAndMask_def v4_range_def To4_def Let_def)
  have t: "masked (masked a (CIDRMask n 4)) (CIDRMask n 4) = masked a (CIDRMask n 4)"
    using assms by (simp add: masked_twice)
  show ?thesis
  proof (cases "To4 ip")
    case None
    then show ?thesis using assms by (auto simp: Contains_def nn Let_def To4_def)
  next
    case (Some x)
    then have "length x = 4" by (auto simp: To4_def split: if_splits)
    with Some assms masked_eq [of a 4 x n] show ?thesis
      by (auto simp: Contains_def nn Let_def t)
  qed
qed

text \<open>A range in dotted notation is one of these.\<close>

lemma ParseCIDR_v4:
  assumes "ParseCIDR s = Some net" "length (in_Mask net) = 4"
  shows "\<exists>a n. length a = 4 \<and> n \<le> 32 \<and> net = v4_range a n"
proof -
  obtain addr n where "ParseAddr (takeWhile (\<lambda>c. c \<noteq> CHR ''/'') s) = Some addr" "n \<le> 8 * length addr"
    "net = \<lparr>in_IP = masked addr (CIDRMask n (length addr)), in_Mask = CIDRMask n (length addr)\<rparr>"
    using assms(1) by (auto simp: ParseCIDR_def split: list.splits option.splits if_splits)
  with assms(2) show ?thesis by (intro exI [of _ addr] exI [of _ n]) (simp add: v4_range_def)
qed

end
