(* ===== verification/ApiGateway.thy ===== *)
theory ApiGateway
  imports Net Tokens Login TripEvents
begin

text \<open>
  The API gateway (\<open>services/api-gateway\<close>): its requests (\<open>types.go\<close>, \<open>auth.go\<close>), the handlers
  of trips, accounts and Stripe's webhook (\<open>http.go\<close>, \<open>auth.go\<close>), the whitelist
  (\<open>ratelimit.go\<close>) and the routes of \<open>main.go\<close>. The gRPC clients are records of calls; the
  validator's rules, the check of a webhook's signature and the decoding of a Checkout session
  belong to libraries and are parameters. Spans, the CORS wrapper and the set-up of the process are
  left out.
\<close>

section \<open>Requests\<close>

record preview_trip_request =
  vt_Pickup :: coordinate
  vt_Destination :: coordinate

record pb_preview_request =
  pv_UserID :: string
  pv_StartLocation :: "coordinate option"
  pv_EndLocation :: "coordinate option"

record pb_create_request =
  pc_UserID :: string
  pc_RideFareID :: string

record pb_cancel_request =
  px_TripID :: string
  px_UserID :: string

definition preview_trip_request_fields :: "preview_trip_request fields" where
  "preview_trip_request_fields =
     [fld ''pickup'' vt_Pickup vt_Pickup_update (dec_struct coordinate_fields),
      fld ''destination'' vt_Destination vt_Destination_update (dec_struct coordinate_fields)]"

definition preview_trip_request_zero :: preview_trip_request where
  "preview_trip_request_zero = \<lparr>vt_Pickup = coordinate_zero, vt_Destination = coordinate_zero\<rparr>"

definition start_trip_request_fields :: "string fields" where
  "start_trip_request_fields = [fld ''rideFareID'' (\<lambda>s. s) (\<lambda>f. f) dec_str]"

definition cancel_trip_request_fields :: "string fields" where
  "cancel_trip_request_fields = [fld ''tripID'' (\<lambda>s. s) (\<lambda>f. f) dec_str]"

definition toProtoCoordinate :: "coordinate \<Rightarrow> coordinate option" where
  "toProtoCoordinate c = Some \<lparr>Latitude = Latitude c, Longitude = Longitude c\<rparr>"

definition preview_toProto :: "preview_trip_request \<Rightarrow> string \<Rightarrow> pb_preview_request" where
  "preview_toProto p userID = \<lparr>pv_UserID = userID, pv_StartLocation = toProtoCoordinate (vt_Pickup p),
     pv_EndLocation = toProtoCoordinate (vt_Destination p)\<rparr>"

definition start_toProto :: "string \<Rightarrow> string \<Rightarrow> pb_create_request" where
  "start_toProto rideFare userID = \<lparr>pc_UserID = userID, pc_RideFareID = rideFare\<rparr>"

definition cancel_toProto :: "string \<Rightarrow> string \<Rightarrow> pb_cancel_request" where
  "cancel_toProto tripID userID = \<lparr>px_TripID = tripID, px_UserID = userID\<rparr>"

record login_request =
  lr_Email :: string
  lr_Password :: string

record google_request =
  gr_IDToken :: string
  gr_Role :: string

definition signup_request_fields :: "signup_request fields" where
  "signup_request_fields =
     [fld ''email'' sr_Email sr_Email_update dec_str, fld ''password'' sr_Password sr_Password_update dec_str,
      fld ''name'' sr_Name sr_Name_update dec_str, fld ''phoneNumber'' sr_PhoneNumber sr_PhoneNumber_update dec_str,
      fld ''role'' sr_Role sr_Role_update dec_str]"

definition signup_request_zero :: signup_request where
  "signup_request_zero = \<lparr>sr_Email = '''', sr_Password = '''', sr_Name = '''', sr_PhoneNumber = '''', sr_Role = ''''\<rparr>"

definition login_request_fields :: "login_request fields" where
  "login_request_fields =
     [fld ''email'' lr_Email lr_Email_update dec_str, fld ''password'' lr_Password lr_Password_update dec_str]"

definition google_request_fields :: "google_request fields" where
  "google_request_fields =
     [fld ''idToken'' gr_IDToken gr_IDToken_update dec_str, fld ''role'' gr_Role gr_Role_update dec_str]"

section \<open>The gateway's parts\<close>

record 'w trip_client =
  tcl_PreviewTrip :: "pb_preview_request \<Rightarrow> 'w \<Rightarrow> (pb_route \<times> pb_ride_fare list) res \<times> 'w"
  tcl_CreateTrip :: "pb_create_request \<Rightarrow> 'w \<Rightarrow> string res \<times> 'w"
  tcl_CancelTrip :: "pb_cancel_request \<Rightarrow> 'w \<Rightarrow> string res \<times> 'w"

record 'w login_client =
  lcl_Signup :: "signup_request \<Rightarrow> 'w \<Rightarrow> auth_response res \<times> 'w"
  lcl_Login :: "string \<Rightarrow> string \<Rightarrow> 'w \<Rightarrow> auth_response res \<times> 'w"
  lcl_RefreshToken :: "string \<Rightarrow> 'w \<Rightarrow> auth_response res \<times> 'w"
  lcl_GoogleAuth :: "string \<Rightarrow> string \<Rightarrow> 'w \<Rightarrow> auth_response res \<times> 'w"

text \<open>
  \<open>va_check tags value\<close> is the first rule of a tag that a string breaks, with its parameter. A
  verified webhook event has its type and, when it carries data, the raw object;
  \<open>sp_session\<close> reads the metadata of a Checkout session from it.
\<close>

type_synonym validator = "string \<Rightarrow> string \<Rightarrow> (string \<times> string) option"

record stripe_event =
  sv_Type :: string
  sv_Data :: "raw option"

record 'w stripe_lib =
  sp_construct :: "raw \<Rightarrow> string \<Rightarrow> string \<Rightarrow> 'w \<Rightarrow> stripe_event res \<times> 'w"
  sp_session :: "raw \<Rightarrow> (string \<rightharpoonup> string) res"

record 'w api_gateway =
  ag_trip :: "'w trip_client"
  ag_login :: "'w login_client"
  ag_validate :: validator
  ag_stripe :: "'w stripe_lib"
  ag_publish :: "'w publisher"
  ag_runtime :: "'w runtime"
  ag_redis :: "'w redis"
  ag_jwt :: "'w jwt"
  ag_secret :: string
  ag_nets :: "ip_net list"

text \<open>
  The services behind the clients: a handler's answer, or an unavailable server when the handler
  panics or its process ends.
\<close>

definition rpc :: "'a res outcome \<times> 'w \<Rightarrow> 'a res \<times> 'w" where
  "rpc m = (case m of (Returns r, w) \<Rightarrow> (r, w) | (_, w) \<Rightarrow> (Inl (GrpcStatus Unavailable ''connection error''), w))"

definition trip_service_client ::
  "'w publisher \<Rightarrow> 'w trip_repo \<Rightarrow> 'w mongo_trips \<Rightarrow> 'w fare_repo \<Rightarrow> 'w http_get \<Rightarrow> 'w trip_client" where
  "trip_service_client pub repo M F get =
     \<lparr>tcl_PreviewTrip = (\<lambda>q w. rpc (grpc_PreviewTrip get M F (pv_UserID q) (pv_StartLocation q) (pv_EndLocation q) w)),
      tcl_CreateTrip = (\<lambda>q w. rpc (grpc_CreateTrip pub repo M F (pc_RideFareID q) (pc_UserID q) w)),
      tcl_CancelTrip = (\<lambda>q w. rpc (grpc_CancelTrip pub repo (px_TripID q) (px_UserID q) w))\<rparr>"

section \<open>Trips\<close>

definition decode_body :: "'a dec \<Rightarrow> 'a \<Rightarrow> request \<Rightarrow> 'a res" where
  "decode_body d zero r = (case hq_Body r of Inl e \<Rightarrow> Inl e | Inr b \<Rightarrow> unmarshal d zero b)"

text \<open>A field of a struct as the validator sees it: its name, its tag and its value.\<close>

fun validate_fields :: "validator \<Rightarrow> (string \<times> string \<times> string) list \<Rightarrow> field_error list" where
  "validate_fields V [] = []"
| "validate_fields V ((name, tag, value) # fs) =
     (case V tag value of
        None \<Rightarrow> validate_fields V fs
      | Some (rule, param) \<Rightarrow> \<lparr>fe_Field = name, fe_Tag = rule, fe_Param = param\<rparr> # validate_fields V fs)"

definition enc_preview_response :: "pb_route \<times> pb_ride_fare list \<Rightarrow> json option" where
  "enc_preview_response p =
     (case p of (route, fares) \<Rightarrow>
        enc_obj [omit_str ''tripID'' '''', omit_ptr ''route'' enc_pb_route (Some route),
                 omit_list ''rideFares'' enc_pb_ride_fare fares])"

definition enc_create_response :: "string \<Rightarrow> json option" where
  "enc_create_response tripID = enc_obj [omit_str ''tripID'' tripID]"

definition unauthorized :: response where
  "unauthorized = http_error ''Unauthorized'' 401"

definition invalid_body :: response where
  "invalid_body = http_error ''Invalid request body'' 400"

definition validation_failed :: "field_error list \<Rightarrow> response" where
  "validation_failed errs = RespondWithError 400 ''Validation failed'' (map FormatValidationError errs)"

definition gw_HandleTripPreview :: "'w api_gateway \<Rightarrow> 'w http_handler" where
  "gw_HandleTripPreview G r w =
     (case decode_body (dec_struct preview_trip_request_fields) preview_trip_request_zero r of
        Inl e \<Rightarrow> (Returns invalid_body, w)
      | Inr reqBody \<Rightarrow>
          (let userID = ctx_string r ctxKeyUserID
           in if userID = '''' then (Returns unauthorized, w)
              else if validate_fields (ag_validate G) [] \<noteq> []
              then (Returns (validation_failed (validate_fields (ag_validate G) [])), w)
              else (case tcl_PreviewTrip (ag_trip G) (preview_toProto reqBody userID) w of
                      (Inl e, w1) \<Rightarrow> (Returns (http_error ''Failed to get trip preview'' 500), w1)
                    | (Inr tripPreview, w1) \<Rightarrow>
                        (Returns (RespondWithSuccess 200 ''Trip Preview'' (Some (enc_preview_response tripPreview))), w1))))"

definition start_rules :: "string \<Rightarrow> (string \<times> string \<times> string) list" where
  "start_rules rideFare = [(''RideFare'', ''required,min=1'', rideFare)]"

definition HandleStartTrip :: "'w api_gateway \<Rightarrow> 'w http_handler" where
  "HandleStartTrip G r w =
     (case decode_body (dec_struct start_trip_request_fields) '''' r of
        Inl e \<Rightarrow> (Returns invalid_body, w)
      | Inr reqBody \<Rightarrow>
          (let userID = ctx_string r ctxKeyUserID; errs = validate_fields (ag_validate G) (start_rules reqBody)
           in if userID = '''' then (Returns unauthorized, w)
              else if errs \<noteq> [] then (Returns (validation_failed errs), w)
              else (case tcl_CreateTrip (ag_trip G) (start_toProto reqBody userID) w of
                      (Inl e, w1) \<Rightarrow> (Exits, w1)
                    | (Inr trip, w1) \<Rightarrow>
                        (Returns (RespondWithSuccess 200 ''Trip Started'' (Some (enc_create_response trip))), w1))))"

definition cancel_rules :: "string \<Rightarrow> (string \<times> string \<times> string) list" where
  "cancel_rules tripID = [(''TripID'', ''required,min=1'', tripID)]"

definition HandleCancelTrip :: "'w api_gateway \<Rightarrow> 'w http_handler" where
  "HandleCancelTrip G r w =
     (case decode_body (dec_struct cancel_trip_request_fields) '''' r of
        Inl e \<Rightarrow> (Returns invalid_body, w)
      | Inr reqBody \<Rightarrow>
          (let userID = ctx_string r ctxKeyUserID; errs = validate_fields (ag_validate G) (cancel_rules reqBody)
           in if userID = '''' then (Returns unauthorized, w)
              else if errs \<noteq> [] then (Returns (validation_failed errs), w)
              else (case tcl_CancelTrip (ag_trip G) (cancel_toProto reqBody userID) w of
                      (Inl e, w1) \<Rightarrow> (Returns (http_error ''Failed to cancel trip'' 500), w1)
                    | (Inr _, w1) \<Rightarrow> (Returns (RespondWithSuccess 200 ''Trip cancelled'' None), w1))))"

section \<open>Stripe's webhook\<close>

definition metadata_value :: "(string \<rightharpoonup> string) \<Rightarrow> string \<Rightarrow> string" where
  "metadata_value md k = (case md k of None \<Rightarrow> '''' | Some v \<Rightarrow> v)"

definition webhook_payload :: "(string \<rightharpoonup> string) \<Rightarrow> payment_status_update" where
  "webhook_payload md = \<lparr>pu_TripID = metadata_value md ''trip_id'', pu_UserID = metadata_value md ''user_id'',
     pu_DriverID = metadata_value md ''driver_id''\<rparr>"

text \<open>An event whose data is missing is dereferenced.\<close>

definition handle_completed :: "'w api_gateway \<Rightarrow> stripe_event \<Rightarrow> 'w \<Rightarrow> response outcome \<times> 'w" where
  "handle_completed G event w =
     (case sv_Data event of
        None \<Rightarrow> (Panics, w)
      | Some raw \<Rightarrow>
          (case sp_session (ag_stripe G) raw of
             Inl e \<Rightarrow> (Returns (http_error ''Invalid payload'' 400), w)
           | Inr md \<Rightarrow>
               (case marshal enc_payment_status_update (webhook_payload md) of
                  Inl e \<Rightarrow> (Returns (http_error ''Failed to marshal payload'' 500), w)
                | Inr payloadBytes \<Rightarrow>
                    bindo (ag_publish G PaymentEventSuccess
                             \<lparr>am_OwnerID = metadata_value md ''user_id'', am_Data = payloadBytes\<rparr> w)
                      (\<lambda>e w1. case e of
                         Some e \<Rightarrow> (Returns (http_error ''Failed to publish payment event'' 500), w1)
                       | None \<Rightarrow> (Returns no_reply, w1)))))"

definition handleStripeWebhook :: "'w api_gateway \<Rightarrow> 'w http_handler" where
  "handleStripeWebhook G r w =
     (case hq_Body r of
        Inl e \<Rightarrow> (Returns (http_error ''Failed to read request body'' 500), w)
      | Inr body \<Rightarrow>
          (let webhookKey = GetString (ag_runtime G) ''STRIPE_WEBHOOK_KEY'' '''' w
           in if webhookKey = '''' then (Returns no_reply, w)
              else (case sp_construct (ag_stripe G) body (hq_Header r ''Stripe-Signature'') webhookKey w of
                      (Inl e, w1) \<Rightarrow> (Returns (http_error ''Invalid signature'' 400), w1)
                    | (Inr event, w1) \<Rightarrow>
                        if sv_Type event = ''checkout.session.completed'' then handle_completed G event w1
                        else (Returns no_reply, w1))))"

fun parse_nets :: "string list \<Rightarrow> ip_net list" where
  "parse_nets [] = []"
| "parse_nets (c # cs) =
     (let cidr = trim_space c
      in if cidr = '''' then parse_nets cs
         else (case ParseCIDR cidr of None \<Rightarrow> parse_nets cs | Some ipnet \<Rightarrow> ipnet # parse_nets cs))"

definition stripe_default_ips :: string where
  "stripe_default_ips =
     ''3.18.12.63/32,3.130.192.231/32,13.235.14.237/32,13.235.122.149/32,'' @
     ''18.211.135.69/32,35.154.171.200/32,52.15.183.38/32,54.88.130.119/32,'' @
     ''54.88.130.237/32,54.187.174.169/32,54.187.205.235/32,54.187.216.72/32''"

definition stripeAllowedNets :: "'w runtime \<Rightarrow> 'w \<Rightarrow> ip_net list" where
  "stripeAllowedNets rt w = parse_nets (split_char (CHR '','') (GetString rt ''STRIPE_WEBHOOK_IPS'' stripe_default_ips w))"

definition StripeIPWhitelist :: "ip_net list \<Rightarrow> 'w http_handler \<Rightarrow> 'w http_handler" where
  "StripeIPWhitelist nets next r w =
     (if length nets = 0 then next r w
      else (case ParseIP (realIP r) of
              None \<Rightarrow> (Returns (http_error ''forbidden'' 403), w)
            | Some ip \<Rightarrow>
                if list_ex (\<lambda>cidr. Contains cidr ip) nets then next r w
                else (Returns (http_error ''forbidden'' 403), w)))"

section \<open>Accounts\<close>

definition refreshTokenCookie :: string where "refreshTokenCookie = ''refresh_token''"

definition cookie_secure :: "'w runtime \<Rightarrow> 'w \<Rightarrow> bool" where
  "cookie_secure rt w \<longleftrightarrow> GetString rt ''ENVIRONMENT'' ''development'' w \<noteq> ''development''"

definition setRefreshCookie :: "'w runtime \<Rightarrow> 'w \<Rightarrow> string \<Rightarrow> response \<Rightarrow> response" where
  "setRefreshCookie rt w token resp =
     with_cookie \<lparr>ck_Name = refreshTokenCookie, ck_Value = token, ck_Path = ''/'', ck_MaxAge = 7 * 24 * 60 * 60,
       ck_Expires = None, ck_HttpOnly = True, ck_Secure = cookie_secure rt w, ck_SameSite = ''Lax''\<rparr> resp"

definition clearRefreshCookie :: "'w runtime \<Rightarrow> 'w \<Rightarrow> response \<Rightarrow> response" where
  "clearRefreshCookie rt w resp =
     with_cookie \<lparr>ck_Name = refreshTokenCookie, ck_Value = '''', ck_Path = ''/'', ck_MaxAge = - 1,
       ck_Expires = Some 0, ck_HttpOnly = True, ck_Secure = cookie_secure rt w, ck_SameSite = ''Lax''\<rparr> resp"

definition enc_pb_user :: "pb_user \<Rightarrow> json option" where
  "enc_pb_user u =
     enc_obj [omit_str ''id'' (pu_Id u), omit_str ''email'' (pu_Email u), omit_str ''name'' (pu_Name u),
              omit_str ''phoneNumber'' (pu_PhoneNumber u), omit_str ''role'' (pu_Role u)]"

definition enc_auth_response :: "auth_response \<Rightarrow> json option" where
  "enc_auth_response a =
     enc_obj [mem_str ''accessToken'' (ar_AccessToken a), omit_ptr ''user'' enc_pb_user (Some (ar_User a))]"

text \<open>The end of the four handlers: the error reply, or the cookie and the reply.\<close>

definition auth_reply_of ::
  "'w api_gateway \<Rightarrow> nat \<Rightarrow> nat \<Rightarrow> string \<Rightarrow> auth_response res \<times> 'w \<Rightarrow> response outcome \<times> 'w" where
  "auth_reply_of G bad good message x =
     (case x of
        (Inl e, w1) \<Rightarrow> (Returns (RespondWithError bad (err_string e) []), w1)
      | (Inr resp, w1) \<Rightarrow>
          (Returns (setRefreshCookie (ag_runtime G) w1 (ar_RefreshToken resp)
             (RespondWithSuccess good message (Some (enc_auth_response resp)))), w1))"

definition HandleSignup :: "'w api_gateway \<Rightarrow> 'w http_handler" where
  "HandleSignup G r w =
     (case decode_body (dec_struct signup_request_fields) signup_request_zero r of
        Inl e \<Rightarrow> (Returns invalid_body, w)
      | Inr reqBody \<Rightarrow> auth_reply_of G 400 201 ''Account created'' (lcl_Signup (ag_login G) reqBody w))"

definition HandleLogin :: "'w api_gateway \<Rightarrow> 'w http_handler" where
  "HandleLogin G r w =
     (case decode_body (dec_struct login_request_fields) \<lparr>lr_Email = '''', lr_Password = ''''\<rparr> r of
        Inl e \<Rightarrow> (Returns invalid_body, w)
      | Inr reqBody \<Rightarrow>
          auth_reply_of G 401 200 ''Login successful'' (lcl_Login (ag_login G) (lr_Email reqBody) (lr_Password reqBody) w))"

definition HandleRefreshToken :: "'w api_gateway \<Rightarrow> 'w http_handler" where
  "HandleRefreshToken G r w =
     (case hq_Cookie r refreshTokenCookie of
        None \<Rightarrow> (Returns (http_error ''missing refresh token'' 401), w)
      | Some value \<Rightarrow>
          if value = '''' then (Returns (http_error ''missing refresh token'' 401), w)
          else (case lcl_RefreshToken (ag_login G) value w of
                  (Inl e, w1) \<Rightarrow>
                    (Returns (clearRefreshCookie (ag_runtime G) w1 (RespondWithError 401 (err_string e) [])), w1)
                | (Inr resp, w1) \<Rightarrow> auth_reply_of G 401 200 ''Token refreshed'' (Inr resp, w1)))"

definition HandleLogout :: "'w api_gateway \<Rightarrow> 'w http_handler" where
  "HandleLogout G r w = (Returns (clearRefreshCookie (ag_runtime G) w (RespondWithSuccess 200 ''Logged out'' None)), w)"

definition HandleGoogleAuth :: "'w api_gateway \<Rightarrow> 'w http_handler" where
  "HandleGoogleAuth G r w =
     (case decode_body (dec_struct google_request_fields) \<lparr>gr_IDToken = '''', gr_Role = ''''\<rparr> r of
        Inl e \<Rightarrow> (Returns invalid_body, w)
      | Inr reqBody \<Rightarrow>
          auth_reply_of G 401 200 ''Google login successful''
            (lcl_GoogleAuth (ag_login G) (gr_IDToken reqBody) (gr_Role reqBody) w))"

section \<open>Routes\<close>

text \<open>
  A pattern with a method matches that method only; the pattern \<open>/\<close> takes what no other pattern
  matches. Paths are as the multiplexer has cleaned them.
\<close>

definition health_check :: "'w http_handler" where
  "health_check r w = (Returns \<lparr>hr_Status = 200, hr_Body = TextBody ''OK'', hr_Cookies = []\<rparr>, w)"

definition user_route :: "'w api_gateway \<Rightarrow> int \<Rightarrow> string \<Rightarrow> 'w http_handler \<Rightarrow> 'w http_handler" where
  "user_route G limit prefix h =
     wsAuthMiddleware (ag_jwt G) (ag_secret G) (Limit (ag_redis G) limit 60 (userKey prefix) h)"

definition api_routes :: "'w api_gateway \<Rightarrow> (string \<times> 'w http_handler) list" where
  "api_routes G =
     [(''/trip/preview'', user_route G 30 ''trip:preview'' (gw_HandleTripPreview G)),
      (''/trip/start'', user_route G 5 ''trip:start'' (HandleStartTrip G)),
      (''/trip/cancel'', user_route G 10 ''trip:cancel'' (HandleCancelTrip G)),
      (''/auth/signup'', HandleSignup G), (''/auth/login'', HandleLogin G), (''/auth/google'', HandleGoogleAuth G),
      (''/auth/refresh'', HandleRefreshToken G), (''/auth/logout'', HandleLogout G)]"

definition api_mux :: "'w api_gateway \<Rightarrow> string \<Rightarrow> string \<Rightarrow> 'w http_handler" where
  "api_mux G method path =
     (if path = ''/webhook/stripe'' then StripeIPWhitelist (ag_nets G) (handleStripeWebhook G)
      else if method = ''POST'' then (case map_of (api_routes G) path of None \<Rightarrow> health_check | Some h \<Rightarrow> h)
      else health_check)"

end
