(* ===== verification/ApiGateway_Facts.thy ===== *)
theory ApiGateway_Facts
  imports ApiGateway Payment TripFailures
begin

text \<open>
  What the API gateway's routes guarantee: which requests end the process, what the webhook of
  Stripe publishes, and whom its whitelist admits.
\<close>

section \<open>The middlewares\<close>

text \<open>A middleware answers by itself, or hands a request on, whatever the handler behind it.\<close>

lemma wsAuthMiddleware_cases:
  obtains x w' where "\<And>h. wsAuthMiddleware J s h r w = (Returns x, w')"
  | r' w' where "\<And>h. wsAuthMiddleware J s h r w = h r' w'" "hq_Body r' = hq_Body r" "ctx_string r' ctxKeyUserID \<noteq> ''''"
proof (cases "request_token r = ''''")
  case True
  then show thesis using that(1) by (simp add: wsAuthMiddleware_def Let_def)
next
  case False
  obtain x w1 where p: "jw_parse J (request_token r) (gateway_key s) w = (x, w1)" by fastforce
  show thesis
  proof (cases x)
    case (Inl e)
    then show thesis using that(1) p False by (simp add: wsAuthMiddleware_def Let_def)
  next
    case (Inr claims)
    show thesis
    proof (cases "map_claim claims ''user_id'' = ''''")
      case True
      then show thesis using that(1) p False Inr by (simp add: wsAuthMiddleware_def Let_def)
    next
      case ok: False
      define r' where "r' = r\<lparr>hq_Ctx := (hq_Ctx r)(ctxKeyUserID \<mapsto> map_claim claims ''user_id'',
        ctxKeyToken \<mapsto> request_token r, ctxKeyName \<mapsto> map_claim claims ''name'')\<rparr>"
      have "wsAuthMiddleware J s h r w = h r' w1" for h
        using p False Inr ok by (simp add: wsAuthMiddleware_def Let_def r'_def)
      moreover have "hq_Body r' = hq_Body r" "ctx_string r' ctxKeyUserID \<noteq> ''''"
        using ok by (simp_all add: r'_def ctx_string_def ctx_key_defs)
      ultimately show thesis by (rule that(2))
    qed
  qed
qed

lemma Limit_cases:
  obtains x w' where "\<And>h. Limit R n s k h r w = (Returns x, w')"
  | w' where "\<And>h. Limit R n s k h r w = h r w'"
proof (cases "k r = ''''")
  case True
  then show thesis using that(2) by (simp add: Limit_def)
next
  case False
  obtain x w1 where p: "luaRateLimit R (k r) s w = (x, w1)" by fastforce
  show thesis
  proof (cases "\<exists>c. x = Inr c \<and> c > n")
    case True
    then show thesis using that(1) p False by (auto simp: Limit_def)
  next
    case ok: False
    then have "Limit R n s k h r w = h r w1" for h using p False by (cases x) (auto simp: Limit_def)
    then show thesis by (rule that(2))
  qed
qed

lemma user_route_cases:
  obtains x w' where "\<And>h. user_route G n p h r w = (Returns x, w')"
  | r' w' where "\<And>h. user_route G n p h r w = h r' w'" "hq_Body r' = hq_Body r" "ctx_string r' ctxKeyUserID \<noteq> ''''"
proof (cases rule: wsAuthMiddleware_cases [of "ag_jwt G" "ag_secret G" r w])
  case (1 x w')
  then show thesis using that(1) by (simp add: user_route_def)
next
  case (2 r' w1)
  show thesis
  proof (cases rule: Limit_cases [of "ag_redis G" n 60 "userKey p" r' w1])
    case (1 x w')
    then show thesis using that(1) 2(1) by (simp add: user_route_def)
  next
    case (2 w')
    then show thesis using that(2) \<open>\<And>h. wsAuthMiddleware (ag_jwt G) (ag_secret G) h r w = h r' w1\<close>
        \<open>hq_Body r' = hq_Body r\<close> \<open>ctx_string r' ctxKeyUserID \<noteq> ''''\<close> by (simp add: user_route_def)
  qed
qed

text \<open>The request and the world in which a route's handler runs, if it does.\<close>

definition handed_on :: "'w api_gateway \<Rightarrow> int \<Rightarrow> string \<Rightarrow> request \<Rightarrow> 'w \<Rightarrow> request \<Rightarrow> 'w \<Rightarrow> bool" where
  "handed_on G n p r w r' w' \<longleftrightarrow> (\<forall>h. user_route G n p h r w = h r' w')"

lemma user_route_exits:
  "fst (user_route G n p h r w) = Exits \<longleftrightarrow> (\<exists>r' w'. handed_on G n p r w r' w' \<and> fst (h r' w') = Exits)"
proof (cases rule: user_route_cases [of G n p r w])
  case (1 x w')
  have "\<not> handed_on G n p r w r' v" for r' v
  proof
    assume "handed_on G n p r w r' v"
    then have "user_route G n p (\<lambda>_ w. (Exits, w)) r w = (Exits, v)" by (simp add: handed_on_def)
    with 1 show False by simp
  qed
  with 1 show ?thesis by simp
next
  case (2 r' w')
  then have "handed_on G n p r w r' w'" by (simp add: handed_on_def)
  moreover have "handed_on G n p r w r2 w2 \<Longrightarrow> fst (h r2 w2) = fst (h r' w')" for r2 w2
    using 2(1) unfolding handed_on_def by metis
  ultimately show ?thesis unfolding 2(1) [of h] by metis
qed

section \<open>What ends the gateway\<close>

lemma HandleStartTrip_exits:
  "fst (HandleStartTrip G r w) = Exits \<longleftrightarrow>
     (\<exists>fare e w'. decode_body (dec_struct start_trip_request_fields) '''' r = Inr fare
        \<and> ctx_string r ctxKeyUserID \<noteq> '''' \<and> validate_fields (ag_validate G) (start_rules fare) = []
        \<and> tcl_CreateTrip (ag_trip G) (start_toProto fare (ctx_string r ctxKeyUserID)) w = (Inl e, w'))"
proof (cases "decode_body (dec_struct start_trip_request_fields) '''' r")
  case (Inl e)
  then show ?thesis by (simp add: HandleStartTrip_def)
next
  case (Inr fare)
  obtain x w1 where c: "tcl_CreateTrip (ag_trip G) (start_toProto fare (ctx_string r ctxKeyUserID)) w = (x, w1)" by fastforce
  have run: "HandleStartTrip G r w = (if ctx_string r ctxKeyUserID = '''' then (Returns unauthorized, w)
      else if validate_fields (ag_validate G) (start_rules fare) \<noteq> []
      then (Returns (validation_failed (validate_fields (ag_validate G) (start_rules fare))), w)
      else (case x of Inl e \<Rightarrow> (Exits, w1)
        | Inr trip \<Rightarrow> (Returns (RespondWithSuccess 200 ''Trip Started'' (Some (enc_create_response trip))), w1)))"
    unfolding HandleStartTrip_def Inr c Let_def sum.case prod.case ..
  have "fst (HandleStartTrip G r w) = Exits \<longleftrightarrow> ctx_string r ctxKeyUserID \<noteq> ''''
      \<and> validate_fields (ag_validate G) (start_rules fare) = [] \<and> (\<exists>e. x = Inl e)"
    unfolding run by (auto split: sum.split)
  then show ?thesis unfolding Inr using c by auto
qed

lemma auth_reply_stays: "fst (auth_reply_of G bad good message x) \<noteq> Exits"
  by (simp add: auth_reply_of_def split: prod.split sum.split)

lemma handlers_stay:
  "fst (gw_HandleTripPreview G r w) \<noteq> Exits" "fst (HandleCancelTrip G r w) \<noteq> Exits"
  "fst (HandleSignup G r w) \<noteq> Exits" "fst (HandleLogin G r w) \<noteq> Exits" "fst (HandleGoogleAuth G r w) \<noteq> Exits"
  "fst (HandleRefreshToken G r w) \<noteq> Exits" "fst (HandleLogout G r w) \<noteq> Exits" "fst (health_check r w) \<noteq> Exits"
  subgoal by (simp add: gw_HandleTripPreview_def Let_def split: prod.split sum.split)
  subgoal by (simp add: HandleCancelTrip_def Let_def split: prod.split sum.split)
  subgoal by (simp add: HandleSignup_def auth_reply_stays split: sum.split)
  subgoal by (simp add: HandleLogin_def auth_reply_stays split: sum.split)
  subgoal by (simp add: HandleGoogleAuth_def auth_reply_stays split: sum.split)
  subgoal by (simp add: HandleRefreshToken_def auth_reply_stays split: prod.split sum.split option.split)
  subgoal by (simp add: HandleLogout_def)
  subgoal by (simp add: health_check_def)
  done

text \<open>
  C34: Apart from Stripe's webhook one route can end the gateway's process, and it does so exactly
  when an admitted user starts a trip that the trip service refuses, for whatever reason: every
  other request of every other route is answered or recovered from.
\<close>

theorem gateway_exits_iff:
  assumes "path \<noteq> ''/webhook/stripe''"
  shows "fst (api_mux G method path r w) = Exits \<longleftrightarrow>
     method = ''POST'' \<and> path = ''/trip/start'' \<and>
     (\<exists>r' w1 fare e w2. handed_on G 5 ''trip:start'' r w r' w1
        \<and> decode_body (dec_struct start_trip_request_fields) '''' r' = Inr fare
        \<and> ctx_string r' ctxKeyUserID \<noteq> '''' \<and> validate_fields (ag_validate G) (start_rules fare) = []
        \<and> tcl_CreateTrip (ag_trip G) (start_toProto fare (ctx_string r' ctxKeyUserID)) w1 = (Inl e, w2))"
proof (cases "method = ''POST'' \<and> path = ''/trip/start''")
  case True
  then have "api_mux G method path = user_route G 5 ''trip:start'' (HandleStartTrip G)"
    by (simp add: api_mux_def api_routes_def)
  with True show ?thesis by (simp add: user_route_exits HandleStartTrip_exits)
next
  case False
  have "fst (api_mux G method path r w) \<noteq> Exits"
  proof (cases "method = ''POST'' \<and> path \<in> fst ` set (api_routes G)")
    case True
    with False assms have "api_mux G method path \<in> {user_route G 30 ''trip:preview'' (gw_HandleTripPreview G),
        user_route G 10 ''trip:cancel'' (HandleCancelTrip G), HandleSignup G, HandleLogin G, HandleGoogleAuth G,
        HandleRefreshToken G, HandleLogout G}"
      by (auto simp: api_mux_def api_routes_def)
    then show ?thesis by (auto simp: user_route_exits handlers_stay)
  next
    case none: False
    then have "api_mux G method path r w = health_check r w"
      using assms by (auto simp: api_mux_def map_of_eq_None_iff split: option.splits dest: map_of_SomeD)
        (metis fst_conv image_iff map_of_SomeD)
    then show ?thesis by (simp add: handlers_stay)
  qed
  with False show ?thesis by blast
qed

text \<open>A user who is let in, and whose fare the trip service does not know.\<close>

lemma user_route_open:
  assumes "request_token r = t" "t \<noteq> ''''" "jw_parse (ag_jwt G) t (gateway_key (ag_secret G)) w = (Inr claims, w1)"
    and "map_claim claims ''user_id'' = u" "u \<noteq> ''''"
    and "luaRateLimit (ag_redis G) (''rl:'' @ p @ '':'' @ u) 60 w1 = (Inr c, w2)" "c \<le> n"
  shows "user_route G n p h r w = h (r\<lparr>hq_Ctx := (hq_Ctx r)(ctxKeyUserID \<mapsto> u, ctxKeyToken \<mapsto> t,
     ctxKeyName \<mapsto> map_claim claims ''name'')\<rparr>) w2"
  using assms by (simp add: user_route_def wsAuthMiddleware_def Let_def Limit_def userKey_def ctx_string_def ctx_key_defs)

lemma trip_service_refuses:
  assumes "svc_GetAndValidateFare F fare u w = (Inl e, w')"
  shows "\<exists>e'. tcl_CreateTrip (trip_service_client pub repo M F get) (start_toProto fare u) w = (Inl e', w')"
  using assms by (simp add: trip_service_client_def grpc_CreateTrip_def start_toProto_def rpc_def)

definition demo_check :: validator where
  "demo_check tags v = (if v = '''' then Some (''required'', '''') else None)"

definition no_login :: "'w login_client" where
  "no_login = \<lparr>lcl_Signup = \<lambda>q w. (Inl ErrContext, w), lcl_Login = \<lambda>e p w. (Inl ErrContext, w),
     lcl_RefreshToken = \<lambda>t w. (Inl ErrContext, w), lcl_GoogleAuth = \<lambda>t r w. (Inl ErrContext, w)\<rparr>"

definition demo_stripe :: "'w stripe_lib" where
  "demo_stripe = \<lparr>sp_construct = \<lambda>b s k w. (if s = ''sig:'' @ k then Inr \<lparr>sv_Type = ''checkout.session.completed'', sv_Data = Some b\<rparr>
       else Inl (ErrMsg ''no signatures found''), w),
     sp_session = \<lambda>b. Inr (payment_metadata ''t1'' ''u1'' ''d1'')\<rparr>"

definition demo_gateway :: "tsim api_gateway" where
  "demo_gateway = \<lparr>ag_trip = trip_service_client sim_publisher (NewMongoRepository sim_mongo) sim_mongo
       (NewRedisRideFareRepository sim_redis) empty_get,
     ag_login = no_login, ag_validate = demo_check, ag_stripe = demo_stripe, ag_publish = sim_publisher,
     ag_runtime = sim_runtime, ag_redis = sim_redis, ag_jwt = sim_jwt demo_tokens, ag_secret = ''s3cret'', ag_nets = []\<rparr>"

definition start_request :: request where
  "start_request = (bearer_request ''tok-a'')\<lparr>hq_Body := Inr (RawJson (JObj [(''rideFareID'', JStr ''f1'')]))\<rparr>"

theorem gateway_exits_iff_witness:
  "fst (api_mux demo_gateway ''POST'' ''/trip/start'' start_request tsim0) = Exits"
proof -
  let ?w = "tsim0\<lparr>si_counters := (si_counters tsim0)(''rl:trip:start:u1'' := 1)\<rparr>"
  let ?r = "start_request\<lparr>hq_Ctx := (hq_Ctx start_request)(ctxKeyUserID \<mapsto> ''u1'', ctxKeyToken \<mapsto> ''tok-a'', ctxKeyName \<mapsto> ''Ann'')\<rparr>"
  have t: "request_token start_request = ''tok-a''"
    by (rule bearer_token) (simp_all add: start_request_def bearer_request_def)
  have j: "jw_parse (ag_jwt demo_gateway) ''tok-a'' (gateway_key (ag_secret demo_gateway)) tsim0
      = (Inr (access_json ''u1'' ''Ann'' ''ann@x.org'' ''rider'' 900 0), tsim0)"
    by (simp add: demo_gateway_def sim_jwt_def demo_tokens_def keys_agree)
  have l: "luaRateLimit (ag_redis demo_gateway) (''rl:'' @ ''trip:start'' @ '':'' @ ''u1'') 60 tsim0 = (Inr 1, ?w)"
    by (simp add: luaRateLimit_def demo_gateway_def sim_redis_def tsim0_def sim.defs sim0_def)
  have h: "handed_on demo_gateway 5 ''trip:start'' start_request tsim0 ?r ?w"
    unfolding handed_on_def using user_route_open [OF t _ j _ _ l, of 5] by (simp add: access_json_def map_claim_def)
  have b: "decode_body (dec_struct start_trip_request_fields) '''' ?r = Inr ''f1''"
    by (simp add: decode_body_def start_request_def start_trip_request_fields_def json_defs)
  have u: "ctx_string ?r ctxKeyUserID = ''u1''" by (simp add: ctx_string_def ctx_key_defs)
  have v: "validate_fields (ag_validate demo_gateway) (start_rules ''f1'') = []"
    by (simp add: demo_gateway_def start_rules_def demo_check_def)
  have "\<exists>e. svc_GetAndValidateFare (NewRedisRideFareRepository sim_redis) ''f1'' ''u1'' ?w = (Inl e, ?w)"
    by (simp add: svc_GetAndValidateFare_def NewRedisRideFareRepository_def redis_GetRideFareByID_def sim_redis_def
        tsim0_def sim.defs sim0_def)
  then obtain e0 where e0: "svc_GetAndValidateFare (NewRedisRideFareRepository sim_redis) ''f1'' ''u1'' ?w = (Inl e0, ?w)" ..
  have "ag_trip demo_gateway = trip_service_client sim_publisher (NewMongoRepository sim_mongo) sim_mongo
      (NewRedisRideFareRepository sim_redis) empty_get" by (simp add: demo_gateway_def)
  with trip_service_refuses [OF e0] obtain e where
    c: "tcl_CreateTrip (ag_trip demo_gateway) (start_toProto ''f1'' ''u1'') ?w = (Inl e, ?w)" by metis
  have n: "''/trip/start'' \<noteq> ''/webhook/stripe''" and u0: "ctx_string ?r ctxKeyUserID \<noteq> ''''" by (simp_all add: u)
  show ?thesis
    by (rule iffD2 [OF gateway_exits_iff [OF n]], intro conjI exI, rule refl, rule refl, rule h, rule b, rule u0, rule v,
        unfold u, rule c)
qed

section \<open>What the webhook reports\<close>

lemma handle_completed_done:
  assumes B: "broker_traces B tr" and G: "ag_publish G = PublishMessage B rt"
    and run: "handle_completed G ev w = (Returns resp, w')"
  shows "sent_of tr w' = sent_of tr w \<and> hr_Status resp \<noteq> 200
     \<or> (\<exists>raw md j b. sv_Data ev = Some raw \<and> sp_session (ag_stripe G) raw = Inr md
          \<and> marshal enc_payment_status_update (webhook_payload md) = Inr j
          \<and> marshal enc_amqp_message \<lparr>am_OwnerID = metadata_value md ''user_id'', am_Data = j\<rparr> = Inr b
          \<and> sent_of tr w' = sent_of tr w @ [(PaymentEventSuccess, b)] \<and> hr_Status resp = 200)"
proof -
  obtain raw where raw: "sv_Data ev = Some raw" using run by (auto simp: handle_completed_def split: option.splits)
  show ?thesis
  proof (cases "sp_session (ag_stripe G) raw")
    case (Inl e)
    then show ?thesis using run raw by (auto simp: handle_completed_def)
  next
    case md: (Inr md)
    obtain j where j: "marshal enc_payment_status_update (webhook_payload md) = Inr j"
      using payment_status_update_roundtrip [of "webhook_payload md"] by (auto simp: marshal_def)
    let ?m = "\<lparr>am_OwnerID = metadata_value md ''user_id'', am_Data = j\<rparr>"
    obtain x w1 where p: "PublishMessage B rt PaymentEventSuccess ?m w = (x, w1)" by fastforce
    obtain e where x: "x = Returns e"
      using run raw md j p by (cases x) (auto simp: handle_completed_def G)
    show ?thesis
    proof (cases e)
      case None
      with x p rabbit.published [OF B] obtain b where "marshal enc_amqp_message ?m = Inr b"
        "sent_of tr w1 = sent_of tr w @ [(PaymentEventSuccess, b)]" by blast
      with run raw md j p x None show ?thesis by (auto simp: handle_completed_def G no_reply_def)
    next
      case (Some e')
      with x p rabbit.not_published [OF B p] have "sent_of tr w1 = sent_of tr w" by simp
      with run raw md j p x Some show ?thesis by (auto simp: handle_completed_def G)
    qed
  qed
qed

lemma handleStripeWebhook_done:
  assumes run: "handleStripeWebhook G r w = (Returns resp, w')"
  defines "key \<equiv> GetString (ag_runtime G) ''STRIPE_WEBHOOK_KEY'' '''' w"
  obtains (early) "w' = w" "hr_Status resp = 200 \<longrightarrow> key = ''''"
  | (unverified) body e where "hr_Status resp \<noteq> 200"
      "sp_construct (ag_stripe G) body (hq_Header r ''Stripe-Signature'') key w = (Inl e, w')"
  | (event) body ev w1 where "hq_Body r = Inr body" "key \<noteq> ''''"
      "sp_construct (ag_stripe G) body (hq_Header r ''Stripe-Signature'') key w = (Inr ev, w1)"
      "if sv_Type ev = ''checkout.session.completed'' then handle_completed G ev w1 = (Returns resp, w') else w' = w1"
proof (cases "(\<exists>e. hq_Body r = Inl e) \<or> key = ''''")
  case True
  then have "w' = w" "hr_Status resp = 200 \<longrightarrow> key = ''''"
    using run unfolding key_def by (cases "hq_Body r"; auto simp: handleStripeWebhook_def Let_def)+
  then show thesis by (rule early)
next
  case False
  then obtain body where body: "hq_Body r = Inr body" "key \<noteq> ''''" by (cases "hq_Body r") auto
  obtain x w1 where c: "sp_construct (ag_stripe G) body (hq_Header r ''Stripe-Signature'') key w = (x, w1)" by fastforce
  show thesis
  proof (cases x)
    case (Inl e)
    then have "w' = w1" "hr_Status resp \<noteq> 200"
      using run body c unfolding key_def by (auto simp: handleStripeWebhook_def Let_def)
    with c Inl show thesis by (intro unverified) simp_all
  next
    case (Inr ev)
    show thesis
      by (rule event [OF body c [unfolded Inr]]) (use run body c Inr in \<open>auto simp: handleStripeWebhook_def key_def Let_def\<close>)
  qed
qed

text \<open>The outcomes of a request to the webhook.\<close>

lemma webhook_cases:
  assumes B: "broker_traces B tr" and G: "ag_publish G = PublishMessage B rt"
    and S: "\<forall>b s k v x v'. sp_construct (ag_stripe G) b s k v = (x, v') \<longrightarrow> sent_of tr v' = sent_of tr v"
    and run: "api_mux G method ''/webhook/stripe'' r w = (Returns resp, w')"
  shows "sent_of tr w' = sent_of tr w \<and> (hr_Status resp = 200 \<longrightarrow>
            GetString (ag_runtime G) ''STRIPE_WEBHOOK_KEY'' '''' w = ''''
          \<or> (\<exists>body ev w1. hq_Body r = Inr body \<and> sp_construct (ag_stripe G) body (hq_Header r ''Stripe-Signature'')
                (GetString (ag_runtime G) ''STRIPE_WEBHOOK_KEY'' '''' w) w = (Inr ev, w1)
              \<and> sv_Type ev \<noteq> ''checkout.session.completed''))
     \<or> (\<exists>body ev w1 raw md j b. hq_Body r = Inr body
          \<and> GetString (ag_runtime G) ''STRIPE_WEBHOOK_KEY'' '''' w \<noteq> ''''
          \<and> sp_construct (ag_stripe G) body (hq_Header r ''Stripe-Signature'')
              (GetString (ag_runtime G) ''STRIPE_WEBHOOK_KEY'' '''' w) w = (Inr ev, w1)
          \<and> sv_Type ev = ''checkout.session.completed'' \<and> sv_Data ev = Some raw \<and> sp_session (ag_stripe G) raw = Inr md
          \<and> sent_of tr w' = sent_of tr w @ [(PaymentEventSuccess, b)] \<and> hr_Status resp = 200
          \<and> marshal enc_payment_status_update (webhook_payload md) = Inr j
          \<and> marshal enc_amqp_message \<lparr>am_OwnerID = metadata_value md ''user_id'', am_Data = j\<rparr> = Inr b
          \<and> (\<forall>t u d. md = payment_metadata t u d \<longrightarrow>
               webhook_payload md = \<lparr>pu_TripID = t, pu_UserID = u, pu_DriverID = d\<rparr>))"
proof -
  have md: "\<forall>t u d. md = payment_metadata t u d \<longrightarrow> webhook_payload md = \<lparr>pu_TripID = t, pu_UserID = u, pu_DriverID = d\<rparr>" for md
    by (simp add: webhook_payload_def metadata_value_def payment_metadata_def)
  have "api_mux G method ''/webhook/stripe'' r w = handleStripeWebhook G r w
      \<or> api_mux G method ''/webhook/stripe'' r w = (Returns (http_error ''forbidden'' 403), w)"
    by (simp add: api_mux_def StripeIPWhitelist_def split: option.split)
  then consider "handleStripeWebhook G r w = (Returns resp, w')" | "resp = http_error ''forbidden'' 403" "w' = w"
    using run by auto
  then show ?thesis
  proof cases
    case 1
    then show ?thesis
    proof (cases rule: handleStripeWebhook_done)
      case (event body ev w1)
      have keep: "sent_of tr w1 = sent_of tr w" using S event(3) by blast
      show ?thesis
      proof (cases "sv_Type ev = ''checkout.session.completed''")
        case True
        with event(4) have "handle_completed G ev w1 = (Returns resp, w')" by simp
        from handle_completed_done [OF B G this] show ?thesis
        proof (elim disjE exE conjE)
          fix raw md j b
          assume "sv_Data ev = Some raw" "sp_session (ag_stripe G) raw = Inr md"
            "marshal enc_payment_status_update (webhook_payload md) = Inr j"
            "marshal enc_amqp_message \<lparr>am_OwnerID = metadata_value md ''user_id'', am_Data = j\<rparr> = Inr b"
            "sent_of tr w' = sent_of tr w1 @ [(PaymentEventSuccess, b)]" "hr_Status resp = 200"
          with event(1-3) True md [of md] keep show ?thesis by (intro disjI2) metis
        qed (use keep in simp)
      qed (use event keep in auto)
    qed (use S in auto)
  qed simp
qed


definition paid_request :: request where
  "paid_request = sample_request\<lparr>hq_Header := (\<lambda>_. '''')(''Stripe-Signature'' := ''sig:whsec''), hq_Body := Inr (RawJson JNull)\<rparr>"

definition paid_world :: tsim where
  "paid_world = tsim0\<lparr>si_env := [''STRIPE_WEBHOOK_KEY'' \<mapsto> ''whsec'']\<rparr>"


section \<open>Whom the whitelist admits\<close>

text \<open>
  C36: The whitelist of the webhook, for ranges in dotted notation: a request gets through exactly
  when the address the gateway takes for its sender agrees with a range in as many leading bits as
  the range names. That address is the client's own word: with an \<open>X-Forwarded-For\<close> header the
  connection's address has no part in it.
\<close>

theorem whitelist_admits_ranges:
  assumes "nets \<noteq> []" "\<forall>net\<in>set nets. (\<exists>s. ParseCIDR s = Some net) \<and> length (in_Mask net) = 4"
  shows "StripeIPWhitelist nets h r w =
     (if \<exists>ip x a n. ParseIP (realIP r) = Some ip \<and> To4 ip = Some x \<and> length a = 4 \<and> n \<le> 32
          \<and> v4_range a n \<in> set nets \<and> take n (ip_bits x) = take n (ip_bits a)
      then h r w else (Returns (http_error ''forbidden'' 403), w))
   \<and> (hq_Header r ''X-Forwarded-For'' \<noteq> '''' \<longrightarrow> (\<forall>addr. realIP (r\<lparr>hq_RemoteAddr := addr\<rparr>) = realIP r))"
proof
  show "hq_Header r ''X-Forwarded-For'' \<noteq> '''' \<longrightarrow> (\<forall>addr. realIP (r\<lparr>hq_RemoteAddr := addr\<rparr>) = realIP r)"
    by (simp add: realIP_def)
  have M: "list_ex (\<lambda>cidr. Contains cidr ip) nets \<longleftrightarrow> (\<exists>x a n. To4 ip = Some x \<and> length a = 4 \<and> n \<le> 32
      \<and> v4_range a n \<in> set nets \<and> take n (ip_bits x) = take n (ip_bits a))" for ip
  proof
    assume "list_ex (\<lambda>cidr. Contains cidr ip) nets"
    then obtain net where net: "net \<in> set nets" "Contains net ip" by (auto simp: list_ex_iff)
    with assms(2) ParseCIDR_v4 obtain a n where "length a = 4" "n \<le> 32" "net = v4_range a n" by blast
    with net Contains_v4 [of a n ip] show "\<exists>x a n. To4 ip = Some x \<and> length a = 4 \<and> n \<le> 32
        \<and> v4_range a n \<in> set nets \<and> take n (ip_bits x) = take n (ip_bits a)" by blast
  next
    assume "\<exists>x a n. To4 ip = Some x \<and> length a = 4 \<and> n \<le> 32 \<and> v4_range a n \<in> set nets \<and> take n (ip_bits x) = take n (ip_bits a)"
    then obtain a n where "v4_range a n \<in> set nets" "Contains (v4_range a n) ip" using Contains_v4 by blast
    then show "list_ex (\<lambda>cidr. Contains cidr ip) nets" unfolding list_ex_iff by blast
  qed
  show "StripeIPWhitelist nets h r w =
     (if \<exists>ip x a n. ParseIP (realIP r) = Some ip \<and> To4 ip = Some x \<and> length a = 4 \<and> n \<le> 32
          \<and> v4_range a n \<in> set nets \<and> take n (ip_bits x) = take n (ip_bits a)
      then h r w else (Returns (http_error ''forbidden'' 403), w))"
  proof (cases "ParseIP (realIP r)")
    case (Some ip)
    then show ?thesis using assms(1) by (simp add: StripeIPWhitelist_def M [of ip])
  qed (use assms(1) in \<open>simp add: StripeIPWhitelist_def\<close>)
qed

lemma digit_table: "zip ''0123456789'' [0..<10] =
    [(CHR ''0'', 0), (CHR ''1'', 1), (CHR ''2'', 2), (CHR ''3'', 3), (CHR ''4'', 4), (CHR ''5'', 5), (CHR ''6'', 6),
     (CHR ''7'', 7), (CHR ''8'', 8), (CHR ''9'', 9)]"
  by (simp add: upt_rec)

lemma demo_addr: "ParseAddr ''3.18.12.63'' = Some [3, 18, 12, 63]"
  by (simp add: ParseAddr_def parse_IPv4_def parse_octet_def digit_value_def digit_table)

lemma demo_range: "ParseCIDR ''3.18.12.63/32'' = Some (v4_range [3, 18, 12, 63] 32)"
proof -
  have "length ([3, 18, 12, 63] :: ip) = 4" by simp
  then show ?thesis
    by (simp add: demo_addr ParseCIDR_def dtoi_def digit_value_def digit_table v4_range_def del: CIDRMask.simps list.size)
qed

definition forged_request :: request where
  "forged_request = sample_request\<lparr>hq_Header := (\<lambda>_. '''')(''X-Forwarded-For'' := ''3.18.12.63''), hq_RemoteAddr := ''6.6.6.6:4711''\<rparr>"

theorem whitelist_admits_ranges_witness:
  "StripeIPWhitelist (parse_nets [''3.18.12.63/32'']) health_check forged_request sim0 = health_check forged_request sim0"
proof -
  have n: "parse_nets [''3.18.12.63/32''] = [v4_range [3, 18, 12, 63] 32]"
    using demo_range by (simp add: trim_space_def is_space_def)
  have r: "realIP forged_request = ''3.18.12.63''"
    by (simp add: realIP_def forged_request_def trim_space_def is_space_def)
  have "\<forall>net\<in>set [v4_range [3, 18, 12, 63] 32]. (\<exists>s. ParseCIDR s = Some net) \<and> length (in_Mask net) = 4"
    using demo_range by (auto simp: v4_range_def)
  note P = conjunct1 [OF whitelist_admits_ranges [OF _ this, of health_check forged_request sim0]]
  let ?ip = "As16 [3, 18, 12, 63]"
  have "\<exists>ip x a n. ParseIP (realIP forged_request) = Some ip \<and> To4 ip = Some x \<and> length a = 4 \<and> n \<le> 32
      \<and> v4_range a n \<in> set [v4_range [3, 18, 12, 63] 32] \<and> take n (ip_bits x) = take n (ip_bits a)"
    by (intro exI [of _ ?ip] exI [of _ "[3, 18, 12, 63] :: ip"] exI [of _ "32 :: nat"])
       (simp add: r ParseIP_def demo_addr As16_def To4_def v4InV6Prefix_def)
  with P show ?thesis unfolding n by simp
qed

end
