(* ===== verification/Ride.thy ===== *)
theory Ride
  imports ApiGateway_Facts
begin

text \<open>
  A ride across the services: what one service publishes is what the next one reads, so the steps
  of the trip service, the payment service and the API gateway, each in a world of its own, compose.
\<close>

section \<open>From one service to the next\<close>

lemma payment_request_read:
  assumes "wire_f64 (pr_Amount p)" "marshal enc_payment_trip_response p = Inr j"
    "marshal enc_amqp_message \<lparr>am_OwnerID = u, am_Data = j\<rparr> = Inr (d_Body d)"
  shows "\<exists>m. read_event (dec_struct payment_trip_response_fields) payment_trip_response_zero d = Inr (m, p)"
proof -
  obtain i where "enc_payment_trip_response p = Some i"
    "dec_struct payment_trip_response_fields payment_trip_response_zero i = Some p"
    using payment_trip_response_roundtrip [OF assms(1)] by blast
  with read_event_sent [of u i "d_Body d" _ _ p d] assms(2,3) show ?thesis by (auto simp: marshal_def)
qed

lemma payment_update_read:
  assumes "marshal enc_payment_status_update p = Inr j"
    "marshal enc_amqp_message \<lparr>am_OwnerID = u, am_Data = j\<rparr> = Inr (d_Body d)"
  shows "\<exists>m. read_event (dec_struct payment_status_update_fields) payment_status_update_zero d = Inr (m, p)"
proof -
  obtain i where "enc_payment_status_update p = Some i"
    "dec_struct payment_status_update_fields payment_status_update_zero i = Some p"
    using payment_status_update_roundtrip [of p] by blast
  with read_event_sent [of u i "d_Body d" _ _ p d] assms show ?thesis by (auto simp: marshal_def)
qed

section \<open>Acceptance and payment\<close>

text \<open>
  What the payment service asks of Stripe for an acceptance the trip service has handled: one item at
  the price of the stored fare, with the metadata of trip, rider and driver.
\<close>

definition ride_checkout :: "payment_config \<Rightarrow> (float64 \<Rightarrow> 64 word) \<Rightarrow> trip_model \<Rightarrow> ride_fare \<Rightarrow> string \<Rightarrow> string \<Rightarrow> checkout_params" where
  "ride_checkout cfg conv t fare tripID driverID =
     checkout_of cfg (int64_of_f64 conv (fm_TotalPriceInCents fare)) ''USD'' (payment_metadata tripID (tm_UserID t) driverID)"

lemma accepted_trip_charged:
  assumes M: "mongo_docs M docs" "mongo_keeps M (sent_of tr)" and B: "broker_traces B tr"
    and pk: "pub_keeps (PublishMessage B rt) docs" and key: "d_RoutingKey d = DriverCmdTripAccept"
    and p: "read_event (dec_struct driver_trip_response_fields) driver_trip_response_zero d = Inr (m, p)"
    and accept: "driver_consumer (PublishMessage B rt) (NewMongoRepository M) d w = (Returns None, w1)"
    and wire: "\<forall>k t fare. docs w k = Some t \<and> tm_RideFare t = Some fare \<longrightarrow> wire_f64 (fm_TotalPriceInCents fare)"
    and sent: "last (sent_of tr w1) = (d_RoutingKey e, d_Body e)"
    and S: "pay_world R pt new (PublishMessage C pt) kv (sent_of ts) calls" and R: "redis_strings R kv" and C: "broker_traces C ts"
    and pay: "pay_consumer pt conv (stripe_CreatePaymentSession new cfg) (NewSessionStore R) (PublishMessage C pt) e v = (Returns None, v1)"
    and fresh: "kv v (session_key (dr_TripID p)) = None"
  shows "\<exists>k t fare sid. ObjectIDFromHex (dr_TripID p) = Inr k \<and> docs w k = Some t \<and> tm_RideFare t = Some fare
     \<and> docs w1 = (docs w)(k \<mapsto> t\<lparr>tm_Status := ''accepted'', tm_Driver := Some (accepted_driver p)\<rparr>)
     \<and> calls v1 = calls v @ [(ride_checkout cfg conv t fare (dr_TripID p) (dr_DriverID p), Inr sid)]"
proof -
  obtain k t fare b j b' where k: "ObjectIDFromHex (dr_TripID p) = Inr k" "docs w k = Some t" "tm_RideFare t = Some fare"
      "docs w1 = (docs w)(k \<mapsto> t\<lparr>tm_Status := ''accepted'', tm_Driver := Some (accepted_driver p)\<rparr>)"
    and s: "sent_of tr w1 = sent_of tr w @ [(TripEventDriverAssigned, b), (PaymentCmdCreateSession, b')]"
    and j: "marshal enc_payment_trip_response \<lparr>pr_TripID = dr_TripID p, pr_UserID = tm_UserID t,
        pr_DriverID = dr_DriverID p, pr_Amount = fm_TotalPriceInCents fare, pr_Currency = ''USD''\<rparr> = Inr j"
    and b': "marshal enc_amqp_message \<lparr>am_OwnerID = tm_UserID t, am_Data = j\<rparr> = Inr b'"
    using accept_done [OF M B pk key accept] p by auto
  have e: "d_RoutingKey e = PaymentCmdCreateSession" "d_Body e = b'" using sent by (simp_all add: s)
  let ?q = "\<lparr>pr_TripID = dr_TripID p, pr_UserID = tm_UserID t, pr_DriverID = dr_DriverID p,
      pr_Amount = fm_TotalPriceInCents fare, pr_Currency = ''USD''\<rparr>"
  obtain m' where q: "read_event (dec_struct payment_trip_response_fields) payment_trip_response_zero e = Inr (m', ?q)"
    using payment_request_read [of ?q j "tm_UserID t" e] wire k j b' e(2) by auto
  obtain sid where "calls v1 = calls v @ [(ride_checkout cfg conv t fare (dr_TripID p) (dr_DriverID p), Inr sid)]"
    using payment_handled [OF S R C e(1) pay] fresh by (auto simp: q ride_checkout_def)
  with k show ?thesis by blast
qed

text \<open>What the trip service makes of a payment that the webhook has reported.\<close>

lemma reported_trip_completed:
  assumes G: "ag_publish G = PublishMessage D gt" and D: "broker_traces D tg"
    and keep: "\<forall>b s k v x v'. sp_construct (ag_stripe G) b s k v = (x, v') \<longrightarrow> sent_of tg v' = sent_of tg v"
    and session: "\<forall>body ev g2 raw md. hq_Body r = Inr body
        \<and> sp_construct (ag_stripe G) body (hq_Header r ''Stripe-Signature'') (GetString (ag_runtime G) ''STRIPE_WEBHOOK_KEY'' '''' g) g = (Inr ev, g2)
        \<and> sv_Data ev = Some raw \<and> sp_session (ag_stripe G) raw = Inr md \<longrightarrow> md = payment_metadata i u y"
    and hook: "api_mux G method ''/webhook/stripe'' r g = (Returns resp, g1)" "sent_of tg g1 \<noteq> sent_of tg g"
    and sent: "last (sent_of tg g1) = (d_RoutingKey f, d_Body f)"
    and M: "mongo_docs M docs" "mongo_keeps M (sent_of tr)" and B: "broker_traces B tr"
    and pk: "pub_keeps (PublishMessage B rt) docs"
    and complete: "payment_consumer (PublishMessage B rt) (NewMongoRepository M) f w2 = (Returns None, w3)"
  shows "\<exists>k t. ObjectIDFromHex i = Inr k \<and> docs w2 k = Some t \<and> docs w3 = (docs w2)(k \<mapsto> t\<lparr>tm_Status := ''completed''\<rparr>)"
proof -
  from webhook_cases [OF D G keep hook(1)] hook(2) obtain body ev g2 raw md j b where
    "hq_Body r = Inr body" "sp_construct (ag_stripe G) body (hq_Header r ''Stripe-Signature'')
      (GetString (ag_runtime G) ''STRIPE_WEBHOOK_KEY'' '''' g) g = (Inr ev, g2)" "sv_Data ev = Some raw" "sp_session (ag_stripe G) raw = Inr md"
    and s: "sent_of tg g1 = sent_of tg g @ [(PaymentEventSuccess, b)]"
    and j: "marshal enc_payment_status_update (webhook_payload md) = Inr j"
    and b: "marshal enc_amqp_message \<lparr>am_OwnerID = metadata_value md ''user_id'', am_Data = j\<rparr> = Inr b"
    by (elim disjE conjE exE) blast+
  then have md: "md = payment_metadata i u y" using session by blast
  have "d_Body f = b" using sent by (simp add: s)
  with payment_update_read [OF j, of _ f] b obtain m' where
    "read_event (dec_struct payment_status_update_fields) payment_status_update_zero f = Inr (m', webhook_payload md)" by blast
  moreover have "pu_TripID (webhook_payload md) = i"
    by (simp add: md webhook_payload_def metadata_value_def payment_metadata_def)
  ultimately show ?thesis using payment_completes [OF M B pk complete] by auto
qed

section \<open>A ride in the reference worlds\<close>

definition ride_request :: payment_trip_response where
  "ride_request = \<lparr>pr_TripID = sample_id, pr_UserID = ''u1'', pr_DriverID = ''d1'', pr_Amount = F64 100, pr_Currency = ''USD''\<rparr>"

lemma floats_100: "int64_of_f64 (\<lambda>x. 0) (F64 100) = 100" "wire_f64 (F64 100)" "f64_div (f64_of_int 100) (F64 100) = F64 1" "wire_f64 (F64 1)"
  using f64_round_nat [of 100] f64_round_nat [of 1] by (simp_all add: int64_of_f64_def truncate_rat_def f64_of_int_def)

lemma ride_accepted:
  obtains w1 b where "driver_consumer sim_publisher (NewMongoRepository sim_mongo)
      (event_delivery DriverCmdTripAccept ''d1'' sample_answer) (trip_world sample_trip) = (Returns None, w1)"
    "last (sent_of si_events w1) = (PaymentCmdCreateSession, b)" "ts_docs w1 = ts_docs (trip_world accepted_trip)"
    "\<exists>m. read_event (dec_struct payment_trip_response_fields) payment_trip_response_zero (handed_over PaymentCmdCreateSession b) = Inr (m, ride_request)"
proof -
  have "set_trip ''accepted'' (Some sample_driver) sample_trip \<noteq> sample_trip"
    by (simp add: set_trip_def sample_trip_def)
  then obtain w1 where run: "driver_consumer sim_publisher (NewMongoRepository sim_mongo)
      (event_delivery DriverCmdTripAccept ''d1'' sample_answer) (trip_world sample_trip) = (Returns None, w1)"
    using sample_accept [OF trip_world_up(1) trip_world_docs, where s = "tm_Status sample_trip" and d = "tm_Driver sample_trip"]
    by auto
  have dr: "accepted_driver sample_response = sample_driver" "dr_TripID sample_response = sample_id" "dr_DriverID sample_response = ''d1''"
    by (simp_all add: accepted_driver_def sample_response_def sample_driver_def)
  from accept_done [OF sim_mongo_docs sim_publisher_laws sim_publisher_docs event_delivery_key run]
  obtain k t fare b j b' where k: "ObjectIDFromHex sample_id = Inr k" "ts_docs (trip_world sample_trip) k = Some t" "tm_RideFare t = Some fare"
    "ts_docs w1 = (ts_docs (trip_world sample_trip))(k \<mapsto> t\<lparr>tm_Status := ''accepted'', tm_Driver := Some sample_driver\<rparr>)"
    and s: "sent_of si_events w1 = sent_of si_events (trip_world sample_trip) @ [(TripEventDriverAssigned, b), (PaymentCmdCreateSession, b')]"
    and j: "marshal enc_payment_trip_response \<lparr>pr_TripID = sample_id, pr_UserID = tm_UserID t,
        pr_DriverID = ''d1'', pr_Amount = fm_TotalPriceInCents fare, pr_Currency = ''USD''\<rparr> = Inr j"
    and b': "marshal enc_amqp_message \<lparr>am_OwnerID = tm_UserID t, am_Data = j\<rparr> = Inr b'"
    by (auto simp: sample_answer_read dr)
  have kt: "k = sample_id" "t = sample_trip" using k(1,2) trip_world_docs [of sample_trip] by (auto simp: sample_id_ok)
  then have q: "\<lparr>pr_TripID = sample_id, pr_UserID = tm_UserID t, pr_DriverID = ''d1'',
      pr_Amount = fm_TotalPriceInCents fare, pr_Currency = ''USD''\<rparr> = ride_request"
    using k(3) by (auto simp: ride_request_def sample_trip_def)
  have w: "wire_f64 (pr_Amount ride_request)" using floats_100(2) by (simp add: ride_request_def)
  have "\<exists>m. read_event (dec_struct payment_trip_response_fields) payment_trip_response_zero (handed_over PaymentCmdCreateSession b') = Inr (m, ride_request)"
    by (rule payment_request_read [OF w j [unfolded q], where u = "tm_UserID t"]) (simp add: handed_over_def b')
  moreover have "ts_docs w1 = ts_docs (trip_world accepted_trip)" using k(4) by (simp add: kt trip_world_def accepted_trip_def)
  ultimately show thesis using that [OF run] s by simp
qed

lemma pay_sim0_simps: "si_up pay_sim0" "si_kv pay_sim0 = Map.empty" "sm_calls pay_sim0 = []"
  by (simp_all add: pay_sim0_def sim.defs pay_sim.defs sim0_def)

lemma ride_asked:
  assumes "read_event (dec_struct payment_trip_response_fields) payment_trip_response_zero (handed_over PaymentCmdCreateSession b) = Inr (m, ride_request)"
  obtains v1 where "sim_pay (handed_over PaymentCmdCreateSession b) pay_sim0 = (Returns None, v1)"
    "cp_Metadata (fst (last (sm_calls v1))) = payment_metadata sample_id ''u1'' ''d1''"
proof -
  have e: "d_RoutingKey (handed_over PaymentCmdCreateSession b) = PaymentCmdCreateSession" by (simp add: handed_over_def)
  have n: "int64_of_f64 (\<lambda>x. 0) (pr_Amount ride_request) = 100" "wire_f64 (f64_div (f64_of_int (sint (100 :: 64 word))) (F64 100))"
    using floats_100 by (simp_all add: ride_request_def)
  obtain v1 where v: "sim_pay (handed_over PaymentCmdCreateSession b) pay_sim0 = (Returns None, v1)"
    by (rule pay_handled [OF assms e pay_sim0_simps(1) n])
  with payment_handled [OF pay_sim_world sim_redis_strings sim_broker_traces e v] that show thesis
    by (auto simp: assms pay_sim0_simps ride_request_def checkout_of_def)
qed

definition ride_gateway :: "tsim api_gateway" where
  "ride_gateway = demo_gateway\<lparr>ag_stripe := demo_stripe\<lparr>sp_session := \<lambda>b. Inr (payment_metadata sample_id ''u1'' ''d1'')\<rparr>\<rparr>"

lemma ride_gateway_laws:
  "ag_publish ride_gateway = sim_publisher"
  "\<forall>b s k v x v'. sp_construct (ag_stripe ride_gateway) b s k v = (x, v') \<longrightarrow> sent_of si_events v' = sent_of si_events v"
  "sp_session (ag_stripe ride_gateway) raw = Inr (payment_metadata sample_id ''u1'' ''d1'')"
  by (simp_all add: ride_gateway_def demo_gateway_def demo_stripe_def)

lemma sample_prices_wire:
  "\<forall>k t fare. ts_docs (trip_world sample_trip) k = Some t \<and> tm_RideFare t = Some fare \<longrightarrow> wire_f64 (fm_TotalPriceInCents fare)"
  using floats_100(2) by (auto simp: trip_world_def sample_trip_def split: if_splits)

lemma ride_reported:
  obtains resp g1 where "api_mux ride_gateway ''POST'' ''/webhook/stripe'' paid_request paid_world = (Returns resp, g1)"
    "sent_of si_events g1 = [(PaymentEventSuccess, d_Body (event_delivery PaymentEventSuccess ''u1'' sample_payment))]"
    "sent_of si_events paid_world = []"
proof -
  let ?md = "payment_metadata sample_id ''u1'' ''d1''"
  have k: "GetString (ag_runtime ride_gateway) ''STRIPE_WEBHOOK_KEY'' '''' paid_world = ''whsec''"
    by (simp add: GetString_def ride_gateway_def demo_gateway_def sim_runtime_def paid_world_def)
  have g: "ag_publish ride_gateway = sim_publisher" "ag_nets ride_gateway = []"
    "ag_stripe ride_gateway = demo_stripe\<lparr>sp_session := \<lambda>b. Inr ?md\<rparr>"
    by (simp_all add: ride_gateway_def demo_gateway_def)
  have sgn: "hq_Header paid_request ''Stripe-Signature'' = ''sig:'' @ ''whsec''" "hq_Body paid_request = Inr (RawJson JNull)"
    by (simp_all add: paid_request_def)
  have j: "marshal enc_payment_status_update (webhook_payload ?md) = Inr (RawJson sample_payment)"
    by (simp add: webhook_payload_def metadata_value_def payment_metadata_def sample_payment_def marshal_def codec_defs json_defs)
  have b: "marshal enc_amqp_message \<lparr>am_OwnerID = ''u1'', am_Data = RawJson sample_payment\<rparr>
      = Inr (d_Body (event_delivery PaymentEventSuccess ''u1'' sample_payment))"
    by (simp add: marshal_amqp_message event_delivery_def)
  have up: "si_up paid_world" "si_events paid_world = []" by (simp_all add: paid_world_def tsim0_def sim.defs sim0_def)
  have o: "metadata_value ?md ''user_id'' = ''u1''" by (simp add: metadata_value_def payment_metadata_def)
  obtain v where p: "sim_publisher PaymentEventSuccess \<lparr>am_OwnerID = ''u1'', am_Data = RawJson sample_payment\<rparr> paid_world = (Returns None, v)"
    using sim_publish_up [OF up(1) b] by blast
  have c: "handle_completed ride_gateway \<lparr>sv_Type = ''checkout.session.completed'', sv_Data = Some (RawJson JNull)\<rparr> paid_world
      = (Returns no_reply, v)"
    unfolding handle_completed_def g by (simp add: j o p)
  have "api_mux ride_gateway ''POST'' ''/webhook/stripe'' paid_request paid_world = (Returns no_reply, v)"
    using c by (simp add: api_mux_def g StripeIPWhitelist_def handleStripeWebhook_def sgn k demo_stripe_def)
  moreover have "sent_of si_events paid_world = []" by (simp add: sent_of_def up)
  moreover from rabbit.published [OF sim_publisher_laws(2) p] b have
    "sent_of si_events v = [(PaymentEventSuccess, d_Body (event_delivery PaymentEventSuccess ''u1'' sample_payment))]"
    by (simp add: sent_of_def up)
  ultimately show thesis using that by blast
qed

end
