(* ===== verification/Dispatch.thy ===== *)
theory Dispatch
  imports DriverService Ride
begin

text \<open>
  From a created trip to a driver's socket: what the trip service publishes is read by the driver
  service, and what that offers is read by the gateway.
\<close>

section \<open>The event of a trip\<close>

text \<open>Where a trip starts, as longitude and latitude: the first point of its route, or zero without one.\<close>

definition trip_pickup :: "trip_model \<Rightarrow> float64 \<times> float64" where
  "trip_pickup t =
     (case tm_RideFare t of
        None \<Rightarrow> (F64 0, F64 0)
      | Some fare \<Rightarrow>
          (case fm_Route fare of
             None \<Rightarrow> (F64 0, F64 0)
           | Some resp \<Rightarrow>
               (case os_Routes resp of
                  [] \<Rightarrow> (F64 0, F64 0)
                | route # _ \<Rightarrow>
                    (case os_Coordinates route of
                       (x # y # _) # _ \<Rightarrow> (x, y)
                     | _ \<Rightarrow> (F64 0, F64 0)))))"

lemma with_pickup_event:
  assumes "with_pickup t (trip_event_of p) = Returns ev"
  shows "te_Trip ev = Some p" "(te_PickupLng ev, te_PickupLat ev) = trip_pickup t"
  using assms
  by (auto simp: with_pickup_def trip_event_of_def trip_pickup_def split: option.splits list.splits)

lemma Trip_ToProto_fields:
  assumes "Trip_ToProto t = Returns p" "tm_RideFare t = Some fare" "tm_Driver t = None"
  shows "pt_Id p = tm_ID t" "pt_UserID p = tm_UserID t" "pt_Status p = tm_Status t" "pt_Driver p = None"
    "pt_SelectedFare p = Some (RideFare_ToProto fare)"
  using assms by (auto simp: Trip_ToProto_def Let_def split: outcome.splits)

text \<open>The gateway reads the trip out of an event, whose other members it ignores.\<close>

lemma wrapped_trip_read:
  assumes "wire_trip_event ev" "te_Trip ev = Some p" "enc_trip_event_data ev = Some j"
  shows "dec_struct wrapped_trip_fields None j = Some (Some p)" "\<exists>i. enc_pb_trip p = Some i"
proof -
  have w: "wire_trip p" using assms(1,2) by (simp add: wire_trip_event_def)
  then show "\<exists>i. enc_pb_trip p = Some i" using pb_trip_roundtrip by blast
  have "\<exists>j. enc_ptr enc_pb_trip (te_Trip ev) = Some j \<and>
     dec_ptr pb_trip_zero (dec_struct pb_trip_fields) None j = Some (te_Trip ev)"
    using w assms(2) by (intro dec_enc_ptr)
      (metis enc_obj_not_null enc_pb_trip_def option.inject pb_trip_roundtrip)
  then obtain i where i: "enc_ptr enc_pb_trip (Some p) = Some i"
    "dec_ptr pb_trip_zero (dec_struct pb_trip_fields) None i = Some (Some p)" unfolding assms(2) by blast
  from assms(1) obtain j0 j1 where "enc_f64 (te_PickupLat ev) = Some j0" "enc_f64 (te_PickupLng ev) = Some j1"
    by (auto simp: wire_trip_event_def elim!: f64_wireE)
  with assms(3) i show "dec_struct wrapped_trip_fields None j = Some (Some p)"
    by (auto simp: enc_trip_event_data_def wrapped_trip_fields_def assms(2) mem_f64_def fld_def find_field_def to_lower_def)
qed

lemma event_pushed:
  assumes ev: "wire_trip_event ev" "te_Trip ev = Some p" "enc_trip_event_data ev = Some j"
    and p: "pt_Id p \<noteq> ''''" "pt_UserID p \<noteq> ''''" "pt_Status p \<noteq> ''''" "pt_Driver p = None"
    and b: "marshal enc_amqp_message \<lparr>am_OwnerID = u, am_Data = RawJson j\<rparr> = Inr b" and u: "u \<noteq> ''''"
  shows "\<exists>m i. client_message DriverCmdTripRequest b = Inr (Some (u, m)) \<and> ws_Type m = DriverCmdTripRequest
     \<and> ws_Data m = RawJson i \<and> enc_pb_trip p = Some i"
proof -
  obtain i where i: "enc_pb_trip p = Some i" using wrapped_trip_read(2) [OF ev] by blast
  have "sanitizeTripForWS (Some p) = Inr p" using p by (simp add: sanitizeTripForWS_def)
  then have "canonicalTripJSON (RawJson j) = Inr (RawJson i)"
    using wrapped_trip_read(1) [OF ev] i by (simp add: canonicalTripJSON_def marshal_def)
  moreover have "DriverCmdTripRequest \<in> set trip_keys" by (simp add: trip_keys_def)
  ultimately have "canonicalizeWSData DriverCmdTripRequest (RawJson j) = Inr (Some (RawJson i))"
    using trip_key_canonicalizer by (simp add: canonicalizeWSData_def canonicalizeTripPayload_def)
  with read_amqp_sent [OF b] u i show ?thesis by (simp add: client_message_def del: unmarshal_Inr_iff)
qed

lemma news_pushed:
  assumes "marshal enc_amqp_message \<lparr>am_OwnerID = u, am_Data = RawJson j\<rparr> = Inr b" "u \<noteq> ''''"
  shows "\<exists>m. client_message TripEventNoDriversFound b = Inr (Some (u, m)) \<and> ws_Type m = TripEventNoDriversFound"
proof -
  have "canonicalizeWSData TripEventNoDriversFound (RawJson j) = Inr (Some (RawJson j))"
    by (simp add: canonicalizeWSData_def skippedWSRoutingKeys_def wsCanonicalizers_def routing_key_defs)
  with read_amqp_sent [OF assms(1)] assms(2) show ?thesis by (simp add: client_message_def del: unmarshal_Inr_iff)
qed

section \<open>Offering a created trip\<close>

text \<open>What the driver service and the gateway make of the event of a trip.\<close>

lemma created_event_offered:
  assumes B: "broker_traces B tr" and pub: "PublishTripCreated (PublishMessage B rt) t w = (Returns None, w1)"
    and t: "tm_RideFare t = Some fare" "tm_Driver t = None" "tm_ID t \<noteq> ''''" "tm_UserID t \<noteq> ''''" "tm_Status t \<noteq> ''''"
    and wire: "\<forall>p ev. Trip_ToProto t = Returns p \<and> with_pickup t (trip_event_of p) = Returns ev \<longrightarrow> wire_trip_event ev"
    and created: "last (sent_of tr w1) = (d_RoutingKey e, d_Body e)"
    and L: "geo_laws R near listeners (sent_of ts)" and C: "broker_traces C ts"
    and dt: "runtime_quiet dt (sent_of ts)" "rand_bounded dt"
    and offer: "trip_consumer R dt (PublishMessage C dt) e v = (Returns None, v1)"
    and offered: "last (sent_of ts v1) = (d_RoutingKey f, d_Body f)"
  shows "\<exists>owner. (d_RoutingKey f = TripEventNoDriversFound \<and> owner = tm_UserID t
        \<and> (\<exists>m. client_message (d_RoutingKey f) (d_Body f) = Inr (Some (owner, m)) \<and> ws_Type m = TripEventNoDriversFound))
     \<or> (d_RoutingKey f = DriverCmdTripRequest \<and> listeners v (user_channel owner) > 0
        \<and> owner \<in> set (case trip_pickup t of (lng, lat) \<Rightarrow> near v (driverGeoKeyPrefix @ fm_PackageSlug fare) lng lat)
        \<and> (owner \<noteq> '''' \<longrightarrow> (\<exists>m p i. client_message (d_RoutingKey f) (d_Body f) = Inr (Some (owner, m))
              \<and> ws_Type m = DriverCmdTripRequest \<and> ws_Data m = RawJson i \<and> Trip_ToProto t = Returns p \<and> enc_pb_trip p = Some i)))"
proof -
  obtain p ev j where p: "Trip_ToProto t = Returns p" and ev: "with_pickup t (trip_event_of p) = Returns ev"
    and j: "marshal enc_trip_event_data ev = Inr j"
    and s: "PublishMessage B rt TripEventCreated \<lparr>am_OwnerID = tm_UserID t, am_Data = j\<rparr> w = (Returns None, w1)"
    by (rule PublishTripCreated_done [OF pub])
  have we: "wire_trip_event ev" using wire p ev by blast
  obtain i where i: "enc_trip_event_data ev = Some i" "dec_struct trip_event_data_fields trip_event_data_zero i = Some ev"
    using trip_event_roundtrip [OF we] by blast
  have ji: "j = RawJson i" using j i(1) by (simp add: marshal_def)
  obtain b where b: "marshal enc_amqp_message \<lparr>am_OwnerID = tm_UserID t, am_Data = RawJson i\<rparr> = Inr b"
    "sent_of tr w1 = sent_of tr w @ [(TripEventCreated, b)]" using rabbit.published [OF B s] ji by blast
  have e: "d_RoutingKey e = TripEventCreated" "d_Body e = b" using created by (simp_all add: b(2))
  note tp = with_pickup_event [OF ev] and pf = Trip_ToProto_fields [OF p t(1,2)]
  have "handleAndNotifyDrivers R dt (PublishMessage C dt) ev v = (Returns None, v1)"
    using offer by (simp add: trip_consumer_def read_event_sent [where dec = "dec_struct trip_event_data_fields", OF b(1) i(2) e(2)] e(1))
  then obtain trip fare' k owner j' b' where te: "te_Trip ev = Some trip" "pt_SelectedFare trip = Some fare'"
      "marshal enc_trip_event_data ev = Inr j'"
    and f0: "marshal enc_amqp_message \<lparr>am_OwnerID = owner, am_Data = j'\<rparr> = Inr b'" "sent_of ts v1 = sent_of ts v @ [(k, b')]"
    and o0: "k = TripEventNoDriversFound \<and> owner = pt_UserID trip \<or> k = DriverCmdTripRequest \<and> listeners v (user_channel owner) > 0
       \<and> owner \<in> set (near v (driverGeoKeyPrefix @ rf_PackageSlug fare') (te_PickupLng ev) (te_PickupLat ev))"
    by (rule offer_done [OF L C dt])
  have "trip = p" "fare' = RideFare_ToProto fare" "j' = j" using te tp(1) pf(5) j by simp_all
  note f = f0 [unfolded this ji] and o = o0 [unfolded this pf(2)]
  have k: "d_RoutingKey f = k" "d_Body f = b'" using offered by (simp_all add: f(2))
  show ?thesis
    using o[unfolded RideFare_ToProto_def] news_pushed [OF f(1)] event_pushed [OF we tp(1) i(1) _ _ _ pf(4) f(1)] t(3-5) pf(1-3) p tp(2) [symmetric]
    unfolding k by (auto intro!: exI [of _ owner])
qed


text \<open>The event of the reference trip, its offer to the one driver who listens, and what is pushed.\<close>

lemma sample_trip_event:
  "\<exists>p ev. Trip_ToProto sample_trip = Returns p \<and> with_pickup sample_trip (trip_event_of p) = Returns ev \<and> wire_trip_event ev
     \<and> te_Trip ev = Some p \<and> pt_SelectedFare p \<noteq> None"
  using floats_100(2)
  by (simp add: sample_trip_def Trip_ToProto_def OSRM_ToProto_def zero_route_def with_pickup_def trip_event_of_def
       RideFare_ToProto_def wire_trip_event_def wire_trip_def wire_route_def wire_geometry_def wire_coordinate_def del: wire_f64.simps)

lemma sample_offered:
  assumes pub: "PublishTripCreated (PublishMessage sim_broker (sim_runtime :: tsim runtime)) sample_trip w = (Returns None, w1)"
  obtains b v1 b' where "last (sent_of si_events w1) = (TripEventCreated, b)"
    "trip_consumer geo_redis sim_runtime sim_publish (handed_over TripEventCreated b) geo_world = (Returns None, v1)"
    "last (sent_of si_events v1) = (DriverCmdTripRequest, b')"
proof -
  obtain p ev j where p: "Trip_ToProto sample_trip = Returns p" and ev: "with_pickup sample_trip (trip_event_of p) = Returns ev"
    and j: "marshal enc_trip_event_data ev = Inr j"
    and s: "PublishMessage sim_broker (sim_runtime :: tsim runtime) TripEventCreated \<lparr>am_OwnerID = tm_UserID sample_trip, am_Data = j\<rparr> w = (Returns None, w1)"
    by (rule PublishTripCreated_done [OF pub])
  have we: "wire_trip_event ev" and te: "te_Trip ev = Some p" "pt_SelectedFare p \<noteq> None" using sample_trip_event p ev by auto
  obtain i where i: "enc_trip_event_data ev = Some i" "dec_struct trip_event_data_fields trip_event_data_zero i = Some ev"
    using trip_event_roundtrip [OF we] by blast
  have ji: "j = RawJson i" using j i(1) by (simp add: marshal_def)
  obtain b where b: "marshal enc_amqp_message \<lparr>am_OwnerID = tm_UserID sample_trip, am_Data = RawJson i\<rparr> = Inr b"
    "sent_of si_events w1 = sent_of si_events w @ [(TripEventCreated, b)]"
    using rabbit.published [OF sim_broker_traces s] ji by blast
  obtain b' where b': "marshal enc_amqp_message \<lparr>am_OwnerID = ''d2'', am_Data = RawJson i\<rparr> = Inr b'"
    by (simp add: marshal_amqp_message)
  have "si_up geo_world" by (simp add: geo_world_def sim0_def)
  then obtain v1 where v: "sim_publish DriverCmdTripRequest \<lparr>am_OwnerID = ''d2'', am_Data = RawJson i\<rparr> geo_world = (Returns None, v1)"
    using sim_publish_up b' by blast
  have r: "run_rand sim_runtime (length [''d2'']) geo_world = (0, geo_world)" by (simp add: sim_runtime_def)
  have "trip_consumer geo_redis sim_runtime sim_publish (handed_over TripEventCreated b) geo_world = (Returns None, v1)"
    using v r te j ji
    by (auto simp: trip_consumer_def read_event_sent [where dec = "dec_struct trip_event_data_fields", OF b(1) i(2)]
          handed_over_def handleAndNotifyDrivers_def geo_search_run)
  moreover obtain b'' where "sent_of si_events v1 = sent_of si_events geo_world @ [(DriverCmdTripRequest, b'')]"
    using rabbit.published [OF sim_broker_traces v] by blast
  ultimately show thesis using that [of b v1 b''] b(2) by simp
qed


end
