(* ===== verification/ChatRelay.thy ===== *)
theory ChatRelay
  imports Chat
begin

text \<open>
  A chat message across three services: the gateway of its sender relays it, the chat service stores
  it, and a gateway with members of the trip's room writes it to their sockets.
\<close>

section \<open>The store of messages\<close>

text \<open>
  What is assumed of the collection: \<open>docs\<close> are its documents by identifier; an insertion that
  reports no error has put the document under an identifier that was free. The broker has no part in
  them, and the collection none in what was sent.
\<close>

definition message_store ::
  "'w chat_collection \<Rightarrow> 'w broker \<Rightarrow> 'w publisher \<Rightarrow> ('w \<Rightarrow> string \<rightharpoonup> message) \<Rightarrow> ('w \<Rightarrow> 'a) \<Rightarrow> bool" where
  "message_store col B pub docs sent \<longleftrightarrow>
     (\<forall>m w w'. cl_insert col m w = (None, w') \<longrightarrow>
        docs w (ms_ID m) = None \<and> docs w' = (docs w)(ms_ID m \<mapsto> m) \<and> sent w' = sent w)
   \<and> (\<forall>t w r w'. bk_ack B t w = (r, w') \<longrightarrow> docs w' = docs w \<and> sent w' = sent w)
   \<and> pub_keeps pub docs"

lemma message_storeD:
  assumes "message_store col B pub docs sent"
  shows "cl_insert col m w = (None, w') \<Longrightarrow>
      docs w (ms_ID m) = None \<and> docs w' = (docs w)(ms_ID m \<mapsto> m) \<and> sent w' = sent w"
    "bk_ack B t w = (r, w') \<Longrightarrow> docs w' = docs w \<and> sent w' = sent w"
    "pub k a w = (x, w') \<Longrightarrow> docs w' = docs w"
  using assms unfolding message_store_def pub_keeps_def by metis+

text \<open>
  What the chat service needs of its repository, and a publisher that has no part in the documents:
  an incoming message that is handled is under its identifier afterwards, which was free, and nothing
  but its receipt is sent.
\<close>

locale message_repository =
  fixes repo :: "'w message_repo" and pub :: "'w publisher"
    and docs :: "'w \<Rightarrow> string \<rightharpoonup> message" and sent :: "'w \<Rightarrow> (string \<times> raw) list" and ok :: bool
  assumes saved: "ok \<Longrightarrow> mr_Save repo m w = (None, w') \<Longrightarrow>
      docs w (ms_ID m) = None \<and> docs w' = (docs w)(ms_ID m \<mapsto> m) \<and> sent w' = sent w"
    and published_docs: "ok \<Longrightarrow> pub k a w = (x, w') \<Longrightarrow> docs w' = docs w"
    and published_sent: "ok \<Longrightarrow> pub k a w = (x, w') \<Longrightarrow>
      sent w' = sent w \<or> (\<exists>b. marshal enc_amqp_message a = Inr b \<and> sent w' = sent w @ [(k, b)])"
begin

lemma incoming_stored:
  assumes ok and run: "HandleIncoming repo pub m w = (Returns None, w')"
  shows "docs w (ms_ID m) = None \<and> docs w' = (docs w)(ms_ID m \<mapsto> m)
     \<and> (sent w' = sent w \<or> (\<exists>b j. marshal enc_chat_delivered_data \<lparr>cd_MessageID = ms_ID m, cd_TripID = ms_TripID m\<rparr> = Inr j
        \<and> marshal enc_amqp_message \<lparr>am_OwnerID = ms_TripID m, am_Data = j\<rparr> = Inr b
        \<and> sent w' = sent w @ [(ChatEventDelivered, b)]))"
proof -
  obtain e w1 where s: "mr_Save repo m w = (e, w1)" by fastforce
  obtain x w2 where p: "PublishDelivered pub (ms_ID m) (ms_TripID m) w1 = (x, w2)" by fastforce
  have "e = None" and w2: "w' = w2"
    using run s p by (cases e; cases x; auto simp: HandleIncoming_def)+
  note st = saved [OF \<open>ok\<close> s [unfolded \<open>e = None\<close>]]
  show ?thesis
  proof (cases "marshal enc_chat_delivered_data \<lparr>cd_MessageID = ms_ID m, cd_TripID = ms_TripID m\<rparr>")
    case (Inl y)
    with p st show ?thesis by (simp add: PublishDelivered_def w2)
  next
    case (Inr j)
    then have q: "pub ChatEventDelivered \<lparr>am_OwnerID = ms_TripID m, am_Data = j\<rparr> w1 = (x, w2)"
      using p by (simp add: PublishDelivered_def)
    show ?thesis using published_docs [OF \<open>ok\<close> q] published_sent [OF \<open>ok\<close> q] st Inr unfolding w2 by auto
  qed
qed

end

interpretation chat_store: message_repository "chat_repo col w0" "PublishMessage B rt" docs "sent_of tr"
    "message_store col B (PublishMessage B rt) docs (sent_of tr) \<and> broker_traces B tr" for col w0 B rt docs tr
proof unfold_locales
  assume ok: "message_store col B (PublishMessage B rt) docs (sent_of tr) \<and> broker_traces B tr"
  note L = conjunct1 [OF ok] and B = conjunct2 [OF ok]
  fix m w w' k a x
  show "mr_Save (chat_repo col w0) m w = (None, w') \<Longrightarrow>
      docs w (ms_ID m) = None \<and> docs w' = (docs w)(ms_ID m \<mapsto> m) \<and> sent_of tr w' = sent_of tr w"
    using message_storeD(1) [OF L] by simp
  show "PublishMessage B rt k a w = (x, w') \<Longrightarrow> docs w' = docs w" by (rule message_storeD(3) [OF L])
  show "PublishMessage B rt k a w = (x, w') \<Longrightarrow>
      sent_of tr w' = sent_of tr w \<or> (\<exists>b. marshal enc_amqp_message a = Inr b \<and> sent_of tr w' = sent_of tr w @ [(k, b)])"
    by (rule rabbit.sent_grows [OF B])
qed

text \<open>A delivery that was acknowledged has its message stored, and at most its receipt sent.\<close>

lemma chat_turn_stores:
  assumes S: "message_store col B (PublishMessage B rt) docs (sent_of tr)" and B: "broker_traces B tr"
    and d: "read_event (dec_struct chat_message_data_fields) chat_message_data_zero d = Inr (m, data)"
    and run: "chat_turn B (chat_repo col w0) (PublishMessage B rt) d w = (Returns None, w')"
  shows "docs w (cm_MessageID data) = None \<and> docs w' = (docs w)(cm_MessageID data \<mapsto> message_of data)
     \<and> (sent_of tr w' = sent_of tr w \<or> (\<exists>b j. marshal enc_chat_delivered_data
          \<lparr>cd_MessageID = cm_MessageID data, cd_TripID = cm_TripID data\<rparr> = Inr j
        \<and> marshal enc_amqp_message \<lparr>am_OwnerID = cm_TripID data, am_Data = j\<rparr> = Inr b
        \<and> sent_of tr w' = sent_of tr w @ [(ChatEventDelivered, b)]))"
proof -
  obtain x w1 where h: "HandleIncoming (chat_repo col w0) (PublishMessage B rt) (message_of data) w = (x, w1)" by fastforce
  obtain y w2 where a: "bk_ack B (d_Tag d) w1 = (y, w2)" by fastforce
  have "x = Returns None" and w2: "w' = w2"
    using run h a by (cases x; auto simp: chat_turn_def handleMessage_def d split: option.splits prod.splits)+
  with chat_store.incoming_stored [OF conjI [OF S B] h [unfolded this(1)]] message_storeD(2) [OF S a]
  show ?thesis by (simp add: message_of_def)
qed

section \<open>From the sender's frame to the store\<close>

lemma chat_command_read:
  assumes "marshal enc_amqp_message (chat_command payload u i n) = Inr b" "- (2 ^ 63) \<le> n" "n < 2 ^ 63" "d_Body d = b"
  shows "\<exists>m. read_event (dec_struct chat_message_data_fields) chat_message_data_zero d
     = Inr (m, \<lparr>cm_MessageID = i, cm_TripID = mc_TripID payload, cm_SenderID = u, cm_Text = mc_Text payload, cm_SentAt = n\<rparr>)"
proof -
  let ?c = "\<lparr>cm_MessageID = i, cm_TripID = mc_TripID payload, cm_SenderID = u, cm_Text = mc_Text payload, cm_SentAt = n\<rparr>"
  obtain j where j: "enc_chat_message_data ?c = Some j" "dec_struct chat_message_data_fields chat_message_data_zero j = Some ?c"
    using chat_message_roundtrip [of ?c] assms(2,3) by auto
  have c: "chat_command payload u i n = \<lparr>am_OwnerID = u, am_Data = RawJson j\<rparr>"
    by (simp add: chat_command_def bytes_of_def marshal_def j(1))
  then show ?thesis
    using read_event_sent [where dec = "dec_struct chat_message_data_fields", OF assms(1) [unfolded c] j(2) assms(4)] by blast
qed

lemma relayed_once:
  assumes R: "redis_strings R kv" and B: "broker_traces B tr" and S: "relay_world R rt (PublishMessage B rt) ch (sent_of tr)"
    and run: "relayTripChatMessage R rt (PublishMessage B rt) u rawData w = (r, w')" and sent: "sent_of tr w' \<noteq> sent_of tr w"
  obtains payload peer i b where "read_chat rawData = Inr payload" "mc_Text payload \<noteq> ''''"
    "chat_peer (kv w) (mc_TripID payload) u = Inr peer" "mc_MessageID payload \<noteq> '''' \<longrightarrow> i = mc_MessageID payload"
    "marshal enc_amqp_message (chat_command payload u i (frame_time R rt u rawData w)) = Inr b"
    "sent_of tr w' = sent_of tr w @ [(ChatCmdSend, b)]"
    "ch w' = ch w \<or> (\<exists>b. read_ws b = Inr (chat_push payload u i (frame_time R rt u rawData w))
        \<and> ch w' = ch w @ [(room_channel (tripChatRoomID (mc_TripID payload)), b)])"
proof -
  let ?n = "frame_time R rt u rawData w"
  obtain payload peer i w4 x where m: "read_chat rawData = Inr payload" "mc_Text payload \<noteq> ''''"
      "chat_peer (kv w) (mc_TripID payload) u = Inr peer" "mc_MessageID payload \<noteq> '''' \<longrightarrow> i = mc_MessageID payload"
    and c: "ch w4 = ch w \<or> (\<exists>b. read_ws b = Inr (chat_push payload u i ?n)
        \<and> ch w4 = ch w @ [(room_channel (tripChatRoomID (mc_TripID payload)), b)])" and s4: "sent_of tr w4 = sent_of tr w"
    and p: "PublishMessage B rt ChatCmdSend (chat_command payload u i ?n) w4 = (x, w')"
    using relay_member [OF R S run] sent by blast
  obtain b where b: "marshal enc_amqp_message (chat_command payload u i ?n) = Inr b"
      "sent_of tr w' = sent_of tr w @ [(ChatCmdSend, b)]"
    using rabbit.sent_grows [OF B p] sent unfolding s4 by blast
  show thesis using that [OF m b] c relay_worldD(7) [OF S p] by simp
qed

section \<open>The whole way\<close>

text \<open>
  C3: A chat message is stored as it is shown. When the gateway sends the chat service something for a
  frame of an authenticated user, and the chat service, with a world of its own, acknowledges the
  envelope, then the user is a member of the trip's pair and the store has grown by exactly one message,
  under an identifier that was free: with this user as sender and the text and trip of the frame; at
  most its receipt is sent. What was published to the trip's room, if anything was, has the identifier,
  sender, text and time that are stored, and a gateway that gets it writes it to every socket in the room.
\<close>

theorem chat_stored_as_shown:
  assumes R: "redis_strings R kv" and B: "broker_traces B tr" and S: "relay_world R rt (PublishMessage B rt) ch (sent_of tr)"
    and clock: "- (2 ^ 63) \<le> frame_time R rt u rawData w" "frame_time R rt u rawData w < 2 ^ 63"
    and relay: "relayTripChatMessage R rt (PublishMessage B rt) u rawData w = (r, w')" "sent_of tr w' \<noteq> sent_of tr w"
    and d: "last (sent_of tr w') = (d_RoutingKey d, d_Body d)"
    and D: "message_store col C (PublishMessage C ct) docs (sent_of ts)" and C: "broker_traces C ts"
    and handled: "chat_turn C (chat_repo col v0) (PublishMessage C ct) d v = (Returns None, v')"
    and W: "socket_writes W out"
  shows "\<exists>payload peer i. read_chat rawData = Inr payload \<and> mc_Text payload \<noteq> ''''
     \<and> chat_peer (kv w) (mc_TripID payload) u = Inr peer
     \<and> docs v i = None \<and> docs v' = (docs v)(i \<mapsto> \<lparr>ms_ID = i, ms_TripID = mc_TripID payload, ms_SenderID = u,
          ms_Text = mc_Text payload, ms_SentAt = frame_time R rt u rawData w, ms_Delivered = False\<rparr>)
     \<and> (sent_of ts v' = sent_of ts v \<or> (\<exists>b. sent_of ts v' = sent_of ts v @ [(ChatEventDelivered, b)]))
     \<and> (ch w' = ch w \<or> (\<exists>b. ch w' = ch w @ [(room_channel (tripChatRoomID (mc_TripID payload)), b)]
          \<and> (\<forall>s rec rcm rcm' g g'. s \<in> set (map_set (roomSockets rcm) (tripChatRoomID (mc_TripID payload)))
               \<and> bySocket (localCM rcm) s = Some rec
               \<and> room_subscription_step W (tripChatRoomID (mc_TripID payload)) b rcm g = (rcm', g')
               \<longrightarrow> (\<exists>pre ok post. out g' = out g @ pre @ (cr_conn rec, chat_push payload u i (frame_time R rt u rawData w), ok) # post))))"
proof -
  let ?n = "frame_time R rt u rawData w"
  obtain payload peer i b where m: "read_chat rawData = Inr payload" "mc_Text payload \<noteq> ''''"
      "chat_peer (kv w) (mc_TripID payload) u = Inr peer" "mc_MessageID payload \<noteq> '''' \<longrightarrow> i = mc_MessageID payload"
    and b: "marshal enc_amqp_message (chat_command payload u i ?n) = Inr b"
      "sent_of tr w' = sent_of tr w @ [(ChatCmdSend, b)]"
    and c: "ch w' = ch w \<or> (\<exists>b. read_ws b = Inr (chat_push payload u i ?n)
        \<and> ch w' = ch w @ [(room_channel (tripChatRoomID (mc_TripID payload)), b)])"
    by (rule relayed_once [OF R B S relay])
  obtain m' where e: "read_event (dec_struct chat_message_data_fields) chat_message_data_zero d
     = Inr (m', \<lparr>cm_MessageID = i, cm_TripID = mc_TripID payload, cm_SenderID = u, cm_Text = mc_Text payload, cm_SentAt = ?n\<rparr>)"
    using chat_command_read [OF b(1) clock] d by (auto simp: b(2))
  note st = chat_turn_stores [OF D C e handled, simplified message_of_def chat_message_data.simps]
  have shown: "\<exists>pre ok post. out g' = out g @ pre @ (cr_conn rec, chat_push payload u i ?n, ok) # post"
    if "read_ws q = Inr (chat_push payload u i ?n)" "s \<in> set (map_set (roomSockets rcm) room)" "bySocket (localCM rcm) s = Some rec"
      "room_subscription_step W room q rcm g = (rcm', g')" for q s rec rcm rcm' g g' room
  proof -
    have "deliver_to_sockets W (map_set (roomSockets rcm) room) (chat_push payload u i ?n) rcm g = (rcm', g')"
      using that(1,4) by (simp add: room_subscription_step_def deliverToRoomLocally_def del: unmarshal_Inr_iff)
    with deliver_writes [OF W] that(2,3) show ?thesis by blast
  qed
  show ?thesis
  proof (intro exI conjI)
    show "ch w' = ch w \<or> (\<exists>b. ch w' = ch w @ [(room_channel (tripChatRoomID (mc_TripID payload)), b)]
          \<and> (\<forall>s rec rcm rcm' g g'. s \<in> set (map_set (roomSockets rcm) (tripChatRoomID (mc_TripID payload)))
               \<and> bySocket (localCM rcm) s = Some rec
               \<and> room_subscription_step W (tripChatRoomID (mc_TripID payload)) b rcm g = (rcm', g')
               \<longrightarrow> (\<exists>pre ok post. out g' = out g @ pre @ (cr_conn rec, chat_push payload u i ?n, ok) # post)))"
      using c shown by blast
  qed (use m st in auto)
qed

text \<open>The reference collection as documents by identifier.\<close>

definition chat_docs :: "chat_sim \<Rightarrow> string \<rightharpoonup> message" where
  "chat_docs w = map_of (map (\<lambda>m. (ms_ID m, m)) (cs_docs w))"

lemma sim_message_store: "message_store sim_collection (sim_broker :: chat_sim broker) chat_publish chat_docs (sent_of si_events)"
proof -
  have "pub_keeps chat_publish cs_docs" by (rule sim_pub_keeps) simp_all
  then have "pub_keeps chat_publish chat_docs" by (auto simp: pub_keeps_def chat_docs_def)
  moreover have "ms_ID m \<notin> ms_ID ` set xs \<Longrightarrow> map_of (map (\<lambda>m. (ms_ID m, m)) xs) (ms_ID m) = None" for m xs
    by (force simp: map_of_eq_None_iff)
  ultimately show ?thesis
    by (auto simp: message_store_def sim_collection_def chat_docs_def sim_broker_def record_event_def sent_of_def envelope_of_def split: if_splits)
qed

lemma sample_frame_time: "frame_time sim_redis sim_runtime ''d1'' chat_frame chat_world = 0"
  by (simp add: frame_time_def read_chat_frame or_fresh_def chat_payload_def sim_resolve unix_time_def sim_runtime_def)
     (simp add: chat_world_def sim0_def)

theorem chat_stored_as_shown_witness:
  "\<exists>r w' e v'. relayTripChatMessage sim_redis sim_runtime sim_publish ''d1'' chat_frame chat_world = (r, w')
     \<and> sent_of si_events w' = [(ChatCmdSend, e)]
     \<and> chat_turn (sim_broker :: chat_sim broker) (chat_repo sim_collection chat_sim0) chat_publish (handed_over ChatCmdSend e) chat_sim0
         = (Returns None, v')
     \<and> chat_docs v' ''m1'' = Some \<lparr>ms_ID = ''m1'', ms_TripID = ''t1'', ms_SenderID = ''d1'', ms_Text = ''hello'', ms_SentAt = 0, ms_Delivered = False\<rparr>"
proof -
  obtain r w' e where g: "relayTripChatMessage sim_redis sim_runtime sim_publish ''d1'' chat_frame chat_world = (r, w')"
    and e: "marshal enc_amqp_message (chat_command chat_payload ''d1'' ''m1'' 0) = Inr e" "sent_of si_events w' = [(ChatCmdSend, e)]"
    using sample_relay by blast
  let ?d = "handed_over ChatCmdSend e"
  have "d_Body ?d = e" by (simp add: handed_over_def)
  from chat_command_read [OF e(1) _ _ this] obtain m where
    "read_event (dec_struct chat_message_data_fields) chat_message_data_zero ?d = Inr (m, hello)"
    by (auto simp: chat_payload_def hello_def)
  from sample_turn [OF this] obtain v' where
    t: "chat_turn (sim_broker :: chat_sim broker) (chat_repo sim_collection chat_sim0) chat_publish ?d chat_sim0 = (Returns None, v')"
    and ids: "chat_ids v' = {''m1''}" by blast
  have s: "sent_of si_events w' \<noteq> sent_of si_events chat_world" "last (sent_of si_events w') = (d_RoutingKey ?d, d_Body ?d)"
    by (simp_all only: e(2)) (simp_all add: handed_over_def sent_of_def chat_world_def sim0_def)
  obtain p i where p: "Inr chat_payload = (Inr p :: trip_chat_message res)"
    and d: "chat_docs v' = (chat_docs chat_sim0)(i \<mapsto> \<lparr>ms_ID = i, ms_TripID = mc_TripID p, ms_SenderID = ''d1'',
          ms_Text = mc_Text p, ms_SentAt = 0, ms_Delivered = False\<rparr>)"
    using chat_stored_as_shown [OF sim_redis_strings sim_broker_traces sim_relay_world _ _ g s sim_message_store
      sim_broker_traces t sim_websocket_writes, unfolded sample_frame_time read_chat_frame] by force
  have "dom (chat_docs v') = {''m1''}" using ids by (simp add: chat_docs_def dom_map_of_conv_image_fst image_image)
  then have "i = ''m1''" unfolding d by (auto simp: chat_docs_def chat_sim0_def sim.defs chat_sim.defs)
  with d p have "chat_docs v' ''m1'' = Some \<lparr>ms_ID = ''m1'', ms_TripID = ''t1'', ms_SenderID = ''d1'', ms_Text = ''hello'', ms_SentAt = 0, ms_Delivered = False\<rparr>"
    by (auto simp: chat_payload_def)
  with g e t show ?thesis by blast
qed

end
