(* ===== verification/Cancelling.thy ===== *)
theory Cancelling
  imports DriverService TripAnswers
begin

text \<open>
  A cancellation across two services: the trip service marks the trip and tells the gateways, and a
  gateway that reads this ends the trip's streams.
\<close>

lemma cancel_event_read:
  assumes B: "broker_traces B tr" and run: "PublishTripCancelled (PublishMessage B rt) i r c a w = (Returns e, w')"
    and sent: "sent_of tr w' \<noteq> sent_of tr w" "last (sent_of tr w') = (d_RoutingKey d, d_Body d)"
  shows "\<exists>m. read_event (dec_struct trip_cancelled_data_fields) trip_cancelled_data_zero d
     = Inr (m, \<lparr>tc_TripID = i, tc_RiderID = r, tc_DriverID = c, tc_DriverAccepted = a\<rparr>)"
proof -
  let ?p = "\<lparr>tc_TripID = i, tc_RiderID = r, tc_DriverID = c, tc_DriverAccepted = a\<rparr>"
  obtain j where j: "enc_trip_cancelled_data ?p = Some j" "dec_struct trip_cancelled_data_fields trip_cancelled_data_zero j = Some ?p"
    using trip_cancelled_roundtrip by blast
  then have p: "PublishMessage B rt TripEventCancelled \<lparr>am_OwnerID = r, am_Data = RawJson j\<rparr> w = (Returns e, w')"
    using run by (simp add: PublishTripCancelled_def marshal_def)
  obtain b where b: "marshal enc_amqp_message \<lparr>am_OwnerID = r, am_Data = RawJson j\<rparr> = Inr b"
      "sent_of tr w' = sent_of tr w @ [(TripEventCancelled, b)]" using rabbit.sent_grows [OF B p] sent(1) by blast
  have "d_Body d = b" using sent(2) by (simp add: b(2))
  from read_event_sent [where dec = "dec_struct trip_cancelled_data_fields", OF b(1) j(2) this] show ?thesis by blast
qed

text \<open>
  C4: A cancelled ride ends everywhere it is known by the name it was cancelled under. When CancelTrip
  succeeds for a trip that has a driver and tells somebody, the caller was entitled to it and exactly
  this trip is marked as cancelled. A gateway, with a world of its own, that handles the event and can
  delete keys then has no socket it knew of the rider or of the driver in the rooms under this name,
  has changed no other room, and the pair under this name and no other is gone. The name is the
  identifier as the caller wrote it: for the stored one, in lower case, that is the trip's own chat; for
  any other spelling, which is accepted too, the trip's own pair stays.
\<close>

theorem cancelled_ride_ends:
  assumes M: "mongo_docs M docs" "mongo_keeps M (sent_of tr)" and B: "broker_traces B tr" and pk: "pub_keeps (PublishMessage B rt) docs"
    and cancel: "grpc_CancelTrip (PublishMessage B rt) (NewMongoRepository M) i u w = (Returns (Inr driver), w')"
      "sent_of tr w' \<noteq> sent_of tr w" "driver \<noteq> ''''"
    and event: "last (sent_of tr w') = (d_RoutingKey d, d_Body d)"
    and R: "redis_strings R kv" "redis_signals R kv" "sockets_keep W kv"
    and clear: "fst (ClearTripChatPair R i g) = None" and handled: "cancel_handler R W d rcm g = (e, rcm', g')"
  shows "\<exists>k t. ObjectIDFromHex i = Inr k \<and> docs w k = Some t \<and> may_cancel t u
     \<and> docs w' = (docs w)(k \<mapsto> t\<lparr>tm_Status := ''cancelled''\<rparr>)
     \<and> (tm_UserID t \<noteq> '''' \<longrightarrow> e = None \<and> out_of_trip (localCM rcm) i (tm_UserID t) rcm' \<and> out_of_trip (localCM rcm) i driver rcm'
          \<and> (q \<notin> trip_rooms i \<longrightarrow> set (map_set (roomSockets rcm') q) = set (map_set (roomSockets rcm) q))
          \<and> chat_pairs (kv g') = (chat_pairs (kv g))(i := None)
          \<and> (i \<noteq> k \<longrightarrow> chat_pairs (kv g') k = chat_pairs (kv g) k))"
proof -
  obtain k t x w1 where k: "ObjectIDFromHex i = Inr k" "docs w k = Some t" "may_cancel t u"
      "docs w' = (docs w)(k \<mapsto> t\<lparr>tm_Status := ''cancelled''\<rparr>)"
    and p: "PublishTripCancelled (PublishMessage B rt) i (tm_UserID t) driver (driver \<noteq> '''') w1 = (Returns x, w')"
    and s: "sent_of tr w1 = sent_of tr w"
    using cancel_done [OF M(1) pk cancel(1)] M(2) by blast
  let ?p = "\<lparr>tc_TripID = i, tc_RiderID = tm_UserID t, tc_DriverID = driver, tc_DriverAccepted = driver \<noteq> ''''\<rparr>"
  obtain m where r: "read_event (dec_struct trip_cancelled_data_fields) trip_cancelled_data_zero d = Inr (m, ?p)"
    using cancel_event_read [OF B p _ event] cancel(2) unfolding s by blast
  obtain g2 where c: "ClearTripChatPair R i g = (None, g2)" using clear by (metis prod.collapse)
  have i: "tc_TripID ?p \<noteq> ''''" using k(1) by (auto simp: ObjectIDFromHex_def is_hex24_def split: if_splits)
  have "e = None \<and> out_of_trip (localCM rcm) i (tm_UserID t) rcm' \<and> out_of_trip (localCM rcm) i driver rcm'
          \<and> (q \<notin> trip_rooms i \<longrightarrow> set (map_set (roomSockets rcm') q) = set (map_set (roomSockets rcm) q))
          \<and> chat_pairs (kv g') = (chat_pairs (kv g))(i := None)" if u: "tm_UserID t \<noteq> ''''"
  proof -
    have "tc_RiderID ?p \<noteq> ''''" "cancelled_driver R ?p g = (driver, g)" "tc_DriverAccepted ?p \<or> driver \<noteq> ''''"
        "ClearTripChatPair R (tc_TripID ?p) g = (None, g2)"
      using u cancel(3) c by (simp_all add: cancelled_driver_def)
    note T = trip_torn_down [OF R r i this handled]
    show ?thesis using T(1-3) T(4) [of q] T(5) chat_pairs_clear [OF R(1) c] cancel(3) by simp
  qed
  with k show ?thesis by (intro exI [of _ k] exI [of _ t]) auto
qed

text \<open>The rider of the reference ride cancels it.\<close>

theorem cancelled_ride_ends_witness:
  "\<exists>w' b rcm' g'. grpc_CancelTrip sim_publisher (NewMongoRepository sim_mongo) sample_id ''u1'' (trip_world accepted_trip)
        = (Returns (Inr ''d1''), w')
     \<and> cancel_handler sim_redis sim_websocket (handed_over TripEventCancelled b) trip_node chat_world = (None, rcm', g')
     \<and> map_option tm_Status (ts_docs w' sample_id) = Some ''cancelled'' \<and> chat_pairs (si_kv g') sample_id = None"
proof -
  let ?w = "trip_world accepted_trip"
  have a: "tm_UserID accepted_trip = ''u1''" "tm_Status accepted_trip = ''accepted''" "tm_Driver accepted_trip = Some sample_driver"
      "td_Id sample_driver = ''d1''"
    by (simp_all add: accepted_trip_def sample_trip_def sample_driver_def)
  have "set_trip ''cancelled'' None accepted_trip \<noteq> accepted_trip" by (simp add: set_trip_def accepted_trip_def sample_trip_def)
  then have "\<exists>w1. svc_CancelTrip (NewMongoRepository sim_mongo) sample_id ''u1'' ?w = (Returns (Inr (accepted_trip\<lparr>tm_Status := ''cancelled''\<rparr>)), w1)
      \<and> si_up w1 \<and> si_events w1 = []"
    using trip_world_docs [of accepted_trip] a trip_world_up [of accepted_trip]
    by (simp add: svc_CancelTrip_def NewMongoRepository_def mongo_GetTripByID_def mongo_UpdateTrip_def sim_mongo_def sample_id_ok may_cancel_def)
  then obtain w1 where svc: "svc_CancelTrip (NewMongoRepository sim_mongo) sample_id ''u1'' ?w = (Returns (Inr (accepted_trip\<lparr>tm_Status := ''cancelled''\<rparr>)), w1)"
    and up: "si_up w1" "si_events w1 = []" by blast
  obtain j where j: "marshal enc_trip_cancelled_data \<lparr>tc_TripID = sample_id, tc_RiderID = ''u1'', tc_DriverID = ''d1'', tc_DriverAccepted = True\<rparr> = Inr (RawJson j)"
    by (simp add: codec_defs json_defs)
  obtain b where b: "marshal enc_amqp_message \<lparr>am_OwnerID = ''u1'', am_Data = RawJson j\<rparr> = Inr b" by (simp add: marshal_amqp_message)
  obtain w' where w': "sim_publisher TripEventCancelled \<lparr>am_OwnerID = ''u1'', am_Data = RawJson j\<rparr> w1 = (Returns None, w')"
    using sim_publish_up [OF up(1) b] by blast
  have run: "grpc_CancelTrip sim_publisher (NewMongoRepository sim_mongo) sample_id ''u1'' ?w = (Returns (Inr ''d1''), w')"
    by (simp add: grpc_CancelTrip_def svc a j w' PublishTripCancelled_def)
  obtain b' where s: "sent_of si_events w' = [(TripEventCancelled, b')]"
    using rabbit.published [OF sim_broker_traces w'] up(2) by (auto simp: sent_of_def)
  let ?d = "handed_over TripEventCancelled b'"
  have ev: "last (sent_of si_events w') = (d_RoutingKey ?d, d_Body ?d)" by (simp add: s handed_over_def)
  have moved: "sent_of si_events w' \<noteq> sent_of si_events ?w" by (simp add: s) (simp add: sent_of_def trip_world_up)
  have cl: "fst (ClearTripChatPair sim_redis sample_id chat_world) = None" by (simp add: ClearTripChatPair_def sim_redis_def Let_def sample_id_def)
  obtain e rcm' g' where h: "cancel_handler sim_redis sim_websocket ?d trip_node chat_world = (e, rcm', g')" by (metis prod_cases3)
  have "''d1'' \<noteq> ''''" by simp
  from cancelled_ride_ends [OF sim_mongo_docs sim_sent_keeps sim_broker_traces sim_publisher_docs run moved this ev
      sim_redis_strings sim_kv_laws(1,2) cl h] obtain t where
    "ts_docs ?w sample_id = Some t" "ts_docs w' = (ts_docs ?w)(sample_id \<mapsto> t\<lparr>tm_Status := ''cancelled''\<rparr>)"
    "tm_UserID t \<noteq> '''' \<longrightarrow> e = None \<and> chat_pairs (si_kv g') = (chat_pairs (si_kv chat_world))(sample_id := None)"
    by (auto simp: sample_id_ok)
  with run h a(1) trip_world_docs [of accepted_trip] show ?thesis
    by (intro exI [of _ w'] exI [of _ b'] exI [of _ rcm'] exI [of _ g']) auto
qed

end
