(* ===== verification/Scaffold.thy ===== *)
theory Scaffold
  imports Prelude
begin

text \<open>
  The scaffolding tool (\<open>tools/create_service.go\<close>): the directories and the README it makes for
  a new service. Of the standard library, \<open>filepath.Join\<close> is modelled with the lexical clean-up it
  applies; the file system and the standard output are parameters. Strings are lists of bytes, so the
  characters that draw the tree are written as their UTF-8 bytes.
\<close>

section \<open>Paths\<close>

text \<open>
  \<open>filepath.Clean\<close>, on the parts between slashes: empty parts and dots go, a double dot takes
  back the part before it; at the start of a relative path it stays. \<open>out\<close> is in reverse.
\<close>

fun clean_parts :: "bool \<Rightarrow> string list \<Rightarrow> string list \<Rightarrow> string list" where
  "clean_parts rooted out [] = rev out"
| "clean_parts rooted out (p # ps) =
     (if p = '''' \<or> p = ''.'' then clean_parts rooted out ps
      else if p = ''..'' then
        (case out of
           [] \<Rightarrow> clean_parts rooted (if rooted then [] else [p]) ps
         | q # qs \<Rightarrow> clean_parts rooted (if q = ''..'' then p # out else qs) ps)
      else clean_parts rooted (p # out) ps)"

fun join_slash :: "string list \<Rightarrow> string" where
  "join_slash [] = ''''"
| "join_slash [p] = p"
| "join_slash (p # ps) = p @ ''/'' @ join_slash ps"

definition path_clean :: "string \<Rightarrow> string" where
  "path_clean s =
     (let rooted = (take 1 s = ''/''); r = join_slash (clean_parts rooted [] (split_char (CHR ''/'') s))
      in if rooted then ''/'' @ r else if r = '''' then ''.'' else r)"

text \<open>The elements after the first empty ones are joined; without any the result is empty.\<close>

definition path_join :: "string list \<Rightarrow> string" where
  "path_join es = (case dropWhile (\<lambda>e. e = '''') es of [] \<Rightarrow> '''' | qs \<Rightarrow> path_clean (join_slash qs))"

section \<open>Texts\<close>

definition lines_of :: "string list \<Rightarrow> string" where
  "lines_of ls = concat (map (\<lambda>l. l @ [CHR 0x0A]) ls)"

definition dash :: string where "dash = [CHR 0xE2, CHR 0x94, CHR 0x80]"
definition bar :: string where "bar = [CHR 0xE2, CHR 0x94, CHR 0x82]"
definition branch :: string where "branch = [CHR 0xE2, CHR 0x94, CHR 0x9C] @ dash @ dash"
definition last_branch :: string where "last_branch = [CHR 0xE2, CHR 0x94, CHR 0x94] @ dash @ dash"

definition readme :: "string \<Rightarrow> string" where
  "readme name = lines_of
    [''# '' @ name @ '' service'',
     '''',
     ''This service handles all '' @ name @ ''-related operations in the system.'',
     '''',
     ''## Architecture'',
     '''',
     ''The service follows Clean Architecture principles with the following structure:'',
     '''',
     ''```'',
     ''services/'' @ name @ ''-service/'',
     branch @ '' cmd/                    # Application entry points'',
     bar @ ''   '' @ last_branch @ '' main.go            # Main application setup'',
     branch @ '' internal/              # Private application code'',
     bar @ ''   '' @ branch @ '' domain/           # Business domain models and interfaces'',
     bar @ ''   '' @ branch @ '' service/          # Business logic implementation'',
     bar @ ''   '' @ bar @ ''   '' @ last_branch @ '' service.go    # Service implementations'',
     bar @ ''   '' @ last_branch @ '' infrastructure/   # External dependencies implementations (abstractions)'',
     bar @ ''       '' @ branch @ '' events/       # Event handling (RabbitMQ)'',
     bar @ ''       '' @ branch @ '' grpc/         # gRPC server handlers'',
     bar @ ''       '' @ last_branch @ '' repository/   # Data persistence'',
     branch @ '' pkg/                  # Public packages'',
     bar @ ''   '' @ last_branch @ '' types/           # Shared types and models'',
     last_branch @ '' README.md            # This file'',
     ''```'',
     '''',
     ''### Layer Responsibilities'',
     '''',
     ''1. **Domain Layer** (`internal/domain/`)'',
     ''   - Contains business domain interfaces'',
     ''   - Defines contracts for repositories and services'',
     ''   - Pure business logic, no implementation details'',
     '''',
     ''2. **Service Layer** (`internal/service/`)'',
     ''   - Implements business logic'',
     ''   - Uses repository interfaces'',
     ''   - Coordinates between different parts of the system'',
     '''',
     ''3. **Infrastructure Layer** (`internal/infrastructure/`)'',
     ''   - `repository/`: Implements data persistence'',
     ''   - `events/`: Handles event publishing and consuming'',
     ''   - `grpc/`: Handles gRPC communication'',
     '''',
     ''4. **Public Types** (`pkg/types/`)'',
     ''   - Contains shared types and models'',
     ''   - Can be imported by other services'',
     '''',
     ''## Key Benefits'',
     '''',
     ''1. **Dependency Inversion**: Services depend on interfaces, not implementations'',
     ''2. **Separation of Concerns**: Each layer has a specific responsibility'',
     ''3. **Testability**: Easy to mock dependencies for testing'',
     ''4. **Maintainability**: Clear boundaries between components'',
     ''5. **Flexibility**: Easy to swap implementations without affecting business logic'']"

definition tree_text :: "string \<Rightarrow> string" where
  "tree_text name = lines_of
    ['''',
     ''services/'' @ name @ ''-service/'',
     branch @ '' cmd/                    # Application entry points'',
     branch @ '' internal/              # Private application code'',
     bar @ ''   '' @ branch @ '' domain/           # Business domain models and interfaces'',
     bar @ ''   '' @ bar @ ''   '' @ last_branch @ '' '' @ name @ ''.go         # Core domain interfaces'',
     bar @ ''   '' @ branch @ '' service/          # Business logic implementation'',
     bar @ ''   '' @ bar @ ''   '' @ last_branch @ '' service.go    # Service implementations'',
     bar @ ''   '' @ last_branch @ '' infrastructure/   # External dependencies implementations (abstractions)'',
     bar @ ''       '' @ branch @ '' events/       # Event handling (RabbitMQ)'',
     bar @ ''       '' @ branch @ '' grpc/         # gRPC server handlers'',
     bar @ ''       '' @ last_branch @ '' repository/   # Data persistence'',
     branch @ '' pkg/                  # Public packages'',
     bar @ ''   '' @ last_branch @ '' types/           # Shared types and models'',
     last_branch @ '' README.md            # This file'']"

section \<open>The tool\<close>

text \<open>
  The name is the value of the flag. Permissions are numbers: octal 755 and 644. An error is printed as
  \<open>err_text\<close> renders it.
\<close>

record 'w file_host =
  fh_mkdir_all :: "string \<Rightarrow> nat \<Rightarrow> 'w \<Rightarrow> goerror option \<times> 'w"
  fh_write_file :: "string \<Rightarrow> string \<Rightarrow> nat \<Rightarrow> 'w \<Rightarrow> goerror option \<times> 'w"
  fh_print :: "string \<Rightarrow> 'w \<Rightarrow> 'w"
  fh_err_text :: "goerror \<Rightarrow> string"

definition service_dirs :: "string list" where
  "service_dirs = [''cmd'', ''internal/domain'', ''internal/service'', ''internal/infrastructure/events'',
     ''internal/infrastructure/grpc'', ''internal/infrastructure/repository'', ''pkg/types'']"

fun make_dirs :: "'w file_host \<Rightarrow> string \<Rightarrow> string list \<Rightarrow> 'w \<Rightarrow> unit outcome \<times> 'w" where
  "make_dirs F base [] w = (Returns (), w)"
| "make_dirs F base (dir # dirs) w =
     (case fh_mkdir_all F (path_join [base, dir]) 493 w of
        (Some e, w1) \<Rightarrow>
          (Exits, fh_print F (''Error creating directory '' @ dir @ '': '' @ fh_err_text F e @ [CHR 0x0A]) w1)
      | (None, w1) \<Rightarrow> make_dirs F base dirs w1)"

definition scaffold_main :: "'w file_host \<Rightarrow> string \<Rightarrow> 'w \<Rightarrow> unit outcome \<times> 'w" where
  "scaffold_main F name w =
     (if name = '''' then (Exits, fh_print F (lines_of [''Please provide a service name using -name flag'']) w)
      else let basePath = path_join [''services'', name @ ''-service'']
           in bindo (make_dirs F basePath service_dirs w) (\<lambda>_ w1.
                case fh_write_file F (path_join [basePath, ''README.md'']) (readme name) 420 w1 of
                  (Some e, w2) \<Rightarrow> (Exits, fh_print F (''Error creating README.md: '' @ fh_err_text F e @ [CHR 0x0A]) w2)
                | (None, w2) \<Rightarrow>
                    (Returns (), fh_print F (tree_text name)
                      (fh_print F (lines_of ['''', ''Directory structure created:''])
                        (fh_print F (lines_of [''Successfully created '' @ name @ '' service structure in '' @ basePath]) w2)))))"

section \<open>What is made\<close>

text \<open>
  What is assumed of the host: \<open>made\<close> lists what was made, in order; a call that fails has made
  nothing that counts, and printing makes nothing.
\<close>

datatype made = Dir string | File string string

definition file_laws :: "'w file_host \<Rightarrow> ('w \<Rightarrow> made list) \<Rightarrow> bool" where
  "file_laws F made \<longleftrightarrow>
     (\<forall>p m w r w'. fh_mkdir_all F p m w = (r, w') \<longrightarrow> made w' = made w @ (if r = None then [Dir p] else []))
   \<and> (\<forall>p c m w r w'. fh_write_file F p c m w = (r, w') \<longrightarrow> made w' = made w @ (if r = None then [File p c] else []))
   \<and> (\<forall>s w. made (fh_print F s w) = made w)"

lemma file_lawsD:
  assumes "file_laws F made"
  shows "fh_mkdir_all F p m w = (r, w') \<Longrightarrow> made w' = made w @ (if r = None then [Dir p] else [])"
    "fh_write_file F p c m w = (r, w') \<Longrightarrow> made w' = made w @ (if r = None then [File p c] else [])"
    "made (fh_print F s w) = made w"
  using assms unfolding file_laws_def by blast+

lemma make_dirs_made:
  assumes L: "file_laws F made"
  shows "make_dirs F base dirs w = (r, w') \<Longrightarrow>
     \<exists>done todo. dirs = done @ todo \<and> made w' = made w @ map (\<lambda>d. Dir (path_join [base, d])) done
       \<and> (if todo = [] then r = Returns () else r = Exits)"
proof (induction dirs arbitrary: w)
  case (Cons d ds)
  obtain e w1 where m: "fh_mkdir_all F (path_join [base, d]) 493 w = (e, w1)" by fastforce
  show ?case
  proof (cases e)
    case None
    with Cons.prems m have "make_dirs F base ds w1 = (r, w')" by simp
    from Cons.IH [OF this] obtain ok todo where "ds = ok @ todo"
      "made w' = made w1 @ map (\<lambda>d. Dir (path_join [base, d])) ok" "if todo = [] then r = Returns () else r = Exits" by blast
    with file_lawsD(1) [OF L m] None show ?thesis by (intro exI [of _ "d # ok"] exI [of _ todo]) simp
  next
    case (Some x)
    with Cons.prems m file_lawsD(1) [OF L m] file_lawsD(3) [OF L]
    show ?thesis by (intro exI [of _ "[]"] exI [of _ "d # ds"]) auto
  qed
qed simp

text \<open>A name without a slash keeps its place below \<open>services\<close>.\<close>

lemma split_char_none: "sep \<notin> set s \<Longrightarrow> split_char sep s = [s]"
  by (induction s) auto

lemma split_char_app: "split_char sep (a @ sep # s) = split_char sep a @ split_char sep s"
  by (induction a) (auto split: list.splits)

lemma plain_service_path:
  assumes "CHR ''/'' \<notin> set name" "dir \<in> set (''README.md'' # service_dirs)"
  shows "path_join [path_join [''services'', name @ ''-service''], dir] = ''services/'' @ name @ ''-service/'' @ dir"
proof -
  have n: "name @ ''-service'' \<noteq> ''''" "name @ ''-service'' \<noteq> ''.''" "name @ ''-service'' \<noteq> ''..''"
    by (cases name; cases "tl name"; auto)+
  have s: "split_char (CHR ''/'') (''services/'' @ name @ ''-service'') = [''services'', name @ ''-service'']"
    using assms(1) split_char_app [of "CHR ''/''" "''services''" "name @ ''-service''"] by (simp add: split_char_none)
  then have b: "path_join [''services'', name @ ''-service''] = ''services/'' @ name @ ''-service''"
    using n by (simp add: path_join_def path_clean_def)
  have "split_char (CHR ''/'') ((''services/'' @ name @ ''-service'') @ ''/'' @ dir)
      = [''services'', name @ ''-service''] @ split_char (CHR ''/'') dir"
    using split_char_app [of "CHR ''/''" "''services/'' @ name @ ''-service''" dir] s by simp
  then show ?thesis unfolding b using n assms(2) by (auto simp: path_join_def path_clean_def service_dirs_def)
qed

text \<open>
  The whole run: the directories of the layout below the service's own, in order, then the README. It
  returns if and only if all of them are made; else it exits with a part of them, and no README.
\<close>

lemma scaffold_makes:
  assumes L: "file_laws F made" and name: "name \<noteq> ''''" "CHR ''/'' \<notin> set name" and run: "scaffold_main F name w = (r, w')"
  shows "\<exists>done todo. service_dirs = done @ todo
     \<and> (let base = ''services/'' @ name @ ''-service/''; dirs = map (\<lambda>d. Dir (base @ d)) done
        in if r = Returns () then todo = [] \<and> made w' = made w @ dirs @ [File (base @ ''README.md'') (readme name)]
           else r = Exits \<and> made w' = made w @ dirs)"
proof -
  let ?b = "path_join [''services'', name @ ''-service'']"
  obtain x w1 where d: "make_dirs F ?b service_dirs w = (x, w1)" by fastforce
  obtain e w2 where f: "fh_write_file F (path_join [?b, ''README.md'']) (readme name) 420 w1 = (e, w2)" by fastforce
  from make_dirs_made [OF L d] obtain ok todo where o: "service_dirs = ok @ todo"
    "made w1 = made w @ map (\<lambda>d. Dir (path_join [?b, d])) ok" "if todo = [] then x = Returns () else x = Exits" by blast
  have p: "map (\<lambda>d. Dir (path_join [?b, d])) ok = map (\<lambda>d. Dir (''services/'' @ name @ ''-service/'' @ d)) ok"
    using plain_service_path [OF name(2)] o(1) by (intro map_cong refl) (metis Un_iff list.set_intros(2) set_append)
  note R = plain_service_path [OF name(2), of "''README.md''", simplified]
  show ?thesis
  proof (cases "todo = []")
    case True
    with o(3) run name d f have "(r, made w') = (if e = None then Returns () else Exits, made w2)"
      by (cases e) (auto simp: scaffold_main_def Let_def file_lawsD(3) [OF L])
    with True o(1,2) file_lawsD(2) [OF L f] show ?thesis unfolding p R Let_def
      by (intro exI [of _ ok] exI [of _ todo]) (auto split: if_splits)
  next
    case False
    with o(3) run name d have "r = Exits" "w' = w1" by (auto simp: scaffold_main_def Let_def)
    with o(1,2) show ?thesis unfolding p Let_def by (intro exI [of _ ok] exI [of _ todo]) simp
  qed
qed

text \<open>A name with slashes can leave the tree: nothing checks it.\<close>

lemma scaffold_escapes:
  "path_join [path_join [''services'', ''../../tmp/x'' @ ''-service''], ''cmd''] = ''../tmp/x-service/cmd''"
  by (simp add: path_join_def path_clean_def)

end
