(* ===== verification/InMemory.thy ===== *)
theory InMemory
  imports TripService
begin

text \<open>
  The in-memory repository of the trip service (\<open>infrastructure/repository/inmem.go\<close>), which is not
  wired into \<open>main\<close>. Its maps hold pointers, so the trips and fares live in a store that the
  callers share: what a caller got from the repository changes with the repository. The documents
  that the MongoDB repository promises are the view of this store; the lemmas say where the two agree.
\<close>

section \<open>The repository and the store\<close>

record inmem =
  im_trips :: "string \<rightharpoonup> nat"
  im_rideFares :: "string \<rightharpoonup> nat"

record store =
  st_trip :: "nat \<Rightarrow> trip_model"
  st_fare :: "nat \<Rightarrow> ride_fare"

definition NewInmemoryRepository :: inmem where
  "NewInmemoryRepository = \<lparr>im_trips = Map.empty, im_rideFares = Map.empty\<rparr>"

text \<open>A missing trip is a nil pointer and no error. The hexadecimal form of an identifier is the identifier.\<close>

definition inmem_GetTripByID :: "inmem \<Rightarrow> string \<Rightarrow> nat option res" where
  "inmem_GetTripByID r i = (case im_trips r i of None \<Rightarrow> Inr None | Some p \<Rightarrow> Inr (Some p))"

definition inmem_UpdateTrip :: "inmem \<Rightarrow> string \<Rightarrow> string \<Rightarrow> pbd_driver option \<Rightarrow> store \<Rightarrow> goerror option \<times> store" where
  "inmem_UpdateTrip r tripID status driver s =
     (case im_trips r tripID of
        None \<Rightarrow> (Some (ErrMsg (''trip not found with ID: '' @ tripID)), s)
      | Some p \<Rightarrow>
          (let trip = st_trip s p \<lparr>tm_Status := status\<rparr>;
               trip' = (case driver of
                          None \<Rightarrow> trip
                        | Some d \<Rightarrow> trip\<lparr>tm_Driver := Some \<lparr>td_Id = pd_Id d, td_Name = pd_Name d,
                            td_ProfilePicture = pd_ProfilePicture d, td_CarPlate = pd_CarPlate d\<rparr>\<rparr>)
           in (None, s\<lparr>st_trip := (st_trip s)(p := trip')\<rparr>)))"

definition inmem_CreateTrip :: "nat \<Rightarrow> store \<Rightarrow> inmem \<Rightarrow> nat res \<times> inmem" where
  "inmem_CreateTrip p s r = (Inr p, r\<lparr>im_trips := (im_trips r)(tm_ID (st_trip s p) \<mapsto> p)\<rparr>)"

definition inmem_SaveRideFare :: "nat \<Rightarrow> store \<Rightarrow> inmem \<Rightarrow> goerror option \<times> inmem" where
  "inmem_SaveRideFare p s r = (None, r\<lparr>im_rideFares := (im_rideFares r)(fm_ID (st_fare s p) \<mapsto> p)\<rparr>)"

definition inmem_GetRideFareByID :: "inmem \<Rightarrow> string \<Rightarrow> nat res" where
  "inmem_GetRideFareByID r i =
     (case im_rideFares r i of
        None \<Rightarrow> Inl (ErrMsg (''fare does not exist with ID: '' @ i))
      | Some p \<Rightarrow> Inr p)"

section \<open>The documents it holds\<close>

definition inmem_docs :: "inmem \<Rightarrow> store \<Rightarrow> object_id \<rightharpoonup> trip_model" where
  "inmem_docs r s i = map_option (st_trip s) (im_trips r i)"

text \<open>Every trip is kept under its own identifier, which no operation changes.\<close>

definition inmem_keyed :: "inmem \<Rightarrow> store \<Rightarrow> bool" where
  "inmem_keyed r s = (\<forall>i p. im_trips r i = Some p \<longrightarrow> tm_ID (st_trip s p) = i)"

lemma inmem_keyed_new: "inmem_keyed NewInmemoryRepository s"
  by (simp add: inmem_keyed_def NewInmemoryRepository_def)

lemma inmem_keyed_create:
  "inmem_keyed r s \<Longrightarrow> inmem_CreateTrip p s r = (x, r') \<Longrightarrow> inmem_keyed r' s"
  by (auto simp: inmem_keyed_def inmem_CreateTrip_def split: if_splits)

lemma inmem_keyed_update:
  "inmem_keyed r s \<Longrightarrow> inmem_UpdateTrip r i st d s = (x, s') \<Longrightarrow> inmem_keyed r s'"
  by (fastforce simp: inmem_keyed_def inmem_UpdateTrip_def Let_def split: option.splits)

text \<open>Because of that two entries never share a pointer, and an update touches one document only.\<close>

definition trip_driver_of :: "pbd_driver \<Rightarrow> pb_trip_driver" where
  "trip_driver_of d = \<lparr>td_Id = pd_Id d, td_Name = pd_Name d, td_ProfilePicture = pd_ProfilePicture d, td_CarPlate = pd_CarPlate d\<rparr>"

lemma inmem_update_docs:
  assumes "inmem_keyed r s" "inmem_UpdateTrip r i st d s = (None, s')"
  shows "\<exists>t. inmem_docs r s i = Some t
     \<and> inmem_docs r s' = (inmem_docs r s)(i \<mapsto> set_trip st (map_option trip_driver_of d) t)"
proof -
  obtain p where p: "im_trips r i = Some p"
    using assms(2) by (auto simp: inmem_UpdateTrip_def split: option.splits)
  have only: "j = i" if "im_trips r j = Some p" for j
    using assms(1) p that by (auto simp: inmem_keyed_def)
  let ?t = "set_trip st (map_option trip_driver_of d) (st_trip s p)"
  have s': "s' = s\<lparr>st_trip := (st_trip s)(p := ?t)\<rparr>"
    using assms(2) p by (auto simp: inmem_UpdateTrip_def set_trip_def trip_driver_of_def Let_def split: option.splits)
  have "inmem_docs r s' = (inmem_docs r s)(i \<mapsto> ?t)"
  proof
    fix j
    show "inmem_docs r s' j = ((inmem_docs r s)(i \<mapsto> ?t)) j"
      using only [of j] p by (cases "im_trips r j") (auto simp: inmem_docs_def s')
  qed
  then show ?thesis using p by (auto simp: inmem_docs_def)
qed

lemma inmem_create_docs:
  "inmem_CreateTrip p s r = (Inr q, r') \<Longrightarrow>
     q = p \<and> inmem_docs r' s = (inmem_docs r s)(tm_ID (st_trip s p) \<mapsto> st_trip s p)"
  by (auto simp: inmem_CreateTrip_def inmem_docs_def fun_eq_iff)

section \<open>Where it differs from the database\<close>

text \<open>
  A trip that is not there is an error of the database but no error here: \<open>CompleteTrip\<close> and
  \<open>CancelTrip\<close>, which read the status of what they got, would panic.
\<close>

lemma missing_trip_is_nil:
  assumes "inmem_docs r s i = None" "\<And>w. tr_GetTripByID repo i w = (Inr (map_option (st_trip s) (case inmem_GetTripByID r i of Inr p \<Rightarrow> p)), w)"
  shows "svc_CompleteTrip repo i w = (Panics, w)" "svc_CancelTrip repo i u w = (Panics, w)"
  using assms by (auto simp: inmem_docs_def inmem_GetTripByID_def svc_CompleteTrip_def svc_CancelTrip_def)

text \<open>Writing the status a trip has already is a success here; the database reports that nothing was modified.\<close>

lemma update_twice:
  assumes "inmem_docs r s i = Some t"
  shows "fst (inmem_UpdateTrip r i (tm_Status t) None s) = None"
  using assms by (auto simp: inmem_docs_def inmem_UpdateTrip_def Let_def)

text \<open>The trip a caller created or fetched is the repository's own: an update by anybody shows in it at once.\<close>

lemma callers_share_trip:
  assumes "inmem_CreateTrip p s r = (Inr q, r')" "inmem_UpdateTrip r' (tm_ID (st_trip s p)) st None s = (e, s')"
  shows "st_trip s' p = st_trip s p \<lparr>tm_Status := st\<rparr>"
  using assms by (auto simp: inmem_CreateTrip_def inmem_UpdateTrip_def Let_def)

lemma fare_roundtrip:
  assumes "inmem_SaveRideFare p s r = (e, r')"
  shows "inmem_GetRideFareByID r' (fm_ID (st_fare s p)) = Inr p"
  using assms by (auto simp: inmem_SaveRideFare_def inmem_GetRideFareByID_def)

end
