(* ===== verification/KeepAlive.thy ===== *)
theory KeepAlive
  imports WsGateway
begin

text \<open>
  Keeping a WebSocket alive (\<open>startWsGateHeartbeat\<close>, \<open>startWsPingLoop\<close> and the read
  deadline in \<open>services/ws-gateway/handler.go\<close>): what the two goroutines and the pong handler do at
  each tick, on a clock in nanoseconds. A run is the list of timed events of one connection; the read
  of the handler fails, and with it the connection ends, when its deadline passes before the next event.
\<close>

section \<open>Timers\<close>

definition wsPongWait :: duration where "wsPongWait = seconds 45"
definition wsPingPeriod :: duration where "wsPingPeriod = seconds 20"
definition gateHeartbeat :: duration where "gateHeartbeat = seconds 20"

lemma timer_values:
  "sint wsPongWait = 45000000000" "sint wsPingPeriod = 20000000000" "sint gateHeartbeat = 20000000000"
  "sint (seconds wsConnectionGateTTLSeconds) = 60000000000"
  by (simp_all add: wsPongWait_def wsPingPeriod_def gateHeartbeat_def wsConnectionGateTTLSeconds_def sint_seconds)

text \<open>
  The events: a tick of the ping loop whose write succeeds or fails, a pong of the peer, and a tick of
  the heartbeat whose \<open>EXPIRE\<close> reaches Redis or not.
\<close>

datatype timer_event = PingTick bool | Pong | Beat bool

record keep_alive =
  ka_deadline :: int
  ka_pinging :: bool
  ka_gate :: int

text \<open>An accepted connection at time \<open>t\<close>: the gate has just set the time to live of its key.\<close>

definition opened :: "int \<Rightarrow> keep_alive" where
  "opened t = \<lparr>ka_deadline = t + sint wsPongWait, ka_pinging = True,
               ka_gate = t + sint (seconds wsConnectionGateTTLSeconds)\<rparr>"

text \<open>A failed ping ends the ping loop; \<open>EXPIRE\<close> does nothing to a key that is gone.\<close>

fun timer_step :: "int \<Rightarrow> timer_event \<Rightarrow> keep_alive \<Rightarrow> keep_alive" where
  "timer_step now (PingTick written) s = s\<lparr>ka_pinging := ka_pinging s \<and> written\<rparr>"
| "timer_step now Pong s = s\<lparr>ka_deadline := now + sint wsPongWait\<rparr>"
| "timer_step now (Beat reached) s =
     (if reached \<and> now < ka_gate s then s\<lparr>ka_gate := now + sint (seconds wsConnectionGateTTLSeconds)\<rparr> else s)"

fun timer_run :: "keep_alive \<Rightarrow> (int \<times> timer_event) list \<Rightarrow> keep_alive option" where
  "timer_run s [] = Some s"
| "timer_run s ((t, e) # es) = (if ka_deadline s < t then None else timer_run (timer_step t e s) es)"

section \<open>A peer that answers\<close>

abbreviation pongs :: "(int \<times> timer_event) list \<Rightarrow> int list" where
  "pongs es \<equiv> map fst (filter (\<lambda>x. snd x = Pong) es)"

abbreviation last_pong :: "keep_alive \<Rightarrow> int" where
  "last_pong s \<equiv> ka_deadline s - sint wsPongWait"

text \<open>Pong by pong: no more than the pong wait lies between one and the next event.\<close>

lemma timer_run_pongs:
  assumes "sorted (map fst es)" "\<forall>x\<in>set es. fst x \<le> last (last_pong s # pongs es) + sint wsPongWait"
    and "successively (\<lambda>a b. b \<le> a + sint wsPongWait) (last_pong s # pongs es)"
  shows "\<exists>s'. timer_run s es = Some s'
     \<and> ka_deadline s' = last (last_pong s # pongs es) + sint wsPongWait"
  using assms
proof (induction es arbitrary: s)
  case (Cons x es)
  obtain t e where x: "x = (t, e)" by fastforce
  have t: "t \<le> ka_deadline s"
  proof (cases "pongs (x # es)")
    case Nil
    then show ?thesis using Cons.prems(2) x by simp
  next
    case (Cons p ps)
    then have "p \<in> fst ` set (x # es)" by (metis (no_types, lifting) filter_is_subset image_iff list.set_intros(1) list.set_map subsetD)
    then have "t \<le> p" using Cons.prems(1) x by (auto simp: x)
    moreover have "p \<le> ka_deadline s" using Cons.prems(3) Cons by simp
    ultimately show ?thesis by simp
  qed
  let ?s = "timer_step t e s"
  have "\<exists>s'. timer_run ?s es = Some s' \<and> ka_deadline s' = last (last_pong ?s # pongs es) + sint wsPongWait"
  proof (rule Cons.IH)
    show "sorted (map fst es)" using Cons.prems(1) by simp
    show "\<forall>y\<in>set es. fst y \<le> last (last_pong ?s # pongs es) + sint wsPongWait"
      using Cons.prems(2) by (cases e) (auto simp: x split: if_splits)
    show "successively (\<lambda>a b. b \<le> a + sint wsPongWait) (last_pong ?s # pongs es)"
      using Cons.prems(3) by (cases e) (auto simp: x successively_Cons)
  qed
  moreover have "last (last_pong ?s # pongs es) = last (last_pong s # pongs (x # es))"
    by (cases e) (auto simp: x)
  ultimately show ?case using t by (simp add: x)
qed simp

text \<open>Pings are sent every twenty seconds; pong number \<open>k\<close> answers the ping \<open>k + 1\<close> periods after the start.\<close>

definition answers_pings :: "int \<Rightarrow> (nat \<Rightarrow> int) \<Rightarrow> nat \<Rightarrow> bool" where
  "answers_pings t0 a n \<longleftrightarrow>
     (\<forall>k<n. let ping = t0 + (int k + 1) * sint wsPingPeriod in ping \<le> a k \<and> a k \<le> ping + (sint wsPongWait - sint wsPingPeriod))"

lemma answers_steps:
  assumes "answers_pings t0 a n"
  shows "successively (\<lambda>x y. y \<le> x + sint wsPongWait) (t0 # map a [0..<n])"
proof (cases n)
  case (Suc m)
  have b: "t0 + (int k + 1) * 20000000000 \<le> a k \<and> a k \<le> t0 + (int k + 1) * 20000000000 + 25000000000" if "k < n" for k
    using assms that by (auto simp: answers_pings_def timer_values Let_def)
  have "a (Suc i) \<le> a i + sint wsPongWait" if "Suc i < n" for i
    using b [of i] b [of "Suc i"] that by (simp add: timer_values algebra_simps)
  then have "successively (\<lambda>x y. y \<le> x + sint wsPongWait) (map a [0..<n])"
    unfolding successively_conv_nth by simp
  moreover have "a 0 \<le> t0 + sint wsPongWait" using b [of 0] Suc by (simp add: timer_values)
  ultimately show ?thesis using Suc by (auto simp: successively_Cons upt_conv_Cons simp del: upt_Suc)
qed simp

section \<open>The gate\<close>

abbreviation beats :: "(int \<times> timer_event) list \<Rightarrow> int list" where
  "beats es \<equiv> map fst (filter (\<lambda>x. snd x = Beat True) es)"

abbreviation gate_set :: "keep_alive \<Rightarrow> int" where
  "gate_set s \<equiv> ka_gate s - sint (seconds wsConnectionGateTTLSeconds)"

lemma gate_renewed:
  assumes "timer_run s es = Some s'"
    "successively (\<lambda>a b. b < a + sint (seconds wsConnectionGateTTLSeconds)) (gate_set s # beats es)"
  shows "gate_set s' = last (gate_set s # beats es)"
  using assms
proof (induction es arbitrary: s)
  case (Cons x es)
  obtain t e where x: "x = (t, e)" by fastforce
  let ?s = "timer_step t e s"
  have r: "timer_run ?s es = Some s'" using Cons.prems(1) by (simp add: x split: if_splits)
  have sc: "successively (\<lambda>a b. b < a + sint (seconds wsConnectionGateTTLSeconds)) (gate_set ?s # beats es)"
    using Cons.prems(2) by (cases e) (auto simp: x successively_Cons split: if_splits)
  have l: "last (gate_set ?s # beats es) = last (gate_set s # beats (x # es))"
    using Cons.prems(2) by (cases e) (auto simp: x successively_Cons split: if_splits)
  from Cons.IH [OF r sc] l show ?case by (simp only:)
qed simp


definition calm_peer :: "(int \<times> timer_event) list" where
  "calm_peer = [(20000000000, PingTick True), (20000000000, Beat True), (40000000000, PingTick True), (40000000000, Beat False),
     (44000000000, Pong), (60000000000, PingTick True), (60000000000, Beat False), (64000000000, Pong), (79000000000, Beat True)]"


text \<open>A peer that falls silent is noticed: no run goes on past the pong wait, so the connection ends there.\<close>

lemma silent_peer_ends:
  assumes "\<forall>x\<in>set es. snd x \<noteq> Pong" "(t, e) \<in> set es" "ka_deadline s < t"
  shows "timer_run s es = None"
  using assms
proof (induction es arbitrary: s)
  case (Cons x es)
  obtain t' e' where x: "x = (t', e')" by fastforce
  then have "ka_deadline (timer_step t' e' s) = ka_deadline s" using Cons.prems(1) by (cases e') auto
  then show ?case using Cons.IH [of "timer_step t' e' s"] Cons.prems x by auto
qed simp

text \<open>Once the key is gone, because three heartbeats in a row failed, no later heartbeat brings it back.\<close>

lemma expired_gate_stays:
  assumes "timer_run s es = Some s'" "\<forall>x\<in>set es. ka_gate s \<le> fst x"
  shows "ka_gate s' = ka_gate s"
  using assms
proof (induction es arbitrary: s)
  case (Cons x es)
  obtain t e where x: "x = (t, e)" by fastforce
  have g: "ka_gate (timer_step t e s) = ka_gate s" using Cons.prems(2) by (cases e) (auto simp: x)
  have "timer_run (timer_step t e s) es = Some s'" using Cons.prems(1) by (simp add: x split: if_splits)
  from Cons.IH [OF this] Cons.prems(2) show ?case by (simp add: g)
qed simp

end
