(* ===== verification/Url.thy ===== *)
theory Url
  imports Http "HOL-Library.List_Lexorder" "HOL-Library.Char_ord"
begin

text \<open>
  Package \<open>net/url\<close> of Go's standard library, as far as the repository uses it: \<open>Parse\<close>
  (\<open>shared/tracing/metrics.go\<close> and \<open>tools/simulate_drivers\<close>), and \<open>Query\<close>,
  \<open>Set\<close> and \<open>Encode\<close> of query values. Strings are lists of bytes.
\<close>

section \<open>Bytes and escaping\<close>

definition byte :: "char \<Rightarrow> nat" where
  "byte c = of_char c"

definition upper_hex :: string where
  "upper_hex = ''0123456789ABCDEF''"

definition unhex :: "char \<Rightarrow> nat option" where
  "unhex c = (let n = byte c
     in if 48 \<le> n \<and> n \<le> 57 then Some (n - 48)
        else if 97 \<le> n \<and> n \<le> 102 then Some (n - 87)
        else if 65 \<le> n \<and> n \<le> 70 then Some (n - 55) else None)"

definition alphanumeric :: "char \<Rightarrow> bool" where
  "alphanumeric c = (let n = byte c
     in (48 \<le> n \<and> n \<le> 57) \<or> (65 \<le> n \<and> n \<le> 90) \<or> (97 \<le> n \<and> n \<le> 122))"

datatype encoding = encodePath | encodeHost | encodeZone | encodeUserPassword | encodeQueryComponent | encodeFragment

definition shouldEscape :: "char \<Rightarrow> encoding \<Rightarrow> bool" where
  "shouldEscape c mode \<longleftrightarrow>
     (if alphanumeric c then False
      else if mode \<in> {encodeHost, encodeZone} \<and> c \<in> set ''!$&'' \<union> {CHR 0x27} \<union> set ''()*+,;=:[]<>'' \<union> {CHR 0x22} then False
      else if c \<in> set ''-_.~'' then False
      else if c \<in> set ''$&+,/:;=?@'' then
        (case mode of
           encodePath \<Rightarrow> c = CHR ''?''
         | encodeUserPassword \<Rightarrow> c \<in> set ''@/?:''
         | encodeQueryComponent \<Rightarrow> True
         | encodeFragment \<Rightarrow> False
         | _ \<Rightarrow> True)
      else if mode = encodeFragment \<and> c \<in> set ''!()*'' then False
      else True)"

text \<open>
  \<open>unescape\<close>: the error of a malformed or, in a host, of a forbidden escape or byte is
  \<open>None\<close>.
\<close>

definition escape_ok :: "encoding \<Rightarrow> nat \<Rightarrow> nat \<Rightarrow> bool" where
  "escape_ok mode a b \<longleftrightarrow>
     (let v = 16 * a + b; percent25 = (a = 2 \<and> b = 5)
      in if mode = encodeHost then \<not> (a < 8 \<and> \<not> percent25)
         else if mode = encodeZone then \<not> (\<not> percent25 \<and> v \<noteq> 32 \<and> shouldEscape (char_of v) encodeHost)
         else True)"

fun unescape :: "encoding \<Rightarrow> string \<Rightarrow> string option" where
  "unescape mode [] = Some []"
| "unescape mode (c # cs) =
     (if c = CHR ''%'' then
        (case cs of
           x # y # r \<Rightarrow>
             (case (unhex x, unhex y) of
                (Some a, Some b) \<Rightarrow>
                  if escape_ok mode a b then map_option ((#) (char_of (16 * a + b))) (unescape mode r)
                  else None
              | _ \<Rightarrow> None)
         | _ \<Rightarrow> None)
      else if mode \<in> {encodeHost, encodeZone} \<and> byte c < 128 \<and> shouldEscape c mode then None
      else map_option ((#) (if c = CHR ''+'' \<and> mode = encodeQueryComponent then CHR '' '' else c)) (unescape mode cs))"

definition escape_char :: "char \<Rightarrow> string" where
  "escape_char c =
     (if c = CHR '' '' then ''+''
      else if shouldEscape c encodeQueryComponent
        then [CHR ''%'', upper_hex ! (byte c div 16), upper_hex ! (byte c mod 16)]
      else [c])"

definition QueryEscape :: "string \<Rightarrow> string" where
  "QueryEscape s = concat (map escape_char s)"

section \<open>Cutting strings\<close>

text \<open>\<open>strings.Cut\<close> with a separator of one byte: before, after, found.\<close>

fun cut :: "char \<Rightarrow> string \<Rightarrow> string \<times> string \<times> bool" where
  "cut sep [] = ([], [], False)"
| "cut sep (c # cs) =
     (if c = sep then ([], cs, True)
      else (case cut sep cs of (before, after, found) \<Rightarrow> (c # before, after, found)))"

text \<open>The parts before and after the last occurrence of a byte, if there is one.\<close>

definition cut_last :: "char \<Rightarrow> string \<Rightarrow> (string \<times> string) option" where
  "cut_last sep s =
     (case cut sep (rev s) of (after, before, found) \<Rightarrow> if found then Some (rev before, rev after) else None)"

text \<open>\<open>strings.Index\<close> of a longer text.\<close>

fun index_of :: "string \<Rightarrow> string \<Rightarrow> nat option" where
  "index_of [] p = (if p = [] then Some 0 else None)"
| "index_of (c # cs) p = (if has_prefix (c # cs) p then Some 0 else map_option Suc (index_of cs p))"

section \<open>Parse\<close>

record url =
  u_Scheme :: string
  u_Opaque :: string
  u_User :: "(string \<times> string option) option"
  u_Host :: string
  u_Path :: string
  u_RawQuery :: string
  u_Fragment :: string

definition empty_url :: url where
  "empty_url = \<lparr>u_Scheme = '''', u_Opaque = '''', u_User = None, u_Host = '''', u_Path = '''',
     u_RawQuery = '''', u_Fragment = ''''\<rparr>"

text \<open>\<open>getScheme\<close>; the first argument counts the bytes already read.\<close>

fun scheme_from :: "nat \<Rightarrow> string \<Rightarrow> string \<Rightarrow> string \<Rightarrow> (string \<times> string) option" where
  "scheme_from i raw acc [] = Some ('''', raw)"
| "scheme_from i raw acc (c # cs) =
     (if (let n = byte c in (97 \<le> n \<and> n \<le> 122) \<or> (65 \<le> n \<and> n \<le> 90)) then scheme_from (Suc i) raw (acc @ [c]) cs
      else if (let n = byte c in 48 \<le> n \<and> n \<le> 57) \<or> c \<in> set ''+-.'' then
        (if i = 0 then Some ('''', raw) else scheme_from (Suc i) raw (acc @ [c]) cs)
      else if c = CHR '':'' then (if i = 0 then None else Some (acc, cs))
      else Some ('''', raw))"

definition getScheme :: "string \<Rightarrow> (string \<times> string) option" where
  "getScheme raw = scheme_from 0 raw [] raw"

definition validOptionalPort :: "string \<Rightarrow> bool" where
  "validOptionalPort port = (case port of [] \<Rightarrow> True
     | c # cs \<Rightarrow> c = CHR '':'' \<and> list_all (\<lambda>d. digit_value d \<noteq> None) cs)"

definition parseHost :: "string \<Rightarrow> string option" where
  "parseHost host =
     (if has_prefix host ''['' then
        (case cut_last (CHR '']'') host of
           None \<Rightarrow> None
         | Some (before, colonPort) \<Rightarrow>
             if \<not> validOptionalPort colonPort then None
             else (case index_of before ''%25'' of
                     None \<Rightarrow> unescape encodeHost host
                   | Some zone \<Rightarrow>
                       (case (unescape encodeHost (take zone host),
                              unescape encodeZone (drop zone before),
                              unescape encodeHost (drop (length before) host)) of
                          (Some a, Some b, Some c) \<Rightarrow> Some (a @ b @ c)
                        | _ \<Rightarrow> None)))
      else (case cut_last (CHR '':'') host of
              Some (_, port) \<Rightarrow>
                if validOptionalPort (CHR '':'' # port) then unescape encodeHost host else None
            | None \<Rightarrow> unescape encodeHost host))"

definition validUserinfo :: "string \<Rightarrow> bool" where
  "validUserinfo = list_all (\<lambda>c. alphanumeric c \<or> c \<in> set ''-._:~!$&'' \<union> {CHR 0x27} \<union> set ''()*+,;=%@'')"

definition parseAuthority :: "string \<Rightarrow> ((string \<times> string option) option \<times> string) option" where
  "parseAuthority authority =
     (case cut_last (CHR ''@'') authority of
        None \<Rightarrow> map_option (Pair None) (parseHost authority)
      | Some (userinfo, hostpart) \<Rightarrow>
          (case parseHost hostpart of
             None \<Rightarrow> None
           | Some host \<Rightarrow>
               if \<not> validUserinfo userinfo then None
               else (case cut (CHR '':'') userinfo of (username, password, found) \<Rightarrow>
                       if \<not> found then
                         map_option (\<lambda>n. (Some (n, None), host)) (unescape encodeUserPassword userinfo)
                       else (case (unescape encodeUserPassword username, unescape encodeUserPassword password) of
                               (Some n, Some p) \<Rightarrow> Some (Some (n, Some p), host)
                             | _ \<Rightarrow> None))))"

text \<open>\<open>setPath\<close>: the decoded path.\<close>

definition set_path :: "url \<Rightarrow> string \<Rightarrow> url option" where
  "set_path u p = map_option (\<lambda>path. u\<lparr>u_Path := path\<rparr>) (unescape encodePath p)"

text \<open>The path after the scheme and query are split off, with the authority before it.\<close>

definition parse_rest :: "url \<Rightarrow> string \<Rightarrow> url option" where
  "parse_rest u rest =
     (if \<not> has_prefix rest ''/'' \<and> u_Scheme u \<noteq> '''' then Some (u\<lparr>u_Opaque := rest\<rparr>)
      else if \<not> has_prefix rest ''/'' \<and> CHR '':'' \<in> set (takeWhile (\<lambda>c. c \<noteq> CHR ''/'') rest) then None
      else if (u_Scheme u \<noteq> '''' \<or> \<not> has_prefix rest ''///'') \<and> has_prefix rest ''//'' then
        (let authority = takeWhile (\<lambda>c. c \<noteq> CHR ''/'') (drop 2 rest)
         in case parseAuthority authority of
              None \<Rightarrow> None
            | Some (user, host) \<Rightarrow>
                set_path (u\<lparr>u_User := user, u_Host := host\<rparr>) (drop (length authority) (drop 2 rest)))
      else set_path u rest)"

definition split_query :: "string \<Rightarrow> string \<times> string" where
  "split_query rest =
     (if rest \<noteq> '''' \<and> last rest = CHR ''?'' \<and> count_list rest (CHR ''?'') = 1 then (butlast rest, '''')
      else (case cut (CHR ''?'') rest of (p, q, _) \<Rightarrow> (p, q)))"

definition parse_plain :: "string \<Rightarrow> url option" where
  "parse_plain raw =
     (if list_ex (\<lambda>c. byte c < 32 \<or> byte c = 127) raw then None
      else if raw = ''*'' then Some (empty_url\<lparr>u_Path := ''*''\<rparr>)
      else (case getScheme raw of
              None \<Rightarrow> None
            | Some (scheme, rest) \<Rightarrow>
                (case split_query rest of (p, q) \<Rightarrow>
                   parse_rest (empty_url\<lparr>u_Scheme := to_lower scheme, u_RawQuery := q\<rparr>) p)))"

definition Parse :: "string \<Rightarrow> url option" where
  "Parse rawURL =
     (case cut (CHR ''#'') rawURL of (u, frag, _) \<Rightarrow>
        (case parse_plain u of
           None \<Rightarrow> None
         | Some url \<Rightarrow>
             if frag = '''' then Some url
             else map_option (\<lambda>f. url\<lparr>u_Fragment := f\<rparr>) (unescape encodeFragment frag)))"

section \<open>Query values\<close>

text \<open>\<open>url.Values\<close>: keys with their values; no key occurs twice.\<close>

type_synonym query_values = "(string \<times> string list) list"

fun values_add :: "string \<Rightarrow> string \<Rightarrow> query_values \<Rightarrow> query_values" where
  "values_add k v [] = [(k, [v])]"
| "values_add k v ((j, vs) # m) = (if j = k then (j, vs @ [v]) # m else (j, vs) # values_add k v m)"

fun values_set :: "string \<Rightarrow> string \<Rightarrow> query_values \<Rightarrow> query_values" where
  "values_set k v [] = [(k, [v])]"
| "values_set k v ((j, vs) # m) = (if j = k then (j, [v]) # m else (j, vs) # values_set k v m)"

text \<open>\<open>u.Query()\<close>: pairs with a semicolon or a malformed escape are dropped.\<close>

fun parse_pairs :: "string list \<Rightarrow> query_values \<Rightarrow> query_values" where
  "parse_pairs [] m = m"
| "parse_pairs (kv # kvs) m =
     (if CHR '';'' \<in> set kv \<or> kv = '''' then parse_pairs kvs m
      else (case cut (CHR ''='') kv of (k, v, _) \<Rightarrow>
              (case (unescape encodeQueryComponent k, unescape encodeQueryComponent v) of
                 (Some key, Some val) \<Rightarrow> parse_pairs kvs (values_add key val m)
               | _ \<Rightarrow> parse_pairs kvs m)))"

definition Query :: "url \<Rightarrow> query_values" where
  "Query u = parse_pairs (split_char (CHR ''&'') (u_RawQuery u)) []"

definition join_amp :: "string list \<Rightarrow> string" where
  "join_amp ps = concat (case ps of [] \<Rightarrow> [] | p # qs \<Rightarrow> p # map (\<lambda>q. ''&'' @ q) qs)"

definition Encode :: "query_values \<Rightarrow> string" where
  "Encode m = join_amp (concat (map (\<lambda>k. case map_of m k of
        None \<Rightarrow> [] | Some vs \<Rightarrow> map (\<lambda>v. QueryEscape k @ ''='' @ QueryEscape v) vs) (sort (map fst m))))"

end
