(* ===== verification/Tracing.thy ===== *)
theory Tracing
  imports Url RabbitMQ_Facts
begin

text \<open>
  Package \<open>tracing\<close> (\<open>shared/tracing\<close>): the set-up of traces and metrics, the carrier that
  reads and writes the trace context in AMQP headers, and spans around a call. The OpenTelemetry
  libraries are a parameter. The lemmas show that a span around a call never changes its result,
  which is why the other theories leave spans out.
\<close>

section \<open>Configuration and endpoint\<close>

record trace_config =
  ServiceName :: string
  Environment :: string
  JaegerEndpoint :: string
  OTLPEndpoint :: string

definition scheme_separator :: string where
  "scheme_separator = ''://''"

definition normalizeOTLPEndpoint :: "string \<Rightarrow> string \<times> bool" where
  "normalizeOTLPEndpoint raw =
     (let trimmed = trim_space raw
      in if trimmed = '''' then ('''', True)
         else if \<not> contains trimmed scheme_separator then (trimmed, True)
         else (case Parse trimmed of
                 None \<Rightarrow> (trimmed, True)
               | Some u \<Rightarrow>
                   if u_Host u = '''' then (trimmed, True)
                   else if to_lower (u_Scheme u) = ''https'' then (u_Host u, False)
                   else if to_lower (u_Scheme u) = ''http'' then (u_Host u, True)
                   else (u_Host u, True)))"

section \<open>Set-up\<close>

text \<open>
  The SDK: exporters for an endpoint, secured or not; a resource with attributes; registering
  the two providers; their shut-down with a context that is alive or not.
\<close>

record 'w telemetry =
  tl_trace_exporter :: "string \<Rightarrow> bool \<Rightarrow> 'w \<Rightarrow> goerror option \<times> 'w"
  tl_metric_exporter :: "string \<Rightarrow> bool \<Rightarrow> 'w \<Rightarrow> goerror option \<times> 'w"
  tl_resource :: "(string \<times> string) list \<Rightarrow> 'w \<Rightarrow> goerror option \<times> 'w"
  tl_set_tracer :: "'w \<Rightarrow> 'w"
  tl_set_meter :: "duration \<Rightarrow> 'w \<Rightarrow> 'w"
  tl_stop_tracer :: "bool \<Rightarrow> 'w \<Rightarrow> 'w"
  tl_stop_meter :: "bool \<Rightarrow> 'w \<Rightarrow> 'w"

definition NewExporter :: "'w telemetry \<Rightarrow> string \<Rightarrow> 'w \<Rightarrow> goerror option \<times> 'w" where
  "NewExporter T endpoint w =
     (case normalizeOTLPEndpoint endpoint of
        (normalizedEndpoint, insecure) \<Rightarrow> tl_trace_exporter T normalizedEndpoint insecure w)"

definition newResource :: "'w telemetry \<Rightarrow> trace_config \<Rightarrow> 'w \<Rightarrow> goerror option \<times> 'w" where
  "newResource T cfg w =
     tl_resource T [(''service.name'', ServiceName cfg), (''deployment.environment'', Environment cfg)] w"

definition newTraceProvider :: "'w telemetry \<Rightarrow> trace_config \<Rightarrow> 'w \<Rightarrow> goerror option \<times> 'w" where
  "newTraceProvider T cfg w =
     (case newResource T cfg w of
        (Some e, w1) \<Rightarrow> (Some (errorf_w ''failed to create resource'' e), w1)
      | (None, w1) \<Rightarrow> (None, w1))"

definition InitTracer :: "'w telemetry \<Rightarrow> trace_config \<Rightarrow> 'w \<Rightarrow> goerror option \<times> 'w" where
  "InitTracer T cfg w =
     (if OTLPEndpoint cfg = '''' then
        (Some (ErrMsg ''otlp endpoint is required for tracing initialization''), w)
      else (case NewExporter T (OTLPEndpoint cfg) w of
              (Some e, w1) \<Rightarrow> (Some e, w1)
            | (None, w1) \<Rightarrow>
                (case newTraceProvider T cfg w1 of
                   (Some e, w2) \<Rightarrow> (Some e, w2)
                 | (None, w2) \<Rightarrow> (None, tl_set_tracer T w2))))"

definition defaultMetricExportInterval :: duration where
  "defaultMetricExportInterval = seconds 10"

definition InitMeter :: "'w telemetry \<Rightarrow> trace_config \<Rightarrow> 'w \<Rightarrow> goerror option \<times> 'w" where
  "InitMeter T cfg w =
     (if trim_space (OTLPEndpoint cfg) = '''' then
        (Some (ErrMsg ''otlp endpoint is required for metrics initialization''), w)
      else (case normalizeOTLPEndpoint (OTLPEndpoint cfg) of
              (endpoint, insecure) \<Rightarrow>
                (case tl_metric_exporter T endpoint insecure w of
                   (Some e, w1) \<Rightarrow> (Some (errorf_w ''failed to create otlp metric exporter'' e), w1)
                 | (None, w1) \<Rightarrow>
                     (case newResource T cfg w1 of
                        (Some e, w2) \<Rightarrow> (Some (errorf_w ''failed to create metric resource'' e), w2)
                      | (None, w2) \<Rightarrow> (None, tl_set_meter T defaultMetricExportInterval w2)))))"

section \<open>The header carrier\<close>

definition carrier_Get :: "table \<Rightarrow> string \<Rightarrow> string" where
  "carrier_Get c key = (case c key of Some v \<Rightarrow> (case v of HStr s \<Rightarrow> s | _ \<Rightarrow> '''') | None \<Rightarrow> '''')"

definition carrier_Set :: "table \<Rightarrow> string \<Rightarrow> string \<Rightarrow> table" where
  "carrier_Set c key value = c(key \<mapsto> HStr value)"

text \<open>The keys come in any order, each once.\<close>

definition carrier_Keys :: "table \<Rightarrow> string list \<Rightarrow> bool" where
  "carrier_Keys c keys \<longleftrightarrow> distinct keys \<and> set keys = dom c"

lemma carrier_get_set [simp]:
  "carrier_Get (carrier_Set c k v) j = (if j = k then v else carrier_Get c j)"
  by (simp add: carrier_Get_def carrier_Set_def)

section \<open>Spans\<close>

text \<open>
  A tracer: starting a span with its name and attributes, its status, attributes and events, its
  end. A span is started under the trace context of its parent, here the headers that carry it. The
  function inside is given the handle of the span.
\<close>

type_synonym span = nat

record 'w tracer =
  sn_start :: "table \<Rightarrow> string \<Rightarrow> string \<Rightarrow> (string \<times> string) list \<Rightarrow> 'w \<Rightarrow> span \<times> 'w"
  sn_set_error :: "span \<Rightarrow> string \<Rightarrow> 'w \<Rightarrow> 'w"
  sn_attribute :: "span \<Rightarrow> string \<Rightarrow> string \<Rightarrow> 'w \<Rightarrow> 'w"
  sn_event :: "span \<Rightarrow> string \<Rightarrow> (string \<times> string) list \<Rightarrow> 'w \<Rightarrow> 'w"
  sn_end :: "span \<Rightarrow> 'w \<Rightarrow> 'w"

text \<open>The deferred end of the span also runs when the function panics, not when the process ends.\<close>

definition RunInSpan ::
  "'w tracer \<Rightarrow> table \<Rightarrow> string \<Rightarrow> string \<Rightarrow> (string \<times> string) list \<Rightarrow> (span \<Rightarrow> 'w \<Rightarrow> goerror option outcome \<times> 'w) \<Rightarrow> 'w
     \<Rightarrow> goerror option outcome \<times> 'w" where
  "RunInSpan S parent tracerName operation attrs fn w =
     (case sn_start S parent tracerName operation attrs w of
        (sp, w1) \<Rightarrow>
          (case fn sp w1 of
             (Returns None, w2) \<Rightarrow> (Returns None, sn_end S sp w2)
           | (Returns (Some e), w2) \<Rightarrow> (Returns (Some e), sn_end S sp (sn_set_error S sp (err_string e) w2))
           | (Panics, w2) \<Rightarrow> (Panics, sn_end S sp w2)
           | (Exits, w2) \<Rightarrow> (Exits, w2)))"

definition DBSpanAttrs :: "string \<Rightarrow> (string \<times> string) list \<Rightarrow> (string \<times> string) list" where
  "DBSpanAttrs system attrs = (''db.system'', system) # attrs"

text \<open>The owner of the message, when its body is an envelope that names one.\<close>

definition note_owner :: "'w tracer \<Rightarrow> span \<Rightarrow> raw \<Rightarrow> 'w \<Rightarrow> 'w" where
  "note_owner S sp body w =
     (case unmarshal (dec_struct amqp_message_fields) amqp_message_zero body of
        Inr m \<Rightarrow> if am_OwnerID m \<noteq> '''' then sn_attribute S sp ''messaging.owner_id'' (am_OwnerID m) w else w
      | Inl e \<Rightarrow> w)"

definition spanned_TracedPublisher ::
  "'w tracer \<Rightarrow> 'w runtime \<Rightarrow> string \<Rightarrow> string \<Rightarrow> publishing
     \<Rightarrow> (string \<Rightarrow> string \<Rightarrow> publishing \<Rightarrow> 'w \<Rightarrow> goerror option outcome \<times> 'w) \<Rightarrow> 'w
     \<Rightarrow> goerror option outcome \<times> 'w" where
  "spanned_TracedPublisher S rt exchange routingKey msg pub =
     RunInSpan S Map.empty ''rabbitmq'' ''rabbitmq.publish''
       [(''messaging.destination'', exchange), (''messaging.routing_key'', routingKey)]
       (\<lambda>sp w.
          let w1 = note_owner S sp (p_Body msg) w;
              headers = (case p_Headers msg of None \<Rightarrow> Map.empty | Some h \<Rightarrow> h)
          in pub exchange routingKey (msg\<lparr>p_Headers := Some (run_inject rt headers)\<rparr>) w1)"

text \<open>What the consumer runs inside its span: the handler, and an event for its result.\<close>

definition consume_in_span :: "'w tracer \<Rightarrow> delivery \<Rightarrow> 'w handler \<Rightarrow> span \<Rightarrow> 'w \<Rightarrow> goerror option outcome \<times> 'w" where
  "consume_in_span S d handler sp w =
     bindo (handler d (note_owner S sp (d_Body d) w)) (\<lambda>err w2.
       case err of
         Some e \<Rightarrow> (Returns (Some e),
                     sn_event S sp ''message.nack'' [(''error'', err_string e), (''requeue'', ''false'')] w2)
       | None \<Rightarrow> (Returns None, sn_event S sp ''message.ack'' [(''message_id'', d_MessageId d)] w2))"

definition TracedConsumer :: "'w tracer \<Rightarrow> delivery \<Rightarrow> 'w handler \<Rightarrow> 'w \<Rightarrow> goerror option outcome \<times> 'w" where
  "TracedConsumer S d handler =
     RunInSpan S (case d_Headers d of None \<Rightarrow> Map.empty | Some h \<Rightarrow> h) ''rabbitmq'' ''rabbitmq.consume''
       [(''messaging.destination'', d_Exchange d), (''messaging.routing_key'', d_RoutingKey d)]
       (consume_in_span S d handler)"

section \<open>Spans change nothing\<close>

text \<open>
  A tracer of its own: no operation of it changes what \<open>f\<close> sees of the world. A step that depends
  on \<open>f\<close> only gives, in two worlds that look the same to \<open>f\<close>, the same result and again worlds that
  look the same.
\<close>

definition tracer_quiet :: "'w tracer \<Rightarrow> ('w \<Rightarrow> 'a) \<Rightarrow> bool" where
  "tracer_quiet S f \<longleftrightarrow>
     (\<forall>p t n a w s w'. sn_start S p t n a w = (s, w') \<longrightarrow> f w' = f w)
   \<and> (\<forall>s e w. f (sn_set_error S s e w) = f w) \<and> (\<forall>s k v w. f (sn_attribute S s k v w) = f w)
   \<and> (\<forall>s n a w. f (sn_event S s n a w) = f w) \<and> (\<forall>s w. f (sn_end S s w) = f w)"

definition sees_only :: "('w \<Rightarrow> 'a) \<Rightarrow> ('w \<Rightarrow> 'b \<times> 'w) \<Rightarrow> bool" where
  "sees_only f g \<longleftrightarrow>
     (\<forall>w v. f w = f v \<longrightarrow> fst (g w) = fst (g v) \<and> f (snd (g w)) = f (snd (g v)))"

lemma tracer_quietD:
  assumes "tracer_quiet S f"
  shows "sn_start S p t n a w = (s, w') \<Longrightarrow> f w' = f w"
    "f (sn_set_error S s e w) = f w" "f (sn_attribute S s k v w) = f w" "f (sn_event S s n a w) = f w"
    "f (sn_end S s w) = f w"
  using assms unfolding tracer_quiet_def by simp_all

lemma note_owner_quiet: "tracer_quiet S f \<Longrightarrow> f (note_owner S s b w) = f w"
  by (simp add: note_owner_def tracer_quietD(3) split: sum.split)

lemma RunInSpan_quiet:
  assumes S: "tracer_quiet S f"
    and g: "\<And>s w v. f w = f v \<Longrightarrow> fst (fn s w) = fst (g v) \<and> f (snd (fn s w)) = f (snd (g v))"
  shows "fst (RunInSpan S p t n a fn w) = fst (g w) \<and> f (snd (RunInSpan S p t n a fn w)) = f (snd (g w))"
proof -
  obtain s w1 where s: "sn_start S p t n a w = (s, w1)" by (cases "sn_start S p t n a w")
  from tracer_quietD(1) [OF S s] have "f w1 = f w" .
  from g [OF this, of s] show ?thesis
    by (cases "fn s w1") (auto simp: RunInSpan_def s tracer_quietD(2,5) [OF S] split: outcome.split option.split)
qed

text \<open>The consumer with its span is the handler, for every view of the world the tracer is not part of.\<close>

lemma TracedConsumer_transparent:
  assumes S: "tracer_quiet S f" and h: "sees_only f (h d)"
  shows "fst (TracedConsumer S d h w) = fst (h d w) \<and> f (snd (TracedConsumer S d h w)) = f (snd (h d w))"
  unfolding TracedConsumer_def
proof (rule RunInSpan_quiet [OF S])
  fix s w v assume "f w = f v"
  then have "f (note_owner S s (d_Body d) w) = f v" using note_owner_quiet [OF S] by simp
  with h have r: "fst (h d (note_owner S s (d_Body d) w)) = fst (h d v)"
    "f (snd (h d (note_owner S s (d_Body d) w))) = f (snd (h d v))"
    unfolding sees_only_def by blast+
  obtain x w2 where x: "h d (note_owner S s (d_Body d) w) = (x, w2)" by (cases "h d (note_owner S s (d_Body d) w)")
  from r x have y: "fst (h d v) = x" "f (snd (h d v)) = f w2" by simp_all
  show "fst (consume_in_span S d h s w) = fst (h d v) \<and> f (snd (consume_in_span S d h s w)) = f (snd (h d v))"
    unfolding y consume_in_span_def x by (cases x) (auto simp: tracer_quietD(4) [OF S] split: option.split)
qed

lemma TracedPublisher_transparent:
  assumes S: "tracer_quiet S f" and h: "\<And>m. sees_only f (pub x k m)"
  shows "fst (spanned_TracedPublisher S rt x k msg pub w) = fst (TracedPublisher rt x k msg pub w)
       \<and> f (snd (spanned_TracedPublisher S rt x k msg pub w)) = f (snd (TracedPublisher rt x k msg pub w))"
  unfolding spanned_TracedPublisher_def TracedPublisher_def Let_def
proof (rule RunInSpan_quiet [OF S])
  fix s w v assume e: "f w = f v"
  then have "f (note_owner S s (p_Body msg) w) = f v" using note_owner_quiet [OF S] by simp
  then show "fst (pub x k (msg\<lparr>p_Headers := Some (run_inject rt (case p_Headers msg of None \<Rightarrow> Map.empty | Some h \<Rightarrow> h))\<rparr>)
               (note_owner S s (p_Body msg) w)) =
             fst (pub x k (msg\<lparr>p_Headers := Some (run_inject rt (case p_Headers msg of None \<Rightarrow> Map.empty | Some h \<Rightarrow> h))\<rparr>) v)
      \<and> f (snd (pub x k (msg\<lparr>p_Headers := Some (run_inject rt (case p_Headers msg of None \<Rightarrow> Map.empty | Some h \<Rightarrow> h))\<rparr>)
               (note_owner S s (p_Body msg) w))) =
        f (snd (pub x k (msg\<lparr>p_Headers := Some (run_inject rt (case p_Headers msg of None \<Rightarrow> Map.empty | Some h \<Rightarrow> h))\<rparr>) v))"
    using h unfolding sees_only_def by blast
qed

section \<open>The endpoint\<close>

text \<open>Blanks around an endpoint do not matter.\<close>

lemma normalize_trimmed: "normalizeOTLPEndpoint (trim_space s) = normalizeOTLPEndpoint s"
  by (simp add: normalizeOTLPEndpoint_def)

text \<open>Only an endpoint that parses with the scheme \<open>https\<close> is connected to with TLS.\<close>

lemma secure_iff:
  "\<not> snd (normalizeOTLPEndpoint s) \<longleftrightarrow>
     contains (trim_space s) scheme_separator \<and>
     (\<exists>u. Parse (trim_space s) = Some u \<and> u_Host u \<noteq> '''' \<and> to_lower (u_Scheme u) = ''https'')"
  by (auto simp: normalizeOTLPEndpoint_def Let_def scheme_separator_def split: option.splits)

lemma endpoint_examples:
  "normalizeOTLPEndpoint ''otel-collector:4317'' = (''otel-collector:4317'', True)"
  "normalizeOTLPEndpoint '' https://otel.example:4317/v1 '' = (''otel.example:4317'', False)"
  "normalizeOTLPEndpoint ''http://otel:4317'' = (''otel:4317'', True)"
  "normalizeOTLPEndpoint ''://otel'' = (''://otel'', True)"
  by code_simp+

text \<open>
  An endpoint of blanks only is refused for metrics, but for traces it goes through to the exporter as
  the empty endpoint.
\<close>

lemma blank_endpoint:
  assumes "trim_space (OTLPEndpoint cfg) = ''''" "OTLPEndpoint cfg \<noteq> ''''"
  shows "fst (InitMeter T cfg w) = Some (ErrMsg ''otlp endpoint is required for metrics initialization'')"
    "InitTracer T cfg w = (case tl_trace_exporter T '''' True w of
       (Some e, w1) \<Rightarrow> (Some e, w1)
     | (None, w1) \<Rightarrow> (case newTraceProvider T cfg w1 of (Some e, w2) \<Rightarrow> (Some e, w2) | (None, w2) \<Rightarrow> (None, tl_set_tracer T w2)))"
  using assms by (simp_all add: InitMeter_def InitTracer_def NewExporter_def normalizeOTLPEndpoint_def)

end
