(* ===== verification/Databases.thy ===== *)
theory Databases
  imports Http
begin

text \<open>
  Package \<open>db\<close> (\<open>shared/db\<close>): the configurations of MongoDB and PostgreSQL and the clients
  made from them. The drivers are parameters.
\<close>

text \<open>\<open>os.Getenv\<close>: a missing variable is empty.\<close>

definition Getenv :: "'w runtime \<Rightarrow> string \<Rightarrow> 'w \<Rightarrow> string" where
  "Getenv rt key w = (case run_env rt key w of None \<Rightarrow> '''' | Some v \<Rightarrow> v)"

section \<open>MongoDB\<close>

record mongo_config =
  mg_URI :: string
  mg_Database :: string

definition TripsCollection :: string where "TripsCollection = ''trips''"
definition RideFaresCollection :: string where "RideFaresCollection = ''ride_fares''"

text \<open>
  The driver: connecting and asking for the primary, both within a time, and disconnecting with a
  context that is alive or not.
\<close>

record 'w mongo_driver =
  mv_connect :: "duration \<Rightarrow> string \<Rightarrow> 'w \<Rightarrow> nat res \<times> 'w"
  mv_ping :: "duration \<Rightarrow> nat \<Rightarrow> 'w \<Rightarrow> goerror option \<times> 'w"
  mv_disconnect :: "bool \<Rightarrow> nat \<Rightarrow> 'w \<Rightarrow> 'w"

definition NewMongoDefaultConfig :: "'w runtime \<Rightarrow> 'w \<Rightarrow> mongo_config" where
  "NewMongoDefaultConfig rt w = \<lparr>mg_URI = Getenv rt ''MONGODB_URI'' w, mg_Database = ''ride-sharing''\<rparr>"

definition NewMongoClient :: "'w mongo_driver \<Rightarrow> mongo_config \<Rightarrow> 'w \<Rightarrow> nat res \<times> 'w" where
  "NewMongoClient D cfg w =
     (if mg_URI cfg = '''' then (Inl (ErrMsg ''mongodb URI is required''), w)
      else if mg_Database cfg = '''' then (Inl (ErrMsg ''mongodb database is required''), w)
      else (case mv_connect D (seconds 20) (mg_URI cfg) w of
              (Inl e, w1) \<Rightarrow> (Inl e, w1)
            | (Inr client, w1) \<Rightarrow>
                (case mv_ping D (seconds 20) client w1 of
                   (Some e, w2) \<Rightarrow> (Inl e, w2)
                 | (None, w2) \<Rightarrow> (Inr client, w2))))"

definition GetDatabase :: "nat \<Rightarrow> mongo_config \<Rightarrow> nat \<times> string" where
  "GetDatabase client cfg = (client, mg_Database cfg)"

section \<open>PostgreSQL\<close>

record postgres_config =
  pq_Host :: string
  pq_Port :: string
  pq_User :: string
  pq_Password :: string
  pq_DBName :: string
  pq_SSLMode :: string

record 'w sql_driver =
  sq_open :: "string \<Rightarrow> string \<Rightarrow> 'w \<Rightarrow> nat res \<times> 'w"
  sq_pool :: "nat \<Rightarrow> int \<Rightarrow> int \<Rightarrow> duration \<Rightarrow> 'w \<Rightarrow> 'w"
  sq_ping :: "duration \<Rightarrow> nat \<Rightarrow> 'w \<Rightarrow> goerror option \<times> 'w"
  sq_close :: "nat \<Rightarrow> 'w \<Rightarrow> 'w"

definition NewPostgresDefaultConfig :: "'w runtime \<Rightarrow> 'w \<Rightarrow> postgres_config" where
  "NewPostgresDefaultConfig rt w =
     \<lparr>pq_Host = Getenv rt ''POSTGRES_HOST'' w, pq_Port = Getenv rt ''POSTGRES_PORT'' w,
      pq_User = Getenv rt ''POSTGRES_USER'' w, pq_Password = Getenv rt ''POSTGRES_PASSWORD'' w,
      pq_DBName = Getenv rt ''POSTGRES_DB'' w, pq_SSLMode = ''disable''\<rparr>"

definition DSN :: "postgres_config \<Rightarrow> string" where
  "DSN c = ''host='' @ pq_Host c @ '' port='' @ pq_Port c @ '' user='' @ pq_User c
     @ '' password='' @ pq_Password c @ '' dbname='' @ pq_DBName c @ '' sslmode='' @ pq_SSLMode c"

definition NewPostgresDB :: "'w sql_driver \<Rightarrow> postgres_config \<Rightarrow> 'w \<Rightarrow> nat res \<times> 'w" where
  "NewPostgresDB D cfg w =
     (case sq_open D ''postgres'' (DSN cfg) w of
        (Inl e, w1) \<Rightarrow> (Inl (errorf_w ''failed to open postgres connection'' e), w1)
      | (Inr db, w1) \<Rightarrow>
          (case sq_ping D (seconds 10) db (sq_pool D db 25 5 (minutes 5) w1) of
             (Some e, w2) \<Rightarrow> (Inl (errorf_w ''failed to ping postgres'' e), w2)
           | (None, w2) \<Rightarrow> (Inr db, w2)))"

section \<open>Facts\<close>

text \<open>A client is only handed out after the server has answered.\<close>

lemma mongo_client_answered:
  assumes "NewMongoClient D cfg w = (Inr client, w')"
  shows "mg_URI cfg \<noteq> '''' \<and> mg_Database cfg \<noteq> ''''
     \<and> (\<exists>w1. mv_connect D (seconds 20) (mg_URI cfg) w = (Inr client, w1)
          \<and> mv_ping D (seconds 20) client w1 = (None, w'))"
  using assms by (auto simp: NewMongoClient_def split: if_splits prod.splits sum.splits option.splits)

lemma postgres_db_answered:
  assumes "NewPostgresDB D cfg w = (Inr db, w')"
  shows "\<exists>w1. sq_open D ''postgres'' (DSN cfg) w = (Inr db, w1)
       \<and> sq_ping D (seconds 10) db (sq_pool D db 25 5 (minutes 5) w1) = (None, w')"
  using assms by (auto simp: NewPostgresDB_def split: prod.splits sum.splits option.splits)

text \<open>
  The values of the connection string are not quoted: a password with a blank becomes further options,
  here the address of another server.
\<close>

lemma dsn_injection:
  "DSN \<lparr>pq_Host = ''db'', pq_Port = ''5432'', pq_User = ''u'', pq_Password = ''p host=evil'', pq_DBName = ''login'', pq_SSLMode = ''disable''\<rparr>
     = ''host=db port=5432 user=u password=p host=evil dbname=login sslmode=disable''"
  by (simp add: DSN_def)

end
