(* ===== verification/Startup_Facts.thy ===== *)
theory Startup_Facts
  imports Startup
begin

text \<open>
  The life of a service from its first connection to its last deferred call: a table of what each
  service does in which order, and the proof that every \<open>main\<close> that returns has done exactly that;
  and what is not done when it ends through \<open>log.Fatal\<close>.
\<close>

section \<open>Events\<close>

text \<open>The shut-downs note whether the context they were given was still alive.\<close>

datatype life_event =
    TracerUp | MeterUp | MongoUp | RedisUp | PostgresUp | BrokerUp | ClientUp
  | Listening string | Consumes string | ServesGrpc string | ServesHttp
  | Cancelled | HttpStopped | GrpcStopped
  | TracerDown bool | MeterDown bool | MongoDown bool | RedisDown | PostgresDown | BrokerDown | ClientDown

text \<open>
  What is assumed: \<open>ev\<close> is the history of these events, to which each operation that succeeds adds its
  own, and the context is done once it was cancelled.
\<close>

definition if_ok :: "goerror option \<Rightarrow> life_event \<Rightarrow> life_event list" where
  "if_ok r e = (case r of None \<Rightarrow> [e] | Some _ \<Rightarrow> [])"

definition telemetry_lives :: "'w telemetry \<Rightarrow> ('w \<Rightarrow> life_event list) \<Rightarrow> bool" where
  "telemetry_lives T ev \<longleftrightarrow>
     (\<forall>e i w r w'. tl_trace_exporter T e i w = (r, w') \<longrightarrow> ev w' = ev w)
   \<and> (\<forall>e i w r w'. tl_metric_exporter T e i w = (r, w') \<longrightarrow> ev w' = ev w)
   \<and> (\<forall>a w r w'. tl_resource T a w = (r, w') \<longrightarrow> ev w' = ev w)
   \<and> (\<forall>w. ev (tl_set_tracer T w) = ev w @ [TracerUp]) \<and> (\<forall>d w. ev (tl_set_meter T d w) = ev w @ [MeterUp])
   \<and> (\<forall>b w. ev (tl_stop_tracer T b w) = ev w @ [TracerDown b])
   \<and> (\<forall>b w. ev (tl_stop_meter T b w) = ev w @ [MeterDown b])"

definition broker_lives :: "'w broker \<Rightarrow> ('w \<Rightarrow> life_event list) \<Rightarrow> bool" where
  "broker_lives B ev \<longleftrightarrow> declares_keep B ev
   \<and> (\<forall>u w r w'. bk_dial B u w = (r, w') \<longrightarrow> ev w' = ev w @ (case r of Inr _ \<Rightarrow> [BrokerUp] | Inl _ \<Rightarrow> []))
   \<and> (\<forall>c w r w'. bk_channel B c w = (r, w') \<longrightarrow> ev w' = ev w)
   \<and> (\<forall>c w. ev (bk_close_conn B c w) = ev w @ [BrokerDown]) \<and> (\<forall>c w. ev (bk_close_chan B c w) = ev w)
   \<and> (\<forall>c n k g w r w'. bk_qos B c n k g w = (r, w') \<longrightarrow> ev w' = ev w)
   \<and> (\<forall>c q t w r w'. bk_consume B c q t w = (r, w') \<longrightarrow> ev w' = ev w @ if_ok r (Consumes q))"

definition stores_live :: "'w host \<Rightarrow> ('w \<Rightarrow> life_event list) \<Rightarrow> bool" where
  "stores_live H ev \<longleftrightarrow>
     (\<forall>d u w r w'. mv_connect (ho_mongo H) d u w = (r, w') \<longrightarrow> ev w' = ev w)
   \<and> (\<forall>d c w r w'. mv_ping (ho_mongo H) d c w = (r, w') \<longrightarrow> ev w' = ev w @ if_ok r MongoUp)
   \<and> (\<forall>b c w. ev (mv_disconnect (ho_mongo H) b c w) = ev w @ [MongoDown b])
   \<and> (\<forall>n d w r w'. sq_open (ho_sql H) n d w = (r, w') \<longrightarrow> ev w' = ev w)
   \<and> (\<forall>c m i d w. ev (sq_pool (ho_sql H) c m i d w) = ev w)
   \<and> (\<forall>d c w r w'. sq_ping (ho_sql H) d c w = (r, w') \<longrightarrow> ev w' = ev w @ if_ok r PostgresUp)
   \<and> (\<forall>c w. ev (sq_close (ho_sql H) c w) = ev w @ [PostgresDown])
   \<and> (\<forall>c d w r w'. RunMigrations (ho_migrations H c) d w = (r, w') \<longrightarrow> ev w' = ev w)
   \<and> (\<forall>a w r w'. ho_redis_ping H a w = (r, w') \<longrightarrow> ev w' = ev w @ if_ok r RedisUp)
   \<and> (\<forall>a w. ev (ho_redis_close H a w) = ev w @ [RedisDown])"

definition servers_live :: "'w host \<Rightarrow> ('w \<Rightarrow> life_event list) \<Rightarrow> bool" where
  "servers_live H ev \<longleftrightarrow>
     (\<forall>u w r w'. ho_dial H u w = (r, w') \<longrightarrow> ev w' = ev w @ (case r of Inr _ \<Rightarrow> [ClientUp] | Inl _ \<Rightarrow> []))
   \<and> (\<forall>c w. ev (snd (ho_hangup H c w)) = ev w @ [ClientDown])
   \<and> (\<forall>a w r w'. ho_listen H a w = (r, w') \<longrightarrow> ev w' = ev w @ if_ok r (Listening a))
   \<and> (\<forall>a w. ev (ho_serve_grpc H a w) = ev w @ [ServesGrpc a]) \<and> (\<forall>a c w. ev (ho_serve_http H a c w) = ev w @ [ServesHttp])
   \<and> (\<forall>w r w'. ho_select H w = (r, w') \<longrightarrow> ev w' = ev w) \<and> (\<forall>w. ev (ho_signal H w) = ev w)
   \<and> (\<forall>w. ev (ho_cancel H w) = ev w @ [Cancelled]) \<and> (\<forall>w. ho_done H w \<longleftrightarrow> Cancelled \<in> set (ev w))
   \<and> (\<forall>a w r w'. ho_http_shutdown H a w = (r, w') \<longrightarrow> ev w' = ev w @ [HttpStopped])
   \<and> (\<forall>a w. ev (ho_http_close H a w) = ev w) \<and> (\<forall>w. ev (ho_grpc_stop H w) = ev w @ [GrpcStopped])"

definition host_lives :: "'w host \<Rightarrow> ('w \<Rightarrow> life_event list) \<Rightarrow> bool" where
  "host_lives H ev \<longleftrightarrow> telemetry_lives (ho_tel H) ev \<and> broker_lives (ho_broker H) ev \<and> stores_live H ev \<and> servers_live H ev"

lemma telemetry_livesD:
  assumes "telemetry_lives T ev"
  shows "tl_trace_exporter T e i w = (r, w') \<Longrightarrow> ev w' = ev w" "tl_metric_exporter T e i w = (r, w') \<Longrightarrow> ev w' = ev w"
    "tl_resource T a w = (r, w') \<Longrightarrow> ev w' = ev w"
  using assms unfolding telemetry_lives_def by simp_all

lemma telemetry_lives_simps:
  assumes "telemetry_lives T ev"
  shows "ev (tl_set_tracer T w) = ev w @ [TracerUp]" "ev (tl_set_meter T d w) = ev w @ [MeterUp]"
    "ev (tl_stop_tracer T b w) = ev w @ [TracerDown b]" "ev (tl_stop_meter T b w) = ev w @ [MeterDown b]"
  using assms unfolding telemetry_lives_def by simp_all

lemma broker_livesD:
  assumes "broker_lives B ev"
  shows "declares_keep B ev" "bk_dial B u w = (Inr c, w') \<Longrightarrow> ev w' = ev w @ [BrokerUp]"
    "bk_dial B u w = (Inl e, w') \<Longrightarrow> ev w' = ev w" "bk_channel B cn w = (r2, w') \<Longrightarrow> ev w' = ev w"
    "bk_qos B ch n k g w = (r3, w') \<Longrightarrow> ev w' = ev w"
    "bk_consume B ch q t w = (r3, w') \<Longrightarrow> ev w' = ev w @ if_ok r3 (Consumes q)"
  using assms unfolding broker_lives_def by fastforce+

lemma Close_lives: "broker_lives B ev \<Longrightarrow> ev (Close B w) = ev w @ [BrokerDown]"
  by (simp add: Close_def broker_lives_def Let_def)

section \<open>Building blocks\<close>

lemma deferring_Returns:
  "deferring c k w = (Returns x, w') \<longleftrightarrow> (\<exists>w1. k w = (Returns x, w1) \<and> w' = c w1)"
  by (auto simp: deferring_def split: prod.splits outcome.splits)

lemma or_fatal_Returns:
  "or_fatal r k = (Returns x, w') \<longleftrightarrow> (\<exists>w1. r = (None, w1) \<and> k w1 = (Returns x, w'))"
  by (auto simp: or_fatal_def split: prod.splits option.splits)

lemma value_or_fatal_Returns:
  "value_or_fatal r k = (Returns x, w') \<longleftrightarrow> (\<exists>y w1. r = (Inr y, w1) \<and> k y w1 = (Returns x, w'))"
  by (auto simp: value_or_fatal_def split: prod.splits sum.splits)

lemma InitTracer_up:
  assumes "telemetry_lives T ev" "InitTracer T cfg w = (None, w')"
  shows "ev w' = ev w @ [TracerUp]"
  using assms(2)
  by (auto simp: InitTracer_def NewExporter_def newTraceProvider_def newResource_def telemetry_lives_simps [OF assms(1)]
      split: if_splits prod.splits option.splits dest!: telemetry_livesD [OF assms(1)])

lemma InitMeter_up:
  assumes "telemetry_lives T ev" "InitMeter T cfg w = (None, w')"
  shows "ev w' = ev w @ [MeterUp]"
  using assms(2)
  by (auto simp: InitMeter_def newResource_def telemetry_lives_simps [OF assms(1)]
      split: if_splits prod.splits option.splits dest!: telemetry_livesD [OF assms(1)])

lemma NewRabbitMQ_up:
  assumes B: "broker_lives B ev" and n: "NewRabbitMQ B uri w = (Returns (Inr rmq), w')"
  shows "ev w' = ev w @ [BrokerUp]"
proof -
  from n obtain c w1 ch w2 where d: "bk_dial B uri w = (Inr c, w1)" "bk_channel B c w1 = (Inr ch, w2)"
    and s: "setupExchangesAndQueues B (bk_set_client B \<lparr>rq_conn = c, rq_Channel = ch, rq_uri = uri\<rparr> w2) = (Returns None, w')"
    by (auto simp: NewRabbitMQ_def Let_def bindo_Returns_iff split: prod.splits sum.splits option.splits)
  have "ev w' = ev (bk_set_client B \<lparr>rq_conn = c, rq_Channel = ch, rq_uri = uri\<rparr> w2)"
    using setup_declares_keep [OF broker_livesD(1) [OF B]] s by (metis snd_conv)
  moreover have "\<dots> = ev w2" using B by (simp add: broker_lives_def declares_keep_def)
  ultimately show ?thesis using broker_livesD(2) [OF B d(1)] broker_livesD(4) [OF B d(2)] by simp
qed

lemma ConsumeMessages_up:
  assumes "broker_lives B ev" "ConsumeMessages B q w = (None, w')"
  shows "ev w' = ev w @ [Consumes q]"
  using assms(2)
  by (auto simp: ConsumeMessages_def if_ok_def split: prod.splits option.splits dest!: broker_livesD(5,6) [OF assms(1)])

lemma stores_live_simps:
  assumes "stores_live H ev"
  shows "ev (mv_disconnect (ho_mongo H) b c w) = ev w @ [MongoDown b]" "ev (sq_close (ho_sql H) db w) = ev w @ [PostgresDown]"
    "ev (ho_redis_close H a w) = ev w @ [RedisDown]"
  using assms unfolding stores_live_def by simp_all

lemma stores_liveD:
  assumes "stores_live H ev"
  shows "RunMigrations (ho_migrations H db) d w = (r, w') \<Longrightarrow> ev w' = ev w"
    "ho_redis_ping H a w = (None, w') \<Longrightarrow> ev w' = ev w @ [RedisUp]"
  using assms unfolding stores_live_def if_ok_def by fastforce+

lemma servers_liveD:
  assumes "servers_live H ev"
  shows "ho_listen H a w = (None, w') \<Longrightarrow> ev w' = ev w @ [Listening a]" "ho_select H w = (s, w') \<Longrightarrow> ev w' = ev w"
    "ho_http_shutdown H a w = (r, w') \<Longrightarrow> ev w' = ev w @ [HttpStopped]" "ho_dial H u w = (Inr c, w') \<Longrightarrow> ev w' = ev w @ [ClientUp]"
  using assms unfolding servers_live_def if_ok_def by fastforce+

lemma servers_live_simps:
  assumes "servers_live H ev"
  shows "ev (ho_serve_grpc H a w) = ev w @ [ServesGrpc a]" "ev (ho_serve_http H a c w) = ev w @ [ServesHttp]"
    "ev (ho_signal H w) = ev w" "ev (ho_cancel H w) = ev w @ [Cancelled]" "ho_done H w \<longleftrightarrow> Cancelled \<in> set (ev w)"
    "ev (ho_http_close H a w) = ev w" "ev (ho_grpc_stop H w) = ev w @ [GrpcStopped]"
    "ev (snd (ho_hangup H cn w)) = ev w @ [ClientDown]"
  using assms unfolding servers_live_def by simp_all

lemma host_livesD:
  assumes "host_lives H ev"
  shows "telemetry_lives (ho_tel H) ev" "broker_lives (ho_broker H) ev" "stores_live H ev" "servers_live H ev"
  using assms by (simp_all add: host_lives_def)

section \<open>Rules for the parts of a main\<close>

text \<open>\<open>runs ev k f\<close>: whenever \<open>k\<close> returns, its history is \<open>f\<close> of the history before.\<close>

definition runs :: "('w \<Rightarrow> life_event list) \<Rightarrow> ('w \<Rightarrow> 'a outcome \<times> 'w) \<Rightarrow> (life_event list \<Rightarrow> life_event list) \<Rightarrow> bool" where
  "runs ev k f \<longleftrightarrow> (\<forall>w x w'. k w = (Returns x, w') \<longrightarrow> ev w' = f (ev w))"

lemma runsI: "(\<And>w x w'. k w = (Returns x, w') \<Longrightarrow> ev w' = f (ev w)) \<Longrightarrow> runs ev k f"
  unfolding runs_def by blast

lemma runsD: "runs ev k f \<Longrightarrow> k w = (Returns x, w') \<Longrightarrow> ev w' = f (ev w)"
  unfolding runs_def by blast

text \<open>The events with which the telemetry of a service ends.\<close>

definition telemetry_end :: "bool \<Rightarrow> life_event list" where
  "telemetry_end alive = [MeterDown alive, TracerDown alive, Cancelled]"

lemma runs_telemetry:
  assumes "host_lives H ev" "\<And>u. runs ev (k u) f"
  shows "runs ev (\<lambda>w. with_telemetry H n (k w) w)
    (\<lambda>es. let fs = f (es @ [TracerUp, MeterUp]) in fs @ telemetry_end (Cancelled \<notin> set fs))"
proof (rule runsI)
  note T = host_livesD(1) [OF assms(1)] and S = host_livesD(4) [OF assms(1)]
  fix w x w' assume "with_telemetry H n (k w) w = (Returns x, w')"
  then obtain w0 w1 w2 where i: "InitTracer (ho_tel H) (tracer_cfg H n w) w = (None, w0)"
      "InitMeter (ho_tel H) (tracer_cfg H n w) w0 = (None, w1)"
    and k: "k w w1 = (Returns x, w2)" and w': "w' = ho_cancel H (stop_tracer H (stop_meter H w2))"
    by (auto simp: with_telemetry_def Let_def or_fatal_Returns deferring_Returns)
  have "ev w2 = f (ev w @ [TracerUp, MeterUp])"
    using runsD [OF assms(2) k] InitTracer_up [OF T i(1)] InitMeter_up [OF T i(2)] by simp
  then show "ev w' = (let fs = f (ev w @ [TracerUp, MeterUp]) in fs @ telemetry_end (Cancelled \<notin> set fs))"
    by (simp add: w' stop_tracer_def stop_meter_def telemetry_end_def Let_def telemetry_lives_simps [OF T] servers_live_simps [OF S])
qed

lemma runs_broker:
  assumes "host_lives H ev" "runs ev k f"
  shows "runs ev (\<lambda>w. with_broker H (uri w) k w) (\<lambda>es. f (es @ [BrokerUp]) @ [BrokerDown])"
proof (rule runsI)
  note B = host_livesD(2) [OF assms(1)]
  fix w x w' assume "with_broker H (uri w) k w = (Returns x, w')"
  then obtain rmq w1 w2 where n: "NewRabbitMQ (ho_broker H) (uri w) w = (Returns (Inr rmq), w1)"
    and k: "k w1 = (Returns x, w2)" and w': "w' = Close (ho_broker H) w2"
    by (auto simp: with_broker_def bindo_Returns_iff value_or_fatal_Returns deferring_Returns)
  from NewRabbitMQ_up [OF B n] runsD [OF assms(2) k] show "ev w' = f (ev w @ [BrokerUp]) @ [BrokerDown]"
    by (simp add: w' Close_lives [OF B])
qed

lemma runs_redis:
  assumes "host_lives H ev" "\<And>u. runs ev (k u) f"
  shows "runs ev (\<lambda>w. with_redis H (k w) w) (\<lambda>es. f (es @ [RedisUp]) @ [RedisDown])"
    and "runs ev (\<lambda>w. or_fatal (ho_redis_ping H a w) (k w)) (\<lambda>es. f (es @ [RedisUp]))"
  using stores_liveD(2) [OF host_livesD(3) [OF assms(1)]]
  by (auto intro!: runsI simp: with_redis_def Let_def or_fatal_Returns deferring_Returns
      stores_live_simps [OF host_livesD(3) [OF assms(1)]] dest!: runsD [OF assms(2)])

lemma runs_served:
  assumes "host_lives H ev" "runs ev k f"
  shows "runs ev (\<lambda>w. k (ho_serve_http H a c (ho_serve_grpc H b w))) (\<lambda>es. f (es @ [ServesGrpc b, ServesHttp]))"
  by (auto intro!: runsI simp: servers_live_simps [OF host_livesD(4) [OF assms(1)]] dest!: runsD [OF assms(2)])

lemma runs_checked:
  assumes "host_lives H ev" "runs ev k f"
  shows "runs ev (\<lambda>w. if b then (Exits, w) else k w) f"
  using assms(2) by (simp add: runs_def)

lemma runs_listen:
  assumes "host_lives H ev" "runs ev k f"
  shows "runs ev (\<lambda>w. or_fatal (ho_listen H a w) k) (\<lambda>es. f (es @ [Listening a]))"
  using servers_liveD(1) [OF host_livesD(4) [OF assms(1)]]
  by (auto intro!: runsI simp: or_fatal_Returns dest!: runsD [OF assms(2)])

lemma runs_mongo:
  assumes "host_lives H ev" "\<And>c. runs ev (k c) f"
  shows "runs ev (\<lambda>w. value_or_fatal (NewMongoClient (ho_mongo H) (cfg w) w) k) (\<lambda>es. f (es @ [MongoUp]))"
proof (rule runsI)
  fix w x w' assume "value_or_fatal (NewMongoClient (ho_mongo H) (cfg w) w) k = (Returns x, w')"
  then obtain c w1 where c: "NewMongoClient (ho_mongo H) (cfg w) w = (Inr c, w1)" and k: "k c w1 = (Returns x, w')"
    by (auto simp: value_or_fatal_Returns)
  have "ev w1 = ev w @ [MongoUp]"
    using mongo_client_answered [OF c] host_livesD(3) [OF assms(1)] unfolding stores_live_def if_ok_def by fastforce
  with runsD [OF assms(2) k] show "ev w' = f (ev w @ [MongoUp])" by simp
qed

lemma runs_disconnect:
  assumes "host_lives H ev" "runs ev k f"
  shows "runs ev (deferring (\<lambda>w. mv_disconnect (ho_mongo H) (\<not> ho_done H w) c w) k)
    (\<lambda>es. let fs = f es in fs @ [MongoDown (Cancelled \<notin> set fs)])"
  by (auto intro!: runsI simp: deferring_Returns Let_def stores_live_simps(1) [OF host_livesD(3) [OF assms(1)]]
      servers_live_simps(5) [OF host_livesD(4) [OF assms(1)]] dest!: runsD [OF assms(2)])

lemma runs_postgres:
  assumes "host_lives H ev" "\<And>db. runs ev (k db) f"
  shows "runs ev (\<lambda>w. value_or_fatal (NewPostgresDB (ho_sql H) (cfg w) w) (\<lambda>db. deferring (sq_close (ho_sql H) db) (k db)))
    (\<lambda>es. f (es @ [PostgresUp]) @ [PostgresDown])"
proof (rule runsI)
  note M = host_livesD(3) [OF assms(1)]
  fix w x w'
  assume "value_or_fatal (NewPostgresDB (ho_sql H) (cfg w) w) (\<lambda>db. deferring (sq_close (ho_sql H) db) (k db)) = (Returns x, w')"
  then obtain db w1 w2 where c: "NewPostgresDB (ho_sql H) (cfg w) w = (Inr db, w1)" and k: "k db w1 = (Returns x, w2)"
    and w': "w' = sq_close (ho_sql H) db w2"
    by (auto simp: value_or_fatal_Returns deferring_Returns)
  have "ev w1 = ev w @ [PostgresUp]"
    using postgres_db_answered [OF c] M unfolding stores_live_def if_ok_def by fastforce
  with runsD [OF assms(2) k] show "ev w' = f (ev w @ [PostgresUp]) @ [PostgresDown]"
    by (simp add: w' stores_live_simps [OF M])
qed

lemma runs_migrations:
  assumes "host_lives H ev" "runs ev k f"
  shows "runs ev (\<lambda>w. or_fatal (RunMigrations (ho_migrations H db) (dir w) w) k) f"
  using stores_liveD(1) [OF host_livesD(3) [OF assms(1)]]
  by (auto intro!: runsI simp: or_fatal_Returns dest!: runsD [OF assms(2)])

lemma runs_spawn:
  assumes "host_lives H ev" "runs ev k f"
  shows "runs ev (spawn_consumers H qs k) (\<lambda>es. f (es @ map Consumes qs))"
proof (induction qs)
  case (Cons q qs)
  show ?case
  proof (rule runsI)
    fix w x w' assume "spawn_consumers H (q # qs) k w = (Returns x, w')"
    then obtain w1 where "ConsumeMessages (ho_broker H) q w = (None, w1)" "spawn_consumers H qs k w1 = (Returns x, w')"
      by (auto simp: or_fatal_Returns)
    with runsD [OF Cons] ConsumeMessages_up [OF host_livesD(2) [OF assms(1)]]
    show "ev w' = f (ev w @ map Consumes (q # qs))" by fastforce
  qed
qed (simp add: assms(2))

lemma start_consumers_up:
  assumes "broker_lives B ev" "start_consumers B qs w = (Returns x, w')"
  shows "ev w' = ev w @ map Consumes qs"
  using assms(2)
proof (induction qs arbitrary: w)
  case (Cons q qs)
  then obtain w1 where "ConsumeMessages B q w = (None, w1)" "start_consumers B qs w1 = (Returns x, w')"
    by (auto split: prod.splits option.splits)
  with Cons.IH ConsumeMessages_up [OF assms(1)] show ?case by fastforce
qed auto

lemma runs_start_consumers:
  assumes "host_lives H ev" "\<And>u. runs ev (k u) f"
  shows "runs ev (\<lambda>w. bindo (start_consumers (ho_broker H) qs w) k) (\<lambda>es. f (es @ map Consumes qs))"
proof (rule runsI)
  fix w x w' assume "bindo (start_consumers (ho_broker H) qs w) k = (Returns x, w')"
  then obtain u w1 where s: "start_consumers (ho_broker H) qs w = (Returns u, w1)" and k: "k u w1 = (Returns x, w')"
    by (auto simp: bindo_Returns_iff)
  from start_consumers_up [OF host_livesD(2) [OF assms(1)] s] runsD [OF assms(2) k]
  show "ev w' = f (ev w @ map Consumes qs)" by simp
qed

lemma runs_chat_start:
  assumes "host_lives H ev" "runs ev k f"
  shows "runs ev (\<lambda>w. or_fatal (chat_Start (ho_broker H) w) k) (\<lambda>es. f (es @ [Consumes ChatCmdSendQueue]))"
  using broker_livesD(6) [OF host_livesD(2) [OF assms(1)]]
  by (auto intro!: runsI simp: or_fatal_Returns chat_Start_def if_ok_def dest!: runsD [OF assms(2)])

lemma runs_client:
  assumes "host_lives H ev" "runs ev k f"
  shows "runs ev (with_client H NewTripServiceClient k) (\<lambda>es. f (es @ [ClientUp]) @ [ClientDown])"
    "runs ev (with_client H NewLoginServiceClient k) (\<lambda>es. f (es @ [ClientUp]) @ [ClientDown])"
    "runs ev (with_client H ws_NewDriverServiceClient k) (\<lambda>es. f (es @ [ClientUp]) @ [ClientDown])"
  using servers_liveD(4) [OF host_livesD(4) [OF assms(1)]] servers_live_simps(8) [OF host_livesD(4) [OF assms(1)]]
  by (auto intro!: runsI simp: with_client_def value_or_fatal_Returns deferring_Returns client_Close_def
      NewTripServiceClient_def NewLoginServiceClient_def ws_NewDriverServiceClient_def dest!: runsD [OF assms(2)])

text \<open>The last phase of the services.\<close>

lemma runs_serve:
  assumes "host_lives H ev"
  shows "runs ev (trip_serve H) (\<lambda>es. es @ [ServesGrpc trip_GrpcAddr, ServesHttp, Cancelled, HttpStopped, GrpcStopped])"
    "runs ev (driver_wait H) (\<lambda>es. es @ [Cancelled, GrpcStopped])"
    "runs ev (login_serve H) (\<lambda>es. es @ [ServesGrpc login_GrpcAddr, ServesHttp, Cancelled, GrpcStopped, HttpStopped])"
    "runs ev (gateway_serve H a ms) (\<lambda>es. es @ [ServesHttp, HttpStopped])"
    "runs ev (\<lambda>w. (Returns (), ho_cancel H (ho_signal H w))) (\<lambda>es. es @ [Cancelled])"
    "runs ev (\<lambda>w. (Returns (), ho_signal H w)) (\<lambda>es. es)"
  by (auto intro!: runsI simp: trip_serve_def driver_wait_def login_serve_def gateway_serve_def Let_def
      servers_live_simps [OF host_livesD(4) [OF assms]]
      split: prod.splits wake.splits option.splits dest!: servers_liveD [OF host_livesD(4) [OF assms]])

section \<open>The lives of the services\<close>

datatype service = TripSvc | DriverSvc | LoginSvc | PaymentSvc | ChatSvc | ApiGw | WsGw

fun service_main :: "service \<Rightarrow> 'w host \<Rightarrow> 'w \<Rightarrow> unit outcome \<times> 'w" where
  "service_main TripSvc = trip_main"
| "service_main DriverSvc = driver_main"
| "service_main LoginSvc = login_main"
| "service_main PaymentSvc = payment_main"
| "service_main ChatSvc = chat_main"
| "service_main ApiGw = api_main"
| "service_main WsGw = ws_main"

text \<open>What each service does from its start to its regular end.\<close>

fun lifecycle :: "service \<Rightarrow> life_event list" where
  "lifecycle TripSvc = [TracerUp, MeterUp, MongoUp, RedisUp, BrokerUp, Listening trip_GrpcAddr,
     Consumes DriverTripResponseQueue, Consumes NotifyPaymentSuccessQueue, ServesGrpc trip_GrpcAddr, ServesHttp,
     Cancelled, HttpStopped, GrpcStopped, BrokerDown, RedisDown, MongoDown False] @ telemetry_end False"
| "lifecycle DriverSvc = [TracerUp, MeterUp, BrokerUp, RedisUp, Listening driver_GrpcAddr, ServesGrpc driver_GrpcAddr,
     ServesHttp, Consumes FindAvailableDriversQueue, Consumes DriverLocationUpdateQueue,
     Consumes DriverTripAssignedQueue, Cancelled, GrpcStopped, RedisDown, BrokerDown] @ telemetry_end False"
| "lifecycle LoginSvc = [TracerUp, MeterUp, PostgresUp, Listening login_GrpcAddr, ServesGrpc login_GrpcAddr, ServesHttp,
     Cancelled, GrpcStopped, HttpStopped, PostgresDown] @ telemetry_end False"
| "lifecycle PaymentSvc = [TracerUp, MeterUp, RedisUp, BrokerUp, Consumes PaymentTripResponseQueue,
     Cancelled, BrokerDown, RedisDown] @ telemetry_end False"
| "lifecycle ChatSvc = [TracerUp, MeterUp, MongoUp, BrokerUp, Consumes ChatCmdSendQueue,
     BrokerDown, MongoDown True] @ telemetry_end True"
| "lifecycle ApiGw = [TracerUp, MeterUp, BrokerUp, RedisUp, ClientUp, ClientUp, ServesHttp,
     HttpStopped, ClientDown, ClientDown, BrokerDown] @ telemetry_end True"
| "lifecycle WsGw = [TracerUp, MeterUp, BrokerUp, RedisUp] @ map Consumes globalQueues
     @ [ClientUp, Consumes NotifyTripCancelledQueue, Consumes NotifyTripCompletedQueue, ServesHttp,
        HttpStopped, ClientDown, BrokerDown] @ telemetry_end True"

text \<open>Every \<open>main\<close> that returns has gone through its life.\<close>

lemmas main_rules = runs_served runs_checked runs_telemetry runs_mongo runs_disconnect runs_postgres runs_migrations runs_redis runs_broker
  runs_listen runs_spawn runs_start_consumers runs_chat_start runs_client

lemmas life_simps = Let_def telemetry_end_def globalQueues_def

lemma trip_life:
  assumes L: "host_lives H ev"
  shows "\<exists>f. runs ev (trip_main H) f \<and> f [] = lifecycle TripSvc"
  unfolding trip_main_def
  by (rule exI, rule conjI, (rule main_rules [OF L] runs_serve [OF L] ext)+, simp add: life_simps)

lemma driver_life:
  assumes L: "host_lives H ev"
  shows "\<exists>f. runs ev (driver_main H) f \<and> f [] = lifecycle DriverSvc"
  unfolding driver_main_def
  by (rule exI, rule conjI, (rule main_rules [OF L] runs_serve [OF L] ext)+, simp add: life_simps)

lemma login_life:
  assumes L: "host_lives H ev"
  shows "\<exists>f. runs ev (login_main H) f \<and> f [] = lifecycle LoginSvc"
  unfolding login_main_def
  by (rule exI, rule conjI, (rule main_rules [OF L] runs_serve [OF L] ext)+, simp add: life_simps)

lemma payment_life:
  assumes L: "host_lives H ev"
  shows "\<exists>f. runs ev (payment_main H) f \<and> f [] = lifecycle PaymentSvc"
  unfolding payment_main_def Let_def
  by (rule exI, rule conjI, (rule main_rules [OF L] runs_serve [OF L] ext)+, simp add: life_simps)

lemma chat_life:
  assumes L: "host_lives H ev"
  shows "\<exists>f. runs ev (chat_main H) f \<and> f [] = lifecycle ChatSvc"
  unfolding chat_main_def
  by (rule exI, rule conjI, (rule main_rules [OF L] runs_serve [OF L] ext)+, simp add: life_simps)

lemma api_life:
  assumes L: "host_lives H ev"
  shows "\<exists>f. runs ev (api_main H) f \<and> f [] = lifecycle ApiGw"
  unfolding api_main_def Let_def
  by (rule exI, rule conjI, (rule main_rules [OF L] runs_serve [OF L] ext)+, simp add: life_simps)

lemma ws_life:
  assumes L: "host_lives H ev"
  shows "\<exists>f. runs ev (ws_main H) f \<and> f [] = lifecycle WsGw"
  unfolding ws_main_def Let_def
  by (rule exI, rule conjI, (rule main_rules [OF L] runs_serve [OF L] ext)+, simp add: life_simps)

lemma service_life:
  assumes L: "host_lives H ev"
  shows "\<exists>f. runs ev (service_main s H) f \<and> f [] = lifecycle s"
  by (cases s) (simp_all only: service_main.simps trip_life [OF L] driver_life [OF L] login_life [OF L] payment_life [OF L]
      chat_life [OF L] api_life [OF L] ws_life [OF L])

section \<open>Ending through an error\<close>

text \<open>The calls that clean up: shut-downs and closes, but for a broker connection that could not be set up.\<close>

fun is_cleanup :: "life_event \<Rightarrow> bool" where
  "is_cleanup (TracerDown b) = True"
| "is_cleanup (MeterDown b) = True"
| "is_cleanup (MongoDown b) = True"
| "is_cleanup e = (e \<in> {RedisDown, PostgresDown, ClientDown, HttpStopped, GrpcStopped})"

definition cleanups :: "('w \<Rightarrow> life_event list) \<Rightarrow> 'w \<Rightarrow> life_event list" where
  "cleanups ev w = filter is_cleanup (ev w)"

definition fatal_clean :: "('w \<Rightarrow> life_event list) \<Rightarrow> ('w \<Rightarrow> 'a outcome \<times> 'w) \<Rightarrow> bool" where
  "fatal_clean ev k \<longleftrightarrow> (\<forall>w w'. k w = (Exits, w') \<longrightarrow> cleanups ev w' = cleanups ev w)"

text \<open>Steps that connect or start something, whatever their result.\<close>

lemma cleanups_append [simp]: "ev w' = ev w @ es \<Longrightarrow> cleanups ev w' = cleanups ev w @ filter is_cleanup es"
  by (simp add: cleanups_def)

lemma cleanups_same: "ev w' = ev w \<Longrightarrow> cleanups ev w' = cleanups ev w"
  by (simp add: cleanups_def)

lemma if_ok_cleanup: "\<not> is_cleanup e \<Longrightarrow> filter is_cleanup (if_ok r e) = []"
  by (simp add: if_ok_def split: option.split)

lemma steps_clean:
  assumes "host_lives H ev"
  shows "cleanups ev (snd (InitTracer (ho_tel H) cfg w)) = cleanups ev w"
    "cleanups ev (snd (InitMeter (ho_tel H) cfg w)) = cleanups ev w"
  using telemetry_livesD [OF host_livesD(1) [OF assms]]
  by (auto simp: InitTracer_def NewExporter_def newTraceProvider_def newResource_def InitMeter_def
      cleanups_def telemetry_lives_simps [OF host_livesD(1) [OF assms]] split: prod.splits option.splits)

lemma stores_cleanD:
  assumes "stores_live H ev"
  shows "mv_connect (ho_mongo H) d u w = (r1, w') \<Longrightarrow> cleanups ev w' = cleanups ev w"
    "mv_ping (ho_mongo H) d c w = (r2, w') \<Longrightarrow> cleanups ev w' = cleanups ev w"
    "sq_open (ho_sql H) n x w = (r1, w') \<Longrightarrow> cleanups ev w' = cleanups ev w"
    "sq_ping (ho_sql H) d c w = (r2, w') \<Longrightarrow> cleanups ev w' = cleanups ev w"
    "RunMigrations (ho_migrations H c) x w = (r2, w') \<Longrightarrow> cleanups ev w' = cleanups ev w"
    "ho_redis_ping H x w = (r2, w') \<Longrightarrow> cleanups ev w' = cleanups ev w"
    "cleanups ev (sq_pool (ho_sql H) c i j d w) = cleanups ev w"
  using assms unfolding stores_live_def cleanups_def by (fastforce simp: if_ok_cleanup)+

lemma servers_cleanD:
  assumes "servers_live H ev"
  shows "ho_listen H x w = (r2, w') \<Longrightarrow> cleanups ev w' = cleanups ev w"
    "ho_dial H x w = (r1, w') \<Longrightarrow> cleanups ev w' = cleanups ev w"
  using assms unfolding servers_live_def cleanups_def by (fastforce simp: if_ok_cleanup split: sum.splits)+

lemma connect_clean:
  assumes "host_lives H ev"
  shows "cleanups ev (snd (NewMongoClient (ho_mongo H) mc w)) = cleanups ev w"
    "cleanups ev (snd (NewPostgresDB (ho_sql H) pc w)) = cleanups ev w"
    "cleanups ev (snd (ho_redis_ping H a w)) = cleanups ev w"
    "cleanups ev (snd (RunMigrations (ho_migrations H db) d w)) = cleanups ev w"
    "cleanups ev (snd (ho_listen H a w)) = cleanups ev w"
    "cleanups ev (snd (ho_dial H u w)) = cleanups ev w"
proof -
  note S = stores_cleanD [OF host_livesD(3) [OF assms]] and V = servers_cleanD [OF host_livesD(4) [OF assms]]
  show "cleanups ev (snd (NewMongoClient (ho_mongo H) mc w)) = cleanups ev w"
    by (auto simp: NewMongoClient_def split: prod.splits sum.splits option.splits dest!: S(1,2))
  show "cleanups ev (snd (NewPostgresDB (ho_sql H) pc w)) = cleanups ev w"
    by (auto simp: NewPostgresDB_def S(7) split: prod.splits sum.splits option.splits dest!: S(3,4))
  show "cleanups ev (snd (ho_redis_ping H a w)) = cleanups ev w"
    by (rule S(6) [OF surjective_pairing])
  show "cleanups ev (snd (RunMigrations (ho_migrations H db) d w)) = cleanups ev w"
    by (rule S(5) [OF surjective_pairing])
  show "cleanups ev (snd (ho_listen H a w)) = cleanups ev w" "cleanups ev (snd (ho_dial H u w)) = cleanups ev w"
    by (rule V(1) [OF surjective_pairing], rule V(2) [OF surjective_pairing])
qed

lemma broker_clean:
  assumes "broker_lives B ev"
  shows "topology_keeps B (cleanups ev)"
proof -
  have d: "declares_keep B (cleanups ev)"
    using broker_livesD(1) [OF assms] unfolding declares_keep_def cleanups_def by auto
  show ?thesis
    using d assms unfolding topology_keeps_def declares_keep_def broker_lives_def
    by (auto simp: cleanups_def split: sum.split)
qed

lemma NewRabbitMQ_clean:
  assumes "host_lives H ev"
  shows "cleanups ev (snd (NewRabbitMQ (ho_broker H) uri w)) = cleanups ev w"
proof -
  note K = broker_clean [OF host_livesD(2) [OF assms]]
  have s: "cleanups ev (snd (setupExchangesAndQueues (ho_broker H) (bk_set_client (ho_broker H) c v))) = cleanups ev v" for c v
    by (simp add: setup_keeps [OF K] topology_keeps_cell(1) [OF K])
  have c: "cleanups ev (Close (ho_broker H) v) = cleanups ev v" for v
    by (simp add: Close_def Let_def topology_keeps_cell [OF K])
  show ?thesis
    unfolding NewRabbitMQ_def Let_def
    by (auto simp: s c topology_keeps_cell [OF K] split: prod.split sum.split option.split
        intro!: bindo_keeps [where f = "cleanups ev"] dest!: topology_keepsD [OF K])
qed

lemma consume_cleanD:
  assumes "broker_lives B ev"
  shows "bk_qos B ch n k g w = (r, w') \<Longrightarrow> cleanups ev w' = cleanups ev w"
    "bk_consume B ch q t w = (r, w') \<Longrightarrow> cleanups ev w' = cleanups ev w"
  using broker_livesD(5,6) [OF assms] by (simp_all add: cleanups_def if_ok_cleanup)

lemma ConsumeMessages_clean:
  assumes "host_lives H ev"
  shows "cleanups ev (snd (ConsumeMessages (ho_broker H) q w)) = cleanups ev w"
    "cleanups ev (snd (chat_Start (ho_broker H) w)) = cleanups ev w"
proof -
  note C = consume_cleanD [OF host_livesD(2) [OF assms]]
  show "cleanups ev (snd (chat_Start (ho_broker H) w)) = cleanups ev w"
    unfolding chat_Start_def by (rule C(2) [OF surjective_pairing])
  show "cleanups ev (snd (ConsumeMessages (ho_broker H) q w)) = cleanups ev w"
    using C(2) [OF surjective_pairing]
    by (auto simp: ConsumeMessages_def split: prod.split option.split dest!: C(1))
qed

text \<open>A process that ends through an error has cleaned nothing up, part by part.\<close>

lemma fatal_deferring: "fatal_clean ev k \<Longrightarrow> fatal_clean ev (deferring c k)"
  by (auto simp: fatal_clean_def deferring_def split: prod.splits outcome.splits)

lemma fatal_or_fatal:
  assumes "\<And>w. cleanups ev (snd (m w)) = cleanups ev w" "\<And>u. fatal_clean ev (k u)"
  shows "fatal_clean ev (\<lambda>w. or_fatal (m w) (k w))"
  using assms unfolding fatal_clean_def or_fatal_def
  by (auto split: prod.splits option.splits) (metis snd_conv)+

lemma fatal_value_or_fatal:
  assumes "\<And>w. cleanups ev (snd (m w)) = cleanups ev w" "\<And>u y. fatal_clean ev (k u y)"
  shows "fatal_clean ev (\<lambda>w. value_or_fatal (m w) (k w))"
  using assms unfolding fatal_clean_def value_or_fatal_def
  by (auto split: prod.splits sum.splits) (metis snd_conv)+

lemma fatal_bindo:
  assumes "\<And>w. cleanups ev (snd (m w)) = cleanups ev w" "\<And>u y. fatal_clean ev (k u y)"
  shows "fatal_clean ev (\<lambda>w. bindo (m w) (k w))"
  unfolding fatal_clean_def
proof (intro allI impI)
  fix w w' assume b: "bindo (m w) (k w) = (Exits, w')"
  obtain r w1 where m: "m w = (r, w1)" by (cases "m w")
  with assms(1) [of w] have c: "cleanups ev w1 = cleanups ev w" by simp
  show "cleanups ev w' = cleanups ev w"
    using b c assms(2) unfolding fatal_clean_def by (cases r) (auto simp: m)
qed

lemma fatal_checked: "fatal_clean ev k \<Longrightarrow> fatal_clean ev (\<lambda>w. if b then (Exits, w) else k w)"
  by (simp add: fatal_clean_def)

lemma fatal_telemetry:
  assumes "host_lives H ev" "\<And>u. fatal_clean ev (k u)"
  shows "fatal_clean ev (\<lambda>w. with_telemetry H n (k w) w)"
  unfolding with_telemetry_def Let_def
  by (rule fatal_or_fatal [OF steps_clean(1) [OF assms(1)]], rule fatal_or_fatal [OF steps_clean(2) [OF assms(1)]],
      rule fatal_deferring, rule fatal_deferring, rule fatal_deferring, rule assms(2))

lemma fatal_broker:
  assumes "host_lives H ev" "\<And>u. fatal_clean ev (k u)"
  shows "fatal_clean ev (\<lambda>w. with_broker H (uri w) (k w) w)"
  unfolding with_broker_def
  by (rule fatal_bindo [OF NewRabbitMQ_clean [OF assms(1)]])
    (rule fatal_value_or_fatal, simp, rule fatal_deferring, rule assms(2))

lemma fatal_redis:
  assumes "host_lives H ev" "\<And>u. fatal_clean ev (k u)"
  shows "fatal_clean ev (\<lambda>w. with_redis H (k w) w)"
  unfolding with_redis_def Let_def
  by (rule fatal_or_fatal [OF connect_clean(3) [OF assms(1)]], rule fatal_deferring, rule assms(2))

lemma fatal_spawn:
  assumes "host_lives H ev" "fatal_clean ev k"
  shows "fatal_clean ev (spawn_consumers H qs k)"
  by (induction qs) (simp add: assms(2), simp, rule fatal_or_fatal [OF ConsumeMessages_clean(1) [OF assms(1)]])

lemma start_consumers_clean:
  assumes "host_lives H ev"
  shows "cleanups ev (snd (start_consumers (ho_broker H) qs w)) = cleanups ev w"
proof (induction qs arbitrary: w)
  case (Cons q qs)
  show ?case
    using ConsumeMessages_clean(1) [OF assms, of q w] Cons.IH by (auto split: prod.split option.split)
qed simp

lemma fatal_client:
  assumes "host_lives H ev" "fatal_clean ev k"
  shows "fatal_clean ev (with_client H NewTripServiceClient k)" "fatal_clean ev (with_client H NewLoginServiceClient k)"
    "fatal_clean ev (with_client H ws_NewDriverServiceClient k)"
  unfolding with_client_def NewTripServiceClient_def NewLoginServiceClient_def ws_NewDriverServiceClient_def
  by ((rule fatal_value_or_fatal [OF connect_clean(6) [OF assms(1)]], rule fatal_deferring, rule assms(2)))+

lemma fatal_serve:
  assumes "host_lives H ev"
  shows "fatal_clean ev (trip_serve H)" "fatal_clean ev (driver_wait H)" "fatal_clean ev (login_serve H)"
    "fatal_clean ev (gateway_serve H a ms)" "fatal_clean ev (\<lambda>w. (Returns (), f w))"
  using servers_liveD(2) [OF host_livesD(4) [OF assms]] servers_live_simps(1,2) [OF host_livesD(4) [OF assms]]
  by (auto simp: fatal_clean_def trip_serve_def driver_wait_def login_serve_def gateway_serve_def cleanups_def Let_def
      split: prod.splits wake.splits option.splits)

lemma fatal_driver_serve:
  assumes "host_lives H ev" "fatal_clean ev k"
  shows "fatal_clean ev (\<lambda>w. k (ho_serve_http H a c (ho_serve_grpc H b w)))"
  using assms(2) unfolding fatal_clean_def
  by (simp add: cleanups_def servers_live_simps [OF host_livesD(4) [OF assms(1)]])

lemma main_fatal:
  assumes "host_lives H ev"
  shows "fatal_clean ev (service_main s H)"
proof -
  note rules = fatal_telemetry [OF assms] fatal_broker [OF assms] fatal_redis [OF assms] fatal_driver_serve [OF assms]
    fatal_spawn [OF assms] fatal_client [OF assms] fatal_serve [OF assms] fatal_checked
    fatal_bindo [OF start_consumers_clean [OF assms]] fatal_deferring
    fatal_or_fatal [OF connect_clean(3) [OF assms]] fatal_or_fatal [OF connect_clean(4) [OF assms]]
    fatal_or_fatal [OF connect_clean(5) [OF assms]] fatal_or_fatal [OF ConsumeMessages_clean(2) [OF assms]]
    fatal_value_or_fatal [OF connect_clean(1) [OF assms]] fatal_value_or_fatal [OF connect_clean(2) [OF assms]]
  show ?thesis
  proof (cases s)
    case TripSvc show ?thesis unfolding TripSvc service_main.simps trip_main_def by (rule rules)+
  next
    case DriverSvc show ?thesis unfolding DriverSvc service_main.simps driver_main_def by (rule rules)+
  next
    case LoginSvc show ?thesis unfolding LoginSvc service_main.simps login_main_def by (rule rules)+
  next
    case PaymentSvc show ?thesis unfolding PaymentSvc service_main.simps payment_main_def Let_def by (rule rules)+
  next
    case ChatSvc show ?thesis unfolding ChatSvc service_main.simps chat_main_def by (rule rules)+
  next
    case ApiGw show ?thesis unfolding ApiGw service_main.simps api_main_def Let_def by (rule rules)+
  next
    case WsGw show ?thesis unfolding WsGw service_main.simps ws_main_def Let_def by (rule rules)+
  qed
qed

section \<open>Properties\<close>


text \<open>A host on which everything answers, but for PostgreSQL, which may be down.\<close>

record life =
  lf_events :: "life_event list"
  lf_client :: rabbitmq

definition lf_add :: "life_event \<Rightarrow> life \<Rightarrow> life" where
  "lf_add e s = s\<lparr>lf_events := lf_events s @ [e]\<rparr>"

lemma lf_add_events [simp]: "lf_events (lf_add e s) = lf_events s @ [e]"
  by (simp add: lf_add_def)

definition life_broker :: "life broker" where
  "life_broker = \<lparr>bk_client = lf_client, bk_set_client = (\<lambda>c s. s\<lparr>lf_client := c\<rparr>),
     bk_dial = (\<lambda>u s. (Inr 0, lf_add BrokerUp s)), bk_channel = (\<lambda>c s. (Inr 0, s)), bk_is_closed = (\<lambda>c s. False),
     bk_close_conn = (\<lambda>c s. lf_add BrokerDown s), bk_close_chan = (\<lambda>c s. s), bk_qos = (\<lambda>c n k g s. (None, s)),
     bk_consume = (\<lambda>c q t s. (None, lf_add (Consumes q) s)), bk_exchange_declare = (\<lambda>c x a s. (None, s)),
     bk_queue_declare = (\<lambda>c q t s. (Inr q, s)), bk_queue_bind = (\<lambda>c q k x s. (None, s)),
     bk_publish = (\<lambda>c x k p s. (None, s)), bk_ack = (\<lambda>t s. (None, s)), bk_nack = (\<lambda>t q s. (None, s)),
     bk_reject = (\<lambda>t q s. (None, s))\<rparr>"

definition life_runtime :: "life runtime" where
  "life_runtime = \<lparr>run_now = (\<lambda>s. (0, s)), run_uuid = (\<lambda>s. ('''', s)), run_sleep = (\<lambda>t s. s),
     run_wait = (\<lambda>t s. (None, s)), run_ctx = (\<lambda>s. (None, s)), run_rand = (\<lambda>n s. (0, s)), run_env = (\<lambda>k s. None),
     run_int32 = (\<lambda>x. 0), run_inject = (\<lambda>h. h)\<rparr>"

definition life_migrations :: "life migration_db" where
  "life_migrations = \<lparr>md_create_table = (\<lambda>s. (None, s)), md_read_dir = (\<lambda>d s. (Inr [], s)),
     md_read_file = (\<lambda>p s. (Inr '''', s)), md_applied = (\<lambda>v s. (Inr True, s)), md_begin = (\<lambda>s. (None, s)),
     md_exec = (\<lambda>c s. (None, s)), md_insert = (\<lambda>v s. (None, s)), md_rollback = (\<lambda>s. s), md_commit = (\<lambda>s. (None, s))\<rparr>"

definition life_host :: "bool \<Rightarrow> life host" where
  "life_host pg = \<lparr>ho_rt = life_runtime, ho_broker = life_broker,
     ho_tel = \<lparr>tl_trace_exporter = (\<lambda>e i s. (None, s)), tl_metric_exporter = (\<lambda>e i s. (None, s)),
       tl_resource = (\<lambda>a s. (None, s)), tl_set_tracer = lf_add TracerUp, tl_set_meter = (\<lambda>d. lf_add MeterUp),
       tl_stop_tracer = (\<lambda>b. lf_add (TracerDown b)), tl_stop_meter = (\<lambda>b. lf_add (MeterDown b))\<rparr>,
     ho_mongo = \<lparr>mv_connect = (\<lambda>d u s. (Inr 0, s)), mv_ping = (\<lambda>d c s. (None, lf_add MongoUp s)),
       mv_disconnect = (\<lambda>b c. lf_add (MongoDown b))\<rparr>,
     ho_sql = \<lparr>sq_open = (\<lambda>n d s. (Inr 0, s)), sq_pool = (\<lambda>c m i d s. s),
       sq_ping = (\<lambda>d c s. if pg then (None, lf_add PostgresUp s) else (Some (ErrMsg ''refused''), s)),
       sq_close = (\<lambda>c. lf_add PostgresDown)\<rparr>,
     ho_migrations = (\<lambda>c. life_migrations),
     ho_redis_ping = (\<lambda>a s. (None, lf_add RedisUp s)), ho_redis_close = (\<lambda>a. lf_add RedisDown),
     ho_dial = (\<lambda>u s. (Inr 0, lf_add ClientUp s)), ho_hangup = (\<lambda>c s. (None, lf_add ClientDown s)),
     ho_listen = (\<lambda>a s. (None, lf_add (Listening a) s)), ho_serve_grpc = (\<lambda>a. lf_add (ServesGrpc a)),
     ho_serve_http = (\<lambda>a c. lf_add ServesHttp), ho_select = (\<lambda>s. (Interrupted, s)), ho_signal = (\<lambda>s. s),
     ho_cancel = lf_add Cancelled, ho_done = (\<lambda>s. Cancelled \<in> set (lf_events s)),
     ho_http_shutdown = (\<lambda>a s. (None, lf_add HttpStopped s)), ho_http_close = (\<lambda>a s. s),
     ho_grpc_stop = lf_add GrpcStopped\<rparr>"

lemma life_host_lives: "host_lives (life_host pg) lf_events"
proof -
  have "RunMigrations life_migrations d w = (None, w)" for d w
    by (simp add: RunMigrations_def life_migrations_def upMigrations_def)
  then show ?thesis
    by (simp add: host_lives_def telemetry_lives_def broker_lives_def declares_keep_def stores_live_def servers_live_def
        life_host_def life_broker_def if_ok_def)
qed

definition newborn :: life where
  "newborn = \<lparr>lf_events = [], lf_client = \<lparr>rq_conn = 0, rq_Channel = 0, rq_uri = ''''\<rparr>\<rparr>"

lemma login_boots: "fst (service_main LoginSvc (life_host pg) newborn) = (if pg then Returns () else Exits)"
proof -
  have m: "RunMigrations life_migrations d w = (None, w)" for d w
    by (simp add: RunMigrations_def life_migrations_def upMigrations_def)
  show ?thesis
    by (simp add: login_main_def with_telemetry_def Let_def InitTracer_def InitMeter_def tracer_cfg_def GetString_def
        life_host_def life_runtime_def endpoint_examples NewExporter_def newTraceProvider_def newResource_def trim_space_def
        is_space_def or_fatal_def value_or_fatal_def deferring_def NewPostgresDB_def login_serve_def m)
qed




end
