(* ===== verification/Simulator.thy ===== *)
theory Simulator
  imports Url Tokens WsGateway TripAnswers
begin

text \<open>
  \<open>tools/simulate_drivers/main.go\<close>: simulated drivers that connect to the WebSocket gateway, send their
  position and answer trip requests. Flags are a record, the dialer, the connection and the random
  numbers are parameters. Log lines are left out.
\<close>

section \<open>Flags, tokens and frames\<close>

record sim_flags =
  fg_wsURL :: string
  fg_jwtSecret :: string
  fg_centerLat :: float64
  fg_centerLng :: float64
  fg_countPerPkg :: int
  fg_packagesCSV :: string
  fg_interval :: duration
  fg_response :: string
  fg_location :: string

definition default_flags :: sim_flags where
  "default_flags = \<lparr>fg_wsURL = ''ws://localhost:8080/ws/drivers'', fg_jwtSecret = ''change-me-in-production'',
     fg_centerLat = f64_round (129352 / 10000), fg_centerLng = f64_round (776245 / 10000), fg_countPerPkg = 3,
     fg_packagesCSV = ''sedan,suv,van'', fg_interval = seconds 5, fg_response = ''none'', fg_location = ''static''\<rparr>"

text \<open>A map of claims is written with its keys in order.\<close>

definition sim_claims :: "string \<Rightarrow> string \<Rightarrow> int \<Rightarrow> int \<Rightarrow> json" where
  "sim_claims driverID name expiry issued =
     JObj [(''email'', JStr (driverID @ ''@sim.local'')), (''exp'', JInt expiry), (''iat'', JInt issued),
           (''name'', JStr name), (''role'', JStr ''driver''), (''user_id'', JStr driverID)]"

definition makeToken :: "'w jwt \<Rightarrow> 'w runtime \<Rightarrow> string \<Rightarrow> string \<Rightarrow> string \<Rightarrow> 'w \<Rightarrow> string res \<times> 'w" where
  "makeToken J rt driverID name secret w =
     (case run_now rt w of (t1, w1) \<Rightarrow>
     (case run_now rt w1 of (t2, w2) \<Rightarrow>
        (jw_sign J secret (sim_claims driverID name (numeric_date (t1 + sint (hours 24))) (numeric_date t2)), w2)))"

record sim_message =
  sg_Type :: string
  sg_Data :: raw

definition sim_message_fields :: "sim_message fields" where
  "sim_message_fields = [fld ''type'' sg_Type sg_Type_update dec_str, fld ''data'' sg_Data sg_Data_update dec_raw]"

definition enc_sim_message :: "sim_message \<Rightarrow> json option" where
  "enc_sim_message m = enc_obj [mem_str ''type'' (sg_Type m), Member ''data'' (marshal_raw (sg_Data m))]"

abbreviation read_sim :: "raw \<Rightarrow> sim_message res" where
  "read_sim raw \<equiv> unmarshal (dec_struct sim_message_fields) \<lparr>sg_Type = '''', sg_Data = RawNil\<rparr> raw"

text \<open>\<open>msg, _ := json.Marshal(...)\<close>: on an error the bytes are nil.\<close>

definition or_nil :: "raw res \<Rightarrow> raw" where
  "or_nil r = (case r of Inr b \<Rightarrow> b | Inl e \<Rightarrow> RawNil)"

definition cmdLocation :: string where "cmdLocation = ''driver.cmd.location''"
definition cmdTripRequest :: string where "cmdTripRequest = ''driver.cmd.trip_request''"
definition cmdTripAccept :: string where "cmdTripAccept = ''driver.cmd.trip_accept''"
definition cmdTripDecline :: string where "cmdTripDecline = ''driver.cmd.trip_decline''"

section \<open>The random walk\<close>

record position =
  po_lat :: float64
  po_lng :: float64

fun f64_neg :: "float64 \<Rightarrow> float64" where
  "f64_neg (F64 a) = F64 (- a)"
| "f64_neg PosInf = NegInf"
| "f64_neg NegInf = PosInf"
| "f64_neg NotANumber = NotANumber"

definition f64_sub :: "float64 \<Rightarrow> float64 \<Rightarrow> float64" where
  "f64_sub x y = f64_add x (f64_neg y)"

fun f64_greater :: "float64 \<Rightarrow> float64 \<Rightarrow> bool" where
  "f64_greater NotANumber y = False"
| "f64_greater x NotANumber = False"
| "f64_greater (F64 a) (F64 b) = (a > b)"
| "f64_greater PosInf y = (y \<noteq> PosInf)"
| "f64_greater x NegInf = (x \<noteq> NegInf)"
| "f64_greater x y = False"

definition stepDeg :: float64 where "stepDeg = f64_round (1 / 1000)"
definition maxRadius :: float64 where "maxRadius = f64_round (9 / 100)"

text \<open>The constant product is exact before it is rounded.\<close>

definition radiusCap :: float64 where "radiusCap = f64_round (81 / 10000)"

text \<open>\<open>step\<close>, with the two random numbers it draws.\<close>

definition random_delta :: "float64 \<Rightarrow> float64" where
  "random_delta r = f64_mul (f64_mul (f64_sub r (F64 (1 / 2))) (F64 2)) stepDeg"

definition walk_step :: "float64 \<Rightarrow> float64 \<Rightarrow> float64 \<Rightarrow> float64 \<Rightarrow> position \<Rightarrow> position" where
  "walk_step r1 r2 centerLat centerLng p =
     (let lat = f64_add (po_lat p) (random_delta r1);
          lng = f64_add (po_lng p) (random_delta r2);
          dLat = f64_sub lat centerLat;
          dLng = f64_sub lng centerLng;
          dist = f64_add (f64_mul dLat dLat) (f64_mul dLng dLng)
      in if f64_greater dist radiusCap then
           (let scale = f64_div maxRadius (f64_mul dist dist)
            in \<lparr>po_lat = f64_add centerLat (f64_mul dLat scale), po_lng = f64_add centerLng (f64_mul dLng scale)\<rparr>)
         else \<lparr>po_lat = lat, po_lng = lng\<rparr>)"

section \<open>A simulated driver\<close>

text \<open>
  The connection: dialling a URL, whose text the library makes of its parts, writing a text message,
  closing; and \<open>math.Float64\<close>.
\<close>

record 'w sim_net =
  sx_dial :: "url \<Rightarrow> 'w \<Rightarrow> nat res \<times> 'w"
  sx_write :: "nat \<Rightarrow> raw \<Rightarrow> 'w \<Rightarrow> goerror option \<times> 'w"
  sx_close :: "nat \<Rightarrow> 'w \<Rightarrow> 'w"
  sx_float :: "'w \<Rightarrow> float64 \<times> 'w"

definition sim_url :: "url \<Rightarrow> string \<Rightarrow> string \<Rightarrow> url" where
  "sim_url u token pkg =
     u\<lparr>u_RawQuery := Encode (values_set ''packageSlug'' pkg (values_set ''token'' token (Query u)))\<rparr>"

text \<open>A map of floats that cannot be encoded gives nil, and nil data is sent as null.\<close>

definition enc_position :: "position \<Rightarrow> json option" where
  "enc_position p = enc_obj [Member ''location'' (enc_obj [mem_f64 ''latitude'' (po_lat p), mem_f64 ''longitude'' (po_lng p)])]"

definition location_message :: "position \<Rightarrow> raw" where
  "location_message p =
     or_nil (marshal enc_sim_message \<lparr>sg_Type = cmdLocation, sg_Data = or_nil (marshal enc_position p)\<rparr>)"

definition sendLocation :: "'w sim_net \<Rightarrow> nat \<Rightarrow> position \<Rightarrow> 'w \<Rightarrow> goerror option \<times> 'w" where
  "sendLocation X conn pos w = sx_write X conn (location_message pos) w"

text \<open>What the driver sends on a message from the gateway.\<close>

definition sim_reply :: "string \<Rightarrow> sim_message \<Rightarrow> raw option" where
  "sim_reply response msg =
     (if sg_Type msg = cmdTripRequest then
        (if response = ''accept'' then Some (or_nil (marshal enc_sim_message \<lparr>sg_Type = cmdTripAccept, sg_Data = sg_Data msg\<rparr>))
         else if response = ''decline'' then Some (or_nil (marshal enc_sim_message \<lparr>sg_Type = cmdTripDecline, sg_Data = sg_Data msg\<rparr>))
         else None)
      else None)"

text \<open>
  The loop of a driver over what \<open>select\<close> gives it: a tick (only in the mode that walks), a message
  or the end of the connection. The reading goroutine drops a frame that is not a message. The loop ends
  with the connection or with a position that cannot be written; else it waits for more.
\<close>

datatype sim_event = Tick | Incoming raw | Disconnect
datatype sim_end = Disconnected | WriteFailed goerror | StillRunning

fun driver_loop ::
  "sim_flags \<Rightarrow> 'w sim_net \<Rightarrow> nat \<Rightarrow> sim_event list \<Rightarrow> position \<Rightarrow> 'w \<Rightarrow> sim_end \<times> position \<times> 'w" where
  "driver_loop F X conn [] pos w = (StillRunning, pos, w)"
| "driver_loop F X conn (Disconnect # es) pos w = (Disconnected, pos, w)"
| "driver_loop F X conn (Tick # es) pos w =
     (if fg_location F = ''walk'' then
        (case sx_float X w of (r1, w1) \<Rightarrow>
        (case sx_float X w1 of (r2, w2) \<Rightarrow>
          (let pos' = walk_step r1 r2 (fg_centerLat F) (fg_centerLng F) pos
           in case sendLocation X conn pos' w2 of
                (Some e, w3) \<Rightarrow> (WriteFailed e, pos', w3)
              | (None, w3) \<Rightarrow> driver_loop F X conn es pos' w3)))
      else driver_loop F X conn es pos w)"
| "driver_loop F X conn (Incoming raw # es) pos w =
     (case read_sim raw of
        Inl e \<Rightarrow> driver_loop F X conn es pos w
      | Inr msg \<Rightarrow>
          (case sim_reply (fg_response F) msg of
             None \<Rightarrow> driver_loop F X conn es pos w
           | Some reply \<Rightarrow> (case sx_write X conn reply w of (_, w1) \<Rightarrow> driver_loop F X conn es pos w1)))"

text \<open>The start position: up to a hundredth of a degree from the centre.\<close>

definition start_offset :: "float64 \<Rightarrow> float64 \<Rightarrow> float64" where
  "start_offset center r = f64_add center (f64_mul (f64_sub r (F64 (1 / 2))) (f64_round (2 / 100)))"

text \<open>
  \<open>runDriver\<close>: the error of \<open>url.Parse\<close> is dropped, so a URL that does not parse is a nil pointer; a
  ticker needs an interval above zero. The result is \<open>None\<close> when the driver could not connect or send its first position.
\<close>

definition runDriver ::
  "sim_flags \<Rightarrow> 'w sim_net \<Rightarrow> string \<Rightarrow> string \<Rightarrow> sim_event list \<Rightarrow> 'w \<Rightarrow> (sim_end \<times> position) option outcome \<times> 'w" where
  "runDriver F X pkg token es w =
     (case Parse (fg_wsURL F) of
        None \<Rightarrow> (Panics, w)
      | Some u \<Rightarrow>
          (case sx_dial X (sim_url u token pkg) w of
             (Inl e, w1) \<Rightarrow> (Returns None, w1)
           | (Inr conn, w1) \<Rightarrow>
               (case sx_float X w1 of (r1, w2) \<Rightarrow>
               (case sx_float X w2 of (r2, w3) \<Rightarrow>
                 (let pos = \<lparr>po_lat = start_offset (fg_centerLat F) r1, po_lng = start_offset (fg_centerLng F) r2\<rparr>
                  in if fg_location F = ''walk'' \<and> fg_interval F \<le>s 0 then (Panics, sx_close X conn w3)
                     else case (if fg_location F = ''static'' then sendLocation X conn pos w3 else (None, w3)) of
                       (Some e, w4) \<Rightarrow> (Returns None, sx_close X conn w4)
                     | (None, w4) \<Rightarrow>
                         (case driver_loop F X conn es pos w4 of
                            (result, pos', w5) \<Rightarrow> (Returns (Some (result, pos')), sx_close X conn w5)))))))"

section \<open>Main\<close>

record sim_driver =
  sd_ID :: string
  sd_Package :: string
  sd_Name :: string
  sd_Token :: string

fun upper_char :: "char \<Rightarrow> char" where
  "upper_char (Char b0 b1 b2 b3 b4 b5 b6 b7) =
     (if \<not> b7 \<and> b6 \<and> b5 \<and> (b0 \<or> b1 \<or> b2 \<or> b3 \<or> b4) \<and> \<not> (b4 \<and> b3 \<and> (b2 \<or> b1 \<and> b0))
      then Char b0 b1 b2 b3 b4 False b6 b7 else Char b0 b1 b2 b3 b4 b5 b6 b7)"

text \<open>
  The drivers of one package: a package name that is empty, as after a comma at the end of the
  list, makes \<open>pkg[:1]\<close> panic, and a token that cannot be made ends the process. Upper case is ASCII.
\<close>

fun package_drivers ::
  "'w jwt \<Rightarrow> 'w runtime \<Rightarrow> string \<Rightarrow> string \<Rightarrow> nat list \<Rightarrow> 'w \<Rightarrow> sim_driver list outcome \<times> 'w" where
  "package_drivers J rt secret pkg [] w = (Returns [], w)"
| "package_drivers J rt secret pkg (i # is) w =
     (case pkg of
        [] \<Rightarrow> (Panics, w)
      | c # cs \<Rightarrow>
          (let driverID = ''sim-'' @ pkg @ ''-'' @ show_nat i;
               name = ''Sim Driver '' @ (upper_char c # cs) @ '' '' @ show_nat (Suc i)
           in case makeToken J rt driverID name secret w of
                (Inl e, w1) \<Rightarrow> (Exits, w1)
              | (Inr token, w1) \<Rightarrow>
                  bindo (package_drivers J rt secret pkg is w1)
                    (\<lambda>ds w2. (Returns (\<lparr>sd_ID = driverID, sd_Package = pkg, sd_Name = name, sd_Token = token\<rparr> # ds), w2))))"

fun all_drivers ::
  "'w jwt \<Rightarrow> 'w runtime \<Rightarrow> string \<Rightarrow> int \<Rightarrow> string list \<Rightarrow> 'w \<Rightarrow> sim_driver list outcome \<times> 'w" where
  "all_drivers J rt secret n [] w = (Returns [], w)"
| "all_drivers J rt secret n (pkg # pkgs) w =
     bindo (package_drivers J rt secret (trim_space pkg) [0..<nat n] w) (\<lambda>ds w1.
       bindo (all_drivers J rt secret n pkgs w1) (\<lambda>es w2. (Returns (ds @ es), w2)))"

text \<open>\<open>main\<close> up to the wait for the goroutines: the drivers it starts.\<close>

definition simulate_drivers :: "'w jwt \<Rightarrow> 'w runtime \<Rightarrow> sim_flags \<Rightarrow> 'w \<Rightarrow> sim_driver list outcome \<times> 'w" where
  "simulate_drivers J rt F w =
     (if fg_response F \<notin> {''none'', ''accept'', ''decline''} then (Exits, w)
      else if fg_location F \<notin> {''none'', ''static'', ''walk''} then (Exits, w)
      else all_drivers J rt (fg_jwtSecret F) (fg_countPerPkg F) (split_char (CHR '','') (fg_packagesCSV F)) w)"

end
