(* ===== verification/Simulator_Facts.thy ===== *)
theory Simulator_Facts
  imports Simulator
begin

text \<open>
  What the simulated drivers and the gateway make of each other: the query that carries the token and the
  package comes through, the token opens the gateway, but the automatic answer to a trip request names no
  trip.
\<close>

section \<open>The query comes through\<close>

lemma byte_less: "byte c < 256"
proof -
  have "of_char (char_of (of_char c :: nat)) = (of_char c :: nat) mod 256" by (rule of_char_of)
  then show ?thesis unfolding byte_def by (metis char_of_char mod_less_divisor zero_less_numeral)
qed

lemma char_of_byte: "char_of (byte c) = c"
  by (simp add: byte_def)

lemma unhex_digit:
  assumes "k < 16"
  shows "unhex (upper_hex ! k) = Some k"
proof -
  have "k = 0 \<or> k = 1 \<or> k = 2 \<or> k = 3 \<or> k = 4 \<or> k = 5 \<or> k = 6 \<or> k = 7 \<or> k = 8 \<or> k = 9 \<or> k = 10 \<or> k = 11
      \<or> k = 12 \<or> k = 13 \<or> k = 14 \<or> k = 15"
    using assms by presburger
  then show ?thesis by (elim disjE) (simp_all add: upper_hex_def unhex_def byte_def Let_def)
qed

lemma unescape_QueryEscape [simp]: "unescape encodeQueryComponent (QueryEscape s) = Some s"
proof (induction s)
  case Nil
  show ?case by (simp add: QueryEscape_def)
next
  case (Cons c s)
  have hex: "unhex (upper_hex ! (byte c div 16)) = Some (byte c div 16)" "unhex (upper_hex ! (byte c mod 16)) = Some (byte c mod 16)"
    using byte_less [of c] by (auto intro!: unhex_digit)
  have c: "char_of (16 * (byte c div 16) + byte c mod 16) = c" using char_of_byte [of c] by simp
  have e: "shouldEscape (CHR ''%'') encodeQueryComponent" "shouldEscape (CHR ''+'') encodeQueryComponent" by code_simp+
  show ?case
  proof (cases "c = CHR '' '' \<or> shouldEscape c encodeQueryComponent")
    case True
    then show ?thesis
      using Cons hex c by (auto simp: QueryEscape_def escape_char_def escape_ok_def)
  next
    case False
    with e have "c \<noteq> CHR ''%''" "c \<noteq> CHR ''+''" by auto
    with False Cons show ?thesis by (simp add: QueryEscape_def escape_char_def)
  qed
qed

lemma QueryEscape_safe:
  assumes "x \<in> set (QueryEscape s)"
  shows "x \<notin> {CHR ''&'', CHR ''='', CHR '';''}"
proof -
  have h: "upper_hex ! k \<notin> {CHR ''&'', CHR ''='', CHR '';''}" if "k < 16" for k
    using unhex_digit [OF that] by (auto simp: unhex_def byte_def)
  have e: "shouldEscape y encodeQueryComponent" if "y \<in> {CHR ''&'', CHR ''='', CHR '';''}" for y
    using that by (auto simp: shouldEscape_def alphanumeric_def byte_def)
  obtain c where x: "x \<in> set (escape_char c)"
    using assms by (auto simp: QueryEscape_def)
  have "byte c div 16 < 16" "byte c mod 16 < 16" using byte_less [of c] by auto
  with x h [of "byte c div 16"] h [of "byte c mod 16"] e [of x] show ?thesis
    by (auto simp: escape_char_def split: if_splits)
qed

text \<open>A pair of the query, and the list of pairs joined and split again.\<close>

definition query_pair :: "string \<times> string \<Rightarrow> string" where
  "query_pair kv = QueryEscape (fst kv) @ ''='' @ QueryEscape (snd kv)"

lemma split_char_plain: "sep \<notin> set s \<Longrightarrow> split_char sep s = [s]"
  by (induction s) auto

lemma split_char_append: "sep \<notin> set s \<Longrightarrow> split_char sep (s @ sep # t) = s # split_char sep t"
  by (induction s) auto

lemma split_join:
  assumes "\<forall>p\<in>set ps. CHR ''&'' \<notin> set p" "ps \<noteq> []"
  shows "split_char (CHR ''&'') (join_amp ps) = ps"
  using assms
proof (induction ps)
  case (Cons p ps)
  show ?case
  proof (cases ps)
    case Nil
    with Cons.prems show ?thesis by (simp add: join_amp_def split_char_plain)
  next
    case (Cons q qs)
    have "join_amp (p # ps) = p @ CHR ''&'' # join_amp ps" by (simp add: join_amp_def Cons)
    with Cons.prems Cons.IH Cons show ?thesis by (simp add: split_char_append)
  qed
qed simp

lemma cut_first: "sep \<notin> set s \<Longrightarrow> cut sep (s @ sep # t) = (s, t, True)"
  by (induction s) auto

lemma parse_query_pair:
  "parse_pairs (query_pair (k, v) # kvs) m = parse_pairs kvs (values_add k v m)"
proof -
  have "CHR '';'' \<notin> set (query_pair (k, v))" "query_pair (k, v) \<noteq> []"
    using QueryEscape_safe by (auto simp: query_pair_def)
  moreover have "cut (CHR ''='') (query_pair (k, v)) = (QueryEscape k, QueryEscape v, True)"
    using QueryEscape_safe [of "CHR ''=''" k] by (auto simp: query_pair_def intro!: cut_first)
  ultimately show ?thesis by simp
qed

lemma parse_query_pairs: "parse_pairs (map query_pair kvs) m = fold (\<lambda>(k, v). values_add k v) kvs m"
  by (induction kvs arbitrary: m) (auto simp: parse_query_pair simp del: parse_pairs.simps(2))

definition values_of :: "query_values \<Rightarrow> string \<Rightarrow> string list" where
  "values_of m k = (case map_of m k of None \<Rightarrow> [] | Some vs \<Rightarrow> vs)"

lemma values_of_add: "values_of (values_add k v m) j = (if j = k then values_of m k @ [v] else values_of m j)"
  by (induction k v m rule: values_add.induct) (auto simp: values_of_def)

lemma values_of_fold:
  "values_of (fold (\<lambda>(k, v). values_add k v) kvs m) j = values_of m j @ map snd (filter (\<lambda>kv. fst kv = j) kvs)"
  by (induction kvs arbitrary: m) (auto simp: values_of_add)

lemma filter_grouped:
  assumes "distinct ks"
  shows "map snd (filter (\<lambda>kv. fst kv = j) (concat (map (\<lambda>k. map (Pair k) (f k)) ks))) = (if j \<in> set ks then f j else [])"
  using assms
proof (induction ks)
  case (Cons k ks)
  have "filter (\<lambda>kv. fst kv = j) (map (Pair k) (f k)) = (if j = k then map (Pair k) (f k) else [])"
    by (auto simp: filter_map o_def)
  with Cons show ?case by (auto simp: o_def)
qed simp

text \<open>What \<open>Encode\<close> writes, \<open>Query\<close> reads.\<close>

lemma query_roundtrip:
  assumes "distinct (map fst m)"
  shows "values_of (Query (u\<lparr>u_RawQuery := Encode m\<rparr>)) j = values_of m j"
proof -
  define kvs where "kvs = concat (map (\<lambda>k. map (Pair k) (values_of m k)) (sort (map fst m)))"
  have p: "(case map_of m k of None \<Rightarrow> [] | Some vs \<Rightarrow> map (\<lambda>v. QueryEscape k @ ''='' @ QueryEscape v) vs)
      = map query_pair (map (Pair k) (values_of m k))" for k
    by (simp add: values_of_def query_pair_def split: option.split)
  have e: "Encode m = join_amp (map query_pair kvs)"
    unfolding Encode_def p kvs_def map_concat map_map o_def ..
  have d: "distinct (sort (map fst m))" using assms by simp
  have "Query (u\<lparr>u_RawQuery := Encode m\<rparr>) = fold (\<lambda>(k, v). values_add k v) kvs []"
  proof (cases "kvs = []")
    case True
    then show ?thesis by (simp add: Query_def e join_amp_def)
  next
    case False
    have "\<forall>p\<in>set (map query_pair kvs). CHR ''&'' \<notin> set p"
      using QueryEscape_safe by (auto simp: query_pair_def)
    with False have "split_char (CHR ''&'') (Encode m) = map query_pair kvs"
      unfolding e by (intro split_join) auto
    then show ?thesis by (simp add: Query_def parse_query_pairs)
  qed
  then have "values_of (Query (u\<lparr>u_RawQuery := Encode m\<rparr>)) j = (if j \<in> fst ` set m then values_of m j else [])"
    using filter_grouped [OF d, of j "values_of m"] by (simp add: values_of_fold kvs_def) (simp add: values_of_def)
  also have "\<dots> = values_of m j" 
    by (cases "map_of m j") (force simp: values_of_def dest: map_of_SomeD)+
  finally show ?thesis .
qed

text \<open>\<open>r.URL.Query().Get(k)\<close>, the first value.\<close>

definition query_get :: "query_values \<Rightarrow> string \<Rightarrow> string" where
  "query_get m k = (case values_of m k of [] \<Rightarrow> '''' | v # vs \<Rightarrow> v)"

lemma keys_add: "set (map fst (values_add k v m)) = insert k (set (map fst m))"
  "distinct (map fst m) \<Longrightarrow> distinct (map fst (values_add k v m))"
  by (induction k v m rule: values_add.induct) auto

lemma keys_set: "set (map fst (values_set k v m)) = insert k (set (map fst m))"
  "distinct (map fst m) \<Longrightarrow> distinct (map fst (values_set k v m))"
  by (induction k v m rule: values_set.induct) auto

lemma values_of_set: "values_of (values_set k v m) j = (if j = k then [v] else values_of m j)"
  by (induction k v m rule: values_set.induct) (auto simp: values_of_def)

lemma distinct_query: "distinct (map fst m) \<Longrightarrow> distinct (map fst (parse_pairs kvs m))"
  by (induction kvs m rule: parse_pairs.induct) (auto simp: keys_add(2) split: prod.splits option.splits)

lemma sim_url_query:
  "query_get (Query (sim_url u token pkg)) ''token'' = token"
  "query_get (Query (sim_url u token pkg)) ''packageSlug'' = pkg"
proof -
  have "distinct (map fst (values_set ''packageSlug'' pkg (values_set ''token'' token (Query u))))"
    by (intro keys_set(2)) (simp add: Query_def distinct_query)
  note q = query_roundtrip [OF this, of u]
  show "query_get (Query (sim_url u token pkg)) ''token'' = token"
    "query_get (Query (sim_url u token pkg)) ''packageSlug'' = pkg"
    by (simp_all add: query_get_def sim_url_def q values_of_set)
qed

section \<open>The answer to a trip request\<close>

fun member_key :: "member \<Rightarrow> string set" where
  "member_key Omit = {}"
| "member_key (Member k j) = {k}"

lemma member_key_sub:
  "k \<in> K \<Longrightarrow> member_key (omit_str k s) \<subseteq> K" "k \<in> K \<Longrightarrow> member_key (omit_ptr k e p) \<subseteq> K"
  by (auto simp: omit_str_def mem_str_def omit_ptr_def split: option.split)

lemma enc_obj_shape:
  "enc_obj ms = Some v \<Longrightarrow> \<exists>kvs. v = JObj kvs \<and> fst ` set kvs \<subseteq> (\<Union>m\<in>set ms. member_key m)"
proof (induction ms arbitrary: v rule: enc_obj.induct)
  case (4 k j ms)
  from 4(2) obtain j' where "enc_obj ms = Some j'" by (cases "enc_obj ms") auto
  with 4(1) obtain kvs where "enc_obj ms = Some (JObj kvs)" "fst ` set kvs \<subseteq> (\<Union>m\<in>set ms. member_key m)"
    by blast
  with 4(2) show ?case by (intro exI [of _ "(k, j) # kvs"]) auto
qed auto

lemma dec_keys_unknown:
  "\<forall>k\<in>fst ` set kvs. find_field fs k = None \<Longrightarrow> dec_keys fs r kvs = Some r"
  by (induction kvs) auto

lemma no_answer_fields:
  "list_all (\<lambda>k. Option.is_none (find_field frontend_data_fields k))
     [''id'', ''selectedFare'', ''route'', ''status'', ''userID'', ''driver'']"
  by code_simp

text \<open>A trip in the front end's form has no member the gateway would read as the answer's trip or rider.\<close>

lemma trip_is_no_answer:
  assumes "enc_pb_trip trip = Some j"
  shows "read_answer (RawJson j) = Inr \<lparr>fd_TripID = '''', fd_RiderID = ''''\<rparr>"
proof -
  obtain kvs where j: "j = JObj kvs" and keys: "fst ` set kvs \<subseteq> (\<Union>m\<in>set
      [omit_str ''id'' (pt_Id trip), omit_ptr ''selectedFare'' enc_pb_ride_fare (pt_SelectedFare trip),
       omit_ptr ''route'' enc_pb_route (pt_Route trip), omit_str ''status'' (pt_Status trip),
       omit_str ''userID'' (pt_UserID trip), omit_ptr ''driver'' enc_pb_trip_driver (pt_Driver trip)]. member_key m)"
    using enc_obj_shape [OF assms [unfolded enc_pb_trip_def]] by blast
  have sub: "fst ` set kvs \<subseteq> {''id'', ''selectedFare'', ''route'', ''status'', ''userID'', ''driver''}"
    by (rule order_trans [OF keys]) (simp only: list.set UN_insert UN_empty Un_empty_right,
        intro Un_least member_key_sub insertI1 insertI2)
  have none: "\<forall>k\<in>{''id'', ''selectedFare'', ''route'', ''status'', ''userID'', ''driver''}. find_field frontend_data_fields k = None"
    using no_answer_fields by (simp add: Option.is_none_def)
  have "\<forall>k\<in>fst ` set kvs. find_field frontend_data_fields k = None"
    by (rule ballI, rule bspec [OF none], rule subsetD [OF sub])
  from dec_keys_unknown [OF this] show ?thesis by (simp add: j)
qed

lemma enc_ws_object:
  assumes "enc_ws_message m = Some f" "ws_Data m = RawJson j"
  shows "read_sim (RawJson f) = Inr \<lparr>sg_Type = ws_Type m, sg_Data = RawJson j\<rparr>"
  using assms by (auto simp: enc_ws_message_def sim_message_fields_def json_defs split: if_splits)

lemma reply_frame:
  assumes "sg_Data msg = RawJson j" "sg_Type msg = cmdTripRequest"
  shows "\<exists>b. sim_reply ''accept'' msg = Some b \<and> read_frame b = Inr \<lparr>wi_Type = DriverCmdTripAccept, wi_Data = RawJson j\<rparr>"
  using assms
  by (simp add: sim_reply_def or_nil_def enc_sim_message_def ws_incoming_fields_def cmdTripAccept_def DriverCmdTripAccept_def json_defs)

text \<open>The trip service on an answer that names no trip.\<close>

lemma empty_answer_refused:
  assumes "d_RoutingKey d = DriverCmdTripAccept"
    and "marshal enc_amqp_message (enriched_answer c \<lparr>fd_TripID = '''', fd_RiderID = ''''\<rparr>) = Inr (d_Body d)"
  shows "\<exists>e. driver_consumer pub (NewMongoRepository M) d v = (Returns (Some e), v)"
proof -
  have h: "ObjectIDFromHex '''' = Inl (ErrMsg ''the provided hex string is not a valid ObjectID'')"
    by (simp add: ObjectIDFromHex_def is_hex24_def)
  let ?p = "\<lparr>dr_Driver = None, dr_TripID = '''', dr_RiderID = '''', dr_DriverID = dv_UserID c,
         dr_DriverName = dv_Name c, dr_PackageSlug = dv_PackageSlug c\<rparr>"
  obtain j where j: "enc_driver_trip_response ?p = Some j"
    "dec_struct driver_trip_response_fields driver_trip_response_zero j = Some ?p"
    using driver_trip_response_roundtrip [of ?p] by auto
  have a: "enriched_answer c \<lparr>fd_TripID = '''', fd_RiderID = ''''\<rparr> = \<lparr>am_OwnerID = dv_UserID c, am_Data = RawJson j\<rparr>"
    using j(1) by (simp add: enriched_answer_def marshal_def bytes_of_def)
  obtain g where g: "enc_amqp_message \<lparr>am_OwnerID = dv_UserID c, am_Data = RawJson j\<rparr> = Some g"
    "dec_struct amqp_message_fields amqp_message_zero g = Some \<lparr>am_OwnerID = dv_UserID c, am_Data = RawJson j\<rparr>"
    using amqp_message_roundtrip [of "\<lparr>am_OwnerID = dv_UserID c, am_Data = RawJson j\<rparr>" j] by auto
  have "d_Body d = RawJson g" using assms(2) by (simp add: a marshal_def g(1))
  then have "read_event (dec_struct driver_trip_response_fields) driver_trip_response_zero d
      = Inr (\<lparr>am_OwnerID = dv_UserID c, am_Data = RawJson j\<rparr>, ?p)"
    by (simp add: read_event_def g(2) j(2))
  then show ?thesis
    by (simp add: driver_consumer_def assms(1) handleTripAccepted_def NewMongoRepository_def mongo_GetTripByID_def h)
qed

section \<open>Properties\<close>


definition sim_tokens :: "(string \<times> string \<times> json) list" where
  "sim_tokens = [(''a b&c'', ''s3cret'', sim_claims ''sim-van-0'' ''Sim Driver Van 1'' 86400 0)]"


text \<open>
  The automatic acceptance of a simulated driver accepts nothing. It echoes the trip it was sent, in
  which the gateway finds neither the trip's nor the rider's identifier: no chat is set up, the answer is
  published without them, and the trip service can only return an error for it.
\<close>

theorem simulated_accept_names_no_trip:
  assumes "client_message DriverCmdTripRequest body = Inr (Some (u, m))" "marshal enc_ws_message m = Inr f"
    and "d_RoutingKey d = DriverCmdTripAccept"
    and "marshal enc_amqp_message (enriched_answer c \<lparr>fd_TripID = '''', fd_RiderID = ''''\<rparr>) = Inr (d_Body d)"
  shows "\<exists>msg b e. read_sim f = Inr msg \<and> sim_reply ''accept'' msg = Some b
     \<and> driver_frame R rt pub c b rcm w =
         (case bindo (pub DriverCmdTripAccept (enriched_answer c \<lparr>fd_TripID = '''', fd_RiderID = ''''\<rparr>) w)
                 (\<lambda>_ w2. (Returns [], w2)) of (r, w2) \<Rightarrow> (r, rcm, w2))
     \<and> driver_consumer pub' (NewMongoRepository M) d v = (Returns (Some e), v)"
proof -
  let ?a = "\<lparr>fd_TripID = '''', fd_RiderID = ''''\<rparr>"
  have k: "DriverCmdTripRequest \<in> set trip_keys" by (simp add: trip_keys_def)
  obtain am :: amqp_message where am: "ws_Type m = DriverCmdTripRequest" "canonicalizeWSData DriverCmdTripRequest (am_Data am) = Inr (Some (ws_Data m))"
    using client_message_send [OF assms(1)] by blast
  then have "canonicalTripJSON (am_Data am) = Inr (ws_Data m)"
    using trip_key_canonicalizer [OF k] by (auto simp: canonicalizeWSData_def canonicalizeTripPayload_def split: sum.splits)
  then obtain trip j where t: "enc_pb_trip trip = Some j" "ws_Data m = RawJson j" using canonicalTripJSON_ok by blast
  obtain g where g: "f = RawJson g" "enc_ws_message m = Some g"
    using assms(2) by (auto simp: marshal_def split: option.splits)
  let ?msg = "\<lparr>sg_Type = ws_Type m, sg_Data = RawJson j\<rparr>"
  have rd: "read_sim f = Inr ?msg" using enc_ws_object [OF g(2) t(2)] g(1) by (simp only:)
  obtain b where b: "sim_reply ''accept'' ?msg = Some b"
    "read_frame b = Inr \<lparr>wi_Type = DriverCmdTripAccept, wi_Data = RawJson j\<rparr>"
    using reply_frame [of ?msg j] am(1) by (auto simp: cmdTripRequest_def DriverCmdTripRequest_def)
  have fr: "driver_frame R rt pub c b rcm w =
      (case bindo (pub DriverCmdTripAccept (enriched_answer c ?a) w) (\<lambda>_ w2. (Returns [], w2)) of (r, w2) \<Rightarrow> (r, rcm, w2))"
    using b(2) trip_is_no_answer [OF t(1)]
    by (simp add: driver_frame_def accept_frame_def take_chat_def DriverCmdLocation_def DriverCmdTripAccept_def del: unmarshal.simps unmarshal_Inr_iff)
  obtain e where "driver_consumer pub' (NewMongoRepository M) d v = (Returns (Some e), v)"
    using empty_answer_refused [OF assms(3,4), where M = M and v = v and pub = pub'] by blast
  with rd b(1) fr show ?thesis by blast
qed

definition offered_body :: raw where
  "offered_body = RawJson (JObj [(''ownerId'', JStr ''driver-1''), (''data'', JObj [(''trip'',
     JObj [(''id'', JStr ''trip-1''), (''userID'', JStr ''rider-1''), (''status'', JStr ''pending'')])])])"

definition offered_push :: ws_message where
  "offered_push = \<lparr>ws_Type = DriverCmdTripRequest, ws_Topic = '''', ws_RoomID = '''',
     ws_Data = RawJson (JObj [(''id'', JStr ''trip-1''), (''status'', JStr ''pending''),
                              (''userID'', JStr ''rider-1'')])\<rparr>"

lemma offered: "client_message DriverCmdTripRequest offered_body = Inr (Some (''driver-1'', offered_push))"
  by code_simp

definition sim_conn :: driver_conn where
  "sim_conn = \<lparr>dv_SocketID = ''s1'', dv_UserID = ''driver-1'', dv_Name = ''Sim'', dv_PackageSlug = ''van''\<rparr>"

theorem simulated_accept_names_no_trip_witness:
  "\<exists>d e. d_RoutingKey d = DriverCmdTripAccept
     \<and> driver_consumer (\<lambda>k m w. (Returns None, w)) (NewMongoRepository sim_mongo) d tsim0 = (Returns (Some e), tsim0)"
proof -
  obtain f where f: "marshal enc_ws_message offered_push = Inr f"
    by (simp add: marshal_def enc_ws_message_def offered_push_def json_defs)
  obtain b where b: "marshal enc_amqp_message (enriched_answer sim_conn \<lparr>fd_TripID = '''', fd_RiderID = ''''\<rparr>) = Inr b"
    by (simp add: enriched_answer_def codec_defs json_defs bytes_of_def sim_conn_def)
  define d where "d = sample_delivery\<lparr>d_RoutingKey := DriverCmdTripAccept, d_Body := b\<rparr>"
  have d: "d_RoutingKey d = DriverCmdTripAccept"
    "marshal enc_amqp_message (enriched_answer sim_conn \<lparr>fd_TripID = '''', fd_RiderID = ''''\<rparr>) = Inr (d_Body d)"
    by (simp_all add: d_def b)
  from simulated_accept_names_no_trip [where rcm = NewRedisConnectionManager and w = sim0 and R = sim_redis
      and rt = sim_runtime and pub = "\<lambda>k m w. (Returns None, w)" and pub' = "\<lambda>k m w. (Returns None, w)"
      and M = sim_mongo and v = tsim0, OF offered f d] d(1)
  show ?thesis by blast
qed

end
