(* ===== verification/Spec2Isabelle.thy ===== *)
theory Spec2Isabelle
  imports RetryLoop RabbitMQ_Facts ConnectionManager RedisCM_Facts QueueConsumer TripFailures WsGateway_Facts Login_Facts Migrations
    DriverService Payment Chat ApiGateway_Facts Dispatch ChatRelay Cancelling Scaffold InMemory KeepAlive Startup_Facts Simulator_Facts
begin

text \<open>
  Verification of a ride-sharing backend: seven Go services and a dead-letter worker that talk through
  RabbitMQ, Redis, MongoDB, PostgreSQL, gRPC and WebSockets.

  The program. A rider previews and starts a trip through the API gateway
  (\<open>services/api-gateway\<close>), which calls the trip service (\<open>services/trip-service\<close>) over gRPC.
  The trip service keeps trips in MongoDB and fare previews in Redis and publishes events on the exchange
  \<open>trip\<close>. The driver service (\<open>services/driver-service\<close>) finds a driver near the pick-up
  point and asks for an answer, which the WebSocket gateway (\<open>services/ws-gateway\<close>) pushes to the
  driver's socket and brings back. An accepted trip goes to the payment service
  (\<open>services/payment-service\<close>), whose Stripe session is paid outside and reported by the webhook of
  the API gateway. Rider and driver chat through the WebSocket gateway and the chat service
  (\<open>services/chat-service\<close>). The login service (\<open>services/login-service\<close>) issues the tokens both
  gateways check. \<open>shared/\<close> holds the contracts, the broker client, the connection managers, retries,
  tracing and databases; \<open>services/dlq-worker\<close> takes failed messages from the dead-letter queue.

  How the model is made. A struct is a record, a Go error a value of \<open>goerror\<close>, a result a sum or
  an option, and \<open>outcome\<close> adds a panic and the end of the process through \<open>log.Fatal\<close>.
  State is passed explicitly. The systems below the services (\<open>External\<close>, and records of operations
  in the theories that need them: MongoDB, PostgreSQL, Stripe, JWT, bcrypt, OpenTelemetry, the host of a
  \<open>main\<close>) are parameters over a world of any type; what a theorem needs of one is a named predicate,
  and \<open>Reference\<close> and the worlds in the fact theories satisfy these predicates, so that every witness
  runs the model. Machine integers are words (\<open>time.Duration\<close> and the counter of the retry loop are
  64-bit), floats are binary64 with rounding. Bytes are what the JSON scanner makes of them, and the
  encoders and field tables of the contracts carry what the services read of each other.

  Theories.
  \<^item> Foundations: \<open>Prelude\<close> (errors, outcomes, strings, maps), \<open>Float64\<close>, \<open>Json\<close>,
    \<open>Http\<close>, \<open>Net\<close> and \<open>Url\<close> (what the code uses of Go's library; \<open>Http\<close> also has
    \<open>shared/env\<close>, \<open>shared/util\<close> and \<open>shared/contracts/http.go\<close>), \<open>External\<close>,
    \<open>Reference\<close>.
  \<^item> \<open>Contracts\<close>, \<open>Payloads\<close>: routing keys, queues, envelopes and payloads of
    \<open>shared/contracts\<close> and \<open>shared/messaging/events.go\<close>, with their round trips.
  \<^item> \<open>Retry\<close>, \<open>RetryLoop\<close>: \<open>shared/retry/retry.go\<close>. The loop as one attempt and a list
    of waits; the same loop with its wrapping counter, and when it terminates.
  \<^item> \<open>RabbitMQ\<close>, \<open>RabbitMQ_Facts\<close>, \<open>Publishing\<close>: \<open>shared/messaging/rabbitmq.go\<close> and
    the dead-letter worker. Topology and routes, publishing exactly once on success, one settlement per
    delivery, at most five rounds of a poison message.
  \<^item> \<open>ConnectionManager\<close>, \<open>RedisCM\<close>, \<open>RedisCM_Facts\<close>, \<open>QueueConsumer\<close>:
    \<open>connection_manager.go\<close>, \<open>rcm.go\<close>, \<open>queue_consumer.go\<close> of \<open>shared/messaging\<close>.
    The indices of sockets, users and rooms as an invariant of all interleavings of the locked sections
    (the step relation \<open>node_step\<close>), replay of missed messages, the chat pair of a trip, and the
    form of every pushed trip.
  \<^item> \<open>TripTypes\<close>, \<open>TripService\<close>, \<open>TripEvents\<close>, \<open>InMemory\<close> and the facts in
    \<open>TripFacts\<close>, \<open>TripProps\<close>, \<open>TripAnswers\<close>, \<open>TripFailures\<close>: the trip service. Fares,
    the quoted price as the charged one, who may cancel, what an answer and a payment do, and where a
    retry, a late answer, a decline or an empty route goes wrong. The locale \<open>trip_repository\<close> is the
    contract of the repository, interpreted on the MongoDB implementation.
  \<^item> \<open>DriverService\<close>: \<open>services/driver-service\<close>. One offer per event; its chat pairs refine the
    table of pairs the gateways look up.
  \<^item> \<open>Payment\<close>: \<open>services/payment-service\<close>. One Checkout session per trip, over the locale
    \<open>session_storage\<close>.
  \<^item> \<open>Chat\<close>: \<open>services/chat-service\<close>. Storage, receipts, and the message that is requeued for
    ever.
  \<^item> \<open>Tokens\<close>, \<open>Login\<close>, \<open>Login_Facts\<close>, \<open>Migrations\<close>: \<open>services/login-service\<close> and
    the gateways' \<open>middleware.go\<close>. Tokens open the gateways for their user; users stay unique and
    normalised under every sequence of requests; a signup can log in. The locale \<open>user_store\<close> is the
    contract of the repository, interpreted on the PostgreSQL implementation.
  \<^item> \<open>RateLimit\<close>: \<open>ratelimit.go\<close> of both gateways, exact limits and the connection gate.
  \<^item> \<open>ApiGateway\<close>, \<open>ApiGateway_Facts\<close>: \<open>services/api-gateway\<close>. When the process ends, what
    the webhook publishes, whom the whitelist admits.
  \<^item> \<open>WsGateway\<close>, \<open>WsGateway_Facts\<close>, \<open>KeepAlive\<close>: \<open>services/ws-gateway\<close>. Chat
    relay, frames, connection life, consumers; the timers that keep a connection and its gate.
  \<^item> \<open>Tracing\<close>, \<open>Databases\<close>, \<open>Startup\<close>, \<open>Startup_Facts\<close>: \<open>shared/tracing\<close>,
    \<open>shared/db\<close>, the seven \<open>main\<close> functions and \<open>grpc_clients\<close>. Each \<open>main\<close> refines
    a table of the steps of a service's life; an end through an error skips all clean-up; a span never
    changes the result of what it wraps.
  \<^item> \<open>Simulator\<close>, \<open>Simulator_Facts\<close>: \<open>tools/simulate_drivers/main.go\<close> against the gateway.
  \<^item> \<open>Dispatch\<close>: the event of a created trip, read by the driver service, and its offer, read by a
    gateway: the property that a created trip reaches a driver.
  \<^item> \<open>ChatRelay\<close>, \<open>Cancelling\<close>: a chat message from its sender's gateway to the store and the
    sockets of its room, over the locale \<open>message_repository\<close>; a cancellation from the trip service
    to the gateways.
  \<^item> \<open>Scaffold\<close>: \<open>tools/create_service.go\<close>, with the paths and texts it writes.
  \<^item> \<open>Ride\<close> and the end of this theory: what one service sends is what the next one reads, and the
    property of a whole ride that follows: accepted, charged at its price, completed by its payment.

  Bounds and fuel. No definition uses fuel. Loops that the code bounds are recursive functions with a
  measure (the retry loop, the dead-letter rounds, a sequence of frames, requests or timed events); the retry
  loop over machine integers, which may run for ever, is a partial function whose result \<open>None\<close> says
  so. The rounds of a dead letter are bounded by the counter in its headers, kept at the 32 and 64 bits
  the code reads it with. Waits are bounded below \<open>2 ^ 62\<close> nanoseconds where they are doubled.

  Concurrency. What runs under a lock is one step, and a node is reached by any sequence of such steps.
  A consumer's goroutine is the fold of its handler over the deliveries. A frame is handled in any
  state other goroutines may have left. In \<open>Startup\<close> a goroutine is run where it is started, and the
  wait at the end of a \<open>main\<close> is a parameter.

  Not modelled. Log lines; spans except in \<open>Tracing\<close>; the generated protobuf and gRPC code, of which
  only the structs that travel as JSON are here; \<open>shared/tracing/grpc.go\<close> and \<open>http.go\<close>, which wrap
  library calls; CORS and the upgrade to a WebSocket, which belong to libraries; the tests, the web
  front end, manifests and documents. Constructors that only store their arguments are the arguments of
  the definitions.
\<close>

section \<open>A ride through the services\<close>

text \<open>
  C1: A ride is charged at its price and completed by its payment, through three services with worlds of
  their own. When the trip service handles a driver's acceptance, the payment service handles the envelope
  this sent last and had no session for the trip, Stripe's webhook reports a session with the metadata of
  this checkout, and the trip service handles what the webhook published, then: Stripe was asked once, for
  one item at the price of the stored fare, and exactly this trip is completed, by the driver who accepted.
\<close>

theorem ride_charged_and_completed:
  assumes M: "mongo_docs M docs" "mongo_keeps M (sent_of tr)" and B: "broker_traces B tr"
    and pk: "pub_keeps (PublishMessage B rt) docs" and key: "d_RoutingKey d = DriverCmdTripAccept"
    and p: "read_event (dec_struct driver_trip_response_fields) driver_trip_response_zero d = Inr (m, p)"
    and accept: "driver_consumer (PublishMessage B rt) (NewMongoRepository M) d w = (Returns None, w1)"
    and wire: "\<forall>k t fare. docs w k = Some t \<and> tm_RideFare t = Some fare \<longrightarrow> wire_f64 (fm_TotalPriceInCents fare)"
    and request: "last (sent_of tr w1) = (d_RoutingKey e, d_Body e)"
    and S: "pay_world R pt new (PublishMessage C pt) kv (sent_of ts) calls" and R: "redis_strings R kv" and C: "broker_traces C ts"
    and pay: "pay_consumer pt conv (stripe_CreatePaymentSession new cfg) (NewSessionStore R) (PublishMessage C pt) e v = (Returns None, v1)"
    and fresh: "kv v (session_key (dr_TripID p)) = None"
    and G: "ag_publish G = PublishMessage D gt" and D: "broker_traces D tg"
    and keep: "\<forall>b s k v x v'. sp_construct (ag_stripe G) b s k v = (x, v') \<longrightarrow> sent_of tg v' = sent_of tg v"
    and session: "\<forall>body ev g2 raw md. hq_Body r = Inr body
        \<and> sp_construct (ag_stripe G) body (hq_Header r ''Stripe-Signature'') (GetString (ag_runtime G) ''STRIPE_WEBHOOK_KEY'' '''' g) g = (Inr ev, g2)
        \<and> sv_Data ev = Some raw \<and> sp_session (ag_stripe G) raw = Inr md \<longrightarrow> md = cp_Metadata (fst (last (calls v1)))"
    and hook: "api_mux G method ''/webhook/stripe'' r g = (Returns resp, g1)" "sent_of tg g1 \<noteq> sent_of tg g"
    and report: "last (sent_of tg g1) = (d_RoutingKey f, d_Body f)" and stored: "docs w2 = docs w1"
    and complete: "payment_consumer (PublishMessage B rt) (NewMongoRepository M) f w2 = (Returns None, w3)"
  shows "\<exists>k t fare c sid. ObjectIDFromHex (dr_TripID p) = Inr k \<and> docs w k = Some t \<and> tm_RideFare t = Some fare
     \<and> calls v1 = calls v @ [(c, Inr sid)]
     \<and> cp_LineItems c = [\<lparr>li_Currency = ''USD'', li_Name = ''Ride Payment'',
           li_UnitAmount = int64_of_f64 conv (fm_TotalPriceInCents fare), li_Quantity = 1\<rparr>]
     \<and> docs w3 = (docs w)(k \<mapsto> t\<lparr>tm_Status := ''completed'', tm_Driver := Some (accepted_driver p)\<rparr>)"
proof -
  obtain k t fare sid where k: "ObjectIDFromHex (dr_TripID p) = Inr k" "docs w k = Some t" "tm_RideFare t = Some fare"
    and a: "docs w1 = (docs w)(k \<mapsto> t\<lparr>tm_Status := ''accepted'', tm_Driver := Some (accepted_driver p)\<rparr>)"
    and c: "calls v1 = calls v @ [(ride_checkout cfg conv t fare (dr_TripID p) (dr_DriverID p), Inr sid)]"
    using accepted_trip_charged [OF M B pk key p accept wire request S R C pay fresh] by blast
  have md: "cp_Metadata (fst (last (calls v1))) = payment_metadata (dr_TripID p) (tm_UserID t) (dr_DriverID p)"
    by (simp add: c ride_checkout_def checkout_of_def)
  obtain k' t' where t': "ObjectIDFromHex (dr_TripID p) = Inr k'" "docs w2 k' = Some t'"
    "docs w3 = (docs w2)(k' \<mapsto> t'\<lparr>tm_Status := ''completed''\<rparr>)"
    using reported_trip_completed [OF G D keep session [unfolded md] hook report M B pk complete] by blast
  have "cp_LineItems (ride_checkout cfg conv t fare (dr_TripID p) (dr_DriverID p)) = [\<lparr>li_Currency = ''USD'',
      li_Name = ''Ride Payment'', li_UnitAmount = int64_of_f64 conv (fm_TotalPriceInCents fare), li_Quantity = 1\<rparr>]"
    by (simp add: ride_checkout_def checkout_of_def)
  moreover have "docs w3 = (docs w)(k \<mapsto> t\<lparr>tm_Status := ''completed'', tm_Driver := Some (accepted_driver p)\<rparr>)"
    using k(1) t' a by (auto simp: stored)
  ultimately show ?thesis using k c by blast
qed

theorem ride_charged_and_completed_witness:
  "\<exists>w1 b v1 w3. driver_consumer sim_publisher (NewMongoRepository sim_mongo)
        (event_delivery DriverCmdTripAccept ''d1'' sample_answer) (trip_world sample_trip) = (Returns None, w1)
     \<and> last (sent_of si_events w1) = (PaymentCmdCreateSession, b)
     \<and> sim_pay (handed_over PaymentCmdCreateSession b) pay_sim0 = (Returns None, v1)
     \<and> map (li_UnitAmount \<circ> hd \<circ> cp_LineItems \<circ> fst) (sm_calls v1) = [100]
     \<and> payment_consumer sim_publisher (NewMongoRepository sim_mongo)
        (event_delivery PaymentEventSuccess ''u1'' sample_payment) (trip_world accepted_trip) = (Returns None, w3)
     \<and> map_option tm_Status (ts_docs w3 sample_id) = Some ''completed''"
proof -
  let ?d = "event_delivery DriverCmdTripAccept ''d1'' sample_answer" and ?f = "event_delivery PaymentEventSuccess ''u1'' sample_payment"
  obtain w1 b m' where a: "driver_consumer sim_publisher (NewMongoRepository sim_mongo) ?d (trip_world sample_trip) = (Returns None, w1)"
    and l: "last (sent_of si_events w1) = (PaymentCmdCreateSession, b)" and s: "ts_docs w1 = ts_docs (trip_world accepted_trip)"
    and q: "read_event (dec_struct payment_trip_response_fields) payment_trip_response_zero (handed_over PaymentCmdCreateSession b) = Inr (m', ride_request)"
    by (rule ride_accepted) blast
  let ?e = "handed_over PaymentCmdCreateSession b"
  obtain v1 where v: "sim_pay ?e pay_sim0 = (Returns None, v1)"
    and md: "cp_Metadata (fst (last (sm_calls v1))) = payment_metadata sample_id ''u1'' ''d1''" by (rule ride_asked [OF q])
  obtain resp g1 where g: "api_mux ride_gateway ''POST'' ''/webhook/stripe'' paid_request paid_world = (Returns resp, g1)"
    "sent_of si_events g1 = [(PaymentEventSuccess, d_Body ?f)]" "sent_of si_events paid_world = []" by (rule ride_reported)
  obtain w3 where c: "payment_consumer sim_publisher (NewMongoRepository sim_mongo) ?f (trip_world accepted_trip) = (Returns None, w3)"
    using sample_payment_done by blast
  have "\<exists>k t fare c sid. ObjectIDFromHex (dr_TripID sample_response) = Inr k \<and> ts_docs (trip_world sample_trip) k = Some t \<and> tm_RideFare t = Some fare
     \<and> sm_calls v1 = sm_calls pay_sim0 @ [(c, Inr sid)]
     \<and> cp_LineItems c = [\<lparr>li_Currency = ''USD'', li_Name = ''Ride Payment'',
           li_UnitAmount = int64_of_f64 (\<lambda>x. 0) (fm_TotalPriceInCents fare), li_Quantity = 1\<rparr>]
     \<and> ts_docs w3 = (ts_docs (trip_world sample_trip))(k \<mapsto> t\<lparr>tm_Status := ''completed'', tm_Driver := Some (accepted_driver sample_response)\<rparr>)"
    by (rule ride_charged_and_completed [OF sim_mongo_docs sim_publisher_laws sim_publisher_docs event_delivery_key sample_answer_read a
        sample_prices_wire _ pay_sim_world sim_redis_strings sim_broker_traces v _ ride_gateway_laws(1) sim_publisher_laws(2)
        ride_gateway_laws(2) _ g(1) _ _ s [symmetric] c])
       (use l g in \<open>auto simp: handed_over_def pay_sim0_simps md ride_gateway_laws(3)\<close>)
  then obtain fare c sid where r: "sm_calls v1 = [(c, Inr sid)]" "tm_RideFare sample_trip = Some fare"
    "cp_LineItems c = [\<lparr>li_Currency = ''USD'', li_Name = ''Ride Payment'', li_UnitAmount = int64_of_f64 (\<lambda>x. 0) (fm_TotalPriceInCents fare), li_Quantity = 1\<rparr>]"
    "map_option tm_Status (ts_docs w3 sample_id) = Some ''completed''"
    by (auto simp: sample_response_def sample_id_ok pay_sim0_simps trip_world_docs)
  moreover have "int64_of_f64 (\<lambda>x. 0) (fm_TotalPriceInCents fare) = 100" using r(2) floats_100(1) by (auto simp: sample_trip_def)
  ultimately show ?thesis using a l v c
    by (intro exI [of _ w1] exI [of _ b] exI [of _ v1] exI [of _ w3]) simp
qed

end
